(* ===== verification/Galoy_Prelude.thy ===== *)
theory Galoy_Prelude
  imports Complex_Main
begin

text \<open>
  Vocabulary shared by every component: the result type of the code base (a function either
  returns a value or returns, not throws, an instance of \<^verbatim>\<open>Error\<close>), JavaScript's notion
  of a truthy optional value, the identifier types that the sources brand over
  \<^verbatim>\<open>string\<close>, and the generic list lemmas the components use.

  The idiom \<^verbatim>\<open>const x = f(); if (x instanceof Error) return x\<close> occurs in almost every
  function; it is \<open>result_bind\<close> here, so a chain of binds reads as the early returns of
  the source, in their order.
\<close>

named_theorems js_simps \<open>evaluation of JavaScript numbers and truthiness\<close>
named_theorems amount_simps \<open>facts on amounts, ratios and fees\<close>
named_theorems ledger_simps \<open>unfolding of ledger entries\<close>
named_theorems flow_simps \<open>unfolding of payment flows and their builder\<close>

subsection \<open>Identifiers\<close>

type_synonym WalletId = string
type_synonym AccountId = string
type_synonym Username = string
type_synonym Pubkey = string
type_synonym PaymentHash = string
type_synonym IntraLedgerHash = string
type_synonym SecretPreImage = string
type_synonym RevealedPreImage = string
type_synonym OnChainAddress = string
type_synonym OnChainTxHash = string
type_synonym LedgerJournalId = string
type_synonym LedgerTransactionId = string
type_synonym LedgerAccountId = string

text \<open>A \<^verbatim>\<open>Date\<close> is its time value: whole milliseconds since the epoch.\<close>

type_synonym date = int

subsection \<open>Returned errors\<close>

definition result_bind :: "'e + 'a \<Rightarrow> ('a \<Rightarrow> 'e + 'b) \<Rightarrow> 'e + 'b" where
  "result_bind r f = (case r of Inl e \<Rightarrow> Inl e | Inr x \<Rightarrow> f x)"

lemma result_bind_Inl [simp]: "result_bind (Inl e) f = Inl e"
  by (simp add: result_bind_def)

lemma result_bind_Inr [simp]: "result_bind (Inr x) f = f x"
  by (simp add: result_bind_def)

lemma result_bind_eq_Inr:
  "result_bind r f = Inr y \<longleftrightarrow> (\<exists>x. r = Inr x \<and> f x = Inr y)"
  by (cases r) auto

lemma result_bind_eq_Inl:
  "result_bind r f = Inl e \<longleftrightarrow> r = Inl e \<or> (\<exists>x. r = Inr x \<and> f x = Inl e)"
  by (cases r) auto

lemma result_bindE:
  assumes "result_bind r f = Inr y"
  obtains x where "r = Inr x" and "f x = Inr y"
  using assms by (auto simp: result_bind_eq_Inr)

definition is_error :: "'e + 'a \<Rightarrow> bool" where
  "is_error r = (case r of Inl _ \<Rightarrow> True | Inr _ \<Rightarrow> False)"

lemma is_error_simps [simp]: "is_error (Inl e)" "\<not> is_error (Inr x)"
  by (simp_all add: is_error_def)

subsection \<open>Truthiness of optional values\<close>

text \<open>
  An absent field is \<open>None\<close>; \<^verbatim>\<open>!!s\<close> on an optional string is false for
  \<^verbatim>\<open>undefined\<close> and for the empty string. \<^verbatim>\<open>a || b\<close> keeps a truthy left side.
\<close>

definition truthy_str :: "string option \<Rightarrow> bool" where
  "truthy_str s = (case s of None \<Rightarrow> False | Some t \<Rightarrow> t \<noteq> [])"

lemma truthy_str_simps [simp, js_simps]:
  "truthy_str None = False" "truthy_str (Some t) = (t \<noteq> [])"
  by (simp_all add: truthy_str_def)

definition str_or_undefined :: "string option \<Rightarrow> string option" where
  "str_or_undefined s = (if truthy_str s then s else None)"

lemma str_or_undefined_simps [simp, js_simps]:
  "str_or_undefined None = None"
  "t \<noteq> [] \<Longrightarrow> str_or_undefined (Some t) = Some t"
  "str_or_undefined (Some []) = None"
  by (simp_all add: str_or_undefined_def)

text \<open>Objects are always truthy, so \<^verbatim>\<open>o || d\<close> on an optional object only tests presence.\<close>

definition or_else :: "'a option \<Rightarrow> 'a option \<Rightarrow> 'a option" where
  "or_else a b = (case a of None \<Rightarrow> b | Some x \<Rightarrow> Some x)"

lemma or_else_simps [simp, js_simps]:
  "or_else None b = b" "or_else (Some x) b = Some x"
  by (simp_all add: or_else_def)

end
