(* ===== verification/Domain_Errors.thy ===== *)
theory Domain_Errors
  imports Galoy_Prelude
begin

text \<open>
  The error classes of \<^verbatim>\<open>src/backend/src/domain\<close> that the modelled code constructs or tests
  with \<^verbatim>\<open>instanceof\<close>. A JavaScript class hierarchy becomes nested datatypes: the classes
  extending \<^verbatim>\<open>ValidationError\<close> are the constructors of \<open>validation_error\<close>, those
  extending \<^verbatim>\<open>CouldNotFindError\<close> the constructors of \<open>could_not_find_error\<close>, and so
  on, so that \<^verbatim>\<open>e instanceof ValidationError\<close> is the constructor test of \<open>error\<close>.
  Messages and severities (\<^verbatim>\<open>level\<close>) are not kept: no modelled function reads them.
\<close>

datatype amount_error =
    InvalidBtcPaymentAmountError
  | InvalidUsdPaymentAmountError
  | InvalidZeroAmountPriceRatioInputError
  | ZeroAmountForUsdRecipientError
  | BtcAmountTooLargeError
  | UsdAmountTooLargeError
  | InvalidWithdrawFeeError
  | InvalidCurrencyBaseAmountError
  | InvalidSatoshiAmountError
  | InvalidUsdCents
  | NonIntegerError
  | InvalidScanDepthAmount
  | InvalidTargetConfirmations

datatype flow_error =
    LnPaymentRequestNonZeroAmountRequiredError
  | LnPaymentRequestZeroAmountRequiredError
  | LnPaymentRequestInTransitError
  | LnHashPresentInIntraLedgerFlowError
  | IntraLedgerHashPresentInLnFlowError
  | SkipProbeForPubkeyError
  | NonLnPaymentTransactionForPaymentFlowError
  | MissingPropsInTransactionForPaymentFlowError
  | InvalidLightningPaymentFlowBuilderStateError
  | InvalidLightningPaymentFlowStateError
  | InvalidWalletInvoiceBuilderStateError
  | InvalidNonHodlInvoiceError
  | BadAmountForRouteError

datatype limits_error =
    WithdrawalLimitsExceededError
  | IntraledgerLimitsExceededError
  | TradeIntraAccountLimitsExceededError
  | TwoFALimitsExceededError

datatype input_error =
    InvalidOnChainAddress
  | InvalidPubKeyError
  | InvalidUsername
  | InvalidContactAlias
  | InvalidCoordinatesError
  | InvalidBusinessTitleLengthError
  | InvalidPhoneNumber
  | InvalidKratosUserId
  | InvalidEmailAddress
  | InvalidWalletId
  | InvalidLedgerTransactionId
  | InvalidLedgerTransactionStateError
  | InvalidLanguageError
  | InvalidAccountStatusError
  | InvalidAccountLevelError
  | InactiveAccountError
  | MissingPhoneMetadataError
  | InvalidPhoneMetadataTypeError
  | InvalidPhoneMetadataCountryError
  | MissingIPMetadataError
  | InvalidIPMetadataProxyError
  | InvalidIPMetadataCountryError
  | InvalidIPMetadataASNError
  | InvalidPhoneMetadataForRewardError
  | InvalidIPMetadataForRewardError
  | NoContactForUsernameError
  | NoBtcWalletExistsForAccountError
  | InvalidQuizQuestionIdError

datatype validation_error =
    AmountError amount_error
  | FlowError flow_error
  | LimitsExceededError limits_error
  | InputError input_error
  | AlreadyPaidError
  | SelfPaymentError
  | LessThanDustThresholdError
  | InsufficientBalanceError
  | InvalidCurrencyForWalletError
  | RebalanceNeededError

datatype could_not_find_error =
    CouldNotFindWalletInvoiceError
  | CouldNotFindUserFromIdError
  | CouldNotFindUserFromPhoneError
  | CouldNotFindPhoneCodeError
  | CouldNotFindWalletFromIdError
  | CouldNotListWalletsFromAccountIdError
  | CouldNotFindWalletFromOnChainAddressError
  | NoTransactionToUpdateError
  | CouldNotFindLightningPaymentFlowError
  | CouldNotUpdateLightningPaymentFlowError
  | NoExpiredLightningPaymentFlowsError
  | CouldNotFindBtcWalletForAccountError
  | CouldNotFindWalletFromOnChainAddressesError
  | CouldNotListWalletsFromWalletCurrencyError
  | CouldNotFindLnPaymentFromHashError
  | CouldNotFindAccountFromUsernameError
  | CouldNotFindAccountFromPhoneError
  | CouldNotFindAccountFromKratosIdError
  | PlainCouldNotFindError

datatype repository_error =
    CouldNotFindError could_not_find_error
  | UnknownRepositoryError
  | PersistError
  | DuplicateError
  | BadInputsForFindError
  | CannotConnectToDbError
  | DbConnectionClosedError
  | PlainRepositoryError

datatype ledger_error =
    FeeDifferenceError
  | NoTransactionToSettleError
  | UnknownLedgerError
  | CouldNotFindTransactionError
  | CouldNotFindTransactionMetadataError

text \<open>The ledger facade has classes of the same names of its own.\<close>

datatype facade_error =
    NoTransactionToSettleFacadeError
  | UnknownLedgerFacadeError

datatype lightning_error =
    LnInvoiceMissingPaymentSecretError
  | InvalidChecksumForLnInvoiceError
  | UnknownLnInvoiceDecodeError
  | UnknownLightningServiceError
  | InvoiceNotFoundError
  | LnPaymentPendingError
  | LnAlreadyPaidError
  | OffChainServiceUnavailableError
  | NoValidNodeForPubkeyError
  | PaymentNotFoundError
  | RouteNotFoundError
  | CouldNotDecodeReturnedPaymentRequest
  | SecretDoesNotMatchAnyExistingHodlInvoiceError
  | UnknownNextPeerError
  | InsufficientBalanceForRoutingError
  | InsufficientBalanceForLnPaymentError
  | InvoiceExpiredOrBadPaymentHashError
  | PaymentAttemptsTimedOutError
  | ProbeForRouteTimedOutError
  | ProbeForRouteTimedOutFromApplicationError
  | PaymentInTransitionError
  | TemporaryChannelFailureError
  | UnknownRouteNotFoundError
  | BadPaymentDataError
  | CorruptLndDbError
  | PlainLightningServiceError

datatype onchain_error =
    CPFPAncestorLimitReachedError
  | InsufficientOnChainFundsError
  | UnknownOnChainServiceError
  | CouldNotFindOnChainTransactionError
  | OnChainServiceUnavailableError

datatype dealer_error =
    NoConnectionToDealerError
  | DealerStalePriceError
  | UnknownDealerPriceServiceError

datatype price_error =
    PriceNotAvailableError
  | PriceHistoryNotAvailableError
  | UnknownPriceServiceError

datatype cache_error =
    CacheNotAvailableError
  | CacheUndefinedError
  | UnknownCacheServiceError

datatype cold_storage_error =
    InvalidCurrentColdStorageWalletServiceError
  | InsufficientBalanceForRebalanceError
  | InvalidOrNonWalletTransactionError
  | UnknownColdStorageServiceError

datatype bigint_error =
    BigIntFloatConversionError
  | UnknownBigIntConversionError

datatype lock_error =
    ResourceAttemptsLockServiceError
  | ResourceExpiredLockServiceError
  | UnknownLockServiceError

datatype rate_limit_error =
    UnknownRateLimitServiceError
  | UserPhoneCodeAttemptPhoneRateLimiterExceededError
  | UserPhoneCodeAttemptPhoneMinIntervalRateLimiterExceededError
  | UserPhoneCodeAttemptIpRateLimiterExceededError
  | UserLoginIpRateLimiterExceededError
  | UserLoginPhoneRateLimiterExceededError
  | InvoiceCreateRateLimiterExceededError
  | InvoiceCreateForRecipientRateLimiterExceededError
  | OnChainAddressCreateRateLimiterExceededError

datatype account_error =
    UsernameNotAvailableError
  | UsernameIsImmutableError

text \<open>
  \<open>OtherError\<close> carries the class name of an error that the modelled code only passes on
  (notification and other service errors); \<open>PlainError\<close> is a direct
  \<^verbatim>\<open>new Error(..)\<close>; \<open>Thrown\<close> is an exception that is thrown instead of being returned, with
  the name of its class or, when external code throws it, its message.
\<close>

datatype error =
    ValidationError validation_error
  | RepositoryError repository_error
  | LedgerError ledger_error
  | LedgerFacadeError facade_error
  | LightningError lightning_error
  | OnChainError onchain_error
  | BigIntConversionError bigint_error
  | LockError lock_error
  | InvalidAccountIdError
  | RewardAlreadyPresentError
  | NotImplementedError
  | NotReachableError
  | InvalidNegativeAmountError
  | InconsistentDataError
  | DealerPriceServiceError dealer_error
  | PriceServiceError price_error
  | CacheServiceError cache_error
  | ColdStorageServiceError cold_storage_error
  | RateLimitServiceError rate_limit_error
  | AccountError account_error
  | ContactNotExistentError
  | ConfigError
  | OtherError string
  | PlainError
  | Thrown string

type_synonym 'a result = "error + 'a"

abbreviation amount_err :: "amount_error \<Rightarrow> error" where
  "amount_err e \<equiv> ValidationError (AmountError e)"

abbreviation flow_err :: "flow_error \<Rightarrow> error" where
  "flow_err e \<equiv> ValidationError (FlowError e)"

abbreviation input_err :: "input_error \<Rightarrow> error" where
  "input_err e \<equiv> ValidationError (InputError e)"

abbreviation limits_err :: "limits_error \<Rightarrow> error" where
  "limits_err e \<equiv> ValidationError (LimitsExceededError e)"

abbreviation not_found_err :: "could_not_find_error \<Rightarrow> error" where
  "not_found_err e \<equiv> RepositoryError (CouldNotFindError e)"

subsection \<open>instanceof\<close>

fun is_ValidationError :: "error \<Rightarrow> bool" where
  "is_ValidationError (ValidationError _) = True"
| "is_ValidationError _ = False"

fun is_CouldNotFindError :: "error \<Rightarrow> bool" where
  "is_CouldNotFindError (RepositoryError (CouldNotFindError _)) = True"
| "is_CouldNotFindError _ = False"

end
