(* ===== verification/Js_Number.thy ===== *)
theory Js_Number
  imports Domain_Errors "HOL-Library.Log_Nat"
begin

text \<open>
  JavaScript numbers and their conversion from and to \<^verbatim>\<open>bigint\<close>.

  A \<^verbatim>\<open>number\<close> is an IEEE binary64 value. A finite value is kept as the rational it
  denotes (the two zeros are one value: no modelled code tells them apart); \<open>fl\<close> is
  the rounding of the language specification (53 significant bits, ties to even,
  gradual underflow, overflow to an infinity), applied by every arithmetic operation and
  by \<^verbatim>\<open>Number(bigint)\<close>. A \<^verbatim>\<open>bigint\<close> is \<open>int\<close>.

  The main fact is \<open>Number_of_exact\<close>: integers of at most \<open>2 ^ 53\<close> in absolute value
  convert without loss, which is why amounts bounded by \<^verbatim>\<open>MAX_SATS\<close> can travel through
  \<^verbatim>\<open>Number(..)\<close> and back.
\<close>

datatype jsnum = Num rat | NaN | PosInf | NegInf

subsection \<open>Rounding to binary64\<close>

definition pow2 :: "int \<Rightarrow> rat" where
  "pow2 k = (if 0 \<le> k then 2 ^ nat k else 1 / 2 ^ nat (- k))"

definition round_half_even :: "rat \<Rightarrow> int" where
  "round_half_even x =
     (let f = \<lfloor>x\<rfloor>; d = x - of_int f
      in if d < 1 / 2 then f else if 1 / 2 < d then f + 1 else if even f then f else f + 1)"

text \<open>The exponent of the leading bit of a positive rational.\<close>

definition ilog2 :: "rat \<Rightarrow> int" where
  "ilog2 x =
     (let (p, q) = quotient_of x; k = bitlen p - bitlen q
      in if pow2 k \<le> x then k else k - 1)"

definition fl :: "rat \<Rightarrow> jsnum" where
  "fl x =
     (if x = 0 then Num 0
      else let e = max (ilog2 \<bar>x\<bar> - 52) (- 1074);
               r = of_int (round_half_even (x / pow2 e)) * pow2 e
           in if pow2 1024 \<le> r then PosInf
              else if r \<le> - pow2 1024 then NegInf else Num r)"

definition Number_of :: "int \<Rightarrow> jsnum" where
  "Number_of n = fl (of_int n)"

subsection \<open>Arithmetic, comparison, rounding functions\<close>

fun js_neg :: "jsnum \<Rightarrow> jsnum" where
  "js_neg (Num a) = Num (- a)"
| "js_neg NaN = NaN"
| "js_neg PosInf = NegInf"
| "js_neg NegInf = PosInf"

fun js_add :: "jsnum \<Rightarrow> jsnum \<Rightarrow> jsnum" where
  "js_add (Num a) (Num b) = fl (a + b)"
| "js_add NaN b = NaN"
| "js_add a NaN = NaN"
| "js_add PosInf NegInf = NaN"
| "js_add NegInf PosInf = NaN"
| "js_add PosInf b = PosInf"
| "js_add NegInf b = NegInf"
| "js_add a PosInf = PosInf"
| "js_add a NegInf = NegInf"

definition js_sub :: "jsnum \<Rightarrow> jsnum \<Rightarrow> jsnum" where
  "js_sub a b = js_add a (js_neg b)"

fun js_sgn :: "jsnum \<Rightarrow> int" where
  "js_sgn (Num a) = (if 0 < a then 1 else if a < 0 then -1 else 0)"
| "js_sgn PosInf = 1"
| "js_sgn NegInf = -1"
| "js_sgn NaN = 0"

definition js_inf :: "int \<Rightarrow> jsnum" where
  "js_inf s = (if 0 < s then PosInf else if s < 0 then NegInf else NaN)"

fun js_mul :: "jsnum \<Rightarrow> jsnum \<Rightarrow> jsnum" where
  "js_mul (Num a) (Num b) = fl (a * b)"
| "js_mul NaN b = NaN"
| "js_mul a NaN = NaN"
| "js_mul a b = js_inf (js_sgn a * js_sgn b)"

text \<open>
  Division by zero gives an infinity or \<^verbatim>\<open>NaN\<close>; the divisors of the modelled code are
  never a negative zero, so the sign is that of the dividend.
\<close>

fun js_div :: "jsnum \<Rightarrow> jsnum \<Rightarrow> jsnum" where
  "js_div (Num a) (Num b) = (if b = 0 then js_inf (js_sgn (Num a)) else fl (a / b))"
| "js_div NaN b = NaN"
| "js_div a NaN = NaN"
| "js_div (Num a) b = Num 0"
| "js_div a (Num b) = (if b = 0 then a else js_inf (js_sgn a * js_sgn (Num b)))"
| "js_div a b = NaN"

fun js_less :: "jsnum \<Rightarrow> jsnum \<Rightarrow> bool" where
  "js_less (Num a) (Num b) = (a < b)"
| "js_less NegInf (Num b) = True"
| "js_less NegInf PosInf = True"
| "js_less (Num a) PosInf = True"
| "js_less a b = False"

fun js_le :: "jsnum \<Rightarrow> jsnum \<Rightarrow> bool" where
  "js_le NaN b = False"
| "js_le a NaN = False"
| "js_le a b = (\<not> js_less b a)"

text \<open>\<^verbatim>\<open>==\<close> and \<^verbatim>\<open>===\<close> on numbers: \<^verbatim>\<open>NaN\<close> differs from itself.\<close>

definition js_eq :: "jsnum \<Rightarrow> jsnum \<Rightarrow> bool" where
  "js_eq a b = (a \<noteq> NaN \<and> a = b)"

fun js_floor :: "jsnum \<Rightarrow> jsnum" where
  "js_floor (Num a) = Num (of_int \<lfloor>a\<rfloor>)"
| "js_floor a = a"

fun js_ceil :: "jsnum \<Rightarrow> jsnum" where
  "js_ceil (Num a) = Num (of_int \<lceil>a\<rceil>)"
| "js_ceil a = a"

text \<open>\<^verbatim>\<open>Math.round\<close> takes the nearest integer, ties towards plus infinity.\<close>

fun js_round :: "jsnum \<Rightarrow> jsnum" where
  "js_round (Num a) = Num (of_int \<lfloor>a + 1 / 2\<rfloor>)"
| "js_round a = a"

fun js_abs :: "jsnum \<Rightarrow> jsnum" where
  "js_abs (Num a) = Num \<bar>a\<bar>"
| "js_abs NaN = NaN"
| "js_abs PosInf = PosInf"
| "js_abs NegInf = PosInf"

definition js_max :: "jsnum \<Rightarrow> jsnum \<Rightarrow> jsnum" where
  "js_max a b = (if a = NaN \<or> b = NaN then NaN else if js_less a b then b else a)"

definition js_min :: "jsnum \<Rightarrow> jsnum \<Rightarrow> jsnum" where
  "js_min a b = (if a = NaN \<or> b = NaN then NaN else if js_less b a then b else a)"

fun js_isInteger :: "jsnum \<Rightarrow> bool" where
  "js_isInteger (Num a) = (of_int \<lfloor>a\<rfloor> = a)"
| "js_isInteger _ = False"

fun js_truthy :: "jsnum \<Rightarrow> bool" where
  "js_truthy (Num a) = (a \<noteq> 0)"
| "js_truthy NaN = False"
| "js_truthy _ = True"

text \<open>\<^verbatim>\<open>number > bigint\<close> compares the mathematical values.\<close>

fun js_gt_bigint :: "jsnum \<Rightarrow> int \<Rightarrow> bool" where
  "js_gt_bigint (Num a) n = (of_int n < a)"
| "js_gt_bigint PosInf n = True"
| "js_gt_bigint _ n = False"

text \<open>
  \<^verbatim>\<open>BigInt(num)\<close> throws a \<^verbatim>\<open>RangeError\<close> (here \<open>None\<close>) unless the number is an integer.
\<close>

fun js_BigInt :: "jsnum \<Rightarrow> int option" where
  "js_BigInt (Num a) = (if of_int \<lfloor>a\<rfloor> = a then Some \<lfloor>a\<rfloor> else None)"
| "js_BigInt _ = None"

definition is_safe_int :: "int \<Rightarrow> bool" where
  "is_safe_int n \<longleftrightarrow> \<bar>n\<bar> \<le> 2 ^ 53"


subsection \<open>Facts on the rounding\<close>

lemma pow2_power_int: "pow2 k = 2 powi k"
  by (simp add: pow2_def power_int_def power_inverse field_simps)

lemma pow2_pos [simp]: "0 < pow2 k"
  by (simp add: pow2_def)

lemma pow2_nonzero [simp]: "pow2 k \<noteq> 0"
  using pow2_pos [of k] by linarith

lemma pow2_add: "pow2 (a + b) = pow2 a * pow2 b"
  by (simp add: pow2_power_int power_int_add)

lemma pow2_nonneg: "0 \<le> k \<Longrightarrow> pow2 k = of_int (2 ^ nat k)"
  by (simp add: pow2_def)

lemma pow2_mono: "a \<le> b \<Longrightarrow> pow2 a \<le> pow2 b"
  by (simp add: pow2_power_int power_int_increasing)

lemma round_half_even_of_int [simp]: "round_half_even (of_int n) = n"
  by (simp add: round_half_even_def)

text \<open>The leading bit lies below the number.\<close>

lemma pow2_ilog2_le:
  assumes "0 < x"
  shows "pow2 (ilog2 x) \<le> x"
proof (cases "quotient_of x")
  case (Pair p q)
  from quotient_of_div [OF Pair] have x: "x = of_int p / of_int q" .
  from quotient_of_denom_pos [OF Pair] have q: "0 < q" .
  from assms x q have p: "0 < p" by (simp add: zero_less_divide_iff)
  have p_ge: "(2::int) ^ nat (bitlen p - 1) \<le> p" and q_lt: "q < 2 ^ nat (bitlen q)"
    using bitlen_bounds [OF p] bitlen_bounds [OF q] by auto
  have bp: "1 \<le> bitlen p" and bq: "0 \<le> bitlen q"
    using p bitlen_nonneg [of q] bitlen_eq_zero_iff [of p] bitlen_nonneg [of p]
    by (auto intro: ccontr)
  have "pow2 (bitlen p - bitlen q - 1) * of_int q \<le> pow2 (bitlen p - bitlen q - 1) * pow2 (bitlen q)"
  proof (rule mult_left_mono)
    have "(of_int q :: rat) \<le> of_int (2 ^ nat (bitlen q))"
      using q_lt by (simp only: of_int_le_iff)
    then show "of_int q \<le> pow2 (bitlen q)"
      using bq by (simp only: pow2_nonneg)
  qed (simp add: less_imp_le)
  also have "\<dots> = pow2 (bitlen p - 1)"
    by (simp flip: pow2_add)
  also have "\<dots> \<le> of_int p"
  proof -
    have "(of_int (2 ^ nat (bitlen p - 1)) :: rat) \<le> of_int p"
      using p_ge by (simp only: of_int_le_iff)
    then show ?thesis using bp by (simp only: pow2_nonneg)
  qed
  finally have "pow2 (bitlen p - bitlen q - 1) \<le> x"
    using q by (simp add: x pos_le_divide_eq)
  then show ?thesis
    by (simp add: ilog2_def Pair Let_def)
qed

lemma ilog2_less:
  assumes "0 < x" and "x < pow2 k"
  shows "ilog2 x < k"
proof (rule ccontr)
  assume "\<not> ilog2 x < k"
  then have "pow2 k \<le> pow2 (ilog2 x)" by (simp add: pow2_mono)
  with pow2_ilog2_le [OF assms(1)] assms(2) show False by linarith
qed

text \<open>A value that is an integer multiple of its last place is not changed.\<close>

lemma fl_exact:
  assumes e: "e = max (ilog2 \<bar>x\<bar> - 52) (- 1074)"
    and m: "x = of_int m * pow2 e" and big: "\<bar>x\<bar> < pow2 1024"
  shows "fl x = Num x"
proof (cases "x = 0")
  case True
  then show ?thesis by (simp add: fl_def)
next
  case False
  have "x / pow2 e = of_int m" using m by simp
  then have "of_int (round_half_even (x / pow2 e)) * pow2 e = x"
    using m by simp
  with False big e show ?thesis
    by (auto simp: fl_def Let_def abs_less_iff)
qed

lemma fl_of_int:
  assumes "\<bar>n\<bar> \<le> 2 ^ 53"
  shows "fl (of_int n) = Num (of_int n)"
proof (cases "n = 0")
  case True
  then show ?thesis by (simp add: fl_def)
next
  case False
  let ?x = "of_int n :: rat"
  let ?e = "max (ilog2 \<bar>?x\<bar> - 52) (- 1074)"
  have pos: "0 < \<bar>?x\<bar>" using False by simp
  have p54: "pow2 54 = 2 ^ 54" and p1024: "pow2 1024 = 2 ^ 1024" by (simp_all add: pow2_def)
  have absx: "\<bar>?x\<bar> \<le> 2 ^ 53"
    using assms by (metis of_int_abs of_int_le_iff of_int_numeral of_int_power)
  have small: "\<bar>?x\<bar> < pow2 1024"
  proof -
    have "(2::rat) ^ 53 < 2 ^ 1024" by (rule power_strict_increasing) simp_all
    with absx p1024 show ?thesis by linarith
  qed
  have "\<bar>?x\<bar> < pow2 54"
    using absx by (simp add: p54)
  then have le1: "?e \<le> 1" using ilog2_less [OF pos] by fastforce
  obtain m where "?x = of_int m * pow2 ?e"
  proof (cases "?e \<le> 0")
    case True
    then have "pow2 ?e = 1 / of_int (2 ^ nat (- ?e))" by (auto simp: pow2_def)
    then have "?x = of_int (n * 2 ^ nat (- ?e)) * pow2 ?e" by simp
    then show thesis by (rule that)
  next
    case False
    with le1 have e1: "?e = 1" by linarith
    then have "ilog2 \<bar>?x\<bar> = 53" by linarith
    with pow2_ilog2_le [OF pos] have "2 ^ 53 \<le> \<bar>?x\<bar>" by (simp add: pow2_def)
    with absx have "\<bar>?x\<bar> = 2 ^ 53" by linarith
    then have "\<bar>n\<bar> = 2 ^ 53"
      by (metis of_int_abs of_int_eq_iff of_int_numeral of_int_power)
    then have "even n" by (metis dvd_abs_iff dvd_power zero_less_numeral)
    then obtain m where "n = 2 * m" ..
    then have "?x = of_int m * 2" by simp
    moreover have "pow2 ?e = 2" by (subst e1) (simp add: pow2_def)
    ultimately have "?x = of_int m * pow2 ?e" by (simp only:)
    then show thesis by (rule that)
  qed
  then show ?thesis by (rule fl_exact [OF refl _ small])
qed

lemma Number_of_exact [js_simps]: "is_safe_int n \<Longrightarrow> Number_of n = Num (of_int n)"
  by (simp add: Number_of_def is_safe_int_def fl_of_int)

lemma Number_of_0 [simp, js_simps]: "Number_of 0 = Num 0"
  by (simp add: Number_of_def fl_def)

lemma js_BigInt_Number_of: "is_safe_int n \<Longrightarrow> js_BigInt (Number_of n) = Some n"
  by (simp add: Number_of_exact)

lemma js_add_int:
  "\<bar>a + b\<bar> \<le> 2 ^ 53 \<Longrightarrow> js_add (Num (of_int a)) (Num (of_int b)) = Num (of_int (a + b))"
  using fl_of_int [of "a + b"] by simp

lemma js_sub_int:
  "\<bar>a - b\<bar> \<le> 2 ^ 53 \<Longrightarrow> js_sub (Num (of_int a)) (Num (of_int b)) = Num (of_int (a - b))"
  using fl_of_int [of "a - b"] by (simp add: js_sub_def)

lemma js_BigInt_SomeD: "js_BigInt x = Some n \<Longrightarrow> x = Num (of_int n)"
  by (cases x) (auto split: if_splits)

lemma js_BigInt_of_int [simp]: "js_BigInt (Num (of_int n)) = Some n"
  by simp

text \<open>Rounding keeps a number between the integers around it.\<close>

lemma round_half_even_between:
  "of_int a \<le> x \<Longrightarrow> x \<le> of_int b \<Longrightarrow> a \<le> round_half_even x \<and> round_half_even x \<le> b"
  unfolding round_half_even_def Let_def by (auto; linarith)

lemma fl_between:
  assumes "of_int a \<le> x" and "x \<le> of_int b" and "\<bar>a\<bar> < 2 ^ 53" and "\<bar>b\<bar> < 2 ^ 53"
  shows "\<exists>y. fl x = Num y \<and> of_int a \<le> y \<and> y \<le> of_int b"
proof (cases "x = 0")
  case True
  with assms show ?thesis by (simp add: fl_def)
next
  case False
  let ?e = "max (ilog2 \<bar>x\<bar> - 52) (- 1074)"
  let ?r = "of_int (round_half_even (x / pow2 ?e)) * pow2 ?e"
  have bound: "(- (2 ^ 53) :: rat) < of_int a" "of_int b < (2 ^ 53 :: rat)"
  proof -
    have "- (2 ^ 53) < a" "b < 2 ^ 53" using assms(3,4) by linarith+
    then have "(of_int (- (2 ^ 53)) :: rat) < of_int a" "(of_int b :: rat) < of_int (2 ^ 53)"
      by (simp_all only: of_int_less_iff)
    then show "(- (2 ^ 53) :: rat) < of_int a" "of_int b < (2 ^ 53 :: rat)" by simp_all
  qed
  then have "\<bar>x\<bar> < pow2 53"
    using assms(1,2) by (simp add: pow2_def)
  then have e: "?e \<le> 0"
    using ilog2_less [of "\<bar>x\<bar>" 53] False by simp
  then have scale: "of_int n / pow2 ?e = (of_int (n * 2 ^ nat (- ?e)) :: rat)" for n
    by (auto simp: pow2_def)
  have "of_int (a * 2 ^ nat (- ?e)) \<le> x / pow2 ?e" "x / pow2 ?e \<le> of_int (b * 2 ^ nat (- ?e))"
    using assms(1,2) unfolding scale [symmetric] by (auto intro: divide_right_mono simp: less_imp_le)
  from round_half_even_between [OF this]
  have "(of_int (a * 2 ^ nat (- ?e)) :: rat) \<le> of_int (round_half_even (x / pow2 ?e))"
    "(of_int (round_half_even (x / pow2 ?e)) :: rat) \<le> of_int (b * 2 ^ nat (- ?e))"
    by (simp_all only: of_int_le_iff)
  then have r: "of_int a \<le> ?r" "?r \<le> of_int b"
    unfolding scale [symmetric] by (simp_all add: pos_divide_le_eq pos_le_divide_eq)
  have "(2 :: rat) ^ 53 < pow2 1024"
    by (simp add: pow2_def)
  with r bound have "\<not> pow2 1024 \<le> ?r" "\<not> ?r \<le> - pow2 1024"
    by linarith+
  with False r show ?thesis
    by (simp add: fl_def Let_def)
qed

lemma js_mul_fraction:
  assumes "0 \<le> b" and "b < 2 ^ 53" and "0 \<le> r" and "r \<le> 1"
  shows "\<exists>y. js_mul (Num (of_int b)) (Num r) = Num y \<and> 0 \<le> y \<and> y \<le> of_int b"
  using fl_between [of 0 "of_int b * r" b] assms by (auto simp: mult_left_le)

lemma js_max_Num [simp]: "js_max (Num a) (Num b) = Num (max a b)"
  by (auto simp: js_max_def max_def)

lemma js_min_Num [simp]: "js_min (Num a) (Num b) = Num (min a b)"
  by (auto simp: js_min_def min_def)

lemma js_isInteger_iff: "js_isInteger x \<longleftrightarrow> (\<exists>n. x = Num (of_int n))"
proof (cases x)
  case (Num a)
  then show ?thesis by auto
qed simp_all

end
