(* ===== verification/Amounts.thy ===== *)
theory Amounts
  imports Js_Number "HOL-Library.Signed_Division"
begin

text \<open>
  Money: \<^verbatim>\<open>domain/shared\<close> (currencies, amounts, the calculator, the checked conversion from
  numbers), \<^verbatim>\<open>domain/payments\<close> (checked payment amounts, price ratios, lightning fees, the
  route validator), \<^verbatim>\<open>domain/bitcoin\<close> and \<^verbatim>\<open>domain/fiat\<close> (checked satoshis and cents,
  display currency conversion).

  The three divisions of the calculator satisfy the contract of the locale
  \<open>rounding\<close>; what the price ratio needs of them is proved there once.
\<close>

section \<open>Currencies and amounts\<close>

datatype WalletCurrency = Usd | Btc

record Amount =
  currency :: WalletCurrency
  amount :: int

definition ZERO_SATS :: Amount where
  "ZERO_SATS = \<lparr>currency = Btc, amount = 0\<rparr>"

definition ZERO_CENTS :: Amount where
  "ZERO_CENTS = \<lparr>currency = Usd, amount = 0\<rparr>"

definition MAX_SATS :: Amount where
  "MAX_SATS = \<lparr>currency = Btc, amount = 10000000000000\<rparr>"

definition MAX_CENTS :: Amount where
  "MAX_CENTS = \<lparr>currency = Usd, amount = 10000000000000\<rparr>"

definition BtcPaymentAmount :: "int \<Rightarrow> Amount" where
  "BtcPaymentAmount sats = \<lparr>currency = Btc, amount = sats\<rparr>"

definition UsdPaymentAmount :: "int \<Rightarrow> Amount" where
  "UsdPaymentAmount cents = \<lparr>currency = Usd, amount = cents\<rparr>"

text \<open>
  \<^verbatim>\<open>BigInt\<close> on a number throws nothing but a \<^verbatim>\<open>RangeError\<close>, so the second branch of the
  handler (\<^verbatim>\<open>UnknownBigIntConversionError\<close>) has no input of type number.
\<close>

definition safeBigInt :: "jsnum \<Rightarrow> int result" where
  "safeBigInt num =
     (case js_BigInt num of
        Some n \<Rightarrow> Inr n
      | None \<Rightarrow> Inl (BigIntConversionError BigIntFloatConversionError))"

definition paymentAmountFromNumber :: "jsnum \<Rightarrow> WalletCurrency \<Rightarrow> Amount result" where
  "paymentAmountFromNumber n cur =
     result_bind (safeBigInt n) (\<lambda>safeAmount. Inr \<lparr>currency = cur, amount = safeAmount\<rparr>)"

definition balanceAmountFromNumber :: "jsnum \<Rightarrow> WalletCurrency \<Rightarrow> Amount result" where
  "balanceAmountFromNumber n cur =
     result_bind (safeBigInt n) (\<lambda>safeAmount. Inr \<lparr>currency = cur, amount = safeAmount\<rparr>)"

section \<open>The amount calculator\<close>

definition calc_add :: "Amount \<Rightarrow> Amount \<Rightarrow> Amount" where
  "calc_add a b = \<lparr>currency = currency a, amount = amount a + amount b\<rparr>"

definition calc_sub :: "Amount \<Rightarrow> Amount \<Rightarrow> Amount" where
  "calc_sub a b = \<lparr>currency = currency a, amount = amount a - amount b\<rparr>"

text \<open>
  \<^verbatim>\<open>bigint\<close> division truncates towards zero and its remainder has the sign of the dividend
  (\<open>sdiv\<close> and \<open>smod\<close>); a zero divisor throws a \<^verbatim>\<open>RangeError\<close>.
\<close>

definition div_round :: "int \<Rightarrow> int \<Rightarrow> int" where
  "div_round a b =
     (let quotient = a sdiv b; roundDownBound = b sdiv 2; m = a smod b
      in if roundDownBound < m then quotient + 1 else quotient)"

definition div_floor :: "int \<Rightarrow> int \<Rightarrow> int" where
  "div_floor a b = a sdiv b"

definition div_ceil :: "int \<Rightarrow> int \<Rightarrow> int" where
  "div_ceil a b =
     (let quotient = a sdiv b; m = a smod b in if 0 < m then quotient + 1 else quotient)"

definition calc_divide :: "(int \<Rightarrow> int \<Rightarrow> int) \<Rightarrow> Amount \<Rightarrow> int \<Rightarrow> Amount result" where
  "calc_divide f a b =
     (if b = 0 then Inl (Thrown ''RangeError'')
      else Inr \<lparr>currency = currency a, amount = f (amount a) b\<rparr>)"

definition calc_divRound :: "Amount \<Rightarrow> int \<Rightarrow> Amount result" where
  "calc_divRound = calc_divide div_round"

definition calc_divFloor :: "Amount \<Rightarrow> int \<Rightarrow> Amount result" where
  "calc_divFloor = calc_divide div_floor"

definition calc_divCeil :: "Amount \<Rightarrow> int \<Rightarrow> Amount result" where
  "calc_divCeil = calc_divide div_ceil"

definition calc_mulBasisPoints :: "Amount \<Rightarrow> int \<Rightarrow> Amount result" where
  "calc_mulBasisPoints a basisPoints =
     calc_divRound \<lparr>currency = currency a, amount = amount a * basisPoints\<rparr> 10000"

section \<open>Checked amounts\<close>

text \<open>A \<^verbatim>\<open>number | null\<close> argument: \<open>None\<close> is \<^verbatim>\<open>null\<close>.\<close>

definition checkedToBtcPaymentAmount :: "jsnum option \<Rightarrow> Amount result" where
  "checkedToBtcPaymentAmount amt =
     (case amt of
        None \<Rightarrow> Inl (amount_err InvalidBtcPaymentAmountError)
      | Some n \<Rightarrow>
          if js_gt_bigint n (amount MAX_SATS) then Inl (amount_err BtcAmountTooLargeError)
          else if \<not> js_eq (js_floor n) n then Inl (amount_err InvalidBtcPaymentAmountError)
          else if \<not> (js_truthy n \<and> js_less (Num 0) n)
            then Inl (amount_err InvalidBtcPaymentAmountError)
          else paymentAmountFromNumber n Btc)"

definition checkedToUsdPaymentAmount :: "jsnum option \<Rightarrow> Amount result" where
  "checkedToUsdPaymentAmount amt =
     (case amt of
        None \<Rightarrow> Inl (amount_err InvalidUsdPaymentAmountError)
      | Some n \<Rightarrow>
          if js_gt_bigint n (amount MAX_CENTS) then Inl (amount_err UsdAmountTooLargeError)
          else if \<not> js_eq (js_floor n) n then Inl (amount_err InvalidUsdPaymentAmountError)
          else if \<not> (js_truthy n \<and> js_less (Num 0) n)
            then Inl (amount_err InvalidUsdPaymentAmountError)
          else paymentAmountFromNumber n Usd)"

definition checkedToCurrencyBaseAmount :: "jsnum \<Rightarrow> jsnum result" where
  "checkedToCurrencyBaseAmount n =
     (if \<not> (js_truthy n \<and> js_less (Num 0) n)
      then Inl (amount_err InvalidCurrencyBaseAmountError) else Inr n)"

definition checkedToSats :: "jsnum \<Rightarrow> jsnum result" where
  "checkedToSats n =
     (if \<not> (js_truthy n \<and> js_less (Num 0) n) then Inl (amount_err InvalidSatoshiAmountError)
      else if js_gt_bigint n (amount MAX_SATS) then Inl (amount_err BtcAmountTooLargeError)
      else Inr n)"

definition checkedToTargetConfs :: "jsnum \<Rightarrow> jsnum result" where
  "checkedToTargetConfs confs =
     (if \<not> (js_truthy confs \<and> js_less (Num 0) confs \<and> js_isInteger confs)
      then Inl (amount_err InvalidTargetConfirmations) else Inr confs)"

definition checkedToScanDepth :: "jsnum \<Rightarrow> jsnum result" where
  "checkedToScanDepth n =
     (if js_truthy n \<and> js_less (Num 0) n \<and> js_le n (Num 4380) then Inr n
      else Inl (amount_err InvalidScanDepthAmount))"

definition checkedtoCents :: "jsnum \<Rightarrow> jsnum result" where
  "checkedtoCents n =
     (if \<not> (js_truthy n \<and> js_less (Num 0) n) then Inl (amount_err InvalidUsdCents)
      else if \<not> js_isInteger n then Inl (amount_err NonIntegerError)
      else Inr n)"

definition fiat_sub :: "jsnum \<Rightarrow> jsnum \<Rightarrow> jsnum result" where
  "fiat_sub a b =
     (let r = js_sub a b in if js_less r (Num 0) then Inl InvalidNegativeAmountError else Inr r)"

definition SATS_PER_BTC :: jsnum where
  "SATS_PER_BTC = Num 100000000"

definition btc2sat :: "jsnum \<Rightarrow> jsnum" where
  "btc2sat btc = js_round (js_mul btc SATS_PER_BTC)"

definition sat2btc :: "jsnum \<Rightarrow> jsnum" where
  "sat2btc sat = js_div sat SATS_PER_BTC"

definition sanityCheckedDefaultAccountWithdrawFee :: "jsnum \<Rightarrow> jsnum result" where
  "sanityCheckedDefaultAccountWithdrawFee fee =
     (if js_less fee (Num 0) \<or> js_less (Num 100000) fee
      then Inl (amount_err InvalidWithdrawFeeError) else Inr fee)"

section \<open>Display currency\<close>

definition CENTS_PER_USD :: jsnum where
  "CENTS_PER_USD = Num 100"

definition dc_fromSats :: "jsnum \<Rightarrow> jsnum \<Rightarrow> jsnum" where
  "dc_fromSats price sats = js_mul sats price"

definition dc_fromCents :: "jsnum \<Rightarrow> jsnum \<Rightarrow> jsnum" where
  "dc_fromCents price cents = cents"

definition dc_fromSatsToCents :: "jsnum \<Rightarrow> jsnum \<Rightarrow> jsnum" where
  "dc_fromSatsToCents price sats = js_floor (js_mul sats (js_mul price CENTS_PER_USD))"

definition dc_fromCentsToSats :: "jsnum \<Rightarrow> jsnum \<Rightarrow> jsnum" where
  "dc_fromCentsToSats price cents = js_floor (js_div cents (js_mul price CENTS_PER_USD))"

definition ndc_fromBtcAmount :: "jsnum \<Rightarrow> Amount \<Rightarrow> jsnum" where
  "ndc_fromBtcAmount displayCurrencyPrice btc = js_mul (Number_of (amount btc)) displayCurrencyPrice"

definition ndc_fromUsdAmount :: "jsnum \<Rightarrow> Amount \<Rightarrow> jsnum" where
  "ndc_fromUsdAmount displayCurrencyPrice usd = Number_of (amount usd)"

section \<open>Price ratios\<close>

record price_ratio =
  pr_usd :: Amount
  pr_btc :: Amount

definition PriceRatio :: "Amount \<Rightarrow> Amount \<Rightarrow> price_ratio result" where
  "PriceRatio usd btc =
     (if amount usd = 0 \<or> amount btc = 0
      then Inl (amount_err InvalidZeroAmountPriceRatioInputError)
      else Inr \<lparr>pr_usd = usd, pr_btc = btc\<rparr>)"

definition convertFromUsd :: "price_ratio \<Rightarrow> Amount \<Rightarrow> Amount result" where
  "convertFromUsd r convert =
     (if amount convert = 0 then Inr \<lparr>currency = Btc, amount = 0\<rparr>
      else result_bind
        (calc_divRound \<lparr>currency = Btc, amount = amount convert * amount (pr_btc r)\<rparr>
           (amount (pr_usd r)))
        (\<lambda>a. Inr \<lparr>currency = Btc, amount = (if amount a = 0 then 1 else amount a)\<rparr>))"

definition convertFromBtc :: "price_ratio \<Rightarrow> Amount \<Rightarrow> Amount result" where
  "convertFromBtc r convert =
     (if amount convert = 0 then Inr \<lparr>currency = Usd, amount = 0\<rparr>
      else result_bind
        (calc_divRound \<lparr>currency = Usd, amount = amount convert * amount (pr_usd r)\<rparr>
           (amount (pr_btc r)))
        (\<lambda>a. Inr \<lparr>currency = Usd, amount = (if amount a = 0 then 1 else amount a)\<rparr>))"

definition convertFromBtcToFloor :: "price_ratio \<Rightarrow> Amount \<Rightarrow> Amount result" where
  "convertFromBtcToFloor r convert =
     calc_divFloor \<lparr>currency = Usd, amount = amount convert * amount (pr_usd r)\<rparr>
       (amount (pr_btc r))"

definition convertFromBtcToCeil :: "price_ratio \<Rightarrow> Amount \<Rightarrow> Amount result" where
  "convertFromBtcToCeil r convert =
     calc_divCeil \<lparr>currency = Usd, amount = amount convert * amount (pr_usd r)\<rparr>
       (amount (pr_btc r))"

definition usdPerSat :: "price_ratio \<Rightarrow> jsnum" where
  "usdPerSat r = js_div (Number_of (amount (pr_usd r))) (Number_of (amount (pr_btc r)))"

text \<open>\<^verbatim>\<open>RATIO_PRECISION\<close> is read from the configuration: an argument here.\<close>

definition toPriceRatio :: "jsnum \<Rightarrow> jsnum \<Rightarrow> price_ratio result" where
  "toPriceRatio precision ratio =
     (case (js_BigInt (js_floor (js_mul ratio precision)), js_BigInt precision) of
        (Some u, Some b) \<Rightarrow>
          PriceRatio \<lparr>currency = Usd, amount = u\<rparr> \<lparr>currency = Btc, amount = b\<rparr>
      | _ \<Rightarrow> Inl (Thrown ''RangeError''))"

section \<open>Lightning fees and routes\<close>

definition FEECAP_BASIS_POINTS :: int where
  "FEECAP_BASIS_POINTS = 50"

definition maxProtocolFee :: "int \<Rightarrow> Amount \<Rightarrow> Amount result" where
  "maxProtocolFee feeCapBasisPoints amt =
     (if amount amt = 0 then Inr amt
      else result_bind (calc_mulBasisPoints amt feeCapBasisPoints)
        (\<lambda>maxFee. Inr \<lparr>currency = currency amt,
                      amount = (if amount maxFee = 0 then 1 else amount maxFee)\<rparr>))"

definition intraLedgerFees :: "WalletCurrency \<Rightarrow> Amount" where
  "intraLedgerFees cur = (case cur of Btc \<Rightarrow> ZERO_SATS | Usd \<Rightarrow> ZERO_CENTS)"

text \<open>The fields of lnd's route that the code reads.\<close>

record RawRoute =
  route_fee :: jsnum
  route_total_mtokens :: "string option"

definition feeFromRawRoute :: "RawRoute \<Rightarrow> Amount result" where
  "feeFromRawRoute rawRoute = paymentAmountFromNumber (js_ceil (route_fee rawRoute)) Btc"

text \<open>\<^verbatim>\<open>parseInt(s, 10)\<close>: white space, an optional sign, the longest run of digits.\<close>

definition is_js_space :: "char \<Rightarrow> bool" where
  "is_js_space c = (of_char c \<in> set [9, 10, 11, 12, 13, 32, 160 :: nat])"

definition is_digit :: "char \<Rightarrow> bool" where
  "is_digit c = (48 \<le> (of_char c :: nat) \<and> (of_char c :: nat) \<le> 57)"

definition digits_value :: "string \<Rightarrow> int" where
  "digits_value ds = foldl (\<lambda>acc c. 10 * acc + (of_char c - 48)) 0 ds"

definition js_parseInt :: "string \<Rightarrow> jsnum" where
  "js_parseInt s =
     (let t = dropWhile is_js_space s;
          negative = (t \<noteq> [] \<and> hd t = CHR ''-'');
          u = (if t \<noteq> [] \<and> (hd t = CHR ''-'' \<or> hd t = CHR ''+'') then tl t else t);
          ds = takeWhile is_digit u
      in if ds = [] then NaN
         else fl (of_int (if negative then - digits_value ds else digits_value ds)))"

definition validateRoute :: "RawRoute \<Rightarrow> Amount \<Rightarrow> unit result" where
  "validateRoute rawRoute btcPaymentAmount =
     (let total = (if truthy_str (route_total_mtokens rawRoute)
                   then the (route_total_mtokens rawRoute) else ''0'');
          rawTokens = js_floor (js_div (js_parseInt total) (Num 1000));
          amt = Number_of (amount btcPaymentAmount)
      in if \<not> js_eq amt rawTokens then Inl (flow_err BadAmountForRouteError) else Inr ())"


section \<open>The contract of a rounding division\<close>

text \<open>
  What the ratio relies on: the result is less than one unit away from the exact quotient
  and does not decrease with the dividend.
\<close>

lemma less_if_double_le: "2 * x \<le> b \<Longrightarrow> 0 < b \<Longrightarrow> x < b" for x b :: int
  by linarith

lemma euclid:
  fixes a b :: int
  assumes "0 < b"
  shows "b * (a div b) + a mod b = a" and "0 \<le> a mod b" and "a mod b < b"
  using assms by simp_all

locale rounding =
  fixes rdiv :: "int \<Rightarrow> int \<Rightarrow> int"
  assumes near: "0 \<le> a \<Longrightarrow> 0 < b \<Longrightarrow> \<bar>b * rdiv a b - a\<bar> < b"
    and mono: "0 \<le> a \<Longrightarrow> a \<le> a' \<Longrightarrow> 0 < b \<Longrightarrow> rdiv a b \<le> rdiv a' b"
begin

lemma exact:
  assumes "0 \<le> k" and "0 < b"
  shows "rdiv (k * b) b = k"
proof -
  have "\<bar>b * (rdiv (k * b) b - k)\<bar> < b"
    using near [of "k * b" b] assms by (simp add: algebra_simps)
  then have "b * \<bar>rdiv (k * b) b - k\<bar> < b * 1"
    using assms by (simp add: abs_mult)
  then have "\<bar>rdiv (k * b) b - k\<bar> < 1"
    using assms by (simp only: mult_less_cancel_left_pos)
  then show ?thesis by linarith
qed

lemma nonneg: "0 \<le> a \<Longrightarrow> 0 < b \<Longrightarrow> 0 \<le> rdiv a b"
  using mono [of 0 a b] exact [of 0 b] by simp

lemma ge_div:
  assumes "0 \<le> a" and "0 < b"
  shows "a div b \<le> rdiv a b"
proof -
  have "0 \<le> a div b * b"
    using assms by (simp add: pos_imp_zdiv_nonneg_iff)
  moreover have "a div b * b \<le> a"
    using euclid(2) [OF assms(2), of a] by (simp flip: minus_mod_eq_div_mult)
  ultimately have "rdiv (a div b * b) b \<le> rdiv a b"
    using assms(2) by (rule mono)
  then show ?thesis
    using assms by (simp add: exact pos_imp_zdiv_nonneg_iff)
qed

lemma le_div_Suc:
  assumes "0 \<le> a" and "0 < b"
  shows "rdiv a b \<le> a div b + 1"
proof -
  have "a \<le> (a div b + 1) * b"
    using euclid(3) [OF assms(2), of a]
    by (simp add: distrib_right flip: minus_mod_eq_div_mult)
  then have "rdiv a b \<le> rdiv ((a div b + 1) * b) b"
    using assms by (intro mono)
  then show ?thesis
    using assms by (simp add: exact pos_imp_zdiv_nonneg_iff)
qed

lemma exact_dvd: "0 \<le> a \<Longrightarrow> 0 < b \<Longrightarrow> b dvd a \<Longrightarrow> rdiv a b = a div b"
  using exact [of "a div b" b] by (simp add: pos_imp_zdiv_nonneg_iff)

end

lemma sdiv_smod_nonneg:
  fixes a b :: int
  assumes "0 \<le> a" and "0 < b"
  shows "a sdiv b = a div b" and "a smod b = a mod b"
  using assms by (cases "a = 0"; simp add: signed_divide_int_def signed_modulo_int_def)+

lemma div_floor_nonneg: "0 \<le> a \<Longrightarrow> 0 < b \<Longrightarrow> div_floor a b = a div b"
  by (simp add: div_floor_def sdiv_smod_nonneg)

lemma div_ceil_nonneg:
  "0 \<le> a \<Longrightarrow> 0 < b \<Longrightarrow> div_ceil a b = a div b + (if b dvd a then 0 else 1)"
  by (simp add: div_ceil_def sdiv_smod_nonneg dvd_eq_mod_eq_0 order_less_le)

lemma div_round_nonneg:
  "0 \<le> a \<Longrightarrow> 0 < b \<Longrightarrow> div_round a b = a div b + (if b div 2 < a mod b then 1 else 0)"
  by (simp add: div_round_def sdiv_smod_nonneg)

lemma div_round_near:
  assumes "0 \<le> a" and "0 < b"
  shows "2 * \<bar>b * div_round a b - a\<bar> \<le> b"
proof (cases "b div 2 < a mod b")
  case True
  then have "b * div_round a b - a = b - a mod b"
    using assms by (simp add: div_round_nonneg algebra_simps minus_mult_div_eq_mod flip: minus_mod_eq_mult_div)
  moreover have "b \<le> 2 * (a mod b)" and "a mod b < b"
    using True euclid [OF assms(2), of a] by linarith+
  ultimately show ?thesis by simp
next
  case False
  then have "b * div_round a b - a = - (a mod b)"
    using assms by (simp add: div_round_nonneg flip: minus_mod_eq_mult_div)
  moreover have "2 * (a mod b) \<le> b" and "0 \<le> a mod b"
    using False euclid [OF assms(2), of a] by linarith+
  ultimately show ?thesis by simp
qed

lemma div_mono_step:
  fixes a a' b :: int
  assumes "a \<le> a'" and "0 < b" and "a div b = a' div b"
  shows "a mod b \<le> a' mod b"
  using assms by (metis add_le_cancel_left div_mult_mod_eq)

lemma div_mono_cases:
  fixes a a' b :: int
  assumes "a \<le> a'" and "0 < b"
  shows "a div b + 1 \<le> a' div b \<or> a div b = a' div b \<and> a mod b \<le> a' mod b"
  using zdiv_mono1 [OF assms] div_mono_step [OF assms] by linarith

interpretation half: rounding div_round
proof
  fix a b :: int
  assume ab: "0 \<le> a" "0 < b"
  show "\<bar>b * div_round a b - a\<bar> < b"
    using div_round_near [OF ab] ab(2) by (rule less_if_double_le)
next
  fix a a' b :: int
  assume "0 \<le> a" and "a \<le> a'" and "0 < b"
  then show "div_round a b \<le> div_round a' b"
    using div_mono_cases [of a a' b] by (auto simp: div_round_nonneg)
qed

interpretation down: rounding div_floor
proof
  fix a b :: int
  assume "0 \<le> a" and "0 < b"
  then show "\<bar>b * div_floor a b - a\<bar> < b"
    using pos_mod_bound [of b a] pos_mod_sign [of b a]
    by (simp add: div_floor_nonneg flip: minus_mod_eq_mult_div)
next
  fix a a' b :: int
  assume "0 \<le> a" and "a \<le> a'" and "0 < b"
  then show "div_floor a b \<le> div_floor a' b"
    by (simp add: div_floor_nonneg zdiv_mono1)
qed

interpretation up: rounding div_ceil
proof
  fix a b :: int
  assume ab: "0 \<le> a" "0 < b"
  have "b dvd a \<longleftrightarrow> a mod b = 0" by (simp add: dvd_eq_mod_eq_0)
  with ab show "\<bar>b * div_ceil a b - a\<bar> < b"
    using euclid [OF ab(2), of a]
    by (simp add: div_ceil_nonneg distrib_left order_less_le flip: minus_mod_eq_mult_div)
next
  fix a a' b :: int
  assume h: "0 \<le> a" "a \<le> a'" "0 < b"
  have ceil: "div_ceil x b = x div b + (if x mod b = 0 then 0 else 1)" if "0 \<le> x" for x
    using that h(3) by (simp add: div_ceil_nonneg dvd_eq_mod_eq_0)
  show "div_ceil a b \<le> div_ceil a' b"
    using div_mono_cases [OF h(2,3)] euclid(2) [OF h(3), of a]
      ceil [OF h(1)] ceil [OF order_trans [OF h(1,2)]]
    by (simp split: if_splits; linarith)
qed

section \<open>Properties of amounts, ratios and fees\<close>

lemma calc_divide_Inr [amount_simps]:
  "b \<noteq> 0 \<Longrightarrow> calc_divide f a b = Inr \<lparr>currency = currency a, amount = f (amount a) b\<rparr>"
  by (simp add: calc_divide_def)

text \<open>
  \<^bold>\<open>divRound rounds to nearest.\<close> On a non-negative amount and a positive divisor
  \<^verbatim>\<open>AmountCalculator.divRound\<close> returns, in the same currency, an amount at most half a unit
  from the exact quotient, and an exact half is rounded down.
\<close>

lemma divRound_nearest:
  assumes "0 \<le> amount a" and "0 < b"
  shows "\<exists>q. calc_divRound a b = Inr q \<and> currency q = currency a
      \<and> 2 * \<bar>b * amount q - amount a\<bar> \<le> b
      \<and> (2 * (amount a mod b) = b \<longrightarrow> amount q = amount a div b)"
proof -
  have "div_round (amount a) b = amount a div b" if "2 * (amount a mod b) = b"
    using assms that by (simp add: div_round_nonneg)
  then show ?thesis
    using assms div_round_near [OF assms] by (simp add: calc_divRound_def calc_divide_Inr)
qed

lemma PriceRatio_Inr [amount_simps]:
  "PriceRatio u b = Inr r \<longleftrightarrow>
     amount u \<noteq> 0 \<and> amount b \<noteq> 0 \<and> r = \<lparr>pr_usd = u, pr_btc = b\<rparr>"
  by (auto simp: PriceRatio_def)

lemma convertFromBtc_eq:
  assumes "amount (pr_btc r) \<noteq> 0"
  shows "convertFromBtc r x = Inr \<lparr>currency = Usd, amount =
     (if amount x = 0 then 0
      else let q = div_round (amount x * amount (pr_usd r)) (amount (pr_btc r))
           in if q = 0 then 1 else q)\<rparr>"
  using assms by (simp add: convertFromBtc_def calc_divRound_def calc_divide_Inr Let_def)

lemma convertFromUsd_eq:
  assumes "amount (pr_usd r) \<noteq> 0"
  shows "convertFromUsd r x = Inr \<lparr>currency = Btc, amount =
     (if amount x = 0 then 0
      else let q = div_round (amount x * amount (pr_btc r)) (amount (pr_usd r))
           in if q = 0 then 1 else q)\<rparr>"
  using assms by (simp add: convertFromUsd_def calc_divRound_def calc_divide_Inr Let_def)

lemma convertFromBtcToCeil_eq:
  assumes "amount (pr_btc r) \<noteq> 0"
  shows "convertFromBtcToCeil r x = Inr \<lparr>currency = Usd,
     amount = div_ceil (amount x * amount (pr_usd r)) (amount (pr_btc r))\<rparr>"
  using assms by (simp add: convertFromBtcToCeil_def calc_divCeil_def calc_divide_Inr)

lemma convertFromBtcToFloor_eq:
  assumes "amount (pr_btc r) \<noteq> 0"
  shows "convertFromBtcToFloor r x = Inr \<lparr>currency = Usd,
     amount = div_floor (amount x * amount (pr_usd r)) (amount (pr_btc r))\<rparr>"
  using assms by (simp add: convertFromBtcToFloor_def calc_divFloor_def calc_divide_Inr)

lemmas convert_eqs = convertFromBtc_eq convertFromUsd_eq convertFromBtcToCeil_eq
  convertFromBtcToFloor_eq

text \<open>
  (C37) \<^bold>\<open>A ratio converts its own amounts into each other, exactly, under every rounding.\<close>
  For the ratio made of a positive bitcoin and a positive dollar amount, converting the
  bitcoin amount (to the nearest, to the floor, to the ceiling) gives back the dollar amount
  and converting the dollar amount gives back the bitcoin amount.
\<close>

theorem ratio_converts_own_amounts:
  assumes "0 < u" and "0 < b" and "PriceRatio (UsdPaymentAmount u) (BtcPaymentAmount b) = Inr r"
  shows "convertFromUsd r (UsdPaymentAmount u) = Inr (BtcPaymentAmount b)
      \<and> convertFromBtc r (BtcPaymentAmount b) = Inr (UsdPaymentAmount u)
      \<and> convertFromBtcToFloor r (BtcPaymentAmount b) = Inr (UsdPaymentAmount u)
      \<and> convertFromBtcToCeil r (BtcPaymentAmount b) = Inr (UsdPaymentAmount u)"
proof -
  have r: "r = \<lparr>pr_usd = UsdPaymentAmount u, pr_btc = BtcPaymentAmount b\<rparr>"
    using assms(3) by (simp add: PriceRatio_Inr)
  have ub: "0 \<le> u" "0 \<le> b" using assms(1,2) by simp_all
  have "u * b = b * u" by simp
  then show ?thesis
    using assms(1,2) half.exact [OF ub(1) assms(2)] half.exact [OF ub(2) assms(1)]
      down.exact [OF ub(1) assms(2)] up.exact [OF ub(1) assms(2)]
    by (simp add: r convert_eqs BtcPaymentAmount_def UsdPaymentAmount_def mult.commute)
qed

theorem ratio_converts_own_amounts_witness:
  "\<exists>r. PriceRatio (UsdPaymentAmount 7) (BtcPaymentAmount 3) = Inr r
      \<and> convertFromUsd r (UsdPaymentAmount 7) = Inr (BtcPaymentAmount 3)
      \<and> convertFromBtcToCeil r (BtcPaymentAmount 3) = Inr (UsdPaymentAmount 7)"
proof -
  let ?r = "\<lparr>pr_usd = UsdPaymentAmount 7, pr_btc = BtcPaymentAmount 3\<rparr>"
  have "PriceRatio (UsdPaymentAmount 7) (BtcPaymentAmount 3) = Inr ?r"
    by (simp add: PriceRatio_def UsdPaymentAmount_def BtcPaymentAmount_def)
  then show ?thesis using ratio_converts_own_amounts [of 7 3 ?r] by auto
qed

text \<open>
  (C38) \<^bold>\<open>The three conversions from bitcoin are ordered, and dust is not lost.\<close> For a positive
  ratio and a non-negative bitcoin amount the three conversions succeed, the floor is at most the
  rounded amount, which is at most the ceiling, which exceeds the floor by at most one cent;
  a positive amount is converted to at least one cent and zero to zero.
\<close>

theorem conversions_ordered:
  assumes "0 < amount (pr_usd r)" and "0 < amount (pr_btc r)" and "0 \<le> amount x"
  shows "\<exists>lo mid hi. convertFromBtcToFloor r x = Inr lo \<and> convertFromBtc r x = Inr mid
      \<and> convertFromBtcToCeil r x = Inr hi
      \<and> amount lo \<le> amount mid \<and> amount mid \<le> amount hi \<and> amount hi \<le> amount lo + 1
      \<and> (0 < amount x \<longrightarrow> 1 \<le> amount mid) \<and> (amount x = 0 \<longrightarrow> amount hi = 0)"
proof -
  let ?a = "amount x * amount (pr_usd r)" and ?b = "amount (pr_btc r)"
  have a: "0 \<le> ?a" and b: "0 < ?b" using assms by simp_all
  have ceil1: "1 \<le> div_ceil ?a ?b" if "amount x \<noteq> 0"
  proof -
    have "0 < ?a" using that assms by simp
    then show ?thesis
      using down.nonneg [OF a b] zdvd_not_zless [of ?a ?b] pos_imp_zdiv_pos_iff [OF b, of ?a]
      by (auto simp: div_ceil_nonneg [OF a b] div_floor_nonneg [OF a b])
  qed
  have le: "div_floor ?a ?b \<le> div_round ?a ?b" "div_round ?a ?b \<le> div_ceil ?a ?b"
    "div_ceil ?a ?b \<le> div_floor ?a ?b + 1"
    using half.ge_div [OF a b] half.exact_dvd [OF a b] half.le_div_Suc [OF a b]
    by (auto simp: div_floor_nonneg [OF a b] div_ceil_nonneg [OF a b])
  have nn: "0 \<le> div_round ?a ?b" by (rule half.nonneg [OF a b])
  have z: "div_ceil 0 ?b = 0" "div_floor 0 ?b = 0"
    using up.exact [of 0 ?b] down.exact [of 0 ?b] b by simp_all
  show ?thesis
    using b ceil1 le nn z down.nonneg [OF a b]
    by (auto simp: convert_eqs Let_def)
qed

theorem conversions_ordered_witness:
  "\<exists>lo mid hi. convertFromBtcToFloor \<lparr>pr_usd = UsdPaymentAmount 2, pr_btc = BtcPaymentAmount 7\<rparr> (BtcPaymentAmount 1) = Inr lo
      \<and> convertFromBtc \<lparr>pr_usd = UsdPaymentAmount 2, pr_btc = BtcPaymentAmount 7\<rparr> (BtcPaymentAmount 1) = Inr mid
      \<and> convertFromBtcToCeil \<lparr>pr_usd = UsdPaymentAmount 2, pr_btc = BtcPaymentAmount 7\<rparr> (BtcPaymentAmount 1) = Inr hi
      \<and> amount lo \<le> amount mid \<and> amount mid \<le> amount hi \<and> 1 \<le> amount mid"
  using conversions_ordered
    [of "\<lparr>pr_usd = UsdPaymentAmount 2, pr_btc = BtcPaymentAmount 7\<rparr>" "BtcPaymentAmount 1"]
  by (auto simp: UsdPaymentAmount_def BtcPaymentAmount_def)

text \<open>
  (C39) \<^bold>\<open>The fee cap is half a percent, at least one unit, never more than the amount.\<close> On a
  positive amount \<^verbatim>\<open>LnFees().maxProtocolFee\<close> returns, in the currency of the amount, a fee
  within half a unit of 50 basis points; up to 100 units the fee is one unit.
\<close>

theorem maxProtocolFee_bounds:
  assumes "0 < amount a"
  shows "\<exists>fee. maxProtocolFee FEECAP_BASIS_POINTS a = Inr fee \<and> currency fee = currency a
      \<and> 1 \<le> amount fee \<and> amount fee \<le> amount a
      \<and> (100 < amount a \<longrightarrow> \<bar>200 * amount fee - amount a\<bar> \<le> 100)
      \<and> (amount a \<le> 100 \<longrightarrow> amount fee = 1)"
proof -
  let ?q = "div_round (amount a * 50) 10000"
  have near: "2 * \<bar>10000 * ?q - amount a * 50\<bar> \<le> 10000"
    using assms by (intro div_round_near) simp_all
  have nn: "0 \<le> ?q" using assms by (intro half.nonneg) simp_all
  have small: "?q = 0" if "amount a \<le> 100"
    using that assms by (simp add: div_round_nonneg)
  show ?thesis
    using assms near nn small
    by (auto simp: maxProtocolFee_def calc_mulBasisPoints_def calc_divRound_def calc_divide_Inr
        FEECAP_BASIS_POINTS_def)
qed

theorem maxProtocolFee_bounds_witness:
  "\<exists>fee. maxProtocolFee FEECAP_BASIS_POINTS (BtcPaymentAmount 50000) = Inr fee
      \<and> 1 \<le> amount fee \<and> \<bar>200 * amount fee - 50000\<bar> \<le> 100"
  using maxProtocolFee_bounds [of "BtcPaymentAmount 50000"] by (auto simp: BtcPaymentAmount_def)

lemma paymentAmountFromNumber_int [simp]:
  "paymentAmountFromNumber (Num (of_int n)) c = Inr \<lparr>currency = c, amount = n\<rparr>"
  by (simp add: paymentAmountFromNumber_def safeBigInt_def)

lemma paymentAmountFromNumber_Inr:
  "paymentAmountFromNumber x c = Inr a \<longleftrightarrow>
     x = Num (of_int (amount a)) \<and> currency a = c"
  by (cases x) (auto simp: paymentAmountFromNumber_def safeBigInt_def split: if_splits)

lemma paymentAmountFromNumber_Number_of:
  "is_safe_int n \<Longrightarrow> paymentAmountFromNumber (Number_of n) c = Inr \<lparr>currency = c, amount = n\<rparr>"
  by (simp add: Number_of_exact)

lemma checked_amount_int:
  assumes "0 < n" and "n \<le> 10000000000000"
  shows "checkedToBtcPaymentAmount (Some (Num (of_int n))) = Inr (BtcPaymentAmount n)"
    and "checkedToUsdPaymentAmount (Some (Num (of_int n))) = Inr (UsdPaymentAmount n)"
  using assms by (simp_all add: checkedToBtcPaymentAmount_def checkedToUsdPaymentAmount_def
      MAX_SATS_def MAX_CENTS_def js_eq_def BtcPaymentAmount_def UsdPaymentAmount_def)

lemma js_floor_eq_iff: "js_eq (js_floor x) x \<longleftrightarrow>
    (\<exists>n. x = Num (of_int n)) \<or> x = PosInf \<or> x = NegInf"
proof (cases x)
  case (Num q)
  then show ?thesis by (auto simp: js_eq_def)
qed (auto simp: js_eq_def)

text \<open>
  (C40) \<^bold>\<open>Exactly the whole amounts between one and the maximum are accepted.\<close>
  \<^verbatim>\<open>checkedToBtcPaymentAmount\<close> and \<^verbatim>\<open>checkedToUsdPaymentAmount\<close> accept a number, whatever it
  is (a fraction, \<^verbatim>\<open>NaN\<close>, an infinity, \<^verbatim>\<open>null\<close>), if and only if it is a positive integer of at
  most ten million million base units, and return that very amount; every rejection is a
  \<^verbatim>\<open>ValidationError\<close>, although the conversion they end with can return another class.
\<close>

theorem checked_amounts_exactly:
  "(checkedToBtcPaymentAmount m = Inr a \<longleftrightarrow>
      (\<exists>n. m = Some (Num (of_int n)) \<and> 0 < n \<and> n \<le> 10000000000000 \<and> a = BtcPaymentAmount n))
   \<and> (checkedToUsdPaymentAmount m = Inr a \<longleftrightarrow>
      (\<exists>n. m = Some (Num (of_int n)) \<and> 0 < n \<and> n \<le> 10000000000000 \<and> a = UsdPaymentAmount n))
   \<and> (\<forall>e. checkedToBtcPaymentAmount m = Inl e \<or> checkedToUsdPaymentAmount m = Inl e
        \<longrightarrow> is_ValidationError e)"
proof (cases m)
  case None
  then show ?thesis by (auto simp: checkedToBtcPaymentAmount_def checkedToUsdPaymentAmount_def)
next
  case (Some x)
  show ?thesis
  proof (cases "\<exists>n. x = Num (of_int n)")
    case True
    then obtain n where x: "x = Num (of_int n)" ..
    show ?thesis
      by (auto simp: Some x checkedToBtcPaymentAmount_def checkedToUsdPaymentAmount_def
          MAX_SATS_def MAX_CENTS_def js_eq_def BtcPaymentAmount_def UsdPaymentAmount_def)
  next
    case False
    then have "\<not> js_eq (js_floor x) x \<or> x = PosInf \<or> x = NegInf"
      by (auto simp: js_floor_eq_iff)
    then show ?thesis
      using False
      by (auto simp: Some checkedToBtcPaymentAmount_def checkedToUsdPaymentAmount_def)
  qed
qed

theorem checked_amounts_exactly_witness:
  "checkedToBtcPaymentAmount (Some (Num 5)) = Inr (BtcPaymentAmount 5)
   \<and> (\<exists>e. checkedToUsdPaymentAmount (Some NaN) = Inl e \<and> is_ValidationError e)"
proof
  have "\<exists>n. Some (Num 5) = Some (Num (of_int n)) \<and> 0 < n \<and> n \<le> 10000000000000
      \<and> BtcPaymentAmount 5 = BtcPaymentAmount n"
    by (rule exI [of _ 5]) simp
  then show "checkedToBtcPaymentAmount (Some (Num 5)) = Inr (BtcPaymentAmount 5)"
    using checked_amounts_exactly [of "Some (Num 5)" "BtcPaymentAmount 5"] by blast
  have "\<exists>e. checkedToUsdPaymentAmount (Some NaN) = Inl e"
    by (simp add: checkedToUsdPaymentAmount_def js_eq_def)
  then show "\<exists>e. checkedToUsdPaymentAmount (Some NaN) = Inl e \<and> is_ValidationError e"
    using checked_amounts_exactly [of "Some NaN"] by blast
qed

end
