(* ===== verification/Ledger_Entry.thy ===== *)
theory Ledger_Entry
  imports Amounts
begin

text \<open>
  The entry builders of \<^verbatim>\<open>services/ledger/domain\<close>: \<^verbatim>\<open>accounts.ts\<close>, \<^verbatim>\<open>index.ts\<close>,
  \<^verbatim>\<open>entry-builder.ts\<close> and \<^verbatim>\<open>legacy-entry-builder.ts\<close>.

  An entry is an object of the third-party package medici: the record \<open>medici\<close> holds the four
  operations the builders call and the locale \<open>medici_entry\<close> what medici documents of them.
  A builder stage is the record of what its closure captures; the entry is mutated in the
  source and threaded here. The theorems say which journals balance, in each currency apart:
  medici only checks the sum over both.
\<close>

section \<open>Ledger accounts\<close>

definition liabilitiesMainAccount :: string where
  "liabilitiesMainAccount = ''Liabilities''"

definition assetsMainAccount :: string where
  "assetsMainAccount = ''Assets''"

definition lndLedgerAccountId :: LedgerAccountId where
  "lndLedgerAccountId = assetsMainAccount @ '':Reserve:Lightning''"

definition coldStorageAccountId :: LedgerAccountId where
  "coldStorageAccountId = assetsMainAccount @ '':Reserve:Bitcoind''"

record LedgerAccountDescriptor =
  ad_id :: LedgerAccountId
  ad_currency :: WalletCurrency

definition lndLedgerAccountDescriptor :: LedgerAccountDescriptor where
  "lndLedgerAccountDescriptor = \<lparr>ad_id = lndLedgerAccountId, ad_currency = Btc\<rparr>"

definition coldStorageAccountDescriptor :: LedgerAccountDescriptor where
  "coldStorageAccountDescriptor = \<lparr>ad_id = coldStorageAccountId, ad_currency = Btc\<rparr>"

record WalletDescriptor =
  wd_id :: WalletId
  wd_currency :: WalletCurrency
  wd_accountId :: AccountId

definition toLedgerAccountId :: "WalletId \<Rightarrow> LedgerAccountId" where
  "toLedgerAccountId walletId = liabilitiesMainAccount @ '':'' @ walletId"

definition toLedgerAccountDescriptor :: "WalletDescriptor \<Rightarrow> LedgerAccountDescriptor" where
  "toLedgerAccountDescriptor w =
     \<lparr>ad_id = toLedgerAccountId (wd_id w), ad_currency = wd_currency w\<rparr>"

record StaticAccountIds =
  bankOwnerAccountId :: LedgerAccountId
  dealerBtcAccountId :: LedgerAccountId
  dealerUsdAccountId :: LedgerAccountId

section \<open>Metadata objects and medici entries\<close>

datatype LedgerTransactionType =
    Invoice | Payment | LnFeeReimbursement | OnchainReceipt | OnchainPayment
  | IntraLedger | LnIntraLedger | OnchainIntraLedger
  | WalletIdTradeIntraAccount | LnTradeIntraAccount | OnChainTradeIntraAccount
  | Fee | ToColdStorage | ToHotWallet | Escrow | RoutingRevenue

text \<open>
  A metadata object maps property names to values; a property can be present with the value
  \<^verbatim>\<open>undefined\<close>, which still overrides an earlier one when objects are spread
  (\<^verbatim>\<open>{ ...a, ...b }\<close> is \<open>a ++ b\<close>).
\<close>

datatype mval =
    MType LedgerTransactionType
  | MCur WalletCurrency
  | MStr string
  | MStrs "string list"
  | MNum jsnum
  | MBool bool
  | MUndefined

type_synonym TxMetadata = "string \<rightharpoonup> mval"

record txn =
  tx_account :: LedgerAccountId
  tx_credit :: jsnum
  tx_debit :: jsnum
  tx_meta :: TxMetadata

record 'e medici =
  entry_credit :: "'e \<Rightarrow> LedgerAccountId \<Rightarrow> jsnum \<Rightarrow> TxMetadata \<Rightarrow> 'e"
  entry_debit :: "'e \<Rightarrow> LedgerAccountId \<Rightarrow> jsnum \<Rightarrow> TxMetadata \<Rightarrow> 'e"
  entry_transactions :: "'e \<Rightarrow> txn list"
  entry_set_transactions :: "'e \<Rightarrow> txn list \<Rightarrow> 'e"

abbreviation with_currency :: "TxMetadata \<Rightarrow> WalletCurrency \<Rightarrow> TxMetadata" where
  "with_currency metadata c \<equiv> metadata(''currency'' \<mapsto> MCur c)"

definition credit_amount :: "('e, 'x) medici_scheme \<Rightarrow> 'e \<Rightarrow> LedgerAccountId \<Rightarrow> Amount \<Rightarrow> TxMetadata \<Rightarrow> 'e" where
  "credit_amount M e account a metadata =
     entry_credit M e account (Number_of (amount a)) (with_currency metadata (currency a))"

definition debit_amount :: "('e, 'x) medici_scheme \<Rightarrow> 'e \<Rightarrow> LedgerAccountId \<Rightarrow> Amount \<Rightarrow> TxMetadata \<Rightarrow> 'e" where
  "debit_amount M e account a metadata =
     entry_debit M e account (Number_of (amount a)) (with_currency metadata (currency a))"

definition removeZeroAmountEntries :: "('e, 'x) medici_scheme \<Rightarrow> 'e \<Rightarrow> 'e" where
  "removeZeroAmountEntries M e =
     entry_set_transactions M e
       (filter (\<lambda>t. \<not> (js_eq (tx_debit t) (Num 0) \<and> js_eq (tx_credit t) (Num 0)))
          (entry_transactions M e))"

section \<open>EntryBuilder\<close>

record 'e EntryBuilderConfig =
  eb_entry :: 'e
  eb_metadata :: TxMetadata
  eb_staticAccountIds :: StaticAccountIds

record 'e EntryBuilderFeeState = "'e EntryBuilderConfig" +
  usdWithFees :: Amount
  btcWithFees :: Amount

record 'e EntryBuilderDebitState = "'e EntryBuilderFeeState" +
  usdBankFee :: Amount
  btcBankFee :: Amount

record 'e EntryBuilderCreditState = "'e EntryBuilderDebitState" +
  debitCurrency :: WalletCurrency

definition withTotalAmount :: "'e EntryBuilderConfig \<Rightarrow> Amount \<Rightarrow> Amount \<Rightarrow> 'e EntryBuilderFeeState" where
  "withTotalAmount c usd btc =
     \<lparr>eb_entry = eb_entry c, eb_metadata = eb_metadata c,
      eb_staticAccountIds = eb_staticAccountIds c, usdWithFees = usd, btcWithFees = btc\<rparr>"

definition withBankFee ::
  "('e, 'x) medici_scheme \<Rightarrow> 'e EntryBuilderFeeState \<Rightarrow> Amount \<Rightarrow> Amount \<Rightarrow> 'e EntryBuilderDebitState" where
  "withBankFee M s usdFee btcFee =
     (let entry =
        (if 0 < amount btcFee
         then credit_amount M (eb_entry s) (bankOwnerAccountId (eb_staticAccountIds s)) btcFee
                (eb_metadata s)
         else eb_entry s)
      in \<lparr>eb_entry = entry, eb_metadata = eb_metadata s,
          eb_staticAccountIds = eb_staticAccountIds s,
          usdWithFees = usdWithFees s, btcWithFees = btcWithFees s,
          usdBankFee = usdFee, btcBankFee = btcFee\<rparr>)"

definition debitAccount ::
  "('e, 'x) medici_scheme \<Rightarrow> 'e EntryBuilderDebitState \<Rightarrow> LedgerAccountDescriptor \<Rightarrow> TxMetadata option
     \<Rightarrow> 'e EntryBuilderCreditState" where
  "debitAccount M s desc additionalMetadata =
     (let debitMetadata =
        (case additionalMetadata of None \<Rightarrow> eb_metadata s | Some m \<Rightarrow> eb_metadata s ++ m);
        entry =
        (if ad_currency desc = Btc
         then debit_amount M (eb_entry s) (ad_id desc) (btcWithFees s) debitMetadata
         else debit_amount M (eb_entry s) (ad_id desc) (usdWithFees s) debitMetadata)
      in \<lparr>eb_entry = entry, eb_metadata = eb_metadata s,
          eb_staticAccountIds = eb_staticAccountIds s,
          usdWithFees = usdWithFees s, btcWithFees = btcWithFees s,
          usdBankFee = usdBankFee s, btcBankFee = btcBankFee s,
          debitCurrency = ad_currency desc\<rparr>)"

definition debitLnd :: "('e, 'x) medici_scheme \<Rightarrow> 'e EntryBuilderDebitState \<Rightarrow> 'e EntryBuilderCreditState" where
  "debitLnd M s = debitAccount M s lndLedgerAccountDescriptor None"

definition debitColdStorage :: "('e, 'x) medici_scheme \<Rightarrow> 'e EntryBuilderDebitState \<Rightarrow> 'e EntryBuilderCreditState" where
  "debitColdStorage M s = debitAccount M s coldStorageAccountDescriptor None"

definition addBtcToUsdConversionToDealer ::
  "('e, 'x) medici_scheme \<Rightarrow> StaticAccountIds \<Rightarrow> 'e \<Rightarrow> Amount \<Rightarrow> Amount \<Rightarrow> TxMetadata \<Rightarrow> 'e" where
  "addBtcToUsdConversionToDealer M ids e btcAmount usdAmount metadata =
     debit_amount M (credit_amount M e (dealerBtcAccountId ids) btcAmount metadata)
       (dealerUsdAccountId ids) usdAmount metadata"

definition addUsdToBtcConversionToEntry ::
  "('e, 'x) medici_scheme \<Rightarrow> StaticAccountIds \<Rightarrow> 'e \<Rightarrow> Amount \<Rightarrow> Amount \<Rightarrow> TxMetadata \<Rightarrow> 'e" where
  "addUsdToBtcConversionToEntry M ids e btcAmount usdAmount metadata =
     credit_amount M (debit_amount M e (dealerBtcAccountId ids) btcAmount metadata)
       (dealerUsdAccountId ids) usdAmount metadata"

definition creditAccount ::
  "('e, 'x) medici_scheme \<Rightarrow> 'e EntryBuilderCreditState \<Rightarrow> LedgerAccountDescriptor \<Rightarrow> 'e" where
  "creditAccount M s desc =
     (let usdWithOutFee = calc_sub (usdWithFees s) (usdBankFee s);
          btcWithOutFee = calc_sub (btcWithFees s) (btcBankFee s);
          ids = eb_staticAccountIds s; metadata = eb_metadata s;
          e0 = eb_entry s;
          e1 = (if debitCurrency s = Usd \<and> ad_currency desc = Usd \<and> 0 < amount (usdBankFee s)
                then addUsdToBtcConversionToEntry M ids e0 (btcBankFee s) (usdBankFee s) metadata
                else e0);
          e2 = (if debitCurrency s = Usd \<and> ad_currency desc = Btc
                then addUsdToBtcConversionToEntry M ids e1 (btcWithFees s) (usdWithFees s) metadata
                else e1);
          e3 = (if debitCurrency s = Btc \<and> ad_currency desc = Usd
                then addBtcToUsdConversionToDealer M ids e2 btcWithOutFee usdWithOutFee metadata
                else e2);
          creditAmount = (if ad_currency desc = Usd then usdWithOutFee else btcWithOutFee)
      in removeZeroAmountEntries M (credit_amount M e3 (ad_id desc) creditAmount metadata))"

definition creditLnd :: "('e, 'x) medici_scheme \<Rightarrow> 'e EntryBuilderCreditState \<Rightarrow> 'e" where
  "creditLnd M s = creditAccount M s lndLedgerAccountDescriptor"

definition creditColdStorage :: "('e, 'x) medici_scheme \<Rightarrow> 'e EntryBuilderCreditState \<Rightarrow> 'e" where
  "creditColdStorage M s = creditAccount M s coldStorageAccountDescriptor"

section \<open>LegacyEntryBuilder\<close>

record 'e LegacyEntryBuilderDebitState = "'e EntryBuilderConfig" +
  lb_fee :: Amount

record 'e LegacyEntryBuilderCreditState = "'e LegacyEntryBuilderDebitState" +
  lb_debitAmount :: Amount

definition legacy_withFee ::
  "('e, 'x) medici_scheme \<Rightarrow> 'e EntryBuilderConfig \<Rightarrow> Amount \<Rightarrow> 'e LegacyEntryBuilderDebitState" where
  "legacy_withFee M c fee =
     (let entry =
        (if 0 < amount fee
         then credit_amount M (eb_entry c) (bankOwnerAccountId (eb_staticAccountIds c)) fee
                (eb_metadata c)
         else eb_entry c)
      in \<lparr>eb_entry = entry, eb_metadata = eb_metadata c,
          eb_staticAccountIds = eb_staticAccountIds c, lb_fee = fee\<rparr>)"

definition legacy_withoutFee ::
  "('e, 'x) medici_scheme \<Rightarrow> 'e EntryBuilderConfig \<Rightarrow> 'e LegacyEntryBuilderDebitState" where
  "legacy_withoutFee M c = legacy_withFee M c ZERO_SATS"

definition legacy_debitAccount ::
  "('e, 'x) medici_scheme \<Rightarrow> 'e LegacyEntryBuilderDebitState \<Rightarrow> LedgerAccountId \<Rightarrow> Amount
     \<Rightarrow> TxMetadata option \<Rightarrow> 'e LegacyEntryBuilderCreditState" where
  "legacy_debitAccount M s accountId amt additionalMetadata =
     (let debitMetadata =
        (case additionalMetadata of None \<Rightarrow> eb_metadata s | Some m \<Rightarrow> eb_metadata s ++ m)
      in \<lparr>eb_entry = debit_amount M (eb_entry s) accountId amt debitMetadata,
          eb_metadata = eb_metadata s, eb_staticAccountIds = eb_staticAccountIds s,
          lb_fee = lb_fee s, lb_debitAmount = amt\<rparr>)"

definition legacy_debitLnd ::
  "('e, 'x) medici_scheme \<Rightarrow> 'e LegacyEntryBuilderDebitState \<Rightarrow> Amount \<Rightarrow> 'e LegacyEntryBuilderCreditState" where
  "legacy_debitLnd M s amt =
     \<lparr>eb_entry = debit_amount M (eb_entry s) lndLedgerAccountId amt (eb_metadata s),
      eb_metadata = eb_metadata s, eb_staticAccountIds = eb_staticAccountIds s,
      lb_fee = lb_fee s, lb_debitAmount = amt\<rparr>"

definition addUsdToDealer ::
  "('e, 'x) medici_scheme \<Rightarrow> StaticAccountIds \<Rightarrow> 'e \<Rightarrow> Amount \<Rightarrow> Amount \<Rightarrow> TxMetadata \<Rightarrow> 'e" where
  "addUsdToDealer M ids e btcAmount usdAmount metadata =
     debit_amount M (credit_amount M e (dealerBtcAccountId ids) btcAmount metadata)
       (dealerUsdAccountId ids) usdAmount metadata"

definition withdrawUsdFromDealer ::
  "('e, 'x) medici_scheme \<Rightarrow> StaticAccountIds \<Rightarrow> 'e \<Rightarrow> Amount \<Rightarrow> Amount \<Rightarrow> TxMetadata \<Rightarrow> 'e" where
  "withdrawUsdFromDealer M ids e btcAmount usdAmount metadata =
     credit_amount M (debit_amount M e (dealerBtcAccountId ids) btcAmount metadata)
       (dealerUsdAccountId ids) usdAmount metadata"

text \<open>
  The debit decides which of the two credit stages follows; the stage after a debit in
  dollars takes an optional amount in bitcoin and conversely.
\<close>

definition legacy_creditLnd_usd ::
  "('e, 'x) medici_scheme \<Rightarrow> 'e LegacyEntryBuilderCreditState \<Rightarrow> Amount \<Rightarrow> 'e" where
  "legacy_creditLnd_usd M s btcCreditAmount =
     (let e1 = withdrawUsdFromDealer M (eb_staticAccountIds s) (eb_entry s) btcCreditAmount
                 (lb_debitAmount s) (eb_metadata s);
          creditAmount = calc_sub btcCreditAmount (lb_fee s)
      in removeZeroAmountEntries M
           (entry_credit M e1 lndLedgerAccountId (Number_of (amount creditAmount))
              (with_currency (eb_metadata s) (currency btcCreditAmount))))"

definition legacy_creditAccount_usd ::
  "('e, 'x) medici_scheme \<Rightarrow> 'e LegacyEntryBuilderCreditState \<Rightarrow> LedgerAccountId \<Rightarrow> Amount option \<Rightarrow> 'e" where
  "legacy_creditAccount_usd M s accountId amt =
     (let e1 = (case amt of
                  Some btc \<Rightarrow> withdrawUsdFromDealer M (eb_staticAccountIds s) (eb_entry s) btc
                                (lb_debitAmount s) (eb_metadata s)
                | None \<Rightarrow> eb_entry s);
          creditAmount = (case amt of Some btc \<Rightarrow> calc_sub btc (lb_fee s) | None \<Rightarrow> lb_debitAmount s)
      in removeZeroAmountEntries M (credit_amount M e1 accountId creditAmount (eb_metadata s)))"

definition legacy_creditLnd_btc ::
  "('e, 'x) medici_scheme \<Rightarrow> 'e LegacyEntryBuilderCreditState \<Rightarrow> 'e" where
  "legacy_creditLnd_btc M s =
     removeZeroAmountEntries M
       (credit_amount M (eb_entry s) lndLedgerAccountId
          (calc_sub (lb_debitAmount s) (lb_fee s)) (eb_metadata s))"

definition legacy_creditAccount_btc ::
  "('e, 'x) medici_scheme \<Rightarrow> 'e LegacyEntryBuilderCreditState \<Rightarrow> LedgerAccountId \<Rightarrow> Amount option \<Rightarrow> 'e" where
  "legacy_creditAccount_btc M s accountId amt =
     (let e1 = (case amt of
                  Some usd \<Rightarrow> addUsdToDealer M (eb_staticAccountIds s) (eb_entry s)
                                (lb_debitAmount s) usd (eb_metadata s)
                | None \<Rightarrow> eb_entry s);
          creditAmount = (case amt of Some usd \<Rightarrow> usd
                          | None \<Rightarrow> calc_sub (lb_debitAmount s) (lb_fee s))
      in removeZeroAmountEntries M (credit_amount M e1 accountId creditAmount (eb_metadata s)))"

definition legacy_creditLnd ::
  "('e, 'x) medici_scheme \<Rightarrow> 'e LegacyEntryBuilderCreditState \<Rightarrow> Amount \<Rightarrow> 'e" where
  "legacy_creditLnd M s btcCreditAmount =
     (if currency (lb_debitAmount s) = Btc then legacy_creditLnd_btc M s
      else legacy_creditLnd_usd M s btcCreditAmount)"

definition legacy_creditAccount ::
  "('e, 'x) medici_scheme \<Rightarrow> 'e LegacyEntryBuilderCreditState \<Rightarrow> LedgerAccountId \<Rightarrow> Amount option \<Rightarrow> 'e" where
  "legacy_creditAccount M s accountId amt =
     (if currency (lb_debitAmount s) = Btc then legacy_creditAccount_btc M s accountId amt
      else legacy_creditAccount_usd M s accountId amt)"

section \<open>What a journal moves\<close>

fun num_val :: "jsnum \<Rightarrow> rat" where
  "num_val (Num q) = q"
| "num_val _ = 0"

fun is_finite_num :: "jsnum \<Rightarrow> bool" where
  "is_finite_num (Num _) = True"
| "is_finite_num _ = False"

definition tx_net :: "txn \<Rightarrow> rat" where
  "tx_net t = num_val (tx_credit t) - num_val (tx_debit t)"

definition tx_currency :: "txn \<Rightarrow> WalletCurrency option" where
  "tx_currency t = (case tx_meta t ''currency'' of Some (MCur c) \<Rightarrow> Some c | _ \<Rightarrow> None)"

definition proper_txn :: "txn \<Rightarrow> bool" where
  "proper_txn t = (is_finite_num (tx_credit t) \<and> is_finite_num (tx_debit t) \<and> tx_currency t \<noteq> None)"

definition net :: "WalletCurrency \<Rightarrow> txn list \<Rightarrow> rat" where
  "net c ts = sum_list (map tx_net (filter (\<lambda>t. tx_currency t = Some c) ts))"

definition account_net :: "LedgerAccountId \<Rightarrow> WalletCurrency \<Rightarrow> txn list \<Rightarrow> rat" where
  "account_net a c ts = net c (filter (\<lambda>t. tx_account t = a) ts)"

definition balanced :: "txn list \<Rightarrow> bool" where
  "balanced ts = (list_all proper_txn ts \<and> net Btc ts = 0 \<and> net Usd ts = 0)"

text \<open>A pipeline of the builder, as the facade composes it.\<close>

definition build_entry ::
  "('e, 'x) medici_scheme \<Rightarrow> 'e EntryBuilderConfig \<Rightarrow> Amount \<Rightarrow> Amount \<Rightarrow> Amount \<Rightarrow> Amount
     \<Rightarrow> LedgerAccountDescriptor \<Rightarrow> TxMetadata option \<Rightarrow> LedgerAccountDescriptor \<Rightarrow> 'e" where
  "build_entry M c usd btc usdFee btcFee debitDesc additional creditDesc =
     creditAccount M
       (debitAccount M (withBankFee M (withTotalAmount c usd btc) usdFee btcFee) debitDesc additional)
       creditDesc"

text \<open>Entries kept as plain lists of transactions.\<close>

definition list_medici :: "txn list medici" where
  "list_medici =
     \<lparr>entry_credit = (\<lambda>e a n m. e @ [\<lparr>tx_account = a, tx_credit = n, tx_debit = Num 0, tx_meta = m\<rparr>]),
      entry_debit = (\<lambda>e a n m. e @ [\<lparr>tx_account = a, tx_credit = Num 0, tx_debit = n, tx_meta = m\<rparr>]),
      entry_transactions = (\<lambda>e. e), entry_set_transactions = (\<lambda>e ts. ts)\<rparr>"

subsection \<open>Facts on transaction lists\<close>

lemma net_simps [simp, ledger_simps]:
  "net c [] = 0"
  "net c (t # ts) = (if tx_currency t = Some c then tx_net t else 0) + net c ts"
  "net c (ts @ us) = net c ts + net c us"
  by (simp_all add: net_def)

lemma account_net_simps [simp, ledger_simps]:
  "account_net a c [] = 0"
  "account_net a c (t # ts) =
     (if tx_account t = a \<and> tx_currency t = Some c then tx_net t else 0) + account_net a c ts"
  "account_net a c (ts @ us) = account_net a c ts + account_net a c us"
  by (simp_all add: account_net_def)

lemma net_drop_zero:
  "(\<And>t. t \<in> set ts \<Longrightarrow> \<not> P t \<Longrightarrow> tx_net t = 0) \<Longrightarrow> net c (filter P ts) = net c ts"
  by (induction ts) auto

lemma account_net_drop_zero:
  "(\<And>t. t \<in> set ts \<Longrightarrow> \<not> P t \<Longrightarrow> tx_net t = 0) \<Longrightarrow> account_net a c (filter P ts) = account_net a c ts"
  by (induction ts) auto

lemma zero_txn_net:
  "js_eq (tx_debit t) (Num 0) \<and> js_eq (tx_credit t) (Num 0) \<Longrightarrow> tx_net t = 0"
  by (simp add: tx_net_def js_eq_def)

subsection \<open>The interface of medici\<close>

locale medici_entry =
  fixes M :: "('e, 'x) medici_scheme"
  assumes transactions_credit:
    "entry_transactions M (entry_credit M e a n m) =
       entry_transactions M e @ [\<lparr>tx_account = a, tx_credit = n, tx_debit = Num 0, tx_meta = m\<rparr>]"
    and transactions_debit:
    "entry_transactions M (entry_debit M e a n m) =
       entry_transactions M e @ [\<lparr>tx_account = a, tx_credit = Num 0, tx_debit = n, tx_meta = m\<rparr>]"
    and transactions_set: "entry_transactions M (entry_set_transactions M e ts) = ts"
begin

lemma transactions_credit_amount [ledger_simps]:
  "is_safe_int (amount x) \<Longrightarrow> entry_transactions M (credit_amount M e a x m) =
     entry_transactions M e @
       [\<lparr>tx_account = a, tx_credit = Num (of_int (amount x)), tx_debit = Num 0,
         tx_meta = with_currency m (currency x)\<rparr>]"
  by (simp add: credit_amount_def transactions_credit Number_of_exact)

lemma transactions_debit_amount [ledger_simps]:
  "is_safe_int (amount x) \<Longrightarrow> entry_transactions M (debit_amount M e a x m) =
     entry_transactions M e @
       [\<lparr>tx_account = a, tx_credit = Num 0, tx_debit = Num (of_int (amount x)),
         tx_meta = with_currency m (currency x)\<rparr>]"
  by (simp add: debit_amount_def transactions_debit Number_of_exact)

lemma net_removeZero [ledger_simps]:
  "net c (entry_transactions M (removeZeroAmountEntries M e)) = net c (entry_transactions M e)"
  unfolding removeZeroAmountEntries_def transactions_set
  by (rule net_drop_zero) (simp add: zero_txn_net)

lemma account_net_removeZero [ledger_simps]:
  "account_net a c (entry_transactions M (removeZeroAmountEntries M e)) =
     account_net a c (entry_transactions M e)"
  unfolding removeZeroAmountEntries_def transactions_set
  by (rule account_net_drop_zero) (simp add: zero_txn_net)

lemma proper_removeZero:
  "list_all proper_txn (entry_transactions M e) \<Longrightarrow>
   list_all proper_txn (entry_transactions M (removeZeroAmountEntries M e))"
  by (auto simp: removeZeroAmountEntries_def transactions_set list_all_iff)

end

lemmas entry_simps = withTotalAmount_def withBankFee_def debitAccount_def creditAccount_def
  addUsdToBtcConversionToEntry_def addBtcToUsdConversionToDealer_def calc_sub_def Let_def
  build_entry_def

lemmas legacy_simps = legacy_withFee_def legacy_debitAccount_def legacy_debitLnd_def
  legacy_creditLnd_def legacy_creditAccount_def legacy_creditLnd_usd_def
  legacy_creditAccount_usd_def legacy_creditLnd_btc_def legacy_creditAccount_btc_def
  addUsdToDealer_def withdrawUsdFromDealer_def calc_sub_def Let_def

lemmas txn_simps = tx_net_def tx_currency_def proper_txn_def

context medici_entry
begin

lemma build_entry_nets:
  fixes u b uf bf :: int and d c :: LedgerAccountDescriptor and add :: "TxMetadata option"
  assumes "entry_transactions M (eb_entry cfg) = []"
    and "is_safe_int u" "is_safe_int b" "is_safe_int uf" "is_safe_int bf"
      "is_safe_int (u - uf)" "is_safe_int (b - bf)"
    and "0 \<le> uf" and "0 \<le> bf"
  defines "ts \<equiv> entry_transactions M (build_entry M cfg (UsdPaymentAmount u) (BtcPaymentAmount b)
      (UsdPaymentAmount uf) (BtcPaymentAmount bf) d add c)"
  shows "list_all proper_txn ts" and "net Usd ts = 0"
    and "net Btc ts = (if ad_currency d = Usd \<and> ad_currency c = Usd \<and> uf = 0 then of_int bf else 0)"
proof -
  show "list_all proper_txn ts"
    unfolding ts_def build_entry_def creditAccount_def Let_def
    by (rule proper_removeZero; cases "ad_currency c"; cases "ad_currency d")
      (use assms(1-7) in \<open>simp_all add: ledger_simps entry_simps txn_simps UsdPaymentAmount_def BtcPaymentAmount_def\<close>)
  show "net Usd ts = 0"
    unfolding ts_def
    by (cases "ad_currency c"; cases "ad_currency d")
      (use assms(1-9) in \<open>simp_all add: ledger_simps entry_simps txn_simps UsdPaymentAmount_def BtcPaymentAmount_def\<close>)
  show "net Btc ts = (if ad_currency d = Usd \<and> ad_currency c = Usd \<and> uf = 0 then of_int bf else 0)"
    unfolding ts_def
    by (cases "ad_currency c"; cases "ad_currency d")
      (use assms(1-9) in \<open>simp_all add: ledger_simps entry_simps txn_simps UsdPaymentAmount_def BtcPaymentAmount_def\<close>)
qed

end

interpretation list_book: medici_entry list_medici
  by unfold_locales (simp_all add: list_medici_def)

context medici_entry
begin

lemma build_entry_accounts:
  fixes u b uf bf :: int and d c :: LedgerAccountDescriptor and add :: "TxMetadata option"
  assumes "entry_transactions M (eb_entry cfg) = []"
    and "is_safe_int u" "is_safe_int b" "is_safe_int uf" "is_safe_int bf"
      "is_safe_int (u - uf)" "is_safe_int (b - bf)"
    and "0 \<le> uf" and "0 \<le> bf"
    and "distinct [ad_id d, ad_id c, bankOwnerAccountId ids, dealerBtcAccountId ids, dealerUsdAccountId ids]"
    and "eb_staticAccountIds cfg = ids"
  defines "ts \<equiv> entry_transactions M (build_entry M cfg (UsdPaymentAmount u) (BtcPaymentAmount b)
      (UsdPaymentAmount uf) (BtcPaymentAmount bf) d add c)"
  shows "account_net (ad_id d) (ad_currency d) ts = - of_int (if ad_currency d = Usd then u else b)"
    and "account_net (ad_id c) (ad_currency c) ts =
      of_int (if ad_currency c = Usd then u - uf else b - bf)"
    and "account_net (bankOwnerAccountId ids) Btc ts = of_int bf"
proof -
  note simps = ledger_simps entry_simps txn_simps UsdPaymentAmount_def BtcPaymentAmount_def
  have "distinct (rev [ad_id d, ad_id c, bankOwnerAccountId ids, dealerBtcAccountId ids, dealerUsdAccountId ids])"
    using assms(10) by (simp only: distinct_rev)
  note facts = assms(1-9,11) assms(10) [simplified] this [simplified]
  show "account_net (ad_id d) (ad_currency d) ts = - of_int (if ad_currency d = Usd then u else b)"
    unfolding ts_def using facts by (cases "ad_currency c"; cases "ad_currency d") (simp_all add: simps)
  show "account_net (ad_id c) (ad_currency c) ts =
      of_int (if ad_currency c = Usd then u - uf else b - bf)"
    unfolding ts_def using facts by (cases "ad_currency c"; cases "ad_currency d") (simp_all add: simps)
  show "account_net (bankOwnerAccountId ids) Btc ts = of_int bf"
    unfolding ts_def using facts by (cases "ad_currency c"; cases "ad_currency d") (simp_all add: simps)
qed

lemma legacy_nets:
  fixes n f m :: int and add :: "TxMetadata option" and cfg :: "'e EntryBuilderConfig"
    and a b :: LedgerAccountId and two :: bool
  assumes "entry_transactions M (eb_entry cfg) = []"
    and "is_safe_int n" "is_safe_int f" "is_safe_int m" "is_safe_int (n - f)" "is_safe_int (m - f)"
    and "0 \<le> f"
  defines "s \<equiv> legacy_withFee M cfg (BtcPaymentAmount f)"
  defines "btc \<equiv> entry_transactions M (legacy_creditAccount_btc M
      (legacy_debitAccount M s a (BtcPaymentAmount n) add) b (if two then Some (UsdPaymentAmount m) else None))"
    and "usd \<equiv> entry_transactions M (legacy_creditAccount_usd M
      (legacy_debitAccount M s a (UsdPaymentAmount n) add) b (if two then Some (BtcPaymentAmount m) else None))"
  shows "list_all proper_txn btc" and "list_all proper_txn usd"
    and "net Usd btc = 0" and "net Btc btc = (if two then of_int f else 0)"
    and "net Usd usd = 0" and "net Btc usd = (if two then 0 else of_int f)"
proof -
  show "list_all proper_txn btc"
    unfolding btc_def legacy_creditAccount_btc_def Let_def
    by (rule proper_removeZero; cases two)
      (use assms(1-7) in \<open>simp_all add: s_def ledger_simps legacy_simps txn_simps UsdPaymentAmount_def BtcPaymentAmount_def\<close>)
  show "list_all proper_txn usd"
    unfolding usd_def legacy_creditAccount_usd_def Let_def
    by (rule proper_removeZero; cases two)
      (use assms(1-7) in \<open>simp_all add: s_def ledger_simps legacy_simps txn_simps UsdPaymentAmount_def BtcPaymentAmount_def\<close>)
  show "net Usd btc = 0" "net Btc btc = (if two then of_int f else 0)"
    "net Usd usd = 0" "net Btc usd = (if two then 0 else of_int f)"
    unfolding btc_def usd_def
    by (cases two; use assms(1-7) in \<open>simp add: s_def ledger_simps legacy_simps txn_simps UsdPaymentAmount_def BtcPaymentAmount_def\<close>)+
qed

lemma legacy_lnd_balanced:
  fixes n f m :: int and add :: "TxMetadata option" and cfg :: "'e EntryBuilderConfig"
  assumes "entry_transactions M (eb_entry cfg) = []"
    and "is_safe_int n" "is_safe_int f" "is_safe_int m" "is_safe_int (n - f)" "is_safe_int (m - f)"
    and "0 \<le> f"
  defines "s \<equiv> legacy_withFee M cfg (BtcPaymentAmount f)"
  shows "balanced (entry_transactions M (legacy_creditLnd_btc M (legacy_debitAccount M s a (BtcPaymentAmount n) add)))"
    and "balanced (entry_transactions M
          (legacy_creditLnd_usd M (legacy_debitAccount M s a (UsdPaymentAmount n) add) (BtcPaymentAmount m)))"
  unfolding balanced_def legacy_creditLnd_btc_def legacy_creditLnd_usd_def Let_def
  by (intro conjI proper_removeZero;
      use assms(1-7) in \<open>simp add: s_def ledger_simps legacy_simps txn_simps transactions_credit Number_of_exact
        UsdPaymentAmount_def BtcPaymentAmount_def\<close>)+

lemma legacy_builder_balances:
  fixes n f m :: int and add :: "TxMetadata option" and cfg :: "'e EntryBuilderConfig"
    and a b :: LedgerAccountId and cur :: WalletCurrency
  assumes "entry_transactions M (eb_entry cfg) = []"
    and hyps: "is_safe_int n" "is_safe_int f" "is_safe_int m" "is_safe_int (n - f)" "is_safe_int (m - f)"
    and "0 \<le> f"
  defines "s \<equiv> legacy_debitAccount M (legacy_withFee M cfg (BtcPaymentAmount f)) a
           \<lparr>currency = cur, amount = n\<rparr> add"
    and "other \<equiv> (if cur = Btc then UsdPaymentAmount m else BtcPaymentAmount m)"
  shows "balanced (entry_transactions M (legacy_creditLnd M s (BtcPaymentAmount m)))
    \<and> (balanced (entry_transactions M (legacy_creditAccount M s b None)) \<longleftrightarrow> f = 0 \<or> cur = Btc)
    \<and> (balanced (entry_transactions M (legacy_creditAccount M s b (Some other))) \<longleftrightarrow> f = 0 \<or> cur = Usd)"
proof -
  note nets = legacy_nets [OF assms(1) hyps assms(7), of a add b]
  note lnd = legacy_lnd_balanced [OF assms(1) hyps assms(7), of a add]
  have amt: "currency (lb_debitAmount s) = cur"
    by (simp add: s_def legacy_debitAccount_def Let_def)
  show ?thesis
  proof (cases cur)
    case Btc
    then show ?thesis
      using lnd(1) nets(1,3,4) [of True] nets(1,3,4) [of False] amt
      by (simp add: legacy_creditLnd_def legacy_creditAccount_def s_def other_def balanced_def BtcPaymentAmount_def)
  next
    case Usd
    then show ?thesis
      using lnd(2) nets(2,5,6) [of True] nets(2,5,6) [of False] amt
      by (simp add: legacy_creditLnd_def legacy_creditAccount_def s_def other_def balanced_def UsdPaymentAmount_def)
  qed
qed

end

text \<open>
  (C3) \<^bold>\<open>Journals of the entry builder balance in each currency.\<close> For non-negative fees and
  amounts that a number represents exactly, the journal built by
  \<^verbatim>\<open>withTotalAmount().withBankFee().debitAccount().creditAccount()\<close> from an empty entry debits as
  much as it credits in bitcoin and in dollars apart, for every pair of wallet currencies, in
  all cases but one: a dollar to dollar transfer whose bank fee is positive in satoshis and
  zero in cents credits the fee to the bank owner without debiting the dealer.
\<close>

theorem EntryBuilder_balances:
  assumes "medici_entry M" and "entry_transactions M (eb_entry cfg) = []"
    and "\<forall>n \<in> {u, b, uf, bf, u - uf, b - bf}. is_safe_int n" and "0 \<le> uf" and "0 \<le> bf"
  shows "balanced (entry_transactions M
      (build_entry M cfg (UsdPaymentAmount u) (BtcPaymentAmount b)
         (UsdPaymentAmount uf) (BtcPaymentAmount bf) d add c))
    \<longleftrightarrow> \<not> (ad_currency d = Usd \<and> ad_currency c = Usd \<and> uf = 0 \<and> 0 < bf)"
  using medici_entry.build_entry_nets [OF assms(1,2), of u b uf bf d add c] assms(3-5)
  by (auto simp: balanced_def)

theorem EntryBuilder_balances_witness:
  "balanced (entry_transactions list_medici
      (build_entry list_medici
         \<lparr>eb_entry = [], eb_metadata = Map.empty,
          eb_staticAccountIds = \<lparr>bankOwnerAccountId = ''b'', dealerBtcAccountId = ''db'', dealerUsdAccountId = ''du''\<rparr>\<rparr>
         (UsdPaymentAmount 120) (BtcPaymentAmount 5000) (UsdPaymentAmount 1) (BtcPaymentAmount 40)
         \<lparr>ad_id = ''s'', ad_currency = Usd\<rparr> None \<lparr>ad_id = ''r'', ad_currency = Btc\<rparr>))"
  using EntryBuilder_balances [OF list_book.medici_entry_axioms,
      of "\<lparr>eb_entry = [], eb_metadata = Map.empty,
          eb_staticAccountIds = \<lparr>bankOwnerAccountId = ''b'', dealerBtcAccountId = ''db'', dealerUsdAccountId = ''du''\<rparr>\<rparr>"
        120 5000 1 40 "\<lparr>ad_id = ''s'', ad_currency = Usd\<rparr>" None "\<lparr>ad_id = ''r'', ad_currency = Btc\<rparr>"]
  by (simp add: list_medici_def is_safe_int_def)

text \<open>
  (C4) \<^bold>\<open>The sender pays the total, the recipient gets it less the fee, the bank gets the
  fee.\<close> When the five ledger accounts of a transfer are distinct, the journal of the entry
  builder takes exactly the amount with fees from the debited account in its currency, gives
  exactly the amount without fees to the credited account in its currency, and gives the bank
  owner exactly the fee in satoshis, also when transactions of amount zero are removed.
\<close>

theorem EntryBuilder_moves:
  assumes "medici_entry M" and "entry_transactions M (eb_entry cfg) = []"
    and "\<forall>n \<in> {u, b, uf, bf, u - uf, b - bf}. is_safe_int n" and "0 \<le> uf" and "0 \<le> bf"
    and "eb_staticAccountIds cfg = ids"
    and "distinct [ad_id d, ad_id c, bankOwnerAccountId ids, dealerBtcAccountId ids, dealerUsdAccountId ids]"
    and "ts = entry_transactions M (build_entry M cfg (UsdPaymentAmount u) (BtcPaymentAmount b)
           (UsdPaymentAmount uf) (BtcPaymentAmount bf) d add c)"
  shows "account_net (ad_id d) (ad_currency d) ts = - of_int (if ad_currency d = Usd then u else b)
      \<and> account_net (ad_id c) (ad_currency c) ts = of_int (if ad_currency c = Usd then u - uf else b - bf)
      \<and> account_net (bankOwnerAccountId ids) Btc ts = of_int bf"
  using medici_entry.build_entry_accounts [OF assms(1,2) _ _ _ _ _ _ assms(4,5) assms(7) assms(6), of u b add] assms(3)
  unfolding assms(8) by auto

theorem EntryBuilder_moves_witness:
  "account_net ''r'' Btc (entry_transactions list_medici
      (build_entry list_medici
         \<lparr>eb_entry = [], eb_metadata = Map.empty,
          eb_staticAccountIds = \<lparr>bankOwnerAccountId = ''b'', dealerBtcAccountId = ''db'', dealerUsdAccountId = ''du''\<rparr>\<rparr>
         (UsdPaymentAmount 120) (BtcPaymentAmount 5000) (UsdPaymentAmount 1) (BtcPaymentAmount 40)
         \<lparr>ad_id = ''s'', ad_currency = Usd\<rparr> None \<lparr>ad_id = ''r'', ad_currency = Btc\<rparr>)) = 4960"
  using EntryBuilder_moves [OF list_book.medici_entry_axioms _ _ _ _ refl _ refl,
      of "\<lparr>eb_entry = [], eb_metadata = Map.empty,
          eb_staticAccountIds = \<lparr>bankOwnerAccountId = ''b'', dealerBtcAccountId = ''db'', dealerUsdAccountId = ''du''\<rparr>\<rparr>"
        120 5000 1 40 "\<lparr>ad_id = ''s'', ad_currency = Usd\<rparr>" "\<lparr>ad_id = ''r'', ad_currency = Btc\<rparr>" None]
  by (simp add: list_medici_def is_safe_int_def)

text \<open>
  (C5) \<^bold>\<open>When the legacy builder balances.\<close> After \<^verbatim>\<open>withFee(fee)\<close> and a debit of an account,
  crediting the lightning account always balances in both currencies; crediting another account
  balances in both if and only if there is no fee or the transfer goes through bitcoin in the
  direction the fee is subtracted from: bitcoin to bitcoin, or dollars to bitcoin. The two
  remaining uses (bitcoin to dollars, dollars to dollars) with a fee leave the fee uncovered;
  the type of the builder does not exclude them.
\<close>

theorem LegacyEntryBuilder_balances:
  assumes "medici_entry M" and "entry_transactions M (eb_entry cfg) = []"
    and "\<forall>k \<in> {n, f, m, n - f, m - f}. is_safe_int k" and "0 \<le> f"
    and "s = legacy_debitAccount M (legacy_withFee M cfg (BtcPaymentAmount f)) a
           \<lparr>currency = cur, amount = n\<rparr> add"
    and "other = (if cur = Btc then UsdPaymentAmount m else BtcPaymentAmount m)"
  shows "balanced (entry_transactions M (legacy_creditLnd M s (BtcPaymentAmount m)))
    \<and> (balanced (entry_transactions M (legacy_creditAccount M s b None)) \<longleftrightarrow> f = 0 \<or> cur = Btc)
    \<and> (balanced (entry_transactions M (legacy_creditAccount M s b (Some other))) \<longleftrightarrow> f = 0 \<or> cur = Usd)"
  using medici_entry.legacy_builder_balances [OF assms(1,2) _ _ _ _ _ assms(4), of n m a cur add b] assms(3)
  unfolding assms(5,6) by simp

theorem LegacyEntryBuilder_balances_witness:
  "\<not> balanced (entry_transactions list_medici (legacy_creditAccount list_medici
       (legacy_debitAccount list_medici
          (legacy_withFee list_medici
             \<lparr>eb_entry = [], eb_metadata = Map.empty,
              eb_staticAccountIds = \<lparr>bankOwnerAccountId = ''b'', dealerBtcAccountId = ''db'', dealerUsdAccountId = ''du''\<rparr>\<rparr>
             (BtcPaymentAmount 5))
          ''s'' \<lparr>currency = Btc, amount = 1000\<rparr> None)
       ''r'' (Some (UsdPaymentAmount 20))))"
  using LegacyEntryBuilder_balances [OF list_book.medici_entry_axioms _ _ _ refl refl,
      of "\<lparr>eb_entry = [], eb_metadata = Map.empty,
              eb_staticAccountIds = \<lparr>bankOwnerAccountId = ''b'', dealerBtcAccountId = ''db'', dealerUsdAccountId = ''du''\<rparr>\<rparr>"
        1000 5 20 "''s''" Btc None "''r''"]
  by (simp add: list_medici_def is_safe_int_def)

end
