(* ===== verification/Invoices.thy ===== *)
theory Invoices
  imports Ledger_Entry
begin

text \<open>
  Lightning invoices: decoding (\<^verbatim>\<open>domain/bitcoin/lightning/ln-invoice.ts\<close>), the final hops used
  to decide on probing (\<^verbatim>\<open>domain/bitcoin/lightning/index.ts\<close>), expirations, and the builder,
  receiver and validator of \<^verbatim>\<open>domain/wallet-invoices\<close>.

  The BOLT11 parser is the package \<^verbatim>\<open>invoices\<close>, the registration of an invoice is lnd's: both
  are function arguments, as are the dealer's prices and the random secret with its hash.
\<close>

section \<open>Decoding\<close>

record Hop =
  baseFeeMTokens :: "string option"
  channel :: "string option"
  hop_cltvDelta :: "jsnum option"
  feeRate :: "jsnum option"
  nodePubkey :: Pubkey

record LnInvoiceFeature =
  feature_bit :: jsnum
  isRequired :: bool
  feature_type :: string

record LnInvoice =
  destination :: Pubkey
  inv_paymentHash :: PaymentHash
  paymentRequest :: string
  milliSatsAmount :: jsnum
  inv_description :: string
  cltvDelta :: "jsnum option"
  inv_amount :: "jsnum option"
  paymentAmount :: "Amount option"
  routeHints :: "Hop list list"
  paymentSecret :: string
  features :: "LnInvoiceFeature list"
  expiresAt :: date
  isExpired :: bool

text \<open>What \<^verbatim>\<open>parsePaymentRequest\<close> of the package \<^verbatim>\<open>invoices\<close> returns, or the message it throws.\<close>

record ParsedPaymentRequest =
  ppr_payment :: "string option"
  ppr_cltv_delta :: "jsnum option"
  ppr_expires_at :: date
  ppr_is_expired :: "bool option"
  ppr_safe_tokens :: "jsnum option"
  ppr_routes :: "Hop list list option"
  ppr_description :: "string option"
  ppr_id :: string
  ppr_destination :: string
  ppr_features :: "LnInvoiceFeature list option"

fun starts_with :: "string \<Rightarrow> string \<Rightarrow> bool" where
  "starts_with [] s = True"
| "starts_with (c # cs) [] = False"
| "starts_with (c # cs) (d # ds) = (c = d \<and> starts_with cs ds)"

fun str_includes :: "string \<Rightarrow> string \<Rightarrow> bool" where
  "str_includes needle [] = (needle = [])"
| "str_includes needle (c # cs) = (starts_with needle (c # cs) \<or> str_includes needle cs)"

text \<open>\<^verbatim>\<open>toLowerCase\<close> on ASCII text, which is what a BOLT11 request is.\<close>

definition ascii_lower :: "char \<Rightarrow> char" where
  "ascii_lower c =
     (let n = of_char c :: nat in if 65 \<le> n \<and> n \<le> 90 then char_of (n + 32) else c)"

definition toLowerCase :: "string \<Rightarrow> string" where
  "toLowerCase = map ascii_lower"

definition safeDecode ::
  "(string \<Rightarrow> string + ParsedPaymentRequest) \<Rightarrow> string \<Rightarrow> ParsedPaymentRequest result" where
  "safeDecode parse request =
     (case parse request of
        Inr p \<Rightarrow> Inr p
      | Inl message \<Rightarrow>
          if str_includes ''Invalid checksum'' message
          then Inl (LightningError InvalidChecksumForLnInvoiceError)
          else Inl (LightningError UnknownLnInvoiceDecodeError))"

definition truthy_num :: "jsnum option \<Rightarrow> bool" where
  "truthy_num n = (case n of None \<Rightarrow> False | Some x \<Rightarrow> js_truthy x)"

definition decodeInvoice ::
  "(string \<Rightarrow> string + ParsedPaymentRequest) \<Rightarrow> string \<Rightarrow> LnInvoice result" where
  "decodeInvoice parse unchecked =
     (let bolt11 = toLowerCase unchecked
      in result_bind (safeDecode parse bolt11) (\<lambda>d.
         if \<not> truthy_str (ppr_payment d) then Inl (LightningError LnInvoiceMissingPaymentSecretError)
         else
           let amt = (if truthy_num (ppr_safe_tokens d) then ppr_safe_tokens d else None)
           in result_bind
                (case amt of
                   None \<Rightarrow> Inr None
                 | Some n \<Rightarrow> result_bind (paymentAmountFromNumber n Btc) (\<lambda>a. Inr (Some a)))
                (\<lambda>payAmount. Inr
                  \<lparr>destination = ppr_destination d, inv_paymentHash = ppr_id d,
                   paymentRequest = bolt11,
                   milliSatsAmount = (case amt of Some n \<Rightarrow> js_mul n (Num 1000) | None \<Rightarrow> Num 0),
                   inv_description = (case ppr_description d of Some s \<Rightarrow> s | None \<Rightarrow> []),
                   cltvDelta = (if truthy_num (ppr_cltv_delta d) then ppr_cltv_delta d else None),
                   inv_amount = amt, paymentAmount = payAmount,
                   routeHints = (case ppr_routes d of Some rs \<Rightarrow> rs | None \<Rightarrow> []),
                   paymentSecret = the (ppr_payment d),
                   features = (case ppr_features d of Some fs \<Rightarrow> fs | None \<Rightarrow> []),
                   expiresAt = ppr_expires_at d,
                   isExpired = (ppr_is_expired d = Some True)\<rparr>)))"

section \<open>Final hops\<close>

text \<open>
  \<^verbatim>\<open>Array.from(new Set(xs))\<close> keeps the first occurrence of each element. A route hint without
  hops has no last hop: reading its key throws.
\<close>

fun unique_first :: "'a list \<Rightarrow> 'a list" where
  "unique_first [] = []"
| "unique_first (x # xs) = x # unique_first (filter (\<lambda>y. y \<noteq> x) xs)"

definition final_hop :: "Hop list \<Rightarrow> Pubkey result" where
  "final_hop route =
     (let lastIdx = int (length route) - 1;
          penUltIndex = (if 1 < length route then lastIdx - 1 else lastIdx)
      in if penUltIndex < 0 then Inl (Thrown ''TypeError'')
         else Inr (nodePubkey (route ! nat penUltIndex)))"

fun map_result :: "('a \<Rightarrow> 'b result) \<Rightarrow> 'a list \<Rightarrow> 'b list result" where
  "map_result f [] = Inr []"
| "map_result f (x # xs) =
     result_bind (f x) (\<lambda>y. result_bind (map_result f xs) (\<lambda>ys. Inr (y # ys)))"

definition parseFinalHopsFromInvoice :: "LnInvoice \<Rightarrow> Pubkey list result" where
  "parseFinalHopsFromInvoice invoice =
     result_bind (map_result final_hop (routeHints invoice)) (\<lambda>keys. Inr (unique_first keys))"

section \<open>Expiration\<close>

definition SECS_PER_5_MINS :: int where "SECS_PER_5_MINS = 60 * 5"

definition SECS_PER_DAY :: int where "SECS_PER_DAY = 60 * 60 * 24"

definition DEFAULT_EXPIRATIONS :: "WalletCurrency \<Rightarrow> int" where
  "DEFAULT_EXPIRATIONS c = (case c of Btc \<Rightarrow> SECS_PER_DAY | Usd \<Rightarrow> SECS_PER_5_MINS)"

definition invoiceExpirationForCurrency :: "WalletCurrency \<Rightarrow> date \<Rightarrow> date" where
  "invoiceExpirationForCurrency c now = now + DEFAULT_EXPIRATIONS c * 1000"

section \<open>WalletInvoiceBuilder\<close>

record WalletInvoice =
  wi_paymentHash :: PaymentHash
  wi_secret :: SecretPreImage
  wi_selfGenerated :: bool
  wi_pubkey :: Pubkey
  wi_usdAmount :: "Amount option"
  wi_recipientWalletDescriptor :: WalletDescriptor
  wi_paid :: bool

record RegisterInvoiceArgs =
  ria_paymentHash :: PaymentHash
  ria_description :: string
  ria_descriptionHash :: "string option"
  ria_btcPaymentAmount :: Amount
  ria_expiresAt :: date

record RegisteredInvoice =
  reg_invoice :: LnInvoice
  reg_pubkey :: Pubkey

record WalletInvoiceBuilderConfig =
  dealerBtcFromUsd :: "Amount \<Rightarrow> Amount result"
  lnRegisterInvoice :: "RegisterInvoiceArgs \<Rightarrow> RegisteredInvoice result"

record WIBWithDescriptionState = WalletInvoiceBuilderConfig +
  wib_description :: string
  wib_descriptionHash :: "string option"

record WIBWithOriginState = WIBWithDescriptionState +
  wib_selfGenerated :: bool

record WIBWithRecipientState = WIBWithOriginState +
  wib_recipientWalletDescriptor :: WalletDescriptor

record WIBWithAmountState = WIBWithRecipientState +
  hasAmount :: bool
  invoiceExpiration :: date
  btcAmount :: Amount
  usdAmount :: "Amount option"

definition withDescription :: "WalletInvoiceBuilderConfig \<Rightarrow> string \<Rightarrow> string option \<Rightarrow> WIBWithDescriptionState" where
  "withDescription c description descriptionHash =
     WalletInvoiceBuilderConfig.extend c
       (WIBWithDescriptionState.fields description descriptionHash)"

definition generatedForRecipient :: "WIBWithDescriptionState \<Rightarrow> WIBWithOriginState" where
  "generatedForRecipient s = WIBWithDescriptionState.extend s (WIBWithOriginState.fields False)"

definition generatedForSelf :: "WIBWithDescriptionState \<Rightarrow> WIBWithOriginState" where
  "generatedForSelf s = WIBWithDescriptionState.extend s (WIBWithOriginState.fields True)"

definition wib_withRecipientWallet :: "WIBWithOriginState \<Rightarrow> WalletDescriptor \<Rightarrow> WIBWithRecipientState" where
  "wib_withRecipientWallet s w = WIBWithOriginState.extend s (WIBWithRecipientState.fields w)"

definition withAmount :: "date \<Rightarrow> WIBWithRecipientState \<Rightarrow> jsnum \<Rightarrow> WIBWithAmountState result" where
  "withAmount now s uncheckedAmount =
     (if wd_currency (wib_recipientWalletDescriptor s) = Usd
      then
        result_bind (checkedToUsdPaymentAmount (Some uncheckedAmount)) (\<lambda>usd.
        result_bind (dealerBtcFromUsd s usd) (\<lambda>btc.
          Inr (WIBWithRecipientState.extend s
            (WIBWithAmountState.fields True (invoiceExpirationForCurrency Usd now) btc (Some usd)))))
      else
        result_bind (checkedToBtcPaymentAmount (Some uncheckedAmount)) (\<lambda>btc.
          Inr (WIBWithRecipientState.extend s
            (WIBWithAmountState.fields True (invoiceExpirationForCurrency Btc now) btc None))))"

definition withoutAmount :: "date \<Rightarrow> WIBWithRecipientState \<Rightarrow> WIBWithAmountState" where
  "withoutAmount now s =
     WIBWithRecipientState.extend s
       (WIBWithAmountState.fields False (invoiceExpirationForCurrency Btc now) ZERO_SATS None)"

text \<open>
  \<^verbatim>\<open>getSecretAndPaymentHash\<close> draws 32 random bytes: the secret and its SHA-256 are arguments.
\<close>

definition registerInvoice ::
  "SecretPreImage \<Rightarrow> PaymentHash \<Rightarrow> WIBWithAmountState \<Rightarrow> (WalletInvoice \<times> LnInvoice) result" where
  "registerInvoice secret hash s =
     result_bind
       (lnRegisterInvoice s
          \<lparr>ria_paymentHash = hash, ria_description = wib_description s,
           ria_descriptionHash = wib_descriptionHash s,
           ria_btcPaymentAmount = btcAmount s, ria_expiresAt = invoiceExpiration s\<rparr>)
       (\<lambda>registered.
          if hash \<noteq> inv_paymentHash (reg_invoice registered)
          then Inl (flow_err InvalidWalletInvoiceBuilderStateError)
          else Inr
            (\<lparr>wi_paymentHash = hash, wi_secret = secret, wi_selfGenerated = wib_selfGenerated s,
              wi_pubkey = reg_pubkey registered, wi_usdAmount = usdAmount s,
              wi_recipientWalletDescriptor = wib_recipientWalletDescriptor s, wi_paid = False\<rparr>,
             reg_invoice registered))"

section \<open>WalletInvoiceReceiver and WalletInvoiceValidator\<close>

record WalletInvoiceReceiver = WalletInvoice +
  usdToCreditReceiver :: Amount
  btcToCreditReceiver :: Amount
  wir_usdBankFee :: Amount
  wir_btcBankFee :: Amount

definition WalletInvoiceReceiver ::
  "WalletInvoice \<Rightarrow> Amount \<Rightarrow> (Amount \<Rightarrow> Amount result) \<Rightarrow> (Amount \<Rightarrow> Amount result)
     \<Rightarrow> WalletInvoiceReceiver result" where
  "WalletInvoiceReceiver w receivedBtc usdFromBtc usdFromBtcMidPrice =
     (if wd_currency (wi_recipientWalletDescriptor w) = Btc
      then result_bind (usdFromBtcMidPrice receivedBtc) (\<lambda>usd.
             Inr (WalletInvoice.extend w (WalletInvoiceReceiver.fields usd receivedBtc ZERO_CENTS ZERO_SATS)))
      else case wi_usdAmount w of
             Some usd \<Rightarrow>
               Inr (WalletInvoice.extend w (WalletInvoiceReceiver.fields usd receivedBtc ZERO_CENTS ZERO_SATS))
           | None \<Rightarrow>
               result_bind (usdFromBtc receivedBtc) (\<lambda>usd.
                 Inr (WalletInvoice.extend w (WalletInvoiceReceiver.fields usd receivedBtc ZERO_CENTS ZERO_SATS))))"

definition receivedAmount :: "WalletInvoiceReceiver \<Rightarrow> Amount" where
  "receivedAmount r =
     (if wd_currency (wi_recipientWalletDescriptor r) = Btc then btcToCreditReceiver r
      else usdToCreditReceiver r)"

definition validateToSend :: "WalletInvoice \<Rightarrow> WalletId \<Rightarrow> unit result" where
  "validateToSend w fromWalletId =
     (if wi_paid w then Inl (ValidationError AlreadyPaidError)
      else if wd_id (wi_recipientWalletDescriptor w) = fromWalletId
        then Inl (ValidationError SelfPaymentError)
      else Inr ())"

section \<open>Sample values\<close>

definition sample_request :: ParsedPaymentRequest where
  "sample_request =
     \<lparr>ppr_payment = Some ''5ec2e7'', ppr_cltv_delta = None, ppr_expires_at = 0, ppr_is_expired = None,
      ppr_safe_tokens = Some (Num 2500), ppr_routes = None, ppr_description = None, ppr_id = ''aa'',
      ppr_destination = ''02'', ppr_features = None\<rparr>"

definition sample_invoice :: LnInvoice where
  "sample_invoice =
     \<lparr>destination = ''02'', inv_paymentHash = ''aa'', paymentRequest = ''lnbc1'', milliSatsAmount = Num 0,
      inv_description = [], cltvDelta = None, inv_amount = None, paymentAmount = None,
      routeHints = [[\<lparr>baseFeeMTokens = None, channel = None, hop_cltvDelta = None, feeRate = None,
                     nodePubkey = ''k''\<rparr>]],
      paymentSecret = ''s'', features = [], expiresAt = 0, isExpired = False\<rparr>"

definition sample_recipient :: "WalletCurrency \<Rightarrow> WIBWithRecipientState" where
  "sample_recipient c =
     \<lparr>dealerBtcFromUsd = (\<lambda>a. Inr (BtcPaymentAmount (amount a * 40))),
      lnRegisterInvoice = (\<lambda>r. Inr \<lparr>reg_invoice = sample_invoice, reg_pubkey = ''pk''\<rparr>),
      wib_description = ''coffee'', wib_descriptionHash = None, wib_selfGenerated = True,
      wib_recipientWalletDescriptor = \<lparr>wd_id = ''w'', wd_currency = c, wd_accountId = ''a''\<rparr>\<rparr>"

section \<open>Properties\<close>

lemma ascii_lower_idem [simp]: "ascii_lower (ascii_lower c) = ascii_lower c"
proof (cases "65 \<le> (of_char c :: nat) \<and> (of_char c :: nat) \<le> 90")
  case True
  then have "of_char (ascii_lower c) = (of_char c :: nat) + 32"
    by (simp add: ascii_lower_def Let_def)
  with True show ?thesis by (simp add: ascii_lower_def [of "ascii_lower c"] Let_def)
next
  case False
  then have "ascii_lower c = c" by (auto simp: ascii_lower_def Let_def)
  then show ?thesis by simp
qed

lemma toLowerCase_idem [simp]: "toLowerCase (toLowerCase s) = toLowerCase s"
  by (simp add: toLowerCase_def)

lemma unique_first_set [simp]: "set (unique_first xs) = set xs"
  by (induction xs rule: unique_first.induct) auto

lemma unique_first_distinct [simp]: "distinct (unique_first xs)"
  by (induction xs rule: unique_first.induct) auto

lemma map_result_Inr:
  "map_result f xs = Inr ys \<longleftrightarrow> list_all2 (\<lambda>x y. f x = Inr y) xs ys"
proof (induction xs arbitrary: ys)
  case (Cons x xs)
  then show ?case
    by (cases ys) (auto simp: result_bind_eq_Inr)
qed auto

lemma map_result_total:
  "(\<And>x. x \<in> set xs \<Longrightarrow> f x = Inr (g x)) \<Longrightarrow> map_result f xs = Inr (map g xs)"
  by (induction xs) auto

lemma final_hop_nonempty:
  "route \<noteq> [] \<Longrightarrow> final_hop route =
     Inr (nodePubkey (if 1 < length route then route ! (length route - 2) else hd route))"
proof -
  assume "route \<noteq> []"
  then obtain h t where r: "route = h # t" by (cases route) auto
  have "nat (int (length route) - 1 - 1) = length route - 2" by linarith
  with r show ?thesis by (auto simp: final_hop_def Let_def)
qed

lemma final_hop_Nil [simp]: "final_hop [] = Inl (Thrown ''TypeError'')"
  by (simp add: final_hop_def Let_def)

lemma decodeInvoice_Inr:
  assumes "decodeInvoice parse s = Inr iv"
  obtains d where "parse (toLowerCase s) = Inr d" and "truthy_str (ppr_payment d)"
    and "paymentSecret iv = the (ppr_payment d)" and "paymentRequest iv = toLowerCase s"
    and "inv_amount iv = (if truthy_num (ppr_safe_tokens d) then ppr_safe_tokens d else None)"
    and "case inv_amount iv of None \<Rightarrow> paymentAmount iv = None \<and> milliSatsAmount iv = Num 0
         | Some n \<Rightarrow> milliSatsAmount iv = js_mul n (Num 1000) \<and>
             (\<exists>a. paymentAmount iv = Some a \<and> paymentAmountFromNumber n Btc = Inr a)"
  using assms
  by (cases "parse (toLowerCase s)")
    (auto simp: decodeInvoice_def safeDecode_def Let_def result_bind_eq_Inr split: if_splits option.splits)



text \<open>
  (C36) \<^bold>\<open>Final hops.\<close> \<^verbatim>\<open>parseFinalHopsFromInvoice\<close> returns, without repetition, exactly the
  node before the last hop of each route hint (the only hop of a route of length one); it
  throws if and only if some route hint is empty.
\<close>

theorem parseFinalHops_spec:
  "(\<exists>keys. parseFinalHopsFromInvoice iv = Inr keys) = ([] \<notin> set (routeHints iv))
   \<and> (\<forall>keys. parseFinalHopsFromInvoice iv = Inr keys \<longrightarrow> distinct keys
        \<and> set keys = (\<lambda>r. nodePubkey (if 1 < length r then r ! (length r - 2) else hd r)) ` set (routeHints iv))"
proof (cases "[] \<in> set (routeHints iv)")
  case True
  have "map_result final_hop (routeHints iv) \<noteq> Inr ys" for ys
  proof
    assume "map_result final_hop (routeHints iv) = Inr ys"
    then have "list_all2 (\<lambda>x y. final_hop x = Inr y) (routeHints iv) ys" by (simp add: map_result_Inr)
    moreover obtain i where "i < length (routeHints iv)" "routeHints iv ! i = []"
      using True by (auto simp: in_set_conv_nth)
    ultimately have "final_hop [] = Inr (ys ! i)" by (auto dest: list_all2_nthD)
    then show False by simp
  qed
  with True show ?thesis by (auto simp: parseFinalHopsFromInvoice_def result_bind_eq_Inr)
next
  case False
  then have "map_result final_hop (routeHints iv) =
      Inr (map (\<lambda>r. nodePubkey (if 1 < length r then r ! (length r - 2) else hd r)) (routeHints iv))"
    by (intro map_result_total final_hop_nonempty) auto
  with False show ?thesis by (auto simp: parseFinalHopsFromInvoice_def)
qed

theorem parseFinalHops_spec_witness:
  "\<exists>keys. parseFinalHopsFromInvoice sample_invoice = Inr keys \<and> set keys = {''k''}"
  using parseFinalHops_spec [of sample_invoice] by (auto simp: sample_invoice_def)

text \<open>
  \<^bold>\<open>An invoice with an amount is registered for that amount.\<close> When the wallet invoice
  builder registers an invoice with an amount, the stored invoice is unpaid and carries the
  payment hash of the invoice lnd returned; for a dollar wallet it keeps the requested cents,
  lnd is asked for the dealer's price of them and the invoice lasts five minutes; for a bitcoin
  wallet it keeps no dollar amount, lnd is asked for the requested satoshis and it lasts a day.
\<close>

lemma registered_for_amount:
  assumes "withAmount now s x = Inr s'" and "registerInvoice secret hash s' = Inr (w, lnInv)"
  shows "\<not> wi_paid w \<and> wi_paymentHash w = inv_paymentHash lnInv \<and> wi_secret w = secret
    \<and> wi_recipientWalletDescriptor w = wib_recipientWalletDescriptor s
    \<and> (\<exists>reg. lnRegisterInvoice s
          \<lparr>ria_paymentHash = hash, ria_description = wib_description s,
           ria_descriptionHash = wib_descriptionHash s,
           ria_btcPaymentAmount = btcAmount s', ria_expiresAt = invoiceExpiration s'\<rparr> = Inr reg
         \<and> reg_invoice reg = lnInv \<and> reg_pubkey reg = wi_pubkey w)
    \<and> (case wd_currency (wib_recipientWalletDescriptor s) of
         Usd \<Rightarrow> (\<exists>usd. checkedToUsdPaymentAmount (Some x) = Inr usd \<and> wi_usdAmount w = Some usd
                  \<and> dealerBtcFromUsd s usd = Inr (btcAmount s') \<and> invoiceExpiration s' = now + 300000)
       | Btc \<Rightarrow> checkedToBtcPaymentAmount (Some x) = Inr (btcAmount s') \<and> wi_usdAmount w = None
                  \<and> invoiceExpiration s' = now + 86400000)"
proof -
  obtain s'' where s'': "s' = WIBWithRecipientState.extend s s''"
    using assms(1) by (auto simp: withAmount_def result_bind_eq_Inr split: if_splits)
  then have same: "lnRegisterInvoice s' = lnRegisterInvoice s" "wib_description s' = wib_description s"
    "wib_descriptionHash s' = wib_descriptionHash s"
    "wib_recipientWalletDescriptor s' = wib_recipientWalletDescriptor s"
    by (simp_all add: WIBWithRecipientState.defs)
  show ?thesis
    using assms same
    by (cases "wd_currency (wib_recipientWalletDescriptor s)")
      (auto simp: withAmount_def registerInvoice_def result_bind_eq_Inr WIBWithRecipientState.defs
        WIBWithAmountState.defs invoiceExpirationForCurrency_def DEFAULT_EXPIRATIONS_def
        SECS_PER_5_MINS_def SECS_PER_DAY_def split: if_splits)
qed



end
