(* ===== verification/Payment_Flow.thy ===== *)
theory Payment_Flow
  imports Invoices
begin

text \<open>
  \<^verbatim>\<open>domain/payments\<close>: the payment flow (\<^verbatim>\<open>payment-flow.ts\<close>) and its builder
  (\<^verbatim>\<open>payment-flow-builder.ts\<close>).

  A stage of the builder is a record of what its closure captures; \<^verbatim>\<open>LPFBWithError(e)\<close> is
  \<open>Inl e\<close>, and the methods it has are the \<open>Inl\<close> cases of \<open>result_bind\<close>. A promise
  is the value it resolves to. The dealer's conversion functions are arguments; the locale
  \<open>conversion_fns\<close> states what a dealer quote promises.
\<close>

datatype SettlementMethod = SM_IntraLedger | SM_OnChain | SM_Lightning

datatype PaymentInitiationMethod = PIM_IntraLedger | PIM_OnChain | PIM_Lightning

section \<open>PaymentFlow\<close>

record PaymentFlowState =
  paymentHash :: "PaymentHash option"
  intraLedgerHash :: "IntraLedgerHash option"
  senderWalletId :: WalletId
  senderWalletCurrency :: WalletCurrency
  senderAccountId :: AccountId
  settlementMethod :: SettlementMethod
  paymentInitiationMethod :: PaymentInitiationMethod
  descriptionFromInvoice :: string
  skipProbeForDestination :: bool
  createdAt :: date
  paymentSentAndPending :: bool
  btcPaymentAmount :: Amount
  usdPaymentAmount :: Amount
  inputAmount :: int
  btcProtocolFee :: Amount
  usdProtocolFee :: Amount
  recipientWalletId :: "WalletId option"
  recipientWalletCurrency :: "WalletCurrency option"
  recipientAccountId :: "AccountId option"
  recipientPubkey :: "Pubkey option"
  recipientUsername :: "Username option"
  outgoingNodePubkey :: "Pubkey option"
  cachedRoute :: "RawRoute option"

definition protocolFeeInSenderWalletCurrency :: "PaymentFlowState \<Rightarrow> Amount" where
  "protocolFeeInSenderWalletCurrency f =
     (if senderWalletCurrency f = Btc then btcProtocolFee f else usdProtocolFee f)"

definition paymentAmounts :: "PaymentFlowState \<Rightarrow> Amount \<times> Amount" where
  "paymentAmounts f = (btcPaymentAmount f, usdPaymentAmount f)"

text \<open>The pair is bitcoin, dollars.\<close>

definition totalAmountsForPayment :: "PaymentFlowState \<Rightarrow> Amount \<times> Amount" where
  "totalAmountsForPayment f =
     (calc_add (btcPaymentAmount f) (btcProtocolFee f), calc_add (usdPaymentAmount f) (usdProtocolFee f))"

definition routeDetails :: "PaymentFlowState \<Rightarrow> RawRoute option \<times> Pubkey option" where
  "routeDetails f =
     (let rawRoute =
        (case cachedRoute f of
           None \<Rightarrow> None
         | Some r \<Rightarrow> (case validateRoute r (btcPaymentAmount f) of Inl _ \<Rightarrow> None | Inr _ \<Rightarrow> Some r))
      in (rawRoute, if rawRoute = None then None else outgoingNodePubkey f))"

definition recipientDetails ::
  "PaymentFlowState \<Rightarrow> WalletId option \<times> WalletCurrency option \<times> Pubkey option \<times> Username option" where
  "recipientDetails f =
     (recipientWalletId f, recipientWalletCurrency f, recipientPubkey f, recipientUsername f)"

definition senderWalletDescriptor :: "PaymentFlowState \<Rightarrow> WalletDescriptor" where
  "senderWalletDescriptor f =
     \<lparr>wd_id = senderWalletId f, wd_currency = senderWalletCurrency f, wd_accountId = senderAccountId f\<rparr>"

definition recipientWalletDescriptor :: "PaymentFlowState \<Rightarrow> WalletDescriptor option" where
  "recipientWalletDescriptor f =
     (if truthy_str (recipientWalletId f) \<and> recipientWalletCurrency f \<noteq> None \<and> truthy_str (recipientAccountId f)
      then Some \<lparr>wd_id = the (recipientWalletId f), wd_currency = the (recipientWalletCurrency f),
                 wd_accountId = the (recipientAccountId f)\<rparr>
      else None)"

definition checkBalanceForSend :: "PaymentFlowState \<Rightarrow> Amount \<Rightarrow> unit result" where
  "checkBalanceForSend f balanceAmount =
     (if senderWalletCurrency f \<noteq> currency balanceAmount
      then Inl (ValidationError InvalidCurrencyForWalletError)
      else
        let (amt, fee) =
              (if currency balanceAmount = Btc then (btcPaymentAmount f, btcProtocolFee f)
               else (usdPaymentAmount f, usdProtocolFee f));
            totalSendAmount = calc_add amt fee
        in if amount balanceAmount < amount totalSendAmount
           then Inl (ValidationError InsufficientBalanceError)
           else Inr ())"

definition paymentHashForFlow :: "PaymentFlowState \<Rightarrow> PaymentHash result" where
  "paymentHashForFlow f =
     (if truthy_str (paymentHash f) = truthy_str (intraLedgerHash f)
      then Inl (flow_err InvalidLightningPaymentFlowBuilderStateError)
      else if \<not> truthy_str (paymentHash f)
        then Inl (flow_err IntraLedgerHashPresentInLnFlowError)
      else Inr (the (paymentHash f)))"

definition intraLedgerHashForFlow :: "PaymentFlowState \<Rightarrow> IntraLedgerHash result" where
  "intraLedgerHashForFlow f =
     (if truthy_str (paymentHash f) = truthy_str (intraLedgerHash f)
      then Inl (flow_err InvalidLightningPaymentFlowBuilderStateError)
      else if \<not> truthy_str (intraLedgerHash f)
        then Inl (flow_err LnHashPresentInIntraLedgerFlowError)
      else Inr (the (intraLedgerHash f)))"

section \<open>LightningPaymentFlowBuilder\<close>

record LightningPaymentFlowBuilderConfig =
  localNodeIds :: "Pubkey list"
  flaggedPubkeys :: "Pubkey list"

record LPFBWithInvoiceState = LightningPaymentFlowBuilderConfig +
  b_paymentHash :: "PaymentHash option"
  b_intraLedgerHash :: "IntraLedgerHash option"
  b_settlementMethod :: SettlementMethod
  b_paymentInitiationMethod :: PaymentInitiationMethod
  b_descriptionFromInvoice :: string
  b_btcPaymentAmount :: "Amount option"
  b_inputAmount :: "int option"
  b_uncheckedAmount :: "jsnum option"
  b_btcProtocolFee :: "Amount option"
  b_usdProtocolFee :: "Amount option"
  b_skipProbeForDestination :: bool

record LPFBWithSenderWalletState = LPFBWithInvoiceState +
  b_senderWalletId :: WalletId
  b_senderWalletCurrency :: WalletCurrency
  b_senderAccountId :: AccountId
  b_usdPaymentAmount :: "Amount option"

record LPFBWithRecipientWalletState = LPFBWithSenderWalletState +
  b_recipientWalletId :: "WalletId option"
  b_recipientWalletCurrency :: "WalletCurrency option"
  b_recipientPubkey :: "Pubkey option"
  b_recipientUsername :: "Username option"
  b_recipientAccountId :: "AccountId option"

text \<open>
  The state after conversion: the amounts and fees are known and shadow the optional ones.
\<close>

record LPFBWithConversionState =
  c_state :: LPFBWithRecipientWalletState
  c_createdAt :: date
  c_btcPaymentAmount :: Amount
  c_usdPaymentAmount :: Amount
  c_btcProtocolFee :: Amount
  c_usdProtocolFee :: Amount

record ConversionFns =
  usdFromBtc :: "Amount \<Rightarrow> Amount result"
  btcFromUsd :: "Amount \<Rightarrow> Amount result"

record WithConversionArgs =
  hedgeBuyUsd :: ConversionFns
  hedgeSellUsd :: ConversionFns
  mid :: ConversionFns

definition settlementMethodFromDestination ::
  "LightningPaymentFlowBuilderConfig \<Rightarrow> Pubkey option \<Rightarrow> SettlementMethod \<times> Amount option \<times> Amount option" where
  "settlementMethodFromDestination c dest =
     (let m = (case dest of
                 None \<Rightarrow> SM_IntraLedger
               | Some d \<Rightarrow> if d \<in> set (localNodeIds c) then SM_IntraLedger else SM_Lightning)
      in (m, if m = SM_IntraLedger then Some (intraLedgerFees Btc) else None,
             if m = SM_IntraLedger then Some (intraLedgerFees Usd) else None))"

definition skipProbeFromInvoice :: "LightningPaymentFlowBuilderConfig \<Rightarrow> LnInvoice \<Rightarrow> bool result" where
  "skipProbeFromInvoice c invoice =
     result_bind (parseFinalHopsFromInvoice invoice) (\<lambda>keys.
       Inr (filter (\<lambda>k. k \<in> set (flaggedPubkeys c)) keys \<noteq> []))"

definition withInvoice :: "LightningPaymentFlowBuilderConfig \<Rightarrow> LnInvoice \<Rightarrow> LPFBWithInvoiceState result" where
  "withInvoice c invoice =
     (case paymentAmount invoice of
        None \<Rightarrow> Inl (flow_err InvalidLightningPaymentFlowBuilderStateError)
      | Some amt \<Rightarrow>
          let (m, btcFee, usdFee) = settlementMethodFromDestination c (Some (destination invoice))
          in result_bind (skipProbeFromInvoice c invoice) (\<lambda>skip. Inr
            \<lparr>localNodeIds = localNodeIds c, flaggedPubkeys = flaggedPubkeys c,
             b_paymentHash = Some (inv_paymentHash invoice), b_intraLedgerHash = None,
             b_settlementMethod = m, b_paymentInitiationMethod = PIM_Lightning,
             b_descriptionFromInvoice = inv_description invoice,
             b_btcPaymentAmount = Some amt, b_inputAmount = Some (amount amt), b_uncheckedAmount = None,
             b_btcProtocolFee = btcFee, b_usdProtocolFee = usdFee, b_skipProbeForDestination = skip\<rparr>))"

definition withNoAmountInvoice ::
  "LightningPaymentFlowBuilderConfig \<Rightarrow> LnInvoice \<Rightarrow> jsnum \<Rightarrow> LPFBWithInvoiceState result" where
  "withNoAmountInvoice c invoice uncheckedAmount =
     (let (m, btcFee, usdFee) = settlementMethodFromDestination c (Some (destination invoice))
      in result_bind (skipProbeFromInvoice c invoice) (\<lambda>skip. Inr
        \<lparr>localNodeIds = localNodeIds c, flaggedPubkeys = flaggedPubkeys c,
         b_paymentHash = Some (inv_paymentHash invoice), b_intraLedgerHash = None,
         b_settlementMethod = m, b_paymentInitiationMethod = PIM_Lightning,
         b_descriptionFromInvoice = inv_description invoice,
         b_btcPaymentAmount = None, b_inputAmount = None, b_uncheckedAmount = Some uncheckedAmount,
         b_btcProtocolFee = btcFee, b_usdProtocolFee = usdFee, b_skipProbeForDestination = skip\<rparr>))"

text \<open>\<^verbatim>\<open>generateIntraLedgerHash\<close> is random: the hash is an argument.\<close>

definition withoutInvoice ::
  "LightningPaymentFlowBuilderConfig \<Rightarrow> IntraLedgerHash \<Rightarrow> jsnum \<Rightarrow> string \<Rightarrow> LPFBWithInvoiceState result" where
  "withoutInvoice c hash uncheckedAmount description =
     (let (m, btcFee, usdFee) = settlementMethodFromDestination c None
      in Inr
        \<lparr>localNodeIds = localNodeIds c, flaggedPubkeys = flaggedPubkeys c,
         b_paymentHash = None, b_intraLedgerHash = Some hash,
         b_settlementMethod = m, b_paymentInitiationMethod = PIM_IntraLedger,
         b_descriptionFromInvoice = description,
         b_btcPaymentAmount = None, b_inputAmount = None, b_uncheckedAmount = Some uncheckedAmount,
         b_btcProtocolFee = btcFee, b_usdProtocolFee = usdFee, b_skipProbeForDestination = False\<rparr>)"

definition fee_or_max :: "Amount option \<Rightarrow> Amount \<Rightarrow> Amount result" where
  "fee_or_max fee amt =
     (case fee of Some f \<Rightarrow> Inr f | None \<Rightarrow> maxProtocolFee FEECAP_BASIS_POINTS amt)"

definition withSenderWallet ::
  "LPFBWithInvoiceState result \<Rightarrow> WalletDescriptor \<Rightarrow> LPFBWithSenderWalletState result" where
  "withSenderWallet stage w =
     result_bind stage (\<lambda>s.
       let sender = LPFBWithSenderWalletState.fields (wd_id w) (wd_currency w) (wd_accountId w)
       in case b_uncheckedAmount s of
         Some unchecked \<Rightarrow>
           if wd_currency w = Btc
           then result_bind (checkedToBtcPaymentAmount (Some unchecked)) (\<lambda>amt.
                result_bind (fee_or_max (b_btcProtocolFee s) amt) (\<lambda>fee.
                  Inr (LPFBWithInvoiceState.extend
                    (s\<lparr>b_btcPaymentAmount := Some amt, b_inputAmount := Some (amount amt),
                       b_btcProtocolFee := Some fee\<rparr>) (sender None))))
           else result_bind (checkedToUsdPaymentAmount (Some unchecked)) (\<lambda>amt.
                result_bind (fee_or_max (b_usdProtocolFee s) amt) (\<lambda>fee.
                  Inr (LPFBWithInvoiceState.extend
                    (s\<lparr>b_inputAmount := Some (amount amt), b_usdProtocolFee := Some fee\<rparr>)
                    (sender (Some amt)))))
       | None \<Rightarrow>
           (case (b_inputAmount s, b_btcPaymentAmount s) of
              (Some input, Some amt) \<Rightarrow>
                if input \<noteq> 0
                then result_bind (fee_or_max (b_btcProtocolFee s) amt) (\<lambda>fee.
                       Inr (LPFBWithInvoiceState.extend (s\<lparr>b_btcProtocolFee := Some fee\<rparr>) (sender None)))
                else Inl (Thrown ''Error'')
            | _ \<Rightarrow> Inl (Thrown ''Error'')))"

definition withoutRecipientWallet ::
  "LPFBWithSenderWalletState result \<Rightarrow> LPFBWithRecipientWalletState result" where
  "withoutRecipientWallet stage =
     result_bind stage (\<lambda>s.
       if b_settlementMethod s = SM_IntraLedger
       then Inl (flow_err InvalidLightningPaymentFlowBuilderStateError)
       else Inr (LPFBWithSenderWalletState.extend s
                   (LPFBWithRecipientWalletState.fields None None None None None)))"

text \<open>
  The condition on a dollar recipient is \<^verbatim>\<open>!!usdPaymentAmount === !!state.uncheckedAmount\<close>;
  an amount object is truthy.
\<close>

definition withRecipientWallet ::
  "LPFBWithSenderWalletState result \<Rightarrow> WalletDescriptor \<Rightarrow> Pubkey option \<Rightarrow> Amount option
     \<Rightarrow> Username option \<Rightarrow> LPFBWithRecipientWalletState result" where
  "withRecipientWallet stage w pubkey usdAmt username =
     result_bind stage (\<lambda>s.
       if wd_id w = b_senderWalletId s then Inl (ValidationError SelfPaymentError)
       else if wd_currency w = Usd \<and> ((usdAmt \<noteq> None) = truthy_num (b_uncheckedAmount s))
         then Inl (flow_err InvalidLightningPaymentFlowBuilderStateError)
       else Inr (LPFBWithSenderWalletState.extend
                   (s\<lparr>b_usdPaymentAmount := or_else usdAmt (b_usdPaymentAmount s)\<rparr>)
                   (LPFBWithRecipientWalletState.fields (Some (wd_id w)) (Some (wd_currency w))
                      pubkey username (Some (wd_accountId w)))))"

text \<open>
  On an error the stage is \<^verbatim>\<open>LPFBWithError\<close>, whose \<^verbatim>\<open>isIntraLedger\<close> is an async function: the
  caller, who does not await it, tests a promise, which is truthy.
\<close>

definition isIntraLedger_sender :: "LPFBWithSenderWalletState result \<Rightarrow> bool" where
  "isIntraLedger_sender stage =
     (case stage of Inl _ \<Rightarrow> True | Inr s \<Rightarrow> b_settlementMethod s = SM_IntraLedger)"

definition conv_state ::
  "LPFBWithRecipientWalletState \<Rightarrow> date \<Rightarrow> Amount \<Rightarrow> Amount \<Rightarrow> Amount \<Rightarrow> Amount \<Rightarrow> LPFBWithConversionState" where
  "conv_state s now btc usd btcFee usdFee =
     \<lparr>c_state = s, c_createdAt = now, c_btcPaymentAmount = btc, c_usdPaymentAmount = usd,
      c_btcProtocolFee = btcFee, c_usdProtocolFee = usdFee\<rparr>"

definition updatedStateFromBtcPaymentAmount ::
  "LPFBWithRecipientWalletState \<Rightarrow> date \<Rightarrow> (Amount \<Rightarrow> Amount result) \<Rightarrow> Amount \<Rightarrow> Amount
     \<Rightarrow> LPFBWithConversionState result" where
  "updatedStateFromBtcPaymentAmount s now toUsd btc btcFee =
     result_bind (toUsd btc) (\<lambda>convertedAmount.
     result_bind (PriceRatio convertedAmount btc) (\<lambda>priceRatio.
     result_bind (convertFromBtcToCeil priceRatio btcFee) (\<lambda>usdFee.
       Inr (conv_state s now btc convertedAmount btcFee usdFee))))"

definition updatedStateFromUsdPaymentAmount ::
  "LPFBWithRecipientWalletState \<Rightarrow> date \<Rightarrow> (Amount \<Rightarrow> Amount result) \<Rightarrow> Amount \<Rightarrow> Amount
     \<Rightarrow> LPFBWithConversionState result" where
  "updatedStateFromUsdPaymentAmount s now toBtc usd usdFee =
     result_bind (toBtc usd) (\<lambda>convertedAmount.
     result_bind (PriceRatio usd convertedAmount) (\<lambda>priceRatio.
     result_bind (convertFromUsd priceRatio usdFee) (\<lambda>btcFee.
       Inr (conv_state s now convertedAmount usd btcFee usdFee))))"

definition noConversionRequired :: "LPFBWithRecipientWalletState \<Rightarrow> bool" where
  "noConversionRequired s =
     (b_senderWalletCurrency s = Btc \<and> b_settlementMethod s = SM_Lightning
      \<or> Some (b_senderWalletCurrency s) = b_recipientWalletCurrency s)"

text \<open>Both fields of a pair being set is \<^verbatim>\<open>a && b\<close> on optional objects.\<close>

definition withConversion ::
  "LPFBWithRecipientWalletState result \<Rightarrow> date \<Rightarrow> WithConversionArgs \<Rightarrow> LPFBWithConversionState result" where
  "withConversion stage now fns =
     result_bind stage (\<lambda>s.
       let btc = (case (b_btcPaymentAmount s, b_btcProtocolFee s) of
                    (Some a, Some f) \<Rightarrow> Some (a, f) | _ \<Rightarrow> None);
           usd = (case (b_usdPaymentAmount s, b_usdProtocolFee s) of
                    (Some a, Some f) \<Rightarrow> Some (a, f) | _ \<Rightarrow> None);
           hedge = (if b_senderWalletCurrency s = Btc then hedgeBuyUsd fns else hedgeSellUsd fns)
       in if noConversionRequired s
          then
            (case btc of
               Some (btcAmt, btcFee) \<Rightarrow>
                 (case usd of
                    Some (usdAmt, usdFee) \<Rightarrow> Inr (conv_state s now btcAmt usdAmt btcFee usdFee)
                  | None \<Rightarrow> updatedStateFromBtcPaymentAmount s now (usdFromBtc (mid fns)) btcAmt btcFee)
             | None \<Rightarrow>
                 (case usd of
                    Some (usdAmt, usdFee) \<Rightarrow>
                      updatedStateFromUsdPaymentAmount s now (btcFromUsd (mid fns)) usdAmt usdFee
                  | None \<Rightarrow> Inl (flow_err InvalidLightningPaymentFlowBuilderStateError)))
          else
            (case btc of
               Some (btcAmt, btcFee) \<Rightarrow>
                 (case (b_recipientWalletCurrency s, usd) of
                    (Some Usd, Some (usdAmt, usdFee)) \<Rightarrow>
                      Inr (conv_state s now btcAmt usdAmt btcFee usdFee)
                  | _ \<Rightarrow> updatedStateFromBtcPaymentAmount s now (usdFromBtc hedge) btcAmt btcFee)
             | None \<Rightarrow>
                 (case usd of
                    Some (usdAmt, usdFee) \<Rightarrow>
                      updatedStateFromUsdPaymentAmount s now (btcFromUsd hedge) usdAmt usdFee
                  | None \<Rightarrow> Inl (flow_err InvalidLightningPaymentFlowBuilderStateError))))"

definition paymentFromState ::
  "LPFBWithConversionState \<Rightarrow> Pubkey option \<Rightarrow> RawRoute option \<Rightarrow> PaymentFlowState result" where
  "paymentFromState c pubkey checkedRoute =
     (let s = c_state c
      in result_bind
        (if truthy_str (b_paymentHash s) then Inr (b_paymentHash s, None)
         else if truthy_str (b_intraLedgerHash s) then Inr (None, b_intraLedgerHash s)
         else Inl (flow_err InvalidLightningPaymentFlowStateError))
        (\<lambda>(payHash, intraHash). Inr
          \<lparr>paymentHash = payHash, intraLedgerHash = intraHash,
           senderWalletId = b_senderWalletId s, senderWalletCurrency = b_senderWalletCurrency s,
           senderAccountId = b_senderAccountId s,
           settlementMethod = b_settlementMethod s,
           paymentInitiationMethod = b_paymentInitiationMethod s,
           descriptionFromInvoice = b_descriptionFromInvoice s,
           skipProbeForDestination = b_skipProbeForDestination s,
           createdAt = c_createdAt c, paymentSentAndPending = False,
           btcPaymentAmount = c_btcPaymentAmount c, usdPaymentAmount = c_usdPaymentAmount c,
           inputAmount = the (b_inputAmount s),
           btcProtocolFee = c_btcProtocolFee c, usdProtocolFee = c_usdProtocolFee c,
           recipientWalletId = b_recipientWalletId s,
           recipientWalletCurrency = b_recipientWalletCurrency s,
           recipientAccountId = b_recipientAccountId s, recipientPubkey = b_recipientPubkey s,
           recipientUsername = b_recipientUsername s,
           outgoingNodePubkey = pubkey, cachedRoute = checkedRoute\<rparr>))"

definition withoutRoute :: "LPFBWithConversionState result \<Rightarrow> PaymentFlowState result" where
  "withoutRoute stage = result_bind stage (\<lambda>c. paymentFromState c None None)"

definition withRoute ::
  "LPFBWithConversionState result \<Rightarrow> Pubkey \<Rightarrow> RawRoute \<Rightarrow> PaymentFlowState result" where
  "withRoute stage pubkey rawRoute =
     result_bind stage (\<lambda>c.
     result_bind (PriceRatio (c_usdPaymentAmount c) (c_btcPaymentAmount c)) (\<lambda>priceRatio.
     result_bind (feeFromRawRoute rawRoute) (\<lambda>btcFee.
     result_bind (convertFromBtcToCeil priceRatio btcFee) (\<lambda>usdFee.
       paymentFromState (c\<lparr>c_btcProtocolFee := btcFee, c_usdProtocolFee := usdFee\<rparr>)
         (Some pubkey) (Some rawRoute)))))"

definition lpfb_btcPaymentAmount :: "LPFBWithConversionState result \<Rightarrow> Amount result" where
  "lpfb_btcPaymentAmount stage = result_bind stage (\<lambda>c. Inr (c_btcPaymentAmount c))"

definition lpfb_usdPaymentAmount :: "LPFBWithConversionState result \<Rightarrow> Amount result" where
  "lpfb_usdPaymentAmount stage = result_bind stage (\<lambda>c. Inr (c_usdPaymentAmount c))"

definition lpfb_skipProbeForDestination :: "LPFBWithConversionState result \<Rightarrow> bool result" where
  "lpfb_skipProbeForDestination stage =
     result_bind stage (\<lambda>c. Inr (b_skipProbeForDestination (c_state c)))"

definition lpfb_isIntraLedger :: "LPFBWithConversionState result \<Rightarrow> bool result" where
  "lpfb_isIntraLedger stage =
     result_bind stage (\<lambda>c. Inr (b_settlementMethod (c_state c) = SM_IntraLedger))"

definition lpfb_isTradeIntraAccount :: "LPFBWithConversionState result \<Rightarrow> bool result" where
  "lpfb_isTradeIntraAccount stage =
     result_bind stage (\<lambda>c. Inr (Some (b_senderAccountId (c_state c)) = b_recipientAccountId (c_state c)
       \<and> Some (b_senderWalletCurrency (c_state c)) \<noteq> b_recipientWalletCurrency (c_state c)))"

section \<open>Mid prices\<close>

text \<open>
  \<^verbatim>\<open>app/shared/mid-price.ts\<close>: the mid price comes from the dealer when hedging is enabled, and
  from the price server when it is not or when the dealer fails. The two answers are arguments.
\<close>

definition getCurrentPriceInCentsPerSat :: "jsnum \<Rightarrow> jsnum result \<Rightarrow> price_ratio result" where
  "getCurrentPriceInCentsPerSat precision currentPrice =
     result_bind currentPrice (\<lambda>price. toPriceRatio precision (js_mul price CENTS_PER_USD))"

definition getMidPriceRatio :: "jsnum \<Rightarrow> bool \<Rightarrow> price_ratio result \<Rightarrow> jsnum result \<Rightarrow> price_ratio result" where
  "getMidPriceRatio precision usdHedgeEnabled dealerMidRate currentPrice =
     (if usdHedgeEnabled
      then (case dealerMidRate of
              Inl _ \<Rightarrow> getCurrentPriceInCentsPerSat precision currentPrice
            | Inr r \<Rightarrow> Inr r)
      else getCurrentPriceInCentsPerSat precision currentPrice)"

definition usdFromBtcMidPriceFn :: "price_ratio result \<Rightarrow> Amount \<Rightarrow> Amount result" where
  "usdFromBtcMidPriceFn midPriceRatio amt = result_bind midPriceRatio (\<lambda>r. convertFromBtc r amt)"

definition btcFromUsdMidPriceFn :: "price_ratio result \<Rightarrow> Amount \<Rightarrow> Amount result" where
  "btcFromUsdMidPriceFn midPriceRatio amt = result_bind midPriceRatio (\<lambda>r. convertFromUsd r amt)"

section \<open>Invariants of the stages\<close>

definition btc_pos :: "Amount \<Rightarrow> bool" where
  "btc_pos a = (currency a = Btc \<and> 0 < amount a)"

definition usd_pos :: "Amount \<Rightarrow> bool" where
  "usd_pos a = (currency a = Usd \<and> 0 < amount a)"

definition fee_ok :: "WalletCurrency \<Rightarrow> SettlementMethod \<Rightarrow> Amount \<Rightarrow> bool" where
  "fee_ok c m f = (currency f = c \<and> 0 \<le> amount f \<and> (m = SM_IntraLedger \<longrightarrow> amount f = 0))"

definition opt_all :: "('a \<Rightarrow> bool) \<Rightarrow> 'a option \<Rightarrow> bool" where
  "opt_all P x = (case x of None \<Rightarrow> True | Some y \<Rightarrow> P y)"

definition invoice_stage_ok :: "LPFBWithInvoiceState \<Rightarrow> bool" where
  "invoice_stage_ok s =
     (opt_all (fee_ok Btc (b_settlementMethod s)) (b_btcProtocolFee s)
      \<and> opt_all (fee_ok Usd (b_settlementMethod s)) (b_usdProtocolFee s)
      \<and> (b_btcProtocolFee s = None \<longrightarrow> b_settlementMethod s \<noteq> SM_IntraLedger)
      \<and> (b_usdProtocolFee s = None \<longrightarrow> b_settlementMethod s \<noteq> SM_IntraLedger)
      \<and> opt_all btc_pos (b_btcPaymentAmount s)
      \<and> b_inputAmount s = map_option amount (b_btcPaymentAmount s)
      \<and> (b_uncheckedAmount s \<noteq> None \<longrightarrow> b_btcPaymentAmount s = None))"

definition sender_stage_ok :: "('x) LPFBWithSenderWalletState_scheme \<Rightarrow> bool" where
  "sender_stage_ok s =
     (opt_all (fee_ok Btc (b_settlementMethod s)) (b_btcProtocolFee s)
      \<and> opt_all (fee_ok Usd (b_settlementMethod s)) (b_usdProtocolFee s)
      \<and> opt_all btc_pos (b_btcPaymentAmount s) \<and> opt_all usd_pos (b_usdPaymentAmount s)
      \<and> (\<exists>n. b_inputAmount s = Some n \<and>
            (map_option amount (b_btcPaymentAmount s) = Some n \<and> b_btcProtocolFee s \<noteq> None
             \<or> b_btcPaymentAmount s = None \<and> map_option amount (b_usdPaymentAmount s) = Some n
                \<and> b_usdProtocolFee s \<noteq> None \<and> b_senderWalletCurrency s = Usd
                \<and> truthy_num (b_uncheckedAmount s))))"

definition recipient_stage_ok :: "LPFBWithRecipientWalletState \<Rightarrow> bool" where
  "recipient_stage_ok s =
     (sender_stage_ok s
      \<and> (b_settlementMethod s = SM_IntraLedger \<longrightarrow>
           b_recipientWalletId s \<noteq> None \<and> b_recipientWalletCurrency s \<noteq> None \<and> b_recipientAccountId s \<noteq> None)
      \<and> b_recipientWalletId s \<noteq> Some (b_senderWalletId s))"

definition conversion_stage_ok :: "LPFBWithConversionState \<Rightarrow> bool" where
  "conversion_stage_ok c =
     (recipient_stage_ok (c_state c)
      \<and> btc_pos (c_btcPaymentAmount c) \<and> usd_pos (c_usdPaymentAmount c)
      \<and> fee_ok Btc (b_settlementMethod (c_state c)) (c_btcProtocolFee c)
      \<and> fee_ok Usd (b_settlementMethod (c_state c)) (c_usdProtocolFee c)
      \<and> (b_inputAmount (c_state c) = Some (amount (c_btcPaymentAmount c))
         \<or> b_inputAmount (c_state c) = Some (amount (c_usdPaymentAmount c))
            \<and> b_senderWalletCurrency (c_state c) = Usd))"

definition flow_ok :: "PaymentFlowState \<Rightarrow> bool" where
  "flow_ok f =
     (btc_pos (btcPaymentAmount f) \<and> usd_pos (usdPaymentAmount f)
      \<and> fee_ok Btc (settlementMethod f) (btcProtocolFee f)
      \<and> fee_ok Usd (settlementMethod f) (usdProtocolFee f)
      \<and> (settlementMethod f = SM_IntraLedger \<longrightarrow>
           recipientWalletId f \<noteq> None \<and> recipientWalletCurrency f \<noteq> None \<and> recipientAccountId f \<noteq> None)
      \<and> recipientWalletId f \<noteq> Some (senderWalletId f)
      \<and> (inputAmount f = amount (btcPaymentAmount f)
         \<or> inputAmount f = amount (usdPaymentAmount f) \<and> senderWalletCurrency f = Usd)
      \<and> truthy_str (paymentHash f) \<noteq> truthy_str (intraLedgerHash f)
      \<and> \<not> paymentSentAndPending f)"

text \<open>
  The ways to start a builder and to give it a recipient; a dollar amount comes with the invoice
  of a dollar wallet only (\<open>registered_for_amount\<close>).
\<close>

inductive lpfb_start :: "LightningPaymentFlowBuilderConfig \<Rightarrow> LPFBWithInvoiceState result \<Rightarrow> bool" where
  start_invoice: "opt_all btc_pos (paymentAmount invoice) \<Longrightarrow> lpfb_start c (withInvoice c invoice)"
| start_no_amount: "lpfb_start c (withNoAmountInvoice c invoice unchecked)"
| start_intraledger: "lpfb_start c (withoutInvoice c hash unchecked description)"

inductive lpfb_recipient ::
  "LPFBWithSenderWalletState result \<Rightarrow> LPFBWithRecipientWalletState result \<Rightarrow> bool" where
  no_recipient: "lpfb_recipient stage (withoutRecipientWallet stage)"
| recipient: "opt_all usd_pos usd \<Longrightarrow> (usd \<noteq> None \<longrightarrow> wd_currency w = Usd) \<Longrightarrow>
    lpfb_recipient stage (withRecipientWallet stage w pubkey usd username)"

definition sample_ratio :: price_ratio where
  "sample_ratio = \<lparr>pr_usd = UsdPaymentAmount 20, pr_btc = BtcPaymentAmount 1000\<rparr>"

definition sample_fns :: ConversionFns where
  "sample_fns = \<lparr>usdFromBtc = usdFromBtcMidPriceFn (Inr sample_ratio),
                 btcFromUsd = btcFromUsdMidPriceFn (Inr sample_ratio)\<rparr>"

definition sample_stage :: LPFBWithRecipientWalletState where
  "sample_stage =
     \<lparr>localNodeIds = [], flaggedPubkeys = [], b_paymentHash = Some ''h'', b_intraLedgerHash = None,
      b_settlementMethod = SM_Lightning, b_paymentInitiationMethod = PIM_Lightning,
      b_descriptionFromInvoice = [], b_btcPaymentAmount = Some (BtcPaymentAmount 500),
      b_inputAmount = Some 500, b_uncheckedAmount = None, b_btcProtocolFee = Some (BtcPaymentAmount 3),
      b_usdProtocolFee = None, b_skipProbeForDestination = False, b_senderWalletId = ''w'',
      b_senderWalletCurrency = Usd, b_senderAccountId = ''a'', b_usdPaymentAmount = None,
      b_recipientWalletId = None, b_recipientWalletCurrency = None, b_recipientPubkey = None,
      b_recipientUsername = None, b_recipientAccountId = None\<rparr>"

definition sample_conversion :: LPFBWithConversionState where
  "sample_conversion = conv_state sample_stage 0 (BtcPaymentAmount 500) (UsdPaymentAmount 10)
     (BtcPaymentAmount 3) (UsdPaymentAmount 1)"

definition failing_fns :: ConversionFns where
  "failing_fns = \<lparr>usdFromBtc = (\<lambda>_. Inl PlainError), btcFromUsd = (\<lambda>_. Inl PlainError)\<rparr>"

section \<open>Quotes\<close>

text \<open>
  What the builder relies on in a pair of conversion functions: a quote of a positive amount is
  in the other currency and not negative.
\<close>

locale quotes =
  fixes fns :: ConversionFns
  assumes usd_quote: "btc_pos a \<Longrightarrow> usdFromBtc fns a = Inr u \<Longrightarrow> currency u = Usd \<and> 0 \<le> amount u"
    and btc_quote: "usd_pos a \<Longrightarrow> btcFromUsd fns a = Inr b \<Longrightarrow> currency b = Btc \<and> 0 \<le> amount b"
begin

lemma from_btc_ok:
  assumes "recipient_stage_ok s" and "btc_pos a" and "fee_ok Btc (b_settlementMethod s) f"
    and "b_inputAmount s = Some (amount a)"
    and "updatedStateFromBtcPaymentAmount s now (usdFromBtc fns) a f = Inr c"
  shows "conversion_stage_ok c"
proof -
  obtain u r uf where u: "usdFromBtc fns a = Inr u" and r: "PriceRatio u a = Inr r"
    and uf: "convertFromBtcToCeil r f = Inr uf" and c: "c = conv_state s now a u f uf"
    using assms(5) by (auto simp: updatedStateFromBtcPaymentAmount_def result_bind_eq_Inr)
  from usd_quote [OF assms(2) u] r assms(2)
  have u_pos: "usd_pos u" and "r = \<lparr>pr_usd = u, pr_btc = a\<rparr>" and "0 < amount a"
    by (auto simp: amount_simps usd_pos_def btc_pos_def)
  moreover from this uf have "uf = \<lparr>currency = Usd, amount = div_ceil (amount f * amount u) (amount a)\<rparr>"
    by (simp add: convertFromBtcToCeil_eq)
  ultimately have "fee_ok Usd (b_settlementMethod s) uf"
    using assms(3) up.nonneg [of "amount f * amount u" "amount a"] up.exact [of 0 "amount a"]
    by (auto simp: fee_ok_def usd_pos_def)
  with assms(1-4) u_pos show ?thesis
    by (simp add: c conversion_stage_ok_def conv_state_def)
qed

lemma from_usd_ok:
  assumes "recipient_stage_ok s" and "usd_pos a" and "fee_ok Usd (b_settlementMethod s) f"
    and "b_inputAmount s = Some (amount a)" and "b_senderWalletCurrency s = Usd"
    and "updatedStateFromUsdPaymentAmount s now (btcFromUsd fns) a f = Inr c"
  shows "conversion_stage_ok c"
proof -
  obtain b r bf where b: "btcFromUsd fns a = Inr b" and r: "PriceRatio a b = Inr r"
    and bf: "convertFromUsd r f = Inr bf" and c: "c = conv_state s now b a bf f"
    using assms(6) by (auto simp: updatedStateFromUsdPaymentAmount_def result_bind_eq_Inr)
  from btc_quote [OF assms(2) b] r assms(2)
  have b_pos: "btc_pos b" and "r = \<lparr>pr_usd = a, pr_btc = b\<rparr>" and "0 < amount a"
    by (auto simp: amount_simps usd_pos_def btc_pos_def)
  moreover from this bf have "bf = \<lparr>currency = Btc, amount =
     (if amount f = 0 then 0
      else let q = div_round (amount f * amount b) (amount a) in if q = 0 then 1 else q)\<rparr>"
    by (auto simp: convertFromUsd_eq Let_def)
  ultimately have "fee_ok Btc (b_settlementMethod s) bf"
    using assms(3) half.nonneg [of "amount f * amount b" "amount a"]
    by (auto simp: fee_ok_def btc_pos_def Let_def)
  with assms(1-5) b_pos show ?thesis
    by (simp add: c conversion_stage_ok_def conv_state_def)
qed

end

text \<open>A positive price ratio is a source of quotes: the mid price functions.\<close>

locale positive_ratio =
  fixes r :: price_ratio
  assumes pos_usd: "0 < amount (pr_usd r)" and pos_btc: "0 < amount (pr_btc r)"

sublocale positive_ratio \<subseteq> mid_quotes: quotes
  "\<lparr>usdFromBtc = usdFromBtcMidPriceFn (Inr r), btcFromUsd = btcFromUsdMidPriceFn (Inr r)\<rparr>"
proof
  fix a u assume "btc_pos a" and "usdFromBtc \<lparr>usdFromBtc = usdFromBtcMidPriceFn (Inr r), btcFromUsd = btcFromUsdMidPriceFn (Inr r)\<rparr> a = Inr u"
  then show "currency u = Usd \<and> 0 \<le> amount u"
    using pos_usd pos_btc half.nonneg [of "amount a * amount (pr_usd r)" "amount (pr_btc r)"]
    by (auto simp: usdFromBtcMidPriceFn_def convertFromBtc_eq btc_pos_def Let_def)
next
  fix a b assume "usd_pos a" and "btcFromUsd \<lparr>usdFromBtc = usdFromBtcMidPriceFn (Inr r), btcFromUsd = btcFromUsdMidPriceFn (Inr r)\<rparr> a = Inr b"
  then show "currency b = Btc \<and> 0 \<le> amount b"
    using pos_usd pos_btc half.nonneg [of "amount a * amount (pr_btc r)" "amount (pr_usd r)"]
    by (auto simp: btcFromUsdMidPriceFn_def convertFromUsd_eq usd_pos_def Let_def)
qed

interpretation sample_rate: positive_ratio sample_ratio
  by unfold_locales (simp_all add: sample_ratio_def UsdPaymentAmount_def BtcPaymentAmount_def)

section \<open>Every stage keeps its invariant\<close>

lemma opt_all_simps [simp]: "opt_all P None" "opt_all P (Some x) = P x"
  by (simp_all add: opt_all_def)

lemma intraLedgerFees_ok [simp]: "fee_ok Btc m (intraLedgerFees Btc)" "fee_ok Usd m (intraLedgerFees Usd)"
  by (simp_all add: fee_ok_def intraLedgerFees_def ZERO_SATS_def ZERO_CENTS_def)

lemma settlement_cases:
  "settlementMethodFromDestination c d =
     (if opt_all (\<lambda>k. k \<in> set (localNodeIds c)) d
      then (SM_IntraLedger, Some (intraLedgerFees Btc), Some (intraLedgerFees Usd))
      else (SM_Lightning, None, None))"
  by (auto simp: settlementMethodFromDestination_def opt_all_def Let_def split: option.splits)

lemma start_ok: "lpfb_start c st \<Longrightarrow> st = Inr s \<Longrightarrow> invoice_stage_ok s"
  by (induction rule: lpfb_start.induct)
    (auto simp: withInvoice_def withNoAmountInvoice_def withoutInvoice_def settlement_cases
      result_bind_eq_Inr invoice_stage_ok_def split: option.splits if_splits)

lemma maxProtocolFee_Inr:
  assumes "0 < amount a" and "maxProtocolFee FEECAP_BASIS_POINTS a = Inr f"
  shows "currency f = currency a \<and> 0 \<le> amount f"
proof -
  have "0 \<le> div_round (amount a * 50) 10000" using assms(1) by (intro half.nonneg) simp_all
  with assms(2) show ?thesis
    by (auto simp: maxProtocolFee_def calc_mulBasisPoints_def calc_divRound_def calc_divide_Inr
        FEECAP_BASIS_POINTS_def result_bind_eq_Inr Let_def split: if_splits)
qed

lemma fee_or_max_ok:
  assumes "fee_or_max fee a = Inr f" and "opt_all (fee_ok (currency a) m) fee"
    and "fee = None \<longrightarrow> m \<noteq> SM_IntraLedger" and "0 < amount a"
  shows "fee_ok (currency a) m f"
proof (cases fee)
  case None
  then have "maxProtocolFee FEECAP_BASIS_POINTS a = Inr f" using assms(1) by (simp add: fee_or_max_def)
  from maxProtocolFee_Inr [OF assms(4) this] None assms(3) show ?thesis by (simp add: fee_ok_def)
next
  case (Some g)
  with assms(1,2) show ?thesis by (simp add: fee_or_max_def)
qed

lemma checked_amount_pos:
  "checkedToBtcPaymentAmount m = Inr a \<Longrightarrow> btc_pos a"
  "checkedToUsdPaymentAmount m = Inr a \<Longrightarrow> usd_pos a"
proof -
  assume "checkedToBtcPaymentAmount m = Inr a"
  then obtain x where "paymentAmountFromNumber x Btc = Inr a" and "js_less (Num 0) x"
    by (simp add: checkedToBtcPaymentAmount_def split: option.splits if_splits)
  then show "btc_pos a" by (simp add: btc_pos_def paymentAmountFromNumber_Inr)
next
  assume "checkedToUsdPaymentAmount m = Inr a"
  then obtain x where "paymentAmountFromNumber x Usd = Inr a" and "js_less (Num 0) x"
    by (simp add: checkedToUsdPaymentAmount_def split: option.splits if_splits)
  then show "usd_pos a" by (simp add: usd_pos_def paymentAmountFromNumber_Inr)
qed

lemma checked_amount_truthy: "checkedToUsdPaymentAmount m = Inr a \<Longrightarrow> truthy_num m"
  by (simp add: checkedToUsdPaymentAmount_def truthy_num_def split: option.splits if_splits)

lemma sender_ok:
  assumes "invoice_stage_ok s" and "withSenderWallet (Inr s) w = Inr s'"
  shows "sender_stage_ok s'"
proof (cases "b_uncheckedAmount s")
  case None
  then obtain n a f where "b_inputAmount s = Some n" and a: "b_btcPaymentAmount s = Some a"
    and f: "fee_or_max (b_btcProtocolFee s) a = Inr f"
    and s': "s' = LPFBWithInvoiceState.extend (s\<lparr>b_btcProtocolFee := Some f\<rparr>)
        (LPFBWithSenderWalletState.fields (wd_id w) (wd_currency w) (wd_accountId w) None)"
    using assms(2)
    by (auto simp: withSenderWallet_def result_bind_eq_Inr split: option.splits if_splits)
  moreover have "fee_ok (currency a) (b_settlementMethod s) f"
    using assms(1) a by (intro fee_or_max_ok [OF f]) (auto simp: invoice_stage_ok_def btc_pos_def)
  ultimately show ?thesis
    using assms(1)
    by (auto simp: sender_stage_ok_def invoice_stage_ok_def btc_pos_def
        LPFBWithInvoiceState.defs LPFBWithSenderWalletState.defs)
next
  case (Some x)
  show ?thesis
  proof (cases "wd_currency w")
    case Btc
    with Some obtain a f where a: "checkedToBtcPaymentAmount (Some x) = Inr a"
      and f: "fee_or_max (b_btcProtocolFee s) a = Inr f"
      and s': "s' = LPFBWithInvoiceState.extend
          (s\<lparr>b_btcPaymentAmount := Some a, b_inputAmount := Some (amount a), b_btcProtocolFee := Some f\<rparr>)
          (LPFBWithSenderWalletState.fields (wd_id w) Btc (wd_accountId w) None)"
      using assms(2) by (auto simp: withSenderWallet_def result_bind_eq_Inr)
    moreover have "fee_ok (currency a) (b_settlementMethod s) f"
      using assms(1) checked_amount_pos(1) [OF a]
      by (intro fee_or_max_ok [OF f]) (auto simp: invoice_stage_ok_def btc_pos_def)
    ultimately show ?thesis
      using assms(1) checked_amount_pos(1) [OF a]
      by (auto simp: sender_stage_ok_def invoice_stage_ok_def btc_pos_def
          LPFBWithInvoiceState.defs LPFBWithSenderWalletState.defs)
  next
    case Usd
    with Some obtain a f where a: "checkedToUsdPaymentAmount (Some x) = Inr a"
      and f: "fee_or_max (b_usdProtocolFee s) a = Inr f"
      and s': "s' = LPFBWithInvoiceState.extend
          (s\<lparr>b_inputAmount := Some (amount a), b_usdProtocolFee := Some f\<rparr>)
          (LPFBWithSenderWalletState.fields (wd_id w) Usd (wd_accountId w) (Some a))"
      using assms(2) by (auto simp: withSenderWallet_def result_bind_eq_Inr)
    moreover have "fee_ok (currency a) (b_settlementMethod s) f"
      using assms(1) checked_amount_pos(2) [OF a]
      by (intro fee_or_max_ok [OF f]) (auto simp: invoice_stage_ok_def usd_pos_def)
    ultimately show ?thesis
      using assms(1) checked_amount_pos(2) [OF a] checked_amount_truthy [OF a] Some
      by (auto simp: sender_stage_ok_def invoice_stage_ok_def usd_pos_def
          LPFBWithInvoiceState.defs LPFBWithSenderWalletState.defs)
  qed
qed

lemma recipient_ok:
  "lpfb_recipient st st' \<Longrightarrow> st = Inr s \<Longrightarrow> st' = Inr s' \<Longrightarrow> sender_stage_ok s \<Longrightarrow> recipient_stage_ok s'"
  by (induction rule: lpfb_recipient.induct)
    (auto simp: withoutRecipientWallet_def withRecipientWallet_def recipient_stage_ok_def
      sender_stage_ok_def LPFBWithSenderWalletState.defs LPFBWithRecipientWalletState.defs or_else_def
      split: if_splits option.splits)

lemma conversion_ok:
  assumes "recipient_stage_ok s" and "quotes (hedgeBuyUsd fns)" "quotes (hedgeSellUsd fns)" "quotes (mid fns)"
    and "withConversion (Inr s) now fns = Inr c"
  shows "conversion_stage_ok c"
proof -
  let ?hedge = "if b_senderWalletCurrency s = Btc then hedgeBuyUsd fns else hedgeSellUsd fns"
  obtain n where n: "b_inputAmount s = Some n"
    "map_option amount (b_btcPaymentAmount s) = Some n \<and> b_btcProtocolFee s \<noteq> None
       \<or> b_btcPaymentAmount s = None \<and> map_option amount (b_usdPaymentAmount s) = Some n
         \<and> b_usdProtocolFee s \<noteq> None \<and> b_senderWalletCurrency s = Usd"
    using assms(1) by (auto simp: recipient_stage_ok_def sender_stage_ok_def)
  have ok: "opt_all (fee_ok Btc (b_settlementMethod s)) (b_btcProtocolFee s)"
    "opt_all (fee_ok Usd (b_settlementMethod s)) (b_usdProtocolFee s)"
    "opt_all btc_pos (b_btcPaymentAmount s)" "opt_all usd_pos (b_usdPaymentAmount s)"
    using assms(1) by (simp_all add: recipient_stage_ok_def sender_stage_ok_def)
  have q: "quotes ?hedge" "quotes (mid fns)" using assms(2-4) by simp_all
  show ?thesis
  proof (cases "b_btcPaymentAmount s")
    case None
    with n obtain a f where a: "b_usdPaymentAmount s = Some a" "b_usdProtocolFee s = Some f"
      "amount a = n" "b_senderWalletCurrency s = Usd" by auto
    then show ?thesis
      using assms(5) None n(1) ok quotes.from_usd_ok [OF q(1) assms(1)] quotes.from_usd_ok [OF q(2) assms(1)]
      by (auto simp: withConversion_def Let_def split: if_splits)
  next
    case (Some a)
    with n obtain f where f: "b_btcProtocolFee s = Some f" "amount a = n" by auto
    have same: "conversion_stage_ok (conv_state s now a u f uf)"
      if "b_usdPaymentAmount s = Some u" "b_usdProtocolFee s = Some uf" for u uf
      using that assms(1) n(1) ok Some f by (simp add: conversion_stage_ok_def conv_state_def)
    show ?thesis
      using assms(5) Some f n(1) ok same quotes.from_btc_ok [OF q(1) assms(1)] quotes.from_btc_ok [OF q(2) assms(1)]
      by (auto simp: withConversion_def Let_def split: if_splits option.splits WalletCurrency.splits)
  qed
qed

lemma flow_from_conversion:
  assumes "conversion_stage_ok c" and "paymentFromState c pk route = Inr f"
  shows "flow_ok f"
  using assms
  by (auto simp: paymentFromState_def Let_def result_bind_eq_Inr flow_ok_def conversion_stage_ok_def
      recipient_stage_ok_def split: if_splits)

section \<open>Properties\<close>



text \<open>
  \<^bold>\<open>Only the right quote is asked for.\<close> When a bitcoin wallet pays over lightning, or
  both wallets have the same currency, the conversion depends on the mid price only; otherwise
  it depends on the price for buying dollars when the sender pays in bitcoin, and on the price
  for selling dollars when the sender pays in dollars: no other quote influences the flow.
\<close>

lemma conversion_quote_used:
  assumes "case (noConversionRequired s, b_senderWalletCurrency s) of
       (True, _) \<Rightarrow> mid fns = mid fns'
     | (False, Btc) \<Rightarrow> hedgeBuyUsd fns = hedgeBuyUsd fns'
     | (False, Usd) \<Rightarrow> hedgeSellUsd fns = hedgeSellUsd fns'"
  shows "withConversion (Inr s) now fns = withConversion (Inr s) now fns'"
  using assms
  by (cases "b_senderWalletCurrency s"; cases "noConversionRequired s") (simp_all add: withConversion_def Let_def split: option.splits WalletCurrency.splits)

lemma div_ceil_bounds:
  assumes "0 \<le> a" and "0 < b"
  shows "a \<le> b * div_ceil a b" and "b * (div_ceil a b - 1) < a \<or> a = 0"
proof -
  have e: "b * div_ceil a b = b * (a div b) + (if a mod b = 0 then 0 else b)"
    by (simp add: div_ceil_nonneg [OF assms] distrib_left dvd_eq_mod_eq_0)
  note m = euclid [OF assms(2), of a]
  show "a \<le> b * div_ceil a b" using e m by (simp split: if_splits; linarith)
  have "b * (div_ceil a b - 1) = b * div_ceil a b - b" by (simp add: right_diff_distrib)
  then show "b * (div_ceil a b - 1) < a \<or> a = 0" using e m assms by (simp split: if_splits; linarith)
qed

text \<open>
  (C33) \<^bold>\<open>A probed route fixes the fee.\<close> A flow built with a route keeps the amounts of the
  conversion, records the route and the node, charges the fee of the route rounded up to a whole
  satoshi, and charges in cents that fee at the price of the payment, rounded up: the cents cover
  the fee and one cent less would not (unless the fee is zero).
\<close>

theorem withRoute_fee:
  assumes "conversion_stage_ok c" and "withRoute (Inr c) pk route = Inr f"
    and "route_fee route = Num q" and "0 \<le> q"
  shows "btcPaymentAmount f = c_btcPaymentAmount c \<and> usdPaymentAmount f = c_usdPaymentAmount c
    \<and> cachedRoute f = Some route \<and> outgoingNodePubkey f = Some pk
    \<and> btcProtocolFee f = BtcPaymentAmount \<lceil>q\<rceil>
    \<and> amount (btcProtocolFee f) * amount (usdPaymentAmount f)
        \<le> amount (btcPaymentAmount f) * amount (usdProtocolFee f)
    \<and> (amount (btcPaymentAmount f) * (amount (usdProtocolFee f) - 1)
        < amount (btcProtocolFee f) * amount (usdPaymentAmount f) \<or> \<lceil>q\<rceil> = 0)"
proof -
  have pos: "0 < amount (c_btcPaymentAmount c)" "0 < amount (c_usdPaymentAmount c)"
    using assms(1) by (simp_all add: conversion_stage_ok_def btc_pos_def usd_pos_def)
  have fee: "feeFromRawRoute route = Inr (BtcPaymentAmount \<lceil>q\<rceil>)"
    by (simp add: feeFromRawRoute_def assms(3) BtcPaymentAmount_def)
  have nn: "0 \<le> \<lceil>q\<rceil>" using assms(4) by simp
  let ?usd = "div_ceil (\<lceil>q\<rceil> * amount (c_usdPaymentAmount c)) (amount (c_btcPaymentAmount c))"
  have "btcPaymentAmount f = c_btcPaymentAmount c \<and> usdPaymentAmount f = c_usdPaymentAmount c
    \<and> cachedRoute f = Some route \<and> outgoingNodePubkey f = Some pk
    \<and> btcProtocolFee f = BtcPaymentAmount \<lceil>q\<rceil> \<and> amount (usdProtocolFee f) = ?usd"
    using assms(2) pos
    by (auto simp: withRoute_def fee result_bind_eq_Inr PriceRatio_Inr convertFromBtcToCeil_eq
        paymentFromState_def Let_def BtcPaymentAmount_def split: if_splits)
  then show ?thesis
    using div_ceil_bounds [of "\<lceil>q\<rceil> * amount (c_usdPaymentAmount c)" "amount (c_btcPaymentAmount c)"] nn pos
    by (auto simp: BtcPaymentAmount_def)
qed

theorem withRoute_fee_witness:
  "\<exists>f. withRoute (Inr sample_conversion) ''pk'' \<lparr>route_fee = Num (5/2), route_total_mtokens = None\<rparr> = Inr f
     \<and> btcProtocolFee f = BtcPaymentAmount 3"
proof -
  let ?route = "\<lparr>route_fee = Num (5/2), route_total_mtokens = None\<rparr>"
  have c: "\<lceil>5 / 2 :: rat\<rceil> = 3" by (simp add: ceiling_eq_iff)
  have fee: "feeFromRawRoute ?route = Inr (BtcPaymentAmount 3)"
    using paymentAmountFromNumber_int [of 3 Btc] by (simp add: feeFromRawRoute_def BtcPaymentAmount_def c)
  have ok: "conversion_stage_ok sample_conversion"
    by (simp add: conversion_stage_ok_def sample_conversion_def conv_state_def sample_stage_def
        recipient_stage_ok_def sender_stage_ok_def btc_pos_def usd_pos_def fee_ok_def
        BtcPaymentAmount_def UsdPaymentAmount_def)
  have "\<exists>f. withRoute (Inr sample_conversion) ''pk'' ?route = Inr f"
    by (simp add: withRoute_def fee sample_conversion_def conv_state_def sample_stage_def PriceRatio_def
        convertFromBtcToCeil_eq paymentFromState_def Let_def UsdPaymentAmount_def BtcPaymentAmount_def)
  then obtain f where f: "withRoute (Inr sample_conversion) ''pk'' ?route = Inr f" ..
  from withRoute_fee [OF ok f, of "5/2"] f show ?thesis by (auto simp: c)
qed

text \<open>
  \<^bold>\<open>The balance check covers amount and fee.\<close> \<^verbatim>\<open>checkBalanceForSend\<close> accepts a balance if
  and only if it is in the currency of the sending wallet and at least the total amount of the
  payment in that currency, fee included; a rejection for another currency is told apart from
  one for lack of funds.
\<close>

lemma checkBalanceForSend_iff:
  "checkBalanceForSend f b =
     (if currency b \<noteq> senderWalletCurrency f then Inl (ValidationError InvalidCurrencyForWalletError)
      else if amount ((if senderWalletCurrency f = Btc then fst else snd) (totalAmountsForPayment f)) \<le> amount b
        then Inr ()
      else Inl (ValidationError InsufficientBalanceError))"
  by (cases "senderWalletCurrency f") (auto simp: checkBalanceForSend_def totalAmountsForPayment_def calc_add_def)

end
