(* ===== verification/Actions.thy ===== *)
theory Actions
  imports Domain_Errors
begin

text \<open>
  Asynchronous code as state passing. An action runs on the state of the services it talks to
  and returns a result with the new state: awaiting a call that can fail, and returning early when
  it did, is \<open>act_bind\<close>; a \<^verbatim>\<open>try\<close> block catches what is thrown (\<open>Thrown\<close>), not the errors that
  are returned.
\<close>

type_synonym ('s, 'a) act = "'s \<Rightarrow> 'a result \<times> 's"

definition act_return :: "'a \<Rightarrow> ('s, 'a) act" where
  "act_return x = (\<lambda>s. (Inr x, s))"

definition act_fail :: "error \<Rightarrow> ('s, 'a) act" where
  "act_fail e = (\<lambda>s. (Inl e, s))"

definition act_result :: "'a result \<Rightarrow> ('s, 'a) act" where
  "act_result r = (\<lambda>s. (r, s))"

definition act_bind :: "('s, 'a) act \<Rightarrow> ('a \<Rightarrow> ('s, 'b) act) \<Rightarrow> ('s, 'b) act" where
  "act_bind m f = (\<lambda>s. case m s of (Inl e, s') \<Rightarrow> (Inl e, s') | (Inr x, s') \<Rightarrow> f x s')"

text \<open>The value of a call whose errors are ignored, or tested by the caller.\<close>

definition act_attempt :: "('s, 'a) act \<Rightarrow> ('s, 'a result) act" where
  "act_attempt m = (\<lambda>s. case m s of (r, s') \<Rightarrow> (Inr r, s'))"

definition act_try :: "('s, 'a) act \<Rightarrow> (string \<Rightarrow> error) \<Rightarrow> ('s, 'a) act" where
  "act_try m handler =
     (\<lambda>s. case m s of (Inl (Thrown message), s') \<Rightarrow> (Inl (handler message), s') | r \<Rightarrow> r)"

text \<open>An action keeps a property of the state, whatever it returns.\<close>

definition keeps :: "('s \<Rightarrow> bool) \<Rightarrow> ('s, 'a) act \<Rightarrow> bool" where
  "keeps P m = (\<forall>s. P s \<longrightarrow> P (snd (m s)))"

text \<open>Whatever an action returns satisfies a property.\<close>

definition yields :: "('s, 'a) act \<Rightarrow> ('a \<Rightarrow> bool) \<Rightarrow> bool" where
  "yields m Q = (\<forall>s x s'. m s = (Inr x, s') \<longrightarrow> Q x)"

text \<open>A call of external code, which throws a message or returns.\<close>

definition act_call :: "('s \<Rightarrow> (string + 'a) \<times> 's) \<Rightarrow> ('s, 'a) act" where
  "act_call f = (\<lambda>s. case f s of (Inl m, s') \<Rightarrow> (Inl (Thrown m), s') | (Inr x, s') \<Rightarrow> (Inr x, s'))"

lemma act_return_apply [simp]: "act_return x s = (Inr x, s)"
  by (simp add: act_return_def)

lemma act_fail_apply [simp]: "act_fail e s = (Inl e, s)"
  by (simp add: act_fail_def)

lemma act_result_apply [simp]: "act_result r s = (r, s)"
  by (simp add: act_result_def)

lemma act_bind_simps:
  "m s = (Inl e, s') \<Longrightarrow> act_bind m f s = (Inl e, s')"
  "m s = (Inr x, s') \<Longrightarrow> act_bind m f s = f x s'"
  by (simp_all add: act_bind_def)

lemma act_bind_return [simp]: "act_bind (act_return x) f = f x"
  by (simp add: act_bind_def fun_eq_iff)

lemma act_bind_fail [simp]: "act_bind (act_fail e) f = act_fail e"
  by (simp add: act_bind_def fun_eq_iff)

lemma act_bind_result [simp]:
  "act_bind (act_result (Inr x)) f = f x" "act_bind (act_result (Inl e)) f = act_fail e"
  by (simp_all add: act_bind_def fun_eq_iff)

lemma act_bind_eq_Inr:
  "act_bind m f s = (Inr y, s'') \<longleftrightarrow> (\<exists>x s'. m s = (Inr x, s') \<and> f x s' = (Inr y, s''))"
  by (auto simp: act_bind_def split: prod.splits sum.splits)

lemma act_try_eq_Inr: "act_try m h s = (Inr y, s') \<longleftrightarrow> m s = (Inr y, s')"
  by (auto simp: act_try_def split: prod.splits sum.splits error.splits)

lemma act_call_eq_Inr: "act_call f s = (Inr x, s') \<longleftrightarrow> f s = (Inr x, s')"
  by (auto simp: act_call_def split: prod.splits sum.splits)

lemma act_attempt_apply: "act_attempt m s = (Inr (fst (m s)), snd (m s))"
  by (simp add: act_attempt_def case_prod_unfold)

lemma act_try_state: "snd (act_try m h s) = snd (m s)"
  by (auto simp: act_try_def split: prod.splits sum.splits error.splits)

named_theorems keeps_intros \<open>actions that keep an invariant\<close>

lemma keepsD: "keeps P m \<Longrightarrow> P s \<Longrightarrow> m s = (r, s') \<Longrightarrow> P s'"
  unfolding keeps_def by (metis snd_conv)

lemma keeps_return [keeps_intros]: "keeps P (act_return x)"
  by (simp add: keeps_def)

lemma keeps_fail [keeps_intros]: "keeps P (act_fail e)"
  by (simp add: keeps_def)

lemma keeps_result [keeps_intros]: "keeps P (act_result r)"
  by (simp add: keeps_def)

lemma keeps_bind [keeps_intros]:
  assumes "keeps P m" and "\<And>x. keeps P (f x)"
  shows "keeps P (act_bind m f)"
  unfolding keeps_def
proof (intro allI impI)
  fix s assume "P s"
  obtain r s' where m: "m s = (r, s')" by (cases "m s")
  then have "P s'" using keepsD [OF assms(1) \<open>P s\<close>] by simp
  with assms(2) \<open>m s = (r, s')\<close> show "P (snd (act_bind m f s))"
    by (cases r) (auto simp: act_bind_def keeps_def)
qed

lemma keeps_bind_result:
  "(\<And>x. r = Inr x \<Longrightarrow> keeps P (f x)) \<Longrightarrow> keeps P (act_bind (act_result r) f)"
  by (cases r) (simp_all add: keeps_fail)

lemma keeps_try [keeps_intros]: "keeps P m \<Longrightarrow> keeps P (act_try m h)"
  by (simp add: keeps_def act_try_state)

lemma keeps_attempt [keeps_intros]: "keeps P m \<Longrightarrow> keeps P (act_attempt m)"
  unfolding keeps_def act_attempt_def by (simp add: case_prod_unfold)

lemma keeps_call:
  "(\<And>s r s'. P s \<Longrightarrow> f s = (r, s') \<Longrightarrow> P s') \<Longrightarrow> keeps P (act_call f)"
  unfolding keeps_def act_call_def by (auto split: prod.splits sum.splits)

lemma keeps_bind_yields:
  assumes "keeps P m" and "yields m Q" and "\<And>x. Q x \<Longrightarrow> keeps P (f x)"
  shows "keeps P (act_bind m f)"
  unfolding keeps_def
proof (intro allI impI)
  fix s assume "P s"
  obtain r s' where m: "m s = (r, s')" by (cases "m s")
  then have "P s'" using keepsD [OF assms(1) \<open>P s\<close>] by simp
  with m assms(2,3) show "P (snd (act_bind m f s))"
    by (cases r) (auto simp: act_bind_def keeps_def yields_def)
qed

lemma yields_return: "Q x \<Longrightarrow> yields (act_return x) Q"
  by (simp add: yields_def)

lemma yields_fail: "yields (act_fail e) Q"
  by (simp add: yields_def)

lemma yields_bind_result:
  "(\<And>x. r = Inr x \<Longrightarrow> yields (f x) Q) \<Longrightarrow> yields (act_bind (act_result r) f) Q"
  by (cases r) (simp_all add: yields_fail)

lemmas yields_intros = yields_return yields_fail yields_bind_result

end
