(* ===== verification/Ledger_Service.thy ===== *)
theory Ledger_Service
  imports Payment_Flow Actions
begin

text \<open>
  Recording in the ledger: \<^verbatim>\<open>services/ledger/caching.ts\<close>, \<^verbatim>\<open>helpers.ts\<close>, \<^verbatim>\<open>facade.ts\<close>,
  \<^verbatim>\<open>send.ts\<close>, \<^verbatim>\<open>receive.ts\<close>, \<^verbatim>\<open>intraledger.ts\<close>, \<^verbatim>\<open>admin.ts\<close>, \<^verbatim>\<open>admin-legacy.ts\<close>, the
  metadata repository (\<^verbatim>\<open>services/transactions-metadata.ts\<close>) and
  \<^verbatim>\<open>services/mongoose/utils.ts\<close>.

  The database is an abstract state \<open>'w\<close>; what the code calls of medici and mongoose on it is
  the record \<open>ledger_env\<close> and what they document is the locale \<open>book\<close>. The main theorem is
  the invariant of double-entry bookkeeping: every operation that writes the ledger keeps every
  journal balanced in both currencies.
\<close>

section \<open>The database\<close>

record SavedEntry =
  saved_id :: LedgerJournalId
  saved_voided :: bool
  saved_transactions :: "LedgerTransactionId list"

record LedgerJournal =
  journalId :: LedgerJournalId
  journal_voided :: bool
  transactionIds :: "LedgerTransactionId list"

record TransactionMetadataRecord =
  tmr_id :: LedgerTransactionId
  tmr_hash :: "string option"
  tmr_revealedPreImage :: "RevealedPreImage option"
  tmr_swap :: "TxMetadata option"

text \<open>
  The calls on the database. \<open>book_balance\<close> takes the account and the currency filter;
  \<open>tx_updateMany_hash\<close> and \<open>tx_updateMany_journal\<close> are \<^verbatim>\<open>Transaction.updateMany\<close> with a
  filter on the hash or the journal and return the number of modified documents; the \<open>md\<close>
  operations are those of the collection \<^verbatim>\<open>TransactionMetadata\<close>. A left value is the message
  of a thrown exception.
\<close>

record ('e, 'w) ledger_env = "'e medici" +
  book_entry :: "string \<Rightarrow> 'e"
  entry_commit :: "'e \<Rightarrow> 'w \<Rightarrow> (string + SavedEntry) \<times> 'w"
  book_void :: "LedgerJournalId \<Rightarrow> string \<Rightarrow> 'w \<Rightarrow> (string + SavedEntry) \<times> 'w"
  book_balance :: "LedgerAccountId \<Rightarrow> WalletCurrency option \<Rightarrow> 'w \<Rightarrow> (string + jsnum) \<times> 'w"
  tx_updateMany_hash :: "string \<Rightarrow> TxMetadata \<Rightarrow> 'w \<Rightarrow> (string + nat) \<times> 'w"
  tx_updateMany_journal :: "LedgerJournalId \<Rightarrow> TxMetadata \<Rightarrow> 'w \<Rightarrow> (string + nat) \<times> 'w"
  md_insertMany :: "TransactionMetadataRecord list \<Rightarrow> 'w \<Rightarrow> (string + TransactionMetadataRecord list) \<times> 'w"
  md_updateMany :: "string \<Rightarrow> RevealedPreImage option \<Rightarrow> 'w \<Rightarrow> (string + nat) \<times> 'w"
  md_findOne_id :: "LedgerTransactionId \<Rightarrow> 'w \<Rightarrow> (string + TransactionMetadataRecord option) \<times> 'w"
  md_findOne_hash :: "string \<Rightarrow> 'w \<Rightarrow> (string + TransactionMetadataRecord option) \<times> 'w"

section \<open>Repository errors\<close>

definition line_char :: "char \<Rightarrow> bool" where
  "line_char c = (c \<noteq> CHR ''\<newline>'' \<and> of_char c \<noteq> (13 :: nat))"

text \<open>\<^verbatim>\<open>.+\<close> followed by a literal, then by what the continuation accepts.\<close>

fun some_then :: "string \<Rightarrow> (string \<Rightarrow> bool) \<Rightarrow> string \<Rightarrow> bool" where
  "some_then lit k [] = False"
| "some_then lit k (c # cs) =
     (line_char c \<and> (starts_with lit cs \<and> k (drop (length lit) cs) \<or> some_then lit k cs))"

fun connection_closed :: "string \<Rightarrow> bool" where
  "connection_closed [] = False"
| "connection_closed (c # cs) =
     (starts_with ''connection '' (c # cs)
        \<and> some_then '' to '' (some_then '' closed'' (\<lambda>_. True)) (drop (length ''connection '') (c # cs))
      \<or> connection_closed cs)"

definition parseRepositoryError :: "string \<Rightarrow> error" where
  "parseRepositoryError message =
     (if str_includes ''MongoNetworkTimeoutError: connection timed out'' message
        \<or> str_includes ''MongooseServerSelectionError: connection timed out'' message
        \<or> str_includes ''MongooseServerSelectionError: getaddrinfo ENOTFOUND'' message
        \<or> str_includes ''MongooseServerSelectionError: connect ECONNREFUSED'' message
      then RepositoryError CannotConnectToDbError
      else if connection_closed message then RepositoryError DbConnectionClosedError
      else RepositoryError UnknownRepositoryError)"

section \<open>TransactionsMetadataRepository\<close>

record LedgerTransactionMetadata =
  ltm_id :: LedgerTransactionId
  ltm_hash :: "string option"
  ltm_revealedPreImage :: "RevealedPreImage option"

definition translateToLedgerTxMetadata :: "TransactionMetadataRecord \<Rightarrow> LedgerTransactionMetadata" where
  "translateToLedgerTxMetadata r =
     \<lparr>ltm_id = tmr_id r, ltm_hash = str_or_undefined (tmr_hash r),
      ltm_revealedPreImage = str_or_undefined (tmr_revealedPreImage r)\<rparr>"

definition md_updateByHash ::
  "('e, 'w, 'x) ledger_env_scheme \<Rightarrow> string \<Rightarrow> RevealedPreImage option \<Rightarrow> ('w, unit) act" where
  "md_updateByHash E hash revealedPreImage =
     act_try
       (act_bind (act_call (md_updateMany E hash revealedPreImage)) (\<lambda>modifiedCount.
          if 0 < modifiedCount then act_return () else act_fail (not_found_err NoTransactionToUpdateError)))
       parseRepositoryError"

definition md_persistAll ::
  "('e, 'w, 'x) ledger_env_scheme \<Rightarrow> TransactionMetadataRecord list \<Rightarrow> ('w, LedgerTransactionMetadata list) act" where
  "md_persistAll E records =
     (if records = [] then act_return []
      else act_try
        (act_bind (act_call (md_insertMany E records)) (\<lambda>result.
           act_return (map translateToLedgerTxMetadata result)))
        parseRepositoryError)"

definition md_findById ::
  "('e, 'w, 'x) ledger_env_scheme \<Rightarrow> LedgerTransactionId \<Rightarrow> ('w, LedgerTransactionMetadata) act" where
  "md_findById E txId =
     act_try
       (act_bind (act_call (md_findOne_id E txId)) (\<lambda>result.
          case result of
            None \<Rightarrow> act_fail (LedgerError CouldNotFindTransactionMetadataError)
          | Some r \<Rightarrow> act_return (translateToLedgerTxMetadata r)))
       parseRepositoryError"

definition md_findByHash ::
  "('e, 'w, 'x) ledger_env_scheme \<Rightarrow> string \<Rightarrow> ('w, LedgerTransactionMetadata) act" where
  "md_findByHash E hash =
     act_try
       (act_bind (act_call (md_findOne_hash E hash)) (\<lambda>result.
          case result of
            None \<Rightarrow> act_fail (LedgerError CouldNotFindTransactionMetadataError)
          | Some r \<Rightarrow> act_return (translateToLedgerTxMetadata r)))
       (\<lambda>_. RepositoryError UnknownRepositoryError)"

section \<open>Caching of the special wallets\<close>

text \<open>
  The module variables of \<^verbatim>\<open>caching.ts\<close> together with the database. A resolver reads the
  database and either gives a wallet or rejects.
\<close>

record 'w ledger_state =
  db :: 'w
  cacheDealerBtcWalletId :: "WalletId option"
  cacheDealerUsdWalletId :: "WalletId option"
  cacheBankOwnerWalletId :: "WalletId option"
  cacheFunderWalletId :: "WalletId option"
  bankOwnerResolver :: "'w \<Rightarrow> string + WalletId"
  dealerBtcResolver :: "'w \<Rightarrow> string + WalletId"
  dealerUsdResolver :: "'w \<Rightarrow> string + WalletId"
  funderResolver :: "'w \<Rightarrow> string + WalletId"

definition initial_ledger_state :: "'w \<Rightarrow> 'w ledger_state" where
  "initial_ledger_state w =
     \<lparr>db = w, cacheDealerBtcWalletId = None, cacheDealerUsdWalletId = None,
      cacheBankOwnerWalletId = None, cacheFunderWalletId = None,
      bankOwnerResolver = (\<lambda>_. Inl ''Invalid bankOwnerWalletPath''),
      dealerBtcResolver = (\<lambda>_. Inl ''Invalid dealerBtcWalletPath''),
      dealerUsdResolver = (\<lambda>_. Inl ''Invalid dealerUsdWalletPath''),
      funderResolver = (\<lambda>_. Inl ''Invalid funderWalletPath'')\<rparr>"

definition lazyLoadLedgerAdmin ::
  "('w \<Rightarrow> string + WalletId) \<Rightarrow> ('w \<Rightarrow> string + WalletId) \<Rightarrow> ('w \<Rightarrow> string + WalletId) \<Rightarrow> ('w \<Rightarrow> string + WalletId)
     \<Rightarrow> 'w ledger_state \<Rightarrow> 'w ledger_state" where
  "lazyLoadLedgerAdmin bankOwner dealerBtc dealerUsd funder s =
     s\<lparr>bankOwnerResolver := bankOwner, dealerBtcResolver := dealerBtc,
       dealerUsdResolver := dealerUsd, funderResolver := funder\<rparr>"

definition cached ::
  "('w ledger_state \<Rightarrow> WalletId option) \<Rightarrow> (WalletId option \<Rightarrow> 'w ledger_state \<Rightarrow> 'w ledger_state)
     \<Rightarrow> ('w ledger_state \<Rightarrow> 'w \<Rightarrow> string + WalletId) \<Rightarrow> ('w ledger_state, WalletId) act" where
  "cached get put resolver s =
     (if truthy_str (get s) then (Inr (the (get s)), s)
      else case resolver s (db s) of
             Inl message \<Rightarrow> (Inl (Thrown message), s)
           | Inr walletId \<Rightarrow> (Inr walletId, put (Some walletId) s))"

definition getDealerBtcWalletId :: "('w ledger_state, WalletId) act" where
  "getDealerBtcWalletId =
     cached cacheDealerBtcWalletId (\<lambda>w s. s\<lparr>cacheDealerBtcWalletId := w\<rparr>) dealerBtcResolver"

definition getDealerUsdWalletId :: "('w ledger_state, WalletId) act" where
  "getDealerUsdWalletId =
     cached cacheDealerUsdWalletId (\<lambda>w s. s\<lparr>cacheDealerUsdWalletId := w\<rparr>) dealerUsdResolver"

definition getBankOwnerWalletId :: "('w ledger_state, WalletId) act" where
  "getBankOwnerWalletId =
     cached cacheBankOwnerWalletId (\<lambda>w s. s\<lparr>cacheBankOwnerWalletId := w\<rparr>) bankOwnerResolver"

definition getFunderWalletId :: "('w ledger_state, WalletId) act" where
  "getFunderWalletId =
     cached cacheFunderWalletId (\<lambda>w s. s\<lparr>cacheFunderWalletId := w\<rparr>) funderResolver"

text \<open>The dealer's bitcoin and dollar wallets; then those with the bank owner and the funder.\<close>

definition getDealerWalletIds :: "('w ledger_state, WalletId \<times> WalletId) act" where
  "getDealerWalletIds =
     act_bind getDealerBtcWalletId (\<lambda>btc. act_bind getDealerUsdWalletId (\<lambda>usd. act_return (btc, usd)))"

definition getNonEndUserWalletIds :: "('w ledger_state, WalletId \<times> WalletId \<times> WalletId \<times> WalletId) act" where
  "getNonEndUserWalletIds =
     act_bind getDealerWalletIds (\<lambda>(btc, usd).
     act_bind getBankOwnerWalletId (\<lambda>bankOwner.
     act_bind getFunderWalletId (\<lambda>funder. act_return (btc, usd, bankOwner, funder))))"

definition staticAccountIds :: "('w ledger_state, StaticAccountIds) act" where
  "staticAccountIds =
     act_bind getBankOwnerWalletId (\<lambda>bankOwner.
     act_bind getDealerBtcWalletId (\<lambda>btc.
     act_bind getDealerUsdWalletId (\<lambda>usd.
       act_return
         \<lparr>bankOwnerAccountId = toLedgerAccountId bankOwner, dealerBtcAccountId = toLedgerAccountId btc,
          dealerUsdAccountId = toLedgerAccountId usd\<rparr>)))"

definition on_db :: "('w, 'a) act \<Rightarrow> ('w ledger_state, 'a) act" where
  "on_db m s = (case m (db s) of (r, w) \<Rightarrow> (r, s\<lparr>db := w\<rparr>))"

section \<open>Persisting entries\<close>

definition translateToLedgerJournal :: "SavedEntry \<Rightarrow> LedgerJournal" where
  "translateToLedgerJournal saved =
     \<lparr>journalId = saved_id saved, journal_voided = saved_voided saved,
      transactionIds = saved_transactions saved\<rparr>"

definition metadata_records ::
  "LedgerTransactionId list \<Rightarrow> string option \<Rightarrow> RevealedPreImage option \<Rightarrow> TransactionMetadataRecord list" where
  "metadata_records ids hash revealed =
     map (\<lambda>txId. \<lparr>tmr_id = txId, tmr_hash = hash, tmr_revealedPreImage = revealed, tmr_swap = None\<rparr>) ids"

text \<open>
  \<^verbatim>\<open>persistAll\<close> is started but not awaited and its outcome is not looked at; it is run here
  before the journal is returned.
\<close>

definition commit_and_persist ::
  "('e, 'w, 'x) ledger_env_scheme \<Rightarrow> 'e \<Rightarrow> string option \<Rightarrow> RevealedPreImage option \<Rightarrow> ('w, LedgerJournal) act" where
  "commit_and_persist E entry hash revealed =
     act_bind (act_call (entry_commit E entry)) (\<lambda>savedEntry.
     let journalEntry = translateToLedgerJournal savedEntry
     in act_bind (act_attempt (md_persistAll E (metadata_records (transactionIds journalEntry) hash revealed)))
          (\<lambda>_. act_return journalEntry))"

definition unknown_ledger :: "string \<Rightarrow> error" where
  "unknown_ledger message = LedgerError UnknownLedgerError"

definition unknown_facade :: "string \<Rightarrow> error" where
  "unknown_facade message = LedgerFacadeError UnknownLedgerFacadeError"

definition persistAndReturnEntry ::
  "('e, 'w, 'x) ledger_env_scheme \<Rightarrow> 'e \<Rightarrow> string option \<Rightarrow> RevealedPreImage option \<Rightarrow> ('w, LedgerJournal) act" where
  "persistAndReturnEntry E entry hash revealed =
     act_try (commit_and_persist E entry hash revealed) unknown_facade"

definition meta_str :: "TxMetadata \<Rightarrow> string \<Rightarrow> string option" where
  "meta_str m key = (case m key of Some (MStr s) \<Rightarrow> Some s | _ \<Rightarrow> None)"

section \<open>The facade\<close>

text \<open>Pairs of amounts are dollars, bitcoin.\<close>

definition or_zero_fee :: "(Amount \<times> Amount) option \<Rightarrow> Amount \<times> Amount" where
  "or_zero_fee bankFee = (case bankFee of None \<Rightarrow> (ZERO_CENTS, ZERO_SATS) | Some f \<Rightarrow> f)"

definition builder_config :: "('e, 'w, 'x) ledger_env_scheme \<Rightarrow> string \<Rightarrow> StaticAccountIds \<Rightarrow> TxMetadata \<Rightarrow> 'e EntryBuilderConfig" where
  "builder_config E description ids metadata =
     \<lparr>eb_entry = book_entry E description, eb_metadata = metadata, eb_staticAccountIds = ids\<rparr>"

definition recordSend ::
  "('e, 'w, 'x) ledger_env_scheme \<Rightarrow> string \<Rightarrow> WalletDescriptor \<Rightarrow> Amount \<times> Amount \<Rightarrow> (Amount \<times> Amount) option
     \<Rightarrow> TxMetadata \<Rightarrow> ('w ledger_state, LedgerJournal) act" where
  "recordSend E description sender amountToDebitSender bankFee metadata =
     act_bind staticAccountIds (\<lambda>ids.
       let (usd, btc) = amountToDebitSender; (usdFee, btcFee) = or_zero_fee bankFee;
           entry = creditLnd E (debitAccount E
             (withBankFee E (withTotalAmount (builder_config E description ids metadata) usd btc) usdFee btcFee)
             (toLedgerAccountDescriptor sender) None)
       in on_db (persistAndReturnEntry E entry (meta_str metadata ''hash'') None))"

definition recordReceive ::
  "('e, 'w, 'x) ledger_env_scheme \<Rightarrow> string \<Rightarrow> WalletDescriptor \<Rightarrow> Amount \<times> Amount \<Rightarrow> (Amount \<times> Amount) option
     \<Rightarrow> TxMetadata \<Rightarrow> string option \<Rightarrow> RevealedPreImage option \<Rightarrow> ('w ledger_state, LedgerJournal) act" where
  "recordReceive E description recipient amountToCreditReceiver bankFee metadata txHash revealed =
     act_bind staticAccountIds (\<lambda>ids.
       let (usd, btc) = amountToCreditReceiver; (usdFee, btcFee) = or_zero_fee bankFee;
           entry = creditAccount E (debitLnd E
             (withBankFee E (withTotalAmount (builder_config E description ids metadata)
                (calc_add usd usdFee) (calc_add btc btcFee)) usdFee btcFee))
             (toLedgerAccountDescriptor recipient)
       in on_db (persistAndReturnEntry E entry txHash revealed))"

definition recordIntraledger ::
  "('e, 'w, 'x) ledger_env_scheme \<Rightarrow> string \<Rightarrow> WalletDescriptor \<Rightarrow> WalletDescriptor \<Rightarrow> Amount \<times> Amount
     \<Rightarrow> TxMetadata \<Rightarrow> TxMetadata \<Rightarrow> ('w ledger_state, LedgerJournal) act" where
  "recordIntraledger E description sender recipient amt metadata additionalMetadata =
     act_bind staticAccountIds (\<lambda>ids.
       let (usd, btc) = amt;
           entry = creditAccount E (debitAccount E
             (withBankFee E (withTotalAmount (builder_config E description ids metadata) usd btc)
                ZERO_CENTS ZERO_SATS)
             (toLedgerAccountDescriptor sender) (Some additionalMetadata))
             (toLedgerAccountDescriptor recipient)
       in on_db (persistAndReturnEntry E entry (meta_str metadata ''hash'') None))"

definition getLedgerAccountBalanceForWalletId ::
  "('e, 'w, 'x) ledger_env_scheme \<Rightarrow> WalletDescriptor \<Rightarrow> ('w, Amount) act" where
  "getLedgerAccountBalanceForWalletId E w =
     act_try
       (act_bind (act_call (book_balance E (toLedgerAccountId (wd_id w)) None)) (\<lambda>balance.
          act_result (paymentAmountFromNumber balance (wd_currency w))))
       unknown_facade"

definition not_pending :: TxMetadata where
  "not_pending = [''pending'' \<mapsto> MBool False]"

definition update_modified :: "(string \<Rightarrow> error) \<Rightarrow> error \<Rightarrow> ('w \<Rightarrow> (string + nat) \<times> 'w) \<Rightarrow> ('w, unit) act" where
  "update_modified handler none_error update =
     act_try
       (act_bind (act_call update) (\<lambda>modifiedCount.
          if 0 < modifiedCount then act_return () else act_fail none_error))
       handler"

definition settlePendingLnSend :: "('e, 'w, 'x) ledger_env_scheme \<Rightarrow> PaymentHash \<Rightarrow> ('w, unit) act" where
  "settlePendingLnSend E hash =
     update_modified unknown_facade (LedgerFacadeError NoTransactionToSettleFacadeError)
       (tx_updateMany_hash E hash not_pending)"

definition void_and_persist ::
  "('e, 'w, 'x) ledger_env_scheme \<Rightarrow> (string \<Rightarrow> error) \<Rightarrow> LedgerJournalId \<Rightarrow> PaymentHash \<Rightarrow> ('w, unit) act" where
  "void_and_persist E handler jid hash =
     act_try
       (act_bind (act_call (book_void E jid ''Payment canceled'')) (\<lambda>savedEntry.
        let journalEntry = translateToLedgerJournal savedEntry
        in act_bind (act_attempt (md_persistAll E (metadata_records (transactionIds journalEntry) (Some hash) None)))
             (\<lambda>_. act_return ())))
       handler"

definition recordLnSendRevert :: "('e, 'w, 'x) ledger_env_scheme \<Rightarrow> LedgerJournalId \<Rightarrow> PaymentHash \<Rightarrow> ('w, unit) act" where
  "recordLnSendRevert E = void_and_persist E unknown_facade"

definition updateMetadataByHash ::
  "('e, 'w, 'x) ledger_env_scheme \<Rightarrow> string \<Rightarrow> RevealedPreImage option \<Rightarrow> ('w, unit) act" where
  "updateMetadataByHash E = md_updateByHash E"

section \<open>Sending\<close>

definition opt_str :: "string option \<Rightarrow> mval" where
  "opt_str s = (case s of None \<Rightarrow> MUndefined | Some t \<Rightarrow> MStr t)"

definition addSendNoInternalFee ::
  "('e, 'w, 'x) ledger_env_scheme \<Rightarrow> TxMetadata \<Rightarrow> WalletId \<Rightarrow> WalletCurrency \<Rightarrow> jsnum \<Rightarrow> jsnum option \<Rightarrow> string
     \<Rightarrow> ('w ledger_state, LedgerJournal) act" where
  "addSendNoInternalFee E metaInput walletId walletCurrency sats cents description =
     act_bind staticAccountIds (\<lambda>ids.
       let accountId = toLedgerAccountId walletId;
           metadata = metaInput(''currency'' \<mapsto> MCur walletCurrency);
           builder = legacy_withoutFee E (builder_config E description ids metadata)
       in act_bind (act_result (paymentAmountFromNumber sats Btc)) (\<lambda>satsAmount.
          act_bind
            (case walletCurrency of
               Btc \<Rightarrow> act_return (legacy_creditLnd E (legacy_debitAccount E builder accountId satsAmount None) satsAmount)
             | Usd \<Rightarrow>
                 if \<not> truthy_num cents then act_fail (LedgerError UnknownLedgerError)
                 else act_bind (act_result (paymentAmountFromNumber (the cents) Usd)) (\<lambda>centsAmount.
                   act_return (legacy_creditLnd E (legacy_debitAccount E builder accountId centsAmount None) satsAmount)))
            (\<lambda>entry. on_db (act_try (commit_and_persist E entry (meta_str metadata ''hash'') None) unknown_ledger))))"

definition addSendInternalFee ::
  "('e, 'w, 'x) ledger_env_scheme \<Rightarrow> TxMetadata \<Rightarrow> WalletId \<Rightarrow> WalletCurrency \<Rightarrow> jsnum \<Rightarrow> jsnum \<Rightarrow> string
     \<Rightarrow> ('w ledger_state, LedgerJournal) act" where
  "addSendInternalFee E metaInput walletId walletCurrency sats fee description =
     (if walletCurrency \<noteq> Btc then act_fail NotImplementedError
      else act_bind staticAccountIds (\<lambda>ids.
        let accountId = toLedgerAccountId walletId
        in on_db (act_try
             (act_bind (act_result (paymentAmountFromNumber fee Btc)) (\<lambda>feeSatsAmount.
              act_bind (act_result (paymentAmountFromNumber sats Btc)) (\<lambda>satsAmount.
                let entry = legacy_creditLnd E
                      (legacy_debitAccount E
                         (legacy_withFee E (builder_config E description ids metaInput) feeSatsAmount)
                         accountId satsAmount None)
                      satsAmount
                in commit_and_persist E entry (meta_str metaInput ''hash'') None)))
             unknown_ledger)))"

definition addOnChainTxSend ::
  "('e, 'w, 'x) ledger_env_scheme \<Rightarrow> WalletId \<Rightarrow> WalletCurrency \<Rightarrow> OnChainTxHash \<Rightarrow> OnChainAddress \<Rightarrow> string
     \<Rightarrow> jsnum \<Rightarrow> jsnum \<Rightarrow> jsnum \<Rightarrow> jsnum \<Rightarrow> jsnum \<Rightarrow> bool \<Rightarrow> ('w ledger_state, LedgerJournal) act" where
  "addOnChainTxSend E walletId walletCurrency txHash payeeAddress description sats bankFee
       amountDisplayCurrency totalFee totalFeeDisplayCurrency sendAll =
     (let metadata = map_of
        [(''type'', MType OnchainPayment), (''pending'', MBool True), (''hash'', MStr txHash),
         (''payee_addresses'', MStrs [payeeAddress]), (''fee'', MNum totalFee),
         (''feeUsd'', MNum totalFeeDisplayCurrency), (''usd'', MNum amountDisplayCurrency),
         (''sendAll'', MBool sendAll)]
      in if js_less (Num 0) bankFee
         then addSendInternalFee E metadata walletId walletCurrency sats bankFee description
         else addSendNoInternalFee E metadata walletId walletCurrency sats None description)"

definition setOnChainTxSendHash ::
  "('e, 'w, 'x) ledger_env_scheme \<Rightarrow> LedgerJournalId \<Rightarrow> OnChainTxHash \<Rightarrow> ('w, unit) act" where
  "setOnChainTxSendHash E jid newTxHash =
     update_modified unknown_ledger (not_found_err NoTransactionToUpdateError)
       (tx_updateMany_journal E jid [''hash'' \<mapsto> MStr newTxHash])"

definition settlePendingLnPayment :: "('e, 'w, 'x) ledger_env_scheme \<Rightarrow> PaymentHash \<Rightarrow> ('w, unit) act" where
  "settlePendingLnPayment E hash =
     update_modified unknown_ledger (LedgerError NoTransactionToSettleError)
       (tx_updateMany_hash E hash not_pending)"

definition settlePendingOnChainPayment :: "('e, 'w, 'x) ledger_env_scheme \<Rightarrow> OnChainTxHash \<Rightarrow> ('w, unit) act" where
  "settlePendingOnChainPayment E hash =
     update_modified unknown_ledger (LedgerError NoTransactionToSettleError)
       (tx_updateMany_hash E hash not_pending)"

definition revertLightningPayment ::
  "('e, 'w, 'x) ledger_env_scheme \<Rightarrow> LedgerJournalId \<Rightarrow> PaymentHash \<Rightarrow> ('w, unit) act" where
  "revertLightningPayment E = void_and_persist E unknown_ledger"

definition revertOnChainPayment ::
  "('e, 'w, 'x) ledger_env_scheme \<Rightarrow> LedgerJournalId \<Rightarrow> string option \<Rightarrow> ('w, unit) act" where
  "revertOnChainPayment E jid description =
     act_try
       (act_bind (act_call (tx_updateMany_journal E jid not_pending)) (\<lambda>_.
        act_bind (act_call (book_void E jid (case description of None \<Rightarrow> ''Protocol error'' | Some d \<Rightarrow> d)))
          (\<lambda>_. act_return ())))
       unknown_ledger"

section \<open>Receiving\<close>

definition addReceiptNoFee ::
  "('e, 'w, 'x) ledger_env_scheme \<Rightarrow> TxMetadata \<Rightarrow> WalletId \<Rightarrow> WalletCurrency \<Rightarrow> jsnum \<Rightarrow> jsnum option \<Rightarrow> string
     \<Rightarrow> RevealedPreImage option \<Rightarrow> ('w ledger_state, LedgerJournal) act" where
  "addReceiptNoFee E metaInput walletId walletCurrency sats cents description revealed =
     act_bind staticAccountIds (\<lambda>ids.
       let accountId = toLedgerAccountId walletId
       in act_bind (act_result (paymentAmountFromNumber sats Btc)) (\<lambda>satsAmount.
          let builder = legacy_debitLnd E
                (legacy_withoutFee E (builder_config E description ids metaInput)) satsAmount
          in act_bind
               (case walletCurrency of
                  Btc \<Rightarrow> act_return (legacy_creditAccount E builder accountId None)
                | Usd \<Rightarrow>
                    (case cents of
                       None \<Rightarrow> act_fail NotReachableError
                     | Some c \<Rightarrow>
                         act_bind (act_result (paymentAmountFromNumber c Usd)) (\<lambda>centsAmount.
                           act_return (legacy_creditAccount E builder accountId (Some centsAmount)))))
               (\<lambda>entry. on_db (act_try (commit_and_persist E entry (meta_str metaInput ''hash'') revealed)
                                 unknown_ledger))))"

definition addReceiptFee ::
  "('e, 'w, 'x) ledger_env_scheme \<Rightarrow> TxMetadata \<Rightarrow> jsnum \<Rightarrow> WalletId \<Rightarrow> WalletCurrency \<Rightarrow> jsnum \<Rightarrow> string
     \<Rightarrow> ('w ledger_state, LedgerJournal) act" where
  "addReceiptFee E metaInput fee walletId walletCurrency sats description =
     act_bind staticAccountIds (\<lambda>ids.
       if walletCurrency \<noteq> Btc then act_fail NotImplementedError
       else act_bind (act_result (paymentAmountFromNumber fee Btc)) (\<lambda>feeSatsAmount.
            act_bind (act_result (paymentAmountFromNumber sats Btc)) (\<lambda>satsAmount.
              let entry = legacy_creditAccount E
                    (legacy_debitLnd E
                       (legacy_withFee E (builder_config E description ids metaInput) feeSatsAmount) satsAmount)
                    (toLedgerAccountId walletId) None
              in on_db (act_try (commit_and_persist E entry (meta_str metaInput ''hash'') None) unknown_ledger))))"

definition addOnChainTxReceive ::
  "('e, 'w, 'x) ledger_env_scheme \<Rightarrow> WalletId \<Rightarrow> WalletCurrency \<Rightarrow> OnChainTxHash \<Rightarrow> jsnum \<Rightarrow> jsnum \<Rightarrow> jsnum \<Rightarrow> jsnum
     \<Rightarrow> OnChainAddress \<Rightarrow> ('w ledger_state, LedgerJournal) act" where
  "addOnChainTxReceive E walletId walletCurrency txHash sats fee feeDisplayCurrency amountDisplayCurrency
       receivingAddress =
     (let metadata = map_of
        [(''type'', MType OnchainReceipt), (''pending'', MBool False), (''hash'', MStr txHash),
         (''fee'', MNum fee), (''feeUsd'', MNum feeDisplayCurrency), (''usd'', MNum amountDisplayCurrency),
         (''payee_addresses'', MStrs [receivingAddress])]
      in if js_less (Num 0) fee
         then addReceiptFee E metadata fee walletId walletCurrency sats []
         else addReceiptNoFee E metadata walletId walletCurrency sats None [] None)"

definition addLnTxReceive ::
  "('e, 'w, 'x) ledger_env_scheme \<Rightarrow> WalletId \<Rightarrow> WalletCurrency \<Rightarrow> PaymentHash \<Rightarrow> string \<Rightarrow> jsnum \<Rightarrow> jsnum \<Rightarrow> jsnum
     \<Rightarrow> jsnum \<Rightarrow> jsnum option \<Rightarrow> ('w ledger_state, LedgerJournal) act" where
  "addLnTxReceive E walletId walletCurrency hash description sats feeInboundLiquidityDisplayCurrency
       amountDisplayCurrency feeInboundLiquidity cents =
     (let metadata = map_of
        [(''type'', MType Invoice), (''pending'', MBool False), (''hash'', MStr hash),
         (''fee'', MNum feeInboundLiquidity), (''feeUsd'', MNum feeInboundLiquidityDisplayCurrency),
         (''usd'', MNum amountDisplayCurrency)]
      in if js_less (Num 0) feeInboundLiquidity
         then addReceiptFee E metadata feeInboundLiquidity walletId walletCurrency sats description
         else addReceiptNoFee E metadata walletId walletCurrency sats cents description None)"

definition addLnFeeReimbursementReceive ::
  "('e, 'w, 'x) ledger_env_scheme \<Rightarrow> WalletId \<Rightarrow> WalletCurrency \<Rightarrow> PaymentHash \<Rightarrow> LedgerJournalId \<Rightarrow> jsnum
     \<Rightarrow> jsnum option \<Rightarrow> RevealedPreImage option \<Rightarrow> PaymentFlowState \<Rightarrow> jsnum \<Rightarrow> jsnum \<Rightarrow> string
     \<Rightarrow> ('w ledger_state, LedgerJournal) act" where
  "addLnFeeReimbursementReceive E walletId walletCurrency hash jid sats cents revealed flow
       feeDisplayCurrency amountDisplayCurrency displayCurrency =
     (let metadata = map_of
        [(''type'', MType LnFeeReimbursement), (''hash'', MStr hash), (''related_journal'', MStr jid),
         (''pending'', MBool False),
         (''usd'', MNum (js_div (js_add amountDisplayCurrency feeDisplayCurrency) (Num 100))),
         (''satsFee'', MNum (Number_of (amount (btcProtocolFee flow)))), (''displayFee'', MNum feeDisplayCurrency),
         (''displayAmount'', MNum amountDisplayCurrency), (''displayCurrency'', MStr displayCurrency),
         (''centsAmount'', MNum (Number_of (amount (usdPaymentAmount flow)))),
         (''satsAmount'', MNum (Number_of (amount (btcPaymentAmount flow)))),
         (''centsFee'', MNum (Number_of (amount (usdProtocolFee flow))))]
      in addReceiptNoFee E metadata walletId walletCurrency sats cents ''fee reimbursement'' revealed)"

section \<open>Transfers between wallets\<close>

definition addIntraledgerTxTransfer ::
  "('e, 'w, 'x) ledger_env_scheme \<Rightarrow> WalletId \<Rightarrow> WalletCurrency \<Rightarrow> Username option \<Rightarrow> string \<Rightarrow> jsnum option
     \<Rightarrow> jsnum option \<Rightarrow> WalletId \<Rightarrow> Username option \<Rightarrow> WalletCurrency \<Rightarrow> string option \<Rightarrow> bool \<Rightarrow> TxMetadata
     \<Rightarrow> PaymentHash option \<Rightarrow> ('w ledger_state, LedgerJournal) act" where
  "addIntraledgerTxTransfer E fromWalletId fromCurrency fromUsername description sats cents
       toWallet toUsername toCurrency memoPayer shareMemoWithPayee metadata hash =
     act_bind staticAccountIds (\<lambda>ids.
       let fromAccountId = toLedgerAccountId fromWalletId;
           toAccountId = toLedgerAccountId toWallet;
           sharedMetadata = metadata(''username'' \<mapsto> opt_str fromUsername,
             ''memoPayer'' \<mapsto> (if shareMemoWithPayee then opt_str memoPayer else MUndefined));
           additional = [''memoPayer'' \<mapsto> opt_str memoPayer, ''username'' \<mapsto> opt_str toUsername];
           builder = legacy_withoutFee E (builder_config E description ids sharedMetadata);
           debit = (\<lambda>amt. legacy_debitAccount E builder fromAccountId amt (Some additional));
           credit = (\<lambda>stage other. act_return (legacy_creditAccount E stage toAccountId other))
       in act_bind
            (case (toCurrency, fromCurrency) of
               (Btc, Btc) \<Rightarrow>
                 (case sats of
                    None \<Rightarrow> act_fail NotReachableError
                  | Some n \<Rightarrow> act_bind (act_result (paymentAmountFromNumber n Btc)) (\<lambda>a. credit (debit a) None))
             | (Usd, Usd) \<Rightarrow>
                 (case cents of
                    None \<Rightarrow> act_fail PlainError
                  | Some n \<Rightarrow> act_bind (act_result (paymentAmountFromNumber n Usd)) (\<lambda>a. credit (debit a) None))
             | (Btc, Usd) \<Rightarrow>
                 (case (cents, sats) of
                    (Some c, Some n) \<Rightarrow>
                      act_bind (act_result (paymentAmountFromNumber c Usd)) (\<lambda>centsAmount.
                      act_bind (act_result (paymentAmountFromNumber n Btc)) (\<lambda>satsAmount.
                        credit (debit centsAmount) (Some satsAmount)))
                  | _ \<Rightarrow> act_fail PlainError)
             | (Usd, Btc) \<Rightarrow>
                 (case (cents, sats) of
                    (Some c, Some n) \<Rightarrow>
                      act_bind (act_result (paymentAmountFromNumber c Usd)) (\<lambda>centsAmount.
                      act_bind (act_result (paymentAmountFromNumber n Btc)) (\<lambda>satsAmount.
                        credit (debit satsAmount) (Some centsAmount)))
                  | _ \<Rightarrow> act_fail PlainError))
            (\<lambda>entry. on_db (act_try (commit_and_persist E entry hash None) unknown_ledger)))"

definition addOnChainIntraledgerTxTransfer ::
  "('e, 'w, 'x) ledger_env_scheme \<Rightarrow> WalletId \<Rightarrow> WalletCurrency \<Rightarrow> Username option \<Rightarrow> string \<Rightarrow> jsnum \<Rightarrow> jsnum
     \<Rightarrow> OnChainAddress list \<Rightarrow> bool \<Rightarrow> WalletId \<Rightarrow> WalletCurrency \<Rightarrow> Username option \<Rightarrow> string option
     \<Rightarrow> ('w ledger_state, LedgerJournal) act" where
  "addOnChainIntraledgerTxTransfer E fromWalletId fromCurrency fromUsername description sats
       amountDisplayCurrency payeeAddresses sendAll toWallet toCurrency
       toUsername memoPayer =
     (let metadata = map_of
        [(''type'', MType OnchainIntraLedger), (''pending'', MBool False), (''usd'', MNum amountDisplayCurrency),
         (''memoPayer'', MUndefined), (''username'', MUndefined),
         (''payee_addresses'', MStrs payeeAddresses), (''sendAll'', MBool sendAll)]
      in addIntraledgerTxTransfer E fromWalletId fromCurrency fromUsername description (Some sats)
           None toWallet toUsername toCurrency memoPayer False metadata None)"

definition addWalletIdIntraledgerTxTransfer ::
  "('e, 'w, 'x) ledger_env_scheme \<Rightarrow> WalletId \<Rightarrow> WalletCurrency \<Rightarrow> Username option \<Rightarrow> string \<Rightarrow> jsnum \<Rightarrow> jsnum
     \<Rightarrow> WalletId \<Rightarrow> WalletCurrency \<Rightarrow> Username option \<Rightarrow> string option \<Rightarrow> ('w ledger_state, LedgerJournal) act" where
  "addWalletIdIntraledgerTxTransfer E fromWalletId fromCurrency fromUsername description sats
       amountDisplayCurrency toWallet toCurrency toUsername memoPayer =
     (let metadata = map_of
        [(''type'', MType IntraLedger), (''pending'', MBool False), (''usd'', MNum amountDisplayCurrency),
         (''memoPayer'', MUndefined), (''username'', MUndefined)]
      in addIntraledgerTxTransfer E fromWalletId fromCurrency fromUsername description (Some sats)
           None toWallet toUsername toCurrency memoPayer True metadata None)"

definition addLnIntraledgerTxTransfer ::
  "('e, 'w, 'x) ledger_env_scheme \<Rightarrow> WalletId \<Rightarrow> WalletCurrency \<Rightarrow> Username option \<Rightarrow> PaymentHash \<Rightarrow> string
     \<Rightarrow> jsnum option \<Rightarrow> jsnum option \<Rightarrow> jsnum \<Rightarrow> Pubkey \<Rightarrow> WalletId \<Rightarrow> WalletCurrency \<Rightarrow> Username option
     \<Rightarrow> string option \<Rightarrow> ('w ledger_state, LedgerJournal) act" where
  "addLnIntraledgerTxTransfer E fromWalletId fromCurrency fromUsername hash description sats cents
       amountDisplayCurrency pubkey toWallet toCurrency toUsername memoPayer =
     (let metadata = map_of
        [(''type'', MType IntraLedger), (''pending'', MBool False), (''hash'', MStr hash),
         (''usd'', MNum amountDisplayCurrency), (''pubkey'', MStr pubkey),
         (''memoPayer'', MUndefined), (''username'', MUndefined)]
      in addIntraledgerTxTransfer E fromWalletId fromCurrency fromUsername description sats
           cents toWallet toUsername toCurrency memoPayer False metadata (Some hash))"

section \<open>Administrative entries\<close>

definition bitcoindAccountingPath :: LedgerAccountId where
  "bitcoindAccountingPath = assetsMainAccount @ '':Reserve:Bitcoind''"

definition lndAccountingPath :: LedgerAccountId where
  "lndAccountingPath = assetsMainAccount @ '':Reserve:Lightning''"

definition escrowAccountingPath :: LedgerAccountId where
  "escrowAccountingPath = assetsMainAccount @ '':Reserve:Escrow''"

definition toLiabilitiesWalletId :: "WalletId \<Rightarrow> LedgerAccountId" where
  "toLiabilitiesWalletId walletId = liabilitiesMainAccount @ '':'' @ walletId"

definition cold_storage_entry ::
  "('e, 'w, 'x) ledger_env_scheme \<Rightarrow> LedgerTransactionType \<Rightarrow> LedgerAccountId \<Rightarrow> LedgerAccountId \<Rightarrow> OnChainTxHash
     \<Rightarrow> OnChainAddress \<Rightarrow> string \<Rightarrow> jsnum \<Rightarrow> jsnum \<Rightarrow> jsnum \<Rightarrow> jsnum \<Rightarrow> ('w ledger_state, LedgerJournal) act" where
  "cold_storage_entry E type fromAccount toAccount txHash payeeAddress description sats fee
       feeDisplayCurrency amountDisplayCurrency =
     (let metadata = map_of
        [(''type'', MType type), (''pending'', MBool False), (''hash'', MStr txHash),
         (''payee_addresses'', MStrs [payeeAddress]), (''fee'', MNum fee),
         (''feeUsd'', MNum feeDisplayCurrency), (''usd'', MNum amountDisplayCurrency), (''currency'', MCur Btc)]
      in act_try
        (act_bind getBankOwnerWalletId (\<lambda>bankOwner.
          let e1 = entry_credit E (book_entry E description) fromAccount (js_add sats fee) metadata;
              e2 = entry_debit E e1 (toLiabilitiesWalletId bankOwner) fee metadata;
              e3 = entry_debit E e2 toAccount sats metadata
          in act_bind (on_db (act_call (entry_commit E e3))) (\<lambda>saved. act_return (translateToLedgerJournal saved))))
        unknown_ledger)"

definition addColdStorageTxReceive ::
  "('e, 'w, 'x) ledger_env_scheme \<Rightarrow> OnChainTxHash \<Rightarrow> OnChainAddress \<Rightarrow> string \<Rightarrow> jsnum \<Rightarrow> jsnum \<Rightarrow> jsnum \<Rightarrow> jsnum
     \<Rightarrow> ('w ledger_state, LedgerJournal) act" where
  "addColdStorageTxReceive E = cold_storage_entry E ToColdStorage lndAccountingPath bitcoindAccountingPath"

definition addColdStorageTxSend ::
  "('e, 'w, 'x) ledger_env_scheme \<Rightarrow> OnChainTxHash \<Rightarrow> OnChainAddress \<Rightarrow> string \<Rightarrow> jsnum \<Rightarrow> jsnum \<Rightarrow> jsnum \<Rightarrow> jsnum
     \<Rightarrow> ('w ledger_state, LedgerJournal) act" where
  "addColdStorageTxSend E = cold_storage_entry E ToHotWallet bitcoindAccountingPath lndAccountingPath"

record SwapStatusResult =
  swap_id :: string
  swap_amt :: int
  swap_htlcAddress :: string
  swap_onchainMinerFee :: int
  swap_offchainRoutingFee :: int
  swap_serviceProviderFee :: int

text \<open>The SHA-256 of the swap identifier is an argument.\<close>

definition addSwapFeeTxSend ::
  "('e, 'w, 'x) ledger_env_scheme \<Rightarrow> (string \<Rightarrow> string) \<Rightarrow> SwapStatusResult \<Rightarrow> ('w ledger_state, LedgerJournal) act" where
  "addSwapFeeTxSend E sha256 swapResult =
     (let hash = sha256 (swap_id swapResult);
          swapFeeMetadata = map_of
            [(''hash'', MStr hash), (''swapId'', MStr (swap_id swapResult)), (''swapAmount'', MNum (Number_of (swap_amt swapResult))),
             (''htlcAddress'', MStr (swap_htlcAddress swapResult)),
             (''onchainMinerFee'', MNum (Number_of (swap_onchainMinerFee swapResult))),
             (''offchainRoutingFee'', MNum (Number_of (swap_offchainRoutingFee swapResult))),
             (''serviceProviderFee'', MNum (Number_of (swap_serviceProviderFee swapResult))),
             (''serviceProvider'', MStr ''Loop''), (''currency'', MCur Btc), (''type'', MType Fee)];
          description = ''Swap out fee for swapId '' @ swap_id swapResult;
          totalSwapFee = js_add (js_add (Number_of (swap_offchainRoutingFee swapResult)) (Number_of (swap_onchainMinerFee swapResult)))
                           (Number_of (swap_serviceProviderFee swapResult));
          feeMetadata = map_of [(''currency'', MCur Btc), (''pending'', MBool False), (''type'', MType Fee)]
      in act_try
        (act_bind (act_attempt (on_db (md_findByHash E hash))) (\<lambda>result.
           if result = Inl (LedgerError CouldNotFindTransactionMetadataError)
           then act_bind getBankOwnerWalletId (\<lambda>bankOwner.
             let e1 = entry_credit E (book_entry E description) lndAccountingPath totalSwapFee feeMetadata;
                 e2 = entry_debit E e1 (toLiabilitiesWalletId bankOwner) totalSwapFee feeMetadata
             in act_bind (on_db (act_call (entry_commit E e2))) (\<lambda>saved.
                let journalEntry = translateToLedgerJournal saved
                in act_bind (on_db (md_persistAll E
                     (map (\<lambda>txId. \<lparr>tmr_id = txId, tmr_hash = Some hash, tmr_revealedPreImage = None,
                                    tmr_swap = Some swapFeeMetadata\<rparr>) (transactionIds journalEntry))))
                     (\<lambda>_. act_return journalEntry)))
           else act_fail (RepositoryError DuplicateError)))
        unknown_ledger)"

definition admin_getWalletBalance ::
  "('e, 'w, 'x) ledger_env_scheme \<Rightarrow> LedgerAccountId \<Rightarrow> WalletCurrency \<Rightarrow> ('w ledger_state, jsnum) act" where
  "admin_getWalletBalance E account c = on_db (act_call (book_balance E account (Some c)))"

definition getAssetsBalance :: "('e, 'w, 'x) ledger_env_scheme \<Rightarrow> WalletCurrency \<Rightarrow> ('w ledger_state, jsnum) act" where
  "getAssetsBalance E = admin_getWalletBalance E assetsMainAccount"

definition getLiabilitiesBalance :: "('e, 'w, 'x) ledger_env_scheme \<Rightarrow> WalletCurrency \<Rightarrow> ('w ledger_state, jsnum) act" where
  "getLiabilitiesBalance E = admin_getWalletBalance E liabilitiesMainAccount"

definition getLndBalance :: "('e, 'w, 'x) ledger_env_scheme \<Rightarrow> ('w ledger_state, jsnum) act" where
  "getLndBalance E = admin_getWalletBalance E lndAccountingPath Btc"

definition getLndEscrowBalance :: "('e, 'w, 'x) ledger_env_scheme \<Rightarrow> ('w ledger_state, jsnum) act" where
  "getLndEscrowBalance E = admin_getWalletBalance E escrowAccountingPath Btc"

definition getBitcoindBalance :: "('e, 'w, 'x) ledger_env_scheme \<Rightarrow> ('w ledger_state, jsnum) act" where
  "getBitcoindBalance E = admin_getWalletBalance E bitcoindAccountingPath Btc"

definition getBankOwnerBalance :: "('e, 'w, 'x) ledger_env_scheme \<Rightarrow> WalletCurrency \<Rightarrow> ('w ledger_state, jsnum) act" where
  "getBankOwnerBalance E c =
     act_bind getBankOwnerWalletId (\<lambda>w. admin_getWalletBalance E (toLiabilitiesWalletId w) c)"

text \<open>The result is the previous escrow balance, the amount, their sum and whether an entry was made.\<close>

definition updateLndEscrow ::
  "('e, 'w, 'x) ledger_env_scheme \<Rightarrow> jsnum \<Rightarrow> ('w ledger_state, jsnum \<times> jsnum \<times> jsnum \<times> bool) act" where
  "updateLndEscrow E amt =
     act_bind (getLndEscrowBalance E) (\<lambda>ledgerEscrow.
       let diff = js_add amt ledgerEscrow
       in if js_eq diff (Num 0) then act_return (ledgerEscrow, amt, diff, False)
          else
            let metadata = map_of [(''type'', MType Escrow), (''currency'', MCur Btc), (''pending'', MBool False)];
                e0 = book_entry E ''escrow'';
                e1 = (if js_less (Num 0) diff
                      then entry_debit E (entry_credit E e0 lndAccountingPath diff metadata)
                             escrowAccountingPath diff metadata
                      else if js_less diff (Num 0)
                      then entry_credit E (entry_debit E e0 lndAccountingPath (js_neg diff) metadata)
                             escrowAccountingPath (js_neg diff) metadata
                      else e0)
            in act_bind (on_db (act_call (entry_commit E e1))) (\<lambda>_. act_return (ledgerEscrow, amt, diff, True)))"

definition addLndChannelOpeningOrClosingFee ::
  "('e, 'w, 'x) ledger_env_scheme \<Rightarrow> string \<Rightarrow> jsnum \<Rightarrow> string \<Rightarrow> ('w ledger_state, unit) act" where
  "addLndChannelOpeningOrClosingFee E description fee txid =
     (let txMetadata = map_of [(''currency'', MCur Btc), (''type'', MType Fee), (''pending'', MBool False), (''txid'', MStr txid)]
      in act_bind getBankOwnerWalletId (\<lambda>bankOwner.
        on_db (act_try
          (act_bind (act_call (entry_commit E
             (entry_credit E (entry_debit E (book_entry E description) (toLiabilitiesWalletId bankOwner) fee txMetadata)
                lndAccountingPath fee txMetadata))) (\<lambda>_. act_return ()))
          unknown_ledger)))"

definition addLndRoutingRevenue ::
  "('e, 'w, 'x) ledger_env_scheme \<Rightarrow> jsnum \<Rightarrow> string \<Rightarrow> ('w ledger_state, unit) act" where
  "addLndRoutingRevenue E amt collectedOn =
     (let metadata = map_of [(''type'', MType RoutingRevenue), (''currency'', MCur Btc),
                             (''feesCollectedOn'', MStr collectedOn), (''pending'', MBool False)]
      in act_bind getBankOwnerWalletId (\<lambda>bankOwner.
        on_db (act_try
          (act_bind (act_call (entry_commit E
             (entry_debit E (entry_credit E (book_entry E ''routing fee'') (toLiabilitiesWalletId bankOwner) amt metadata)
                lndAccountingPath amt metadata))) (\<lambda>_. act_return ()))
          unknown_ledger)))"

section \<open>What the book holds\<close>

text \<open>Voiding a journal adds one whose transactions have debit and credit exchanged.\<close>

definition reverse_txn :: "txn \<Rightarrow> txn" where
  "reverse_txn t = t\<lparr>tx_credit := tx_debit t, tx_debit := tx_credit t\<rparr>"

definition same_posting :: "txn \<Rightarrow> txn \<Rightarrow> bool" where
  "same_posting t t' =
     (tx_account t = tx_account t' \<and> tx_credit t = tx_credit t' \<and> tx_debit t = tx_debit t'
      \<and> tx_currency t = tx_currency t')"

type_synonym journals = "(LedgerJournalId \<times> txn list) list"

definition journals_balanced :: "journals \<Rightarrow> bool" where
  "journals_balanced js = list_all (\<lambda>(j, ts). balanced ts) js"

text \<open>Amounts up to the largest payment; every sum of two of them is exact in a number.\<close>

definition ledger_amount :: "int \<Rightarrow> bool" where
  "ledger_amount n = (0 \<le> n \<and> n \<le> 10000000000000)"

definition ledger_num :: "jsnum \<Rightarrow> bool" where
  "ledger_num x = (\<exists>n. ledger_amount n \<and> x = Num (of_int n))"

text \<open>A book kept as a list of journals, for evaluation.\<close>

definition next_journal_id :: "journals \<Rightarrow> LedgerJournalId" where
  "next_journal_id js = replicate (Suc (sum_list (map (length \<circ> fst) js))) CHR ''j''"

definition update_journals :: "((LedgerJournalId \<times> txn) \<Rightarrow> bool) \<Rightarrow> TxMetadata \<Rightarrow> journals \<Rightarrow> journals" where
  "update_journals P m js =
     map (\<lambda>(j, ts). (j, map (\<lambda>t. if P (j, t) then t\<lparr>tx_meta := tx_meta t ++ m\<rparr> else t) ts)) js"

definition postings :: "journals \<Rightarrow> (LedgerJournalId \<times> txn) list" where
  "postings js = concat (map (\<lambda>(j, ts). map (Pair j) ts) js)"

definition list_book_env :: "(txn list, journals) ledger_env" where
  "list_book_env = medici.extend list_medici
     (ledger_env.fields
       (\<lambda>_. [])
       (\<lambda>e w. let j = next_journal_id w
              in (Inr \<lparr>saved_id = j, saved_voided = False, saved_transactions = map tx_account e\<rparr>, w @ [(j, e)]))
       (\<lambda>j reason w. case map_of w j of
            None \<Rightarrow> (Inl ''journal not found'', w)
          | Some ts \<Rightarrow> let j' = next_journal_id w
              in (Inr \<lparr>saved_id = j', saved_voided = False, saved_transactions = map tx_account ts\<rparr>,
                  w @ [(j', map reverse_txn ts)]))
       (\<lambda>a c w. (Inr (Num (sum_list (map (\<lambda>(j, ts). case c of None \<Rightarrow> account_net a Btc ts + account_net a Usd ts
                                              | Some cur \<Rightarrow> account_net a cur ts) w))), w))
       (\<lambda>h m w. (Inr (length (filter (\<lambda>(j, t). tx_meta t ''hash'' = Some (MStr h)) (postings w))),
                 update_journals (\<lambda>(j, t). tx_meta t ''hash'' = Some (MStr h)) m w))
       (\<lambda>k m w. (Inr (length (filter (\<lambda>(j, t). j = k) (postings w))), update_journals (\<lambda>(j, t). j = k) m w))
       (\<lambda>rs w. (Inr rs, w)) (\<lambda>h r w. (Inr 0, w)) (\<lambda>i w. (Inr None, w)) (\<lambda>h w. (Inr None, w)))"

definition sample_ledger :: "journals ledger_state" where
  "sample_ledger = (initial_ledger_state [])
     \<lparr>cacheBankOwnerWalletId := Some ''owner'', cacheDealerBtcWalletId := Some ''dealerBtc'',
      cacheDealerUsdWalletId := Some ''dealerUsd''\<rparr>"

section \<open>Steps of the ledger\<close>

text \<open>
  The operations that write the ledger, on amounts of at most the largest payment; fees are part
  of the amount. The escrow is stepped when the ledger holds a whole balance.
\<close>

inductive ledger_step :: "('e, 'w, 'x) ledger_env_scheme \<Rightarrow> 'w ledger_state \<Rightarrow> 'w ledger_state \<Rightarrow> bool"
  for E :: "('e, 'w, 'x) ledger_env_scheme" where
  step_recordSend:
    "\<lbrakk>ledger_amount u; ledger_amount b; ledger_amount uf; ledger_amount bf;
      fee = None \<or> fee = Some (UsdPaymentAmount uf, BtcPaymentAmount bf);
      recordSend E d w (UsdPaymentAmount u, BtcPaymentAmount b) fee m s = (r1, s')\<rbrakk> \<Longrightarrow> ledger_step E s s'"
| step_recordReceive:
    "\<lbrakk>ledger_amount u; ledger_amount b; ledger_amount uf; ledger_amount bf;
      fee = None \<or> fee = Some (UsdPaymentAmount uf, BtcPaymentAmount bf);
      recordReceive E d w (UsdPaymentAmount u, BtcPaymentAmount b) fee m h pre s = (r1, s')\<rbrakk> \<Longrightarrow> ledger_step E s s'"
| step_recordIntraledger:
    "\<lbrakk>ledger_amount u; ledger_amount b;
      recordIntraledger E d w w' (UsdPaymentAmount u, BtcPaymentAmount b) m am s = (r1, s')\<rbrakk> \<Longrightarrow> ledger_step E s s'"
| step_settleLnSend: "settlePendingLnSend E h (db s) = (r2, w) \<Longrightarrow> ledger_step E s (s\<lparr>db := w\<rparr>)"
| step_revertLnSend: "recordLnSendRevert E j h (db s) = (r2, w) \<Longrightarrow> ledger_step E s (s\<lparr>db := w\<rparr>)"
| step_onChainSend:
    "\<lbrakk>ledger_num sats; ledger_num fee;
      addOnChainTxSend E wid c h addr d sats fee usd tf tfd all s = (r1, s')\<rbrakk> \<Longrightarrow> ledger_step E s s'"
| step_setHash: "setOnChainTxSendHash E j h (db s) = (r2, w) \<Longrightarrow> ledger_step E s (s\<lparr>db := w\<rparr>)"
| step_settleLn: "settlePendingLnPayment E h (db s) = (r2, w) \<Longrightarrow> ledger_step E s (s\<lparr>db := w\<rparr>)"
| step_settleOnChain: "settlePendingOnChainPayment E h (db s) = (r2, w) \<Longrightarrow> ledger_step E s (s\<lparr>db := w\<rparr>)"
| step_revertLn: "revertLightningPayment E j h (db s) = (r2, w) \<Longrightarrow> ledger_step E s (s\<lparr>db := w\<rparr>)"
| step_revertOnChain: "revertOnChainPayment E j od (db s) = (r2, w) \<Longrightarrow> ledger_step E s (s\<lparr>db := w\<rparr>)"
| step_onChainReceive:
    "\<lbrakk>ledger_num sats; ledger_num fee;
      addOnChainTxReceive E wid c h sats fee fd ad addr s = (r1, s')\<rbrakk> \<Longrightarrow> ledger_step E s s'"
| step_lnReceive:
    "\<lbrakk>ledger_num sats; ledger_num fee; opt_all ledger_num cents;
      addLnTxReceive E wid c h d sats fd ad fee cents s = (r1, s')\<rbrakk> \<Longrightarrow> ledger_step E s s'"
| step_reimburse:
    "\<lbrakk>ledger_num sats; opt_all ledger_num cents;
      addLnFeeReimbursementReceive E wid c h j sats cents pre flow fd ad cur s = (r1, s')\<rbrakk> \<Longrightarrow> ledger_step E s s'"
| step_transfer:
    "\<lbrakk>opt_all ledger_num sats; opt_all ledger_num cents;
      addIntraledgerTxTransfer E wid c un d sats cents wid' un' c' memo share m oh s = (r1, s')\<rbrakk> \<Longrightarrow> ledger_step E s s'"
| step_toCold:
    "\<lbrakk>ledger_num sats; ledger_num fee;
      addColdStorageTxReceive E h addr d sats fee fd ad s = (r1, s')\<rbrakk> \<Longrightarrow> ledger_step E s s'"
| step_toHot:
    "\<lbrakk>ledger_num sats; ledger_num fee;
      addColdStorageTxSend E h addr d sats fee fd ad s = (r1, s')\<rbrakk> \<Longrightarrow> ledger_step E s s'"
| step_swapFee:
    "\<lbrakk>ledger_amount (swap_onchainMinerFee sw); ledger_amount (swap_offchainRoutingFee sw);
      ledger_amount (swap_serviceProviderFee sw);
      addSwapFeeTxSend E sha sw s = (r1, s')\<rbrakk> \<Longrightarrow> ledger_step E s s'"
| step_escrow:
    "\<lbrakk>ledger_num sats; fst (book_balance E escrowAccountingPath (Some Btc) (db s)) = Inr (Num (of_int k));
      ledger_amount (- k); updateLndEscrow E sats s = (r3, s')\<rbrakk> \<Longrightarrow> ledger_step E s s'"
| step_channelFee:
    "\<lbrakk>ledger_num fee; addLndChannelOpeningOrClosingFee E d fee txid s = (r2, s')\<rbrakk> \<Longrightarrow> ledger_step E s s'"
| step_routing:
    "\<lbrakk>ledger_num sats; addLndRoutingRevenue E sats d s = (r2, s')\<rbrakk> \<Longrightarrow> ledger_step E s s'"

section \<open>The interface of the book\<close>

locale book = medici_entry E for E :: "('e, 'w, 'x) ledger_env_scheme" +
  fixes journals :: "'w \<Rightarrow> journals"
  assumes entry_empty: "entry_transactions E (book_entry E d) = []"
    and commit_ok: "entry_commit E e w = (Inr saved, w') \<Longrightarrow>
      journals w' = journals w @ [(saved_id saved, entry_transactions E e)]"
    and commit_fail: "entry_commit E e w = (Inl msg, w') \<Longrightarrow> journals w' = journals w"
    and void_ok: "book_void E j reason w = (Inr saved, w') \<Longrightarrow>
      \<exists>ts. (j, ts) \<in> set (journals w) \<and> journals w' = journals w @ [(saved_id saved, map reverse_txn ts)]"
    and void_fail: "book_void E j reason w = (Inl msg, w') \<Longrightarrow> journals w' = journals w"
    and balance_reads: "book_balance E a c w = (r, w') \<Longrightarrow> journals w' = journals w"
    and update_hash: "m ''currency'' = None \<Longrightarrow> tx_updateMany_hash E h m w = (n, w') \<Longrightarrow>
      list_all2 (\<lambda>(j, ts) (j', ts'). j = j' \<and> list_all2 same_posting ts ts') (journals w) (journals w')"
    and update_journal: "m ''currency'' = None \<Longrightarrow> tx_updateMany_journal E k m w = (n, w') \<Longrightarrow>
      list_all2 (\<lambda>(j, ts) (j', ts'). j = j' \<and> list_all2 same_posting ts ts') (journals w) (journals w')"
    and insert_metadata: "md_insertMany E rs w = (r2, w') \<Longrightarrow> journals w' = journals w"
    and find_metadata: "md_findOne_hash E h w = (r3, w') \<Longrightarrow> journals w' = journals w"

lemma same_posting_balanced:
  assumes "list_all2 same_posting ts ts'" and "balanced ts"
  shows "balanced ts'"
proof -
  have "net c ts' = net c ts \<and> list_all proper_txn ts' = list_all proper_txn ts" for c
    using assms(1)
    by (induction rule: list_all2_induct) (auto simp: same_posting_def tx_net_def proper_txn_def)
  with assms(2) show ?thesis by (simp add: balanced_def)
qed

lemma reverse_txn_simps [simp]:
  "tx_net (reverse_txn t) = - tx_net t" "tx_currency (reverse_txn t) = tx_currency t"
  "proper_txn (reverse_txn t) = proper_txn t"
  by (auto simp: reverse_txn_def tx_net_def tx_currency_def proper_txn_def)

lemma net_reverse [simp]: "net c (map reverse_txn ts) = - net c ts"
  by (induction ts) simp_all

lemma balanced_reverse [simp]: "balanced (map reverse_txn ts) = balanced ts"
  by (simp add: balanced_def list_all_iff)

lemma ledger_amount_safe:
  "ledger_amount n \<Longrightarrow> is_safe_int n"
  "ledger_amount n \<Longrightarrow> ledger_amount m \<Longrightarrow> is_safe_int (n + m)"
  "ledger_amount n \<Longrightarrow> ledger_amount m \<Longrightarrow> is_safe_int (n - m)"
  by (simp_all add: ledger_amount_def is_safe_int_def abs_le_iff)

lemma ledger_num_amount:
  "ledger_num x \<Longrightarrow> paymentAmountFromNumber x c = Inr a \<Longrightarrow> ledger_amount (amount a) \<and> a = \<lparr>currency = c, amount = amount a\<rparr>"
  by (auto simp: ledger_num_def)

lemma keeps_getter [keeps_intros]:
  "(\<And>w s. db (put w s) = db s) \<Longrightarrow> keeps (\<lambda>s. P (db s)) (cached get put resolver)"
  by (simp add: keeps_def cached_def split: sum.splits)

lemma keeps_special_wallets [keeps_intros]:
  "keeps (\<lambda>s. P (db s)) getBankOwnerWalletId" "keeps (\<lambda>s. P (db s)) getDealerBtcWalletId"
  "keeps (\<lambda>s. P (db s)) getDealerUsdWalletId" "keeps (\<lambda>s. P (db s)) getFunderWalletId"
  unfolding getBankOwnerWalletId_def getDealerBtcWalletId_def getDealerUsdWalletId_def getFunderWalletId_def
  by (rule keeps_getter; simp)+

lemma keeps_staticAccountIds [keeps_intros]: "keeps (\<lambda>s. P (db s)) staticAccountIds"
  unfolding staticAccountIds_def by (intro keeps_intros)

lemma keeps_on_db [keeps_intros]: "keeps P m \<Longrightarrow> keeps (\<lambda>s. P (db s)) (on_db m)"
  by (auto simp: keeps_def on_db_def case_prod_unfold)

context book
begin

abbreviation ok :: "'w \<Rightarrow> bool" where
  "ok w \<equiv> journals_balanced (journals w)"

lemma keeps_commit [keeps_intros]:
  "balanced (entry_transactions E e) \<Longrightarrow> keeps ok (act_call (entry_commit E e))"
proof (rule keeps_call)
  fix w r w' assume "balanced (entry_transactions E e)" "ok w" "entry_commit E e w = (r, w')"
  then show "ok w'"
    by (cases r) (auto simp: journals_balanced_def dest: commit_ok commit_fail)
qed

lemma keeps_void [keeps_intros]: "keeps ok (act_call (book_void E j reason))"
proof (rule keeps_call)
  fix w r w' assume "ok w" "book_void E j reason w = (r, w')"
  then show "ok w'"
    by (cases r) (fastforce simp: journals_balanced_def list_all_iff dest!: void_ok void_fail)+
qed

lemma ok_updated:
  assumes "ok w"
    and "list_all2 (\<lambda>(j, ts) (j', ts'). j = j' \<and> list_all2 same_posting ts ts') (journals w) (journals w')"
  shows "ok w'"
  using assms(2,1) unfolding journals_balanced_def
  by (induction rule: list_all2_induct) (auto intro: same_posting_balanced)

lemma keeps_update_hash [keeps_intros]:
  "m ''currency'' = None \<Longrightarrow> keeps ok (act_call (tx_updateMany_hash E h m))"
  by (rule keeps_call) (blast intro: ok_updated update_hash)

lemma keeps_update_journal [keeps_intros]:
  "m ''currency'' = None \<Longrightarrow> keeps ok (act_call (tx_updateMany_journal E j m))"
  by (rule keeps_call) (blast intro: ok_updated update_journal)

lemma keeps_balance [keeps_intros]: "keeps ok (act_call (book_balance E a c))"
  by (rule keeps_call) (auto dest: balance_reads)

lemma keeps_insert [keeps_intros]: "keeps ok (act_call (md_insertMany E rs))"
  by (rule keeps_call) (auto dest: insert_metadata)

lemma keeps_find [keeps_intros]: "keeps ok (act_call (md_findOne_hash E h))"
  by (rule keeps_call) (auto dest: find_metadata)

lemma keeps_persistAll [keeps_intros]: "keeps ok (md_persistAll E rs)"
  unfolding md_persistAll_def by (cases "rs = []") (simp_all add: keeps_intros)

lemma keeps_findByHash [keeps_intros]: "keeps ok (md_findByHash E h)"
  unfolding md_findByHash_def by (intro keeps_intros) (simp add: keeps_intros split: option.splits)

lemma keeps_commit_and_persist [keeps_intros]:
  "balanced (entry_transactions E e) \<Longrightarrow> keeps ok (commit_and_persist E e h pre)"
  unfolding commit_and_persist_def Let_def by (intro keeps_intros)

lemma keeps_void_and_persist [keeps_intros]: "keeps ok (void_and_persist E h j ph)"
  unfolding void_and_persist_def Let_def by (intro keeps_intros)

lemma keeps_update_modified:
  "keeps ok (act_call u) \<Longrightarrow> keeps ok (update_modified h e u)"
  unfolding update_modified_def by (intro keeps_intros) (auto intro: keeps_intros)

end

lemma legacy_debitLnd_eq: "legacy_debitLnd M s a = legacy_debitAccount M s lndLedgerAccountId a None"
  by (simp add: legacy_debitLnd_def legacy_debitAccount_def Let_def)

lemma amount_eqs:
  "\<lparr>currency = Btc, amount = n\<rparr> = BtcPaymentAmount n" "\<lparr>currency = Usd, amount = n\<rparr> = UsdPaymentAmount n"
  "ZERO_SATS = BtcPaymentAmount 0" "ZERO_CENTS = UsdPaymentAmount 0"
  by (simp_all add: BtcPaymentAmount_def UsdPaymentAmount_def ZERO_SATS_def ZERO_CENTS_def)

lemma calc_add_amounts [simp]:
  "calc_add (UsdPaymentAmount a) (UsdPaymentAmount b) = UsdPaymentAmount (a + b)"
  "calc_add (BtcPaymentAmount a) (BtcPaymentAmount b) = BtcPaymentAmount (a + b)"
  by (simp_all add: calc_add_def BtcPaymentAmount_def UsdPaymentAmount_def)

lemma is_safe_int_0 [simp]: "is_safe_int 0"
  by (simp add: is_safe_int_def)

lemma lnd_currency [simp]: "ad_currency lndLedgerAccountDescriptor = Btc"
  by (simp add: lndLedgerAccountDescriptor_def)

context medici_entry
begin

lemma two_postings_balanced:
  assumes "entry_transactions M e = []" and "m ''currency'' = Some (MCur c)"
  shows "balanced (entry_transactions M (entry_debit M (entry_credit M e a (Num q) m) b (Num q) m))"
    and "balanced (entry_transactions M (entry_credit M (entry_debit M e a (Num q) m) b (Num q) m))"
  using assms by (simp_all add: transactions_credit transactions_debit balanced_def txn_simps)

lemma three_postings_balanced:
  assumes "entry_transactions M e = []" and "m ''currency'' = Some (MCur c)"
  shows "balanced (entry_transactions M
      (entry_debit M (entry_debit M (entry_credit M e a (Num (p + q)) m) b (Num q) m) d (Num p) m))"
  using assms by (simp add: transactions_credit transactions_debit balanced_def txn_simps)

end

context book
begin

lemma builder_config_empty [simp]:
  "entry_transactions E (eb_entry (builder_config E d ids m)) = []"
  by (simp add: builder_config_def entry_empty)

lemma build_entry_balanced:
  assumes "ledger_amount uf" "ledger_amount bf" "is_safe_int u" "is_safe_int b"
    "is_safe_int (u - uf)" "is_safe_int (b - bf)"
    and "uf = 0 \<Longrightarrow> bf = 0 \<or> ad_currency d = Btc \<or> ad_currency c = Btc"
  shows "balanced (entry_transactions E (build_entry E (builder_config E dd ids m) (UsdPaymentAmount u)
      (BtcPaymentAmount b) (UsdPaymentAmount uf) (BtcPaymentAmount bf) d add c))"
  using build_entry_nets [of "builder_config E dd ids m" u b uf bf d add c] assms
  by (cases "ad_currency d"; cases "ad_currency c")
    (auto simp: balanced_def ledger_amount_def ledger_amount_safe(1))

lemma keeps_recordSend:
  assumes "ledger_amount u" "ledger_amount b" "ledger_amount uf" "ledger_amount bf"
    and "fee = None \<or> fee = Some (UsdPaymentAmount uf, BtcPaymentAmount bf)"
  shows "keeps (\<lambda>s. ok (db s)) (recordSend E d w (UsdPaymentAmount u, BtcPaymentAmount b) fee m)"
proof -
  have "balanced (entry_transactions E (creditLnd E (debitAccount E
      (withBankFee E (withTotalAmount (builder_config E d ids m) (UsdPaymentAmount u) (BtcPaymentAmount b))
         (fst (or_zero_fee fee)) (snd (or_zero_fee fee))) (toLedgerAccountDescriptor w) None)))" for ids
    using assms build_entry_balanced [of uf bf u b _ lndLedgerAccountDescriptor]
      build_entry_balanced [of 0 0 u b _ lndLedgerAccountDescriptor]
    by (auto simp: build_entry_def creditLnd_def or_zero_fee_def amount_eqs ledger_amount_safe ledger_amount_def [of 0])
  then show ?thesis
    unfolding recordSend_def persistAndReturnEntry_def
    by (auto simp: case_prod_unfold Let_def intro!: keeps_intros)
qed

lemma keeps_recordReceive:
  assumes "ledger_amount u" "ledger_amount b" "ledger_amount uf" "ledger_amount bf"
    and "fee = None \<or> fee = Some (UsdPaymentAmount uf, BtcPaymentAmount bf)"
  shows "keeps (\<lambda>s. ok (db s)) (recordReceive E d w (UsdPaymentAmount u, BtcPaymentAmount b) fee m h pre)"
proof -
  have "balanced (entry_transactions E (creditAccount E (debitLnd E
      (withBankFee E (withTotalAmount (builder_config E d ids m)
         (calc_add (UsdPaymentAmount u) (fst (or_zero_fee fee))) (calc_add (BtcPaymentAmount b) (snd (or_zero_fee fee))))
         (fst (or_zero_fee fee)) (snd (or_zero_fee fee)))) (toLedgerAccountDescriptor w)))" for ids
    using assms build_entry_balanced [of uf bf "u + uf" "b + bf" lndLedgerAccountDescriptor]
      build_entry_balanced [of 0 0 u b lndLedgerAccountDescriptor]
    by (auto simp: build_entry_def debitLnd_def or_zero_fee_def amount_eqs ledger_amount_safe
        ledger_amount_def [of 0])
  then show ?thesis
    unfolding recordReceive_def persistAndReturnEntry_def
    by (auto simp: case_prod_unfold Let_def intro!: keeps_intros)
qed

lemma keeps_recordIntraledger:
  assumes "ledger_amount u" "ledger_amount b"
  shows "keeps (\<lambda>s. ok (db s)) (recordIntraledger E d w w' (UsdPaymentAmount u, BtcPaymentAmount b) m am)"
proof -
  have "balanced (entry_transactions E (creditAccount E (debitAccount E
      (withBankFee E (withTotalAmount (builder_config E d ids m) (UsdPaymentAmount u) (BtcPaymentAmount b))
         ZERO_CENTS ZERO_SATS) (toLedgerAccountDescriptor w) (Some am)) (toLedgerAccountDescriptor w')))" for ids
    using assms build_entry_balanced [of 0 0 u b "toLedgerAccountDescriptor w" "toLedgerAccountDescriptor w'" d ids m "Some am"]
    by (simp add: build_entry_def amount_eqs ledger_amount_safe ledger_amount_def [of 0])
  then show ?thesis
    unfolding recordIntraledger_def persistAndReturnEntry_def
    by (auto simp: case_prod_unfold Let_def intro!: keeps_intros)
qed

end

context book
begin

lemma legacy_balanced:
  assumes "ledger_amount n" "ledger_amount f" "ledger_amount m"
  defines "s \<equiv> (\<lambda>d ids mt a cur add. legacy_debitAccount E (legacy_withFee E (builder_config E d ids mt) (BtcPaymentAmount f)) a
           \<lparr>currency = cur, amount = n\<rparr> add)"
  shows "balanced (entry_transactions E (legacy_creditLnd E (s d ids mt a cur add) (BtcPaymentAmount m)))"
    and "f = 0 \<or> cur = Btc \<Longrightarrow> balanced (entry_transactions E (legacy_creditAccount E (s d ids mt a cur add) b None))"
    and "f = 0 \<or> cur = Usd \<Longrightarrow> balanced (entry_transactions E (legacy_creditAccount E (s d ids mt a cur add) b
          (Some \<lparr>currency = (if cur = Btc then Usd else Btc), amount = m\<rparr>)))"
  using legacy_builder_balances [of "builder_config E d ids mt" n f m a cur add b] assms(1-3)
  by (auto simp: s_def ledger_amount_safe ledger_amount_def [of f] amount_eqs)

lemma legacy_balanced_no_fee:
  assumes "ledger_amount n" "ledger_amount m"
  shows "balanced (entry_transactions E (legacy_creditLnd E
      (legacy_debitAccount E (legacy_withoutFee E (builder_config E d ids mt)) a \<lparr>currency = cur, amount = n\<rparr> add)
      \<lparr>currency = Btc, amount = m\<rparr>))"
    and "balanced (entry_transactions E (legacy_creditAccount E
      (legacy_debitAccount E (legacy_withoutFee E (builder_config E d ids mt)) a \<lparr>currency = cur, amount = n\<rparr> add) b None))"
    and "cur \<noteq> other \<Longrightarrow> balanced (entry_transactions E (legacy_creditAccount E
      (legacy_debitAccount E (legacy_withoutFee E (builder_config E d ids mt)) a \<lparr>currency = cur, amount = n\<rparr> add) b
      (Some \<lparr>currency = other, amount = m\<rparr>)))"
  using legacy_balanced(1) [OF assms(1) _ assms(2), where f = 0 and cur = cur]
    legacy_balanced(2,3) [OF assms(1) _ assms(2), where f = 0 and cur = cur and b = b]
  by (cases cur; cases other; simp add: legacy_withoutFee_def amount_eqs ledger_amount_def)+

lemma amount_of_ledger_num:
  assumes "ledger_num x" and "paymentAmountFromNumber x c = Inr a"
  obtains n where "a = \<lparr>currency = c, amount = n\<rparr>" "ledger_amount n"
  using ledger_num_amount [OF assms] by metis

lemma ledger_num_cents: "opt_all ledger_num cents \<Longrightarrow> truthy_num cents \<Longrightarrow> ledger_num (the cents)"
  by (cases cents) (simp_all add: truthy_num_def)

lemmas keeps_bind_results =
  keeps_bind_result keeps_bind [OF keeps_staticAccountIds] keeps_fail keeps_on_db keeps_try keeps_commit_and_persist

lemma yields_addSend_entry:
  fixes d ids m
  assumes "ledger_num sats" and "opt_all ledger_num cents"
    and "paymentAmountFromNumber sats Btc = Inr satsAmount"
  defines "b \<equiv> legacy_withoutFee E (builder_config E d ids m)"
  shows "yields
    (case c of
       Btc \<Rightarrow> act_return (legacy_creditLnd E (legacy_debitAccount E b a satsAmount None) satsAmount)
     | Usd \<Rightarrow>
         if \<not> truthy_num cents then act_fail (LedgerError UnknownLedgerError)
         else act_bind (act_result (paymentAmountFromNumber (the cents) Usd)) (\<lambda>centsAmount.
           act_return (legacy_creditLnd E (legacy_debitAccount E b a centsAmount None) satsAmount)))
    (\<lambda>e. balanced (entry_transactions E e))"
proof -
  obtain n where "satsAmount = \<lparr>currency = Btc, amount = n\<rparr>" "ledger_amount n"
    using assms(1,3) by (rule amount_of_ledger_num)
  then show ?thesis
    by (auto simp: b_def split: WalletCurrency.splits intro!: yields_intros legacy_balanced_no_fee(1)
        elim!: amount_of_ledger_num [OF ledger_num_cents [OF assms(2)]])
qed

lemma keeps_addSendNoInternalFee:
  assumes "ledger_num sats" and "opt_all ledger_num cents"
  shows "keeps (\<lambda>s. ok (db s)) (addSendNoInternalFee E m wid c sats cents d)"
  unfolding addSendNoInternalFee_def Let_def
  by (rule keeps_bind [OF keeps_staticAccountIds], rule keeps_bind_result,
      rule keeps_bind_yields [OF _ yields_addSend_entry [OF assms]])
    (auto split: WalletCurrency.splits intro!: keeps_intros)

lemma keeps_addSendInternalFee:
  assumes "ledger_num sats" and "ledger_num fee"
  shows "keeps (\<lambda>s. ok (db s)) (addSendInternalFee E m wid c sats fee d)"
proof -
  have "balanced (entry_transactions E (legacy_creditLnd E (legacy_debitAccount E
             (legacy_withFee E (builder_config E d ids m) f) (toLedgerAccountId wid) a None) a))"
    if "paymentAmountFromNumber fee Btc = Inr f" "paymentAmountFromNumber sats Btc = Inr a" for ids f a
    using amount_of_ledger_num [OF assms(2) that(1)] amount_of_ledger_num [OF assms(1) that(2)]
    by (metis amount_eqs(1) legacy_balanced(1))
  then show ?thesis
    unfolding addSendInternalFee_def Let_def by (auto intro!: keeps_bind_results)
qed

lemma yields_addReceipt_entry:
  fixes d ids m
  assumes "ledger_num sats" and "opt_all ledger_num cents"
    and "paymentAmountFromNumber sats Btc = Inr satsAmount"
  defines "b \<equiv> legacy_debitLnd E (legacy_withoutFee E (builder_config E d ids m)) satsAmount"
  shows "yields
    (case c of
       Btc \<Rightarrow> act_return (legacy_creditAccount E b a None)
     | Usd \<Rightarrow>
         (case cents of
            None \<Rightarrow> act_fail NotReachableError
          | Some c \<Rightarrow> act_bind (act_result (paymentAmountFromNumber c Usd)) (\<lambda>centsAmount.
              act_return (legacy_creditAccount E b a (Some centsAmount)))))
    (\<lambda>e. balanced (entry_transactions E e))"
proof -
  obtain n where "satsAmount = \<lparr>currency = Btc, amount = n\<rparr>" "ledger_amount n"
    using assms(1,3) by (rule amount_of_ledger_num)
  with assms(2) show ?thesis
    by (cases c; cases cents)
      (auto simp: b_def legacy_debitLnd_eq intro!: yields_intros legacy_balanced_no_fee(2,3)
        elim!: amount_of_ledger_num)
qed

lemma keeps_addReceiptNoFee:
  assumes "ledger_num sats" and "opt_all ledger_num cents"
  shows "keeps (\<lambda>s. ok (db s)) (addReceiptNoFee E m wid c sats cents d pre)"
  unfolding addReceiptNoFee_def Let_def
  by (rule keeps_bind [OF keeps_staticAccountIds], rule keeps_bind_result,
      rule keeps_bind_yields [OF _ yields_addReceipt_entry [OF assms]])
    (auto split: WalletCurrency.splits option.splits intro!: keeps_intros)

lemma keeps_addReceiptFee:
  assumes "ledger_num sats" and "ledger_num fee"
  shows "keeps (\<lambda>s. ok (db s)) (addReceiptFee E m fee wid c sats d)"
proof -
  have "balanced (entry_transactions E (legacy_creditAccount E (legacy_debitLnd E
             (legacy_withFee E (builder_config E d ids m) f) a) (toLedgerAccountId wid) None))"
    if "paymentAmountFromNumber fee Btc = Inr f" "paymentAmountFromNumber sats Btc = Inr a" for ids f a
    using amount_of_ledger_num [OF assms(2) that(1)] amount_of_ledger_num [OF assms(1) that(2)]
    by (metis amount_eqs(1) legacy_balanced(2) legacy_debitLnd_eq)
  then show ?thesis
    unfolding addReceiptFee_def Let_def
    by (auto intro!: keeps_bind_results simp del: act_fail_apply act_result_apply)
qed

end

lemma fl_ledger:
  "ledger_amount a \<Longrightarrow> ledger_amount b \<Longrightarrow> fl (of_int a + of_int b) = Num (of_int a + of_int b)"
  "ledger_amount a \<Longrightarrow> ledger_amount b \<Longrightarrow> ledger_amount c \<Longrightarrow>
     fl (of_int a + of_int b + of_int c) = Num (of_int a + of_int b + of_int c)"
  using js_add_int [of a b] js_add_int [of "a + b" c] by (simp_all add: ledger_amount_def)

context book
begin

lemma yields_transfer_entry:
  fixes d ids m a b add
  assumes "opt_all ledger_num sats" and "opt_all ledger_num cents"
  defines "debit \<equiv> (\<lambda>amt. legacy_debitAccount E (legacy_withoutFee E (builder_config E d ids m)) a amt (Some add))"
    and "credit \<equiv> (\<lambda>stage other. act_return (legacy_creditAccount E stage b other))"
  shows "yields
    (case (c', c) of
       (Btc, Btc) \<Rightarrow>
         (case sats of
            None \<Rightarrow> act_fail NotReachableError
          | Some n \<Rightarrow> act_bind (act_result (paymentAmountFromNumber n Btc)) (\<lambda>a. credit (debit a) None))
     | (Usd, Usd) \<Rightarrow>
         (case cents of
            None \<Rightarrow> act_fail PlainError
          | Some n \<Rightarrow> act_bind (act_result (paymentAmountFromNumber n Usd)) (\<lambda>a. credit (debit a) None))
     | (Btc, Usd) \<Rightarrow>
         (case (cents, sats) of
            (Some c, Some n) \<Rightarrow>
              act_bind (act_result (paymentAmountFromNumber c Usd)) (\<lambda>centsAmount.
              act_bind (act_result (paymentAmountFromNumber n Btc)) (\<lambda>satsAmount.
                credit (debit centsAmount) (Some satsAmount)))
          | _ \<Rightarrow> act_fail PlainError)
     | (Usd, Btc) \<Rightarrow>
         (case (cents, sats) of
            (Some c, Some n) \<Rightarrow>
              act_bind (act_result (paymentAmountFromNumber c Usd)) (\<lambda>centsAmount.
              act_bind (act_result (paymentAmountFromNumber n Btc)) (\<lambda>satsAmount.
                credit (debit satsAmount) (Some centsAmount)))
          | _ \<Rightarrow> act_fail PlainError))
    (\<lambda>e. balanced (entry_transactions E e))"
  using assms(1,2)
  by (cases c; cases c'; cases sats; cases cents)
    (auto simp: debit_def credit_def intro!: yields_intros legacy_balanced_no_fee(2,3) elim!: amount_of_ledger_num)

lemma keeps_addIntraledgerTxTransfer:
  assumes "opt_all ledger_num sats" and "opt_all ledger_num cents"
  shows "keeps (\<lambda>s. ok (db s)) (addIntraledgerTxTransfer E wid c un d sats cents wid' un' c' memo share m oh)"
  unfolding addIntraledgerTxTransfer_def Let_def
  by (rule keeps_bind [OF keeps_staticAccountIds],
      rule keeps_bind_yields [OF _ yields_transfer_entry [OF assms]])
    (auto split: WalletCurrency.splits option.splits intro!: keeps_intros)

lemma keeps_cold_storage_entry:
  assumes "ledger_num sats" and "ledger_num fee"
  shows "keeps (\<lambda>s. ok (db s)) (cold_storage_entry E ty a b h addr d sats fee fd ad)"
proof -
  obtain n f where "sats = Num (of_int n)" "fee = Num (of_int f)" "ledger_amount n" "ledger_amount f"
    using assms by (auto simp: ledger_num_def)
  then show ?thesis
    unfolding cold_storage_entry_def Let_def
    by (auto simp: fl_ledger intro!: keeps_intros three_postings_balanced entry_empty)
qed

lemma keeps_addSwapFeeTxSend:
  assumes "ledger_amount (swap_onchainMinerFee sw)" "ledger_amount (swap_offchainRoutingFee sw)"
    "ledger_amount (swap_serviceProviderFee sw)"
  shows "keeps (\<lambda>s. ok (db s)) (addSwapFeeTxSend E sha sw)"
proof -
  obtain q where "js_add (js_add (Number_of (swap_offchainRoutingFee sw)) (Number_of (swap_onchainMinerFee sw)))
      (Number_of (swap_serviceProviderFee sw)) = Num q"
    using assms by (simp add: Number_of_exact fl_ledger ledger_amount_safe)
  then show ?thesis
    unfolding addSwapFeeTxSend_def Let_def
    by (auto intro!: keeps_intros two_postings_balanced entry_empty)
qed

lemma keeps_channel_fee_and_revenue:
  assumes "ledger_num fee"
  shows "keeps (\<lambda>s. ok (db s)) (addLndChannelOpeningOrClosingFee E d fee txid)"
    and "keeps (\<lambda>s. ok (db s)) (addLndRoutingRevenue E fee d)"
  using assms unfolding addLndChannelOpeningOrClosingFee_def addLndRoutingRevenue_def Let_def ledger_num_def
  by (auto intro!: keeps_intros two_postings_balanced entry_empty)

end

context book
begin

lemma escrow_entry_balanced:
  fixes q
  defines "m \<equiv> map_of [(''type'', MType Escrow), (''currency'', MCur Btc), (''pending'', MBool False)]"
  shows "balanced (entry_transactions E
    (if js_less (Num 0) (Num q)
     then entry_debit E (entry_credit E (book_entry E d) a (Num q) m) b (Num q) m
     else if js_less (Num q) (Num 0)
     then entry_credit E (entry_debit E (book_entry E d) a (js_neg (Num q)) m) b (js_neg (Num q)) m
     else book_entry E d))"
  by (auto simp: m_def intro!: two_postings_balanced entry_empty) (simp add: entry_empty balanced_def)

lemma keeps_updateLndEscrow:
  assumes "ledger_num amt" and "ledger_amount (- k)"
    and "fst (book_balance E escrowAccountingPath (Some Btc) (db s)) = Inr (Num (of_int k))"
    and "updateLndEscrow E amt s = (r, s')" and "ok (db s)"
  shows "ok (db s')"
proof -
  obtain n where n: "amt = Num (of_int n)" "ledger_amount n"
    using assms(1) by (auto simp: ledger_num_def)
  have diff: "js_add amt (Num (of_int k)) = Num (of_int (n + k))"
    unfolding n(1) using n(2) assms(2) by (intro js_add_int) (simp add: ledger_amount_def abs_le_iff)
  obtain w where w: "book_balance E escrowAccountingPath (Some Btc) (db s) = (Inr (Num (of_int k)), w)"
    using assms(3) by (cases "book_balance E escrowAccountingPath (Some Btc) (db s)") auto
  then have bal: "getLndEscrowBalance E s = (Inr (Num (of_int k)), s\<lparr>db := w\<rparr>)"
    by (simp add: getLndEscrowBalance_def admin_getWalletBalance_def on_db_def act_call_def)
  have "ok w" using w assms(5) by (auto dest: balance_reads)
  define cont where "cont = (\<lambda>ledgerEscrow.
       let diff = js_add amt ledgerEscrow
       in if js_eq diff (Num 0) then act_return (ledgerEscrow, amt, diff, False)
          else
            let metadata = map_of [(''type'', MType Escrow), (''currency'', MCur Btc), (''pending'', MBool False)];
                e0 = book_entry E ''escrow'';
                e1 = (if js_less (Num 0) diff
                      then entry_debit E (entry_credit E e0 lndAccountingPath diff metadata)
                             escrowAccountingPath diff metadata
                      else if js_less diff (Num 0)
                      then entry_credit E (entry_debit E e0 lndAccountingPath (js_neg diff) metadata)
                             escrowAccountingPath (js_neg diff) metadata
                      else e0)
            in act_bind (on_db (act_call (entry_commit E e1))) (\<lambda>_. act_return (ledgerEscrow, amt, diff, True)))"
  have "keeps (\<lambda>s. ok (db s)) (cont (Num (of_int k)))"
    unfolding cont_def Let_def diff
    by (cases "js_eq (Num (of_int (n + k))) (Num 0)")
      (simp_all only: if_True if_False, (intro keeps_intros escrow_entry_balanced)+)
  moreover have "cont (Num (of_int k)) (s\<lparr>db := w\<rparr>) = (r, s')"
    using assms(4) act_bind_simps(2) [of "getLndEscrowBalance E" s _ _ cont, OF bal]
    by (simp add: updateLndEscrow_def cont_def)
  ultimately show ?thesis
    using keepsD [of "\<lambda>s. ok (db s)" _ "s\<lparr>db := w\<rparr>"] \<open>ok w\<close> by simp
qed

lemma keeps_onChain_and_ln:
  assumes "ledger_num sats" "ledger_num fee"
  shows "keeps (\<lambda>s. ok (db s)) (addOnChainTxSend E wid c h addr d sats fee usd tf tfd all)"
    and "keeps (\<lambda>s. ok (db s)) (addOnChainTxReceive E wid c h sats fee fd ad addr)"
    and "opt_all ledger_num cents \<Longrightarrow> keeps (\<lambda>s. ok (db s)) (addLnTxReceive E wid c h d sats fd ad fee cents)"
    and "keeps (\<lambda>s. ok (db s)) (addColdStorageTxReceive E h addr d sats fee fd ad)"
    and "keeps (\<lambda>s. ok (db s)) (addColdStorageTxSend E h addr d sats fee fd ad)"
  using assms
  by (simp_all add: addOnChainTxSend_def addOnChainTxReceive_def addLnTxReceive_def
      addColdStorageTxReceive_def addColdStorageTxSend_def Let_def keeps_addSendInternalFee
      keeps_addSendNoInternalFee keeps_addReceiptFee keeps_addReceiptNoFee keeps_cold_storage_entry opt_all_def)

lemma keeps_addLnFeeReimbursementReceive:
  assumes "ledger_num sats" "opt_all ledger_num cents"
  shows "keeps (\<lambda>s. ok (db s)) (addLnFeeReimbursementReceive E wid c h j sats cents pre flow fd ad cur)"
  using assms by (simp add: addLnFeeReimbursementReceive_def Let_def keeps_addReceiptNoFee)

lemma keeps_status_updates:
  "keeps ok (settlePendingLnSend E h)" "keeps ok (recordLnSendRevert E j h)"
  "keeps ok (setOnChainTxSendHash E j h)" "keeps ok (settlePendingLnPayment E h)"
  "keeps ok (settlePendingOnChainPayment E h)" "keeps ok (revertLightningPayment E j h)"
  "keeps ok (revertOnChainPayment E j od)"
  by (auto simp: settlePendingLnSend_def recordLnSendRevert_def setOnChainTxSendHash_def
      settlePendingLnPayment_def settlePendingOnChainPayment_def revertLightningPayment_def
      revertOnChainPayment_def not_pending_def intro!: keeps_intros keeps_update_modified)

lemma ledger_step_ok:
  assumes "ledger_step E s s'" and "ok (db s)"
  shows "ok (db s')"
  using assms(1)
proof cases
  case step_recordSend
  then show ?thesis using keepsD [OF keeps_recordSend] assms(2) by metis
next
  case step_recordReceive
  then show ?thesis using keepsD [OF keeps_recordReceive] assms(2) by metis
next
  case step_recordIntraledger
  then show ?thesis using keepsD [OF keeps_recordIntraledger] assms(2) by metis
next
  case step_settleLnSend
  then show ?thesis using keepsD [OF keeps_status_updates(1)] assms(2) by simp
next
  case step_revertLnSend
  then show ?thesis using keepsD [OF keeps_status_updates(2)] assms(2) by simp
next
  case step_onChainSend
  then show ?thesis using keepsD [OF keeps_onChain_and_ln(1)] assms(2) by metis
next
  case step_setHash
  then show ?thesis using keepsD [OF keeps_status_updates(3)] assms(2) by simp
next
  case step_settleLn
  then show ?thesis using keepsD [OF keeps_status_updates(4)] assms(2) by simp
next
  case step_settleOnChain
  then show ?thesis using keepsD [OF keeps_status_updates(5)] assms(2) by simp
next
  case step_revertLn
  then show ?thesis using keepsD [OF keeps_status_updates(6)] assms(2) by simp
next
  case step_revertOnChain
  then show ?thesis using keepsD [OF keeps_status_updates(7)] assms(2) by simp
next
  case step_onChainReceive
  then show ?thesis using keepsD [OF keeps_onChain_and_ln(2)] assms(2) by metis
next
  case step_lnReceive
  then show ?thesis using keepsD [OF keeps_onChain_and_ln(3)] assms(2) by metis
next
  case step_reimburse
  then show ?thesis using keepsD [OF keeps_addLnFeeReimbursementReceive] assms(2) by metis
next
  case step_transfer
  then show ?thesis using keepsD [OF keeps_addIntraledgerTxTransfer] assms(2) by metis
next
  case step_toCold
  then show ?thesis using keepsD [OF keeps_onChain_and_ln(4)] assms(2) by metis
next
  case step_toHot
  then show ?thesis using keepsD [OF keeps_onChain_and_ln(5)] assms(2) by metis
next
  case step_swapFee
  then show ?thesis using keepsD [OF keeps_addSwapFeeTxSend] assms(2) by metis
next
  case step_channelFee
  then show ?thesis using keepsD [OF keeps_channel_fee_and_revenue(1)] assms(2) by metis
next
  case step_routing
  then show ?thesis using keepsD [OF keeps_channel_fee_and_revenue(2)] assms(2) by metis
next
  case step_escrow
  then show ?thesis using keeps_updateLndEscrow assms(2) by metis
qed

lemma ledger_steps_ok:
  "(ledger_step E)\<^sup>*\<^sup>* s s' \<Longrightarrow> ok (db s) \<Longrightarrow> ok (db s')"
  by (induction rule: rtranclp_induct) (blast intro: ledger_step_ok)+

end

section \<open>The list of journals is a book\<close>

lemma same_posting_update:
  assumes "m ''currency'' = None"
  shows "list_all2 (\<lambda>(j, ts) (j', ts'). j = j' \<and> list_all2 same_posting ts ts') js (update_journals P m js)"
  using assms
  by (auto simp: update_journals_def list_all2_map2 list_all2_same same_posting_def tx_currency_def map_add_def)

interpretation list_journals: book list_book_env "\<lambda>w. w"
proof unfold_locales
  fix m :: TxMetadata and h k js js' n assume "m ''currency'' = None"
  then have "list_all2 (\<lambda>(j, ts) (j', ts'). j = j' \<and> list_all2 same_posting ts ts') js (update_journals P m js)" for P js
    by (rule same_posting_update)
  then show "tx_updateMany_hash list_book_env h m js = (n, js') \<Longrightarrow>
      list_all2 (\<lambda>(j, ts) (j', ts'). j = j' \<and> list_all2 same_posting ts ts') js js'"
    and "tx_updateMany_journal list_book_env k m js = (n, js') \<Longrightarrow>
      list_all2 (\<lambda>(j, ts) (j', ts'). j = j' \<and> list_all2 same_posting ts ts') js js'"
    by (auto simp: list_book_env_def medici.defs ledger_env.defs)
qed (auto simp: list_book_env_def medici.defs ledger_env.defs list_medici_def Let_def split: option.splits
    dest: map_of_SomeD)

lemma next_journal_id_fresh: "next_journal_id js \<notin> fst ` set js"
proof
  assume "next_journal_id js \<in> fst ` set js"
  then have "length (next_journal_id js) \<in> set (map (length \<circ> fst) js)" by force
  then show False using member_le_sum_list [of "length (next_journal_id js)" "map (length \<circ> fst) js"]
    by (simp add: next_journal_id_def)
qed

lemma list_book_env_commit:
  "entry_commit list_book_env e w =
     (Inr \<lparr>saved_id = next_journal_id w, saved_voided = False, saved_transactions = map tx_account e\<rparr>,
      w @ [(next_journal_id w, e)])"
  "md_insertMany list_book_env rs w = (Inr rs, w)"
  by (simp_all add: list_book_env_def medici.defs ledger_env.defs Let_def)

lemma list_book_env_persist:
  "snd (persistAndReturnEntry list_book_env e h pre w) = w @ [(next_journal_id w, e)]"
proof -
  have "snd (md_persistAll list_book_env rs w') = w'" for rs w'
    by (simp add: md_persistAll_def act_try_state act_bind_def act_call_def list_book_env_commit)
  then show ?thesis
    by (simp add: persistAndReturnEntry_def act_try_state commit_and_persist_def act_bind_def act_call_def
        list_book_env_commit Let_def act_attempt_def case_prod_unfold)
qed

text \<open>
  (C1) \<^bold>\<open>Every journal of the ledger balances in both currencies.\<close> From a ledger whose journals
  balance, whatever sequence of the operations that write it is run (sends, receipts, transfers,
  settlements, reverts, cold storage movements, swap and channel fees, routing revenue, escrow
  updates), on amounts up to the largest payment, and whatever of them fails, every journal
  still debits as much as it credits in bitcoin and in dollars apart. The hypothesis on the book
  is what medici documents: a committed entry is appended as a journal, voiding appends the
  reversed transactions, updating metadata does not change postings.
\<close>

theorem ledger_always_balanced:
  assumes "book E journals" and "(ledger_step E)\<^sup>*\<^sup>* s s'" and "journals_balanced (journals (db s))"
  shows "journals_balanced (journals (db s'))"
  using assms by (rule book.ledger_steps_ok)

theorem ledger_always_balanced_witness:
  "\<exists>s'. ledger_step list_book_env sample_ledger s' \<and> length (db s') = 1 \<and> journals_balanced (db s')"
proof -
  obtain r s' where step: "recordSend list_book_env ''send'' \<lparr>wd_id = ''alice'', wd_currency = Usd, wd_accountId = ''a''\<rparr>
      (UsdPaymentAmount 100, BtcPaymentAmount 5000) (Some (UsdPaymentAmount 1, BtcPaymentAmount 50))
      Map.empty sample_ledger = (r, s')"
    by (cases "recordSend list_book_env ''send'' \<lparr>wd_id = ''alice'', wd_currency = Usd, wd_accountId = ''a''\<rparr>
      (UsdPaymentAmount 100, BtcPaymentAmount 5000) (Some (UsdPaymentAmount 1, BtcPaymentAmount 50))
      Map.empty sample_ledger")
  then have 1: "ledger_step list_book_env sample_ledger s'"
    by (intro step_recordSend [where u = 100 and b = 5000 and uf = 1 and bf = 50]) (auto simp: ledger_amount_def)
  moreover have "length (db s') = 1"
    using step list_book_env_persist
    by (auto simp: recordSend_def staticAccountIds_def sample_ledger_def act_bind_def cached_def
        getBankOwnerWalletId_def getDealerBtcWalletId_def getDealerUsdWalletId_def truthy_str_def
        initial_ledger_state_def on_db_def Let_def or_zero_fee_def case_prod_unfold)
  moreover have "journals_balanced (db s')"
  proof (rule ledger_always_balanced [OF list_journals.book_axioms])
    show "(ledger_step list_book_env)\<^sup>*\<^sup>* sample_ledger s'"
      using 1 by (rule r_into_rtranclp)
  qed (simp add: sample_ledger_def initial_ledger_state_def journals_balanced_def)
  ultimately show ?thesis by blast
qed

end
