(* ===== verification/Ledger_Tx.thy ===== *)
theory Ledger_Tx
  imports Ledger_Service "HOL-Library.Multiset"
begin

text \<open>
  Reading the ledger: \<^verbatim>\<open>domain/ledger/index.ts\<close>, the queries and \<^verbatim>\<open>translateToLedgerTx\<close> of
  \<^verbatim>\<open>services/ledger/index.ts\<close>, the metadata objects of \<^verbatim>\<open>services/ledger/tx-metadata.ts\<close>, the
  volumes of \<^verbatim>\<open>services/ledger/volume.ts\<close> and the translation of a pending transaction back to a
  payment flow (\<^verbatim>\<open>app/payments/translations.ts\<close>).

  A document of the transactions collection is a posting with its identifiers; the properties of
  a posting's metadata are properties of the document. The queries of medici and mongoose are
  parameters of the model. The main results are the round trip of a payment flow through the
  ledger and that the volumes a limit is checked against count every payment of their group.
\<close>

section \<open>Account paths\<close>

text \<open>\<^verbatim>\<open>s.split(":")\<close>\<close>

fun split_colon :: "string \<Rightarrow> string list" where
  "split_colon [] = [[]]"
| "split_colon (c # cs) =
     (if c = CHR '':'' then [] # split_colon cs
      else case split_colon cs of [] \<Rightarrow> [[c]] | p # ps \<Rightarrow> (c # p) # ps)"

definition toWalletId :: "string \<Rightarrow> WalletId option" where
  "toWalletId walletIdPath =
     (let path = split_colon walletIdPath
      in if length path = 2 \<and> path ! 0 = liabilitiesMainAccount \<and> path ! 1 \<noteq> []
         then Some (path ! 1) else None)"

definition isOnChainTransaction :: "LedgerTransactionType \<Rightarrow> bool" where
  "isOnChainTransaction type =
     (type = OnchainIntraLedger \<or> type = OnChainTradeIntraAccount \<or> type = OnchainReceipt \<or> type = OnchainPayment)"

definition is_hex_digit :: "char \<Rightarrow> bool" where
  "is_hex_digit c = (c \<in> set ''0123456789abcdefABCDEF'')"

definition checkedToLedgerTransactionId :: "string \<Rightarrow> LedgerTransactionId result" where
  "checkedToLedgerTransactionId txId =
     (if txId \<noteq> [] \<and> length txId = 24 \<and> list_all is_hex_digit txId then Inr txId
      else Inl (input_err InvalidLedgerTransactionId))"

section \<open>Transactions\<close>

record ILedgerTransaction = txn +
  doc_id :: LedgerTransactionId
  doc_journal :: LedgerJournalId
  doc_memo :: string
  doc_timestamp :: date

record LedgerTransaction =
  lt_id :: LedgerTransactionId
  lt_walletId :: "WalletId option"
  lt_type :: "LedgerTransactionType option"
  lt_debit :: jsnum
  lt_credit :: jsnum
  lt_fee :: jsnum
  lt_usd :: jsnum
  lt_feeUsd :: jsnum
  lt_currency :: "WalletCurrency option"
  lt_timestamp :: date
  lt_pendingConfirmation :: "bool option"
  lt_journalId :: LedgerJournalId
  lt_lnMemo :: string
  lt_username :: "Username option"
  lt_memoFromPayer :: "string option"
  lt_paymentHash :: "PaymentHash option"
  lt_pubkey :: "Pubkey option"
  lt_address :: "OnChainAddress option"
  lt_txHash :: "OnChainTxHash option"
  lt_feeKnownInAdvance :: bool
  lt_satsAmount :: "jsnum option"
  lt_centsAmount :: "jsnum option"
  lt_satsFee :: "jsnum option"
  lt_centsFee :: "jsnum option"
  lt_displayAmount :: "jsnum option"
  lt_displayFee :: "jsnum option"
  lt_displayCurrency :: "string option"
  lt_recipientWalletId :: "WalletId option"

definition meta_num :: "TxMetadata \<Rightarrow> string \<Rightarrow> jsnum option" where
  "meta_num m key = (case m key of Some (MNum x) \<Rightarrow> Some x | _ \<Rightarrow> None)"

definition meta_bool :: "TxMetadata \<Rightarrow> string \<Rightarrow> bool option" where
  "meta_bool m key = (case m key of Some (MBool b) \<Rightarrow> Some b | _ \<Rightarrow> None)"

definition meta_type :: "TxMetadata \<Rightarrow> LedgerTransactionType option" where
  "meta_type m = (case m ''type'' of Some (MType t) \<Rightarrow> Some t | _ \<Rightarrow> None)"

definition meta_strs :: "TxMetadata \<Rightarrow> string \<Rightarrow> string list" where
  "meta_strs m key = (case m key of Some (MStrs ss) \<Rightarrow> ss | _ \<Rightarrow> [])"

text \<open>\<^verbatim>\<open>x || 0\<close>\<close>

definition num_or_zero :: "jsnum option \<Rightarrow> jsnum" where
  "num_or_zero x = (if truthy_num x then the x else Num 0)"

definition translateToLedgerTx :: "ILedgerTransaction \<Rightarrow> LedgerTransaction" where
  "translateToLedgerTx tx =
     (let m = tx_meta tx
      in \<lparr>lt_id = doc_id tx, lt_walletId = toWalletId (tx_account tx), lt_type = meta_type m,
          lt_debit = tx_debit tx, lt_credit = tx_credit tx,
          lt_fee = num_or_zero (meta_num m ''fee''), lt_usd = num_or_zero (meta_num m ''usd''),
          lt_feeUsd = num_or_zero (meta_num m ''feeUsd''), lt_currency = tx_currency (txn.truncate tx),
          lt_timestamp = doc_timestamp tx, lt_pendingConfirmation = meta_bool m ''pending'',
          lt_journalId = doc_journal tx, lt_lnMemo = doc_memo tx,
          lt_username = str_or_undefined (meta_str m ''username''),
          lt_memoFromPayer = meta_str m ''memoPayer'',
          lt_paymentHash = str_or_undefined (meta_str m ''hash''),
          lt_pubkey = str_or_undefined (meta_str m ''pubkey''),
          lt_address = (case meta_strs m ''payee_addresses'' of [] \<Rightarrow> None | a # _ \<Rightarrow> Some a),
          lt_txHash = str_or_undefined (meta_str m ''hash''),
          lt_feeKnownInAdvance = (meta_bool m ''feeKnownInAdvance'' = Some True),
          lt_satsAmount = meta_num m ''satsAmount'', lt_centsAmount = meta_num m ''centsAmount'',
          lt_satsFee = meta_num m ''satsFee'', lt_centsFee = meta_num m ''centsFee'',
          lt_displayAmount = meta_num m ''displayAmount'', lt_displayFee = meta_num m ''displayFee'',
          lt_displayCurrency = meta_str m ''displayCurrency'', lt_recipientWalletId = None\<rparr>)"

definition inputAmountFromLedgerTransaction :: "LedgerTransaction \<Rightarrow> int result" where
  "inputAmountFromLedgerTransaction txn =
     (case (if lt_currency txn = Some Usd then lt_centsFee txn else lt_satsFee txn) of
        None \<Rightarrow> Inl (input_err InvalidLedgerTransactionStateError)
      | Some fee \<Rightarrow> safeBigInt (js_sub (lt_debit txn) fee))"

section \<open>Metadata of transactions\<close>

text \<open>
  \<open>sn a\<close> is \<^verbatim>\<open>toSats\<close> or \<^verbatim>\<open>toCents\<close> of the amount; the four amounts of a flow are part of most
  objects.
\<close>

abbreviation sn :: "Amount \<Rightarrow> mval" where
  "sn a \<equiv> MNum (Number_of (amount a))"

definition LnSendLedgerMetadata ::
  "PaymentHash \<Rightarrow> Pubkey \<Rightarrow> PaymentFlowState \<Rightarrow> jsnum \<Rightarrow> jsnum \<Rightarrow> string \<Rightarrow> bool \<Rightarrow> TxMetadata" where
  "LnSendLedgerMetadata hash pubkey flow feeDisplay amountDisplay displayCurrency feeKnown = map_of
     [(''type'', MType Payment), (''pending'', MBool True), (''hash'', MStr hash), (''pubkey'', MStr pubkey),
      (''feeKnownInAdvance'', MBool feeKnown), (''fee'', sn (btcProtocolFee flow)),
      (''feeUsd'', MNum (js_div feeDisplay (Num 100))),
      (''usd'', MNum (js_div (js_add amountDisplay feeDisplay) (Num 100))),
      (''satsFee'', sn (btcProtocolFee flow)), (''displayFee'', MNum feeDisplay),
      (''displayAmount'', MNum amountDisplay), (''displayCurrency'', MStr displayCurrency),
      (''centsAmount'', sn (usdPaymentAmount flow)), (''satsAmount'', sn (btcPaymentAmount flow)),
      (''centsFee'', sn (usdProtocolFee flow))]"

definition OnChainSendLedgerMetadata ::
  "OnChainTxHash \<Rightarrow> Amount \<Rightarrow> jsnum \<Rightarrow> jsnum \<Rightarrow> OnChainAddress list \<Rightarrow> bool \<Rightarrow> TxMetadata" where
  "OnChainSendLedgerMetadata hash fee feeDisplay amountDisplay payeeAddresses sendAll = map_of
     [(''type'', MType OnchainPayment), (''pending'', MBool True), (''hash'', MStr hash),
      (''payee_addresses'', MStrs payeeAddresses), (''fee'', sn fee), (''feeUsd'', MNum feeDisplay),
      (''usd'', MNum amountDisplay), (''sendAll'', MBool sendAll)]"

definition OnChainReceiveLedgerMetadata ::
  "OnChainTxHash \<Rightarrow> Amount \<Rightarrow> jsnum \<Rightarrow> jsnum \<Rightarrow> OnChainAddress list \<Rightarrow> TxMetadata" where
  "OnChainReceiveLedgerMetadata hash fee feeDisplay amountDisplay payeeAddresses = map_of
     [(''type'', MType OnchainReceipt), (''pending'', MBool False), (''hash'', MStr hash), (''fee'', sn fee),
      (''feeUsd'', MNum feeDisplay), (''usd'', MNum amountDisplay), (''payee_addresses'', MStrs payeeAddresses)]"

text \<open>
  \<^verbatim>\<open>Number(x.toFixed(2))\<close>: the nearest hundredth of the exact value of the number, the larger
  one of two that are equally near, read back as a number.
\<close>

fun js_toFixed2 :: "jsnum \<Rightarrow> jsnum" where
  "js_toFixed2 (Num a) =
     (if a < 0 then js_neg (fl (of_int \<lfloor>- a * 100 + 1 / 2\<rfloor> / 100)) else fl (of_int \<lfloor>a * 100 + 1 / 2\<rfloor> / 100))"
| "js_toFixed2 x = x"

definition convertCentsToUsdAsDollars :: "jsnum \<Rightarrow> jsnum" where
  "convertCentsToUsdAsDollars cents = js_toFixed2 (js_div cents (Num 100))"

definition LnReceiveLedgerMetadata :: "PaymentHash \<Rightarrow> Amount \<Rightarrow> jsnum \<Rightarrow> jsnum \<Rightarrow> TxMetadata" where
  "LnReceiveLedgerMetadata hash fee feeDisplay amountDisplay = map_of
     [(''type'', MType Invoice), (''pending'', MBool False), (''hash'', MStr hash), (''fee'', sn fee),
      (''feeUsd'', MNum (convertCentsToUsdAsDollars feeDisplay)),
      (''usd'', MNum (convertCentsToUsdAsDollars amountDisplay))]"

definition LnFeeReimbursementReceiveLedgerMetadata ::
  "PaymentFlowState \<Rightarrow> PaymentHash \<Rightarrow> LedgerJournalId \<Rightarrow> jsnum \<Rightarrow> jsnum \<Rightarrow> string \<Rightarrow> TxMetadata" where
  "LnFeeReimbursementReceiveLedgerMetadata flow hash jid feeDisplay amountDisplay displayCurrency = map_of
     [(''type'', MType LnFeeReimbursement), (''hash'', MStr hash), (''related_journal'', MStr jid),
      (''pending'', MBool False), (''usd'', MNum (js_div (js_add amountDisplay feeDisplay) (Num 100))),
      (''satsFee'', sn (btcProtocolFee flow)), (''displayFee'', MNum feeDisplay),
      (''displayAmount'', MNum amountDisplay), (''displayCurrency'', MStr displayCurrency),
      (''centsAmount'', sn (usdPaymentAmount flow)), (''satsAmount'', sn (btcPaymentAmount flow)),
      (''centsFee'', sn (usdProtocolFee flow))]"

text \<open>A pair is the metadata of the journal and the additional metadata of the debited account.\<close>

definition OnChainIntraledgerLedgerMetadata ::
  "jsnum \<Rightarrow> OnChainAddress list \<Rightarrow> bool \<Rightarrow> string option \<Rightarrow> Username option \<Rightarrow> Username option
     \<Rightarrow> TxMetadata \<times> TxMetadata" where
  "OnChainIntraledgerLedgerMetadata amountDisplay payeeAddresses sendAll memoOfPayer sender recipient =
     (map_of
       [(''type'', MType OnchainIntraLedger), (''pending'', MBool False), (''usd'', MNum amountDisplay),
        (''memoPayer'', MUndefined), (''username'', opt_str sender), (''payee_addresses'', MStrs payeeAddresses),
        (''sendAll'', MBool sendAll)],
      map_of [(''memoPayer'', opt_str memoOfPayer), (''username'', opt_str recipient)])"

definition WalletIdIntraledgerLedgerMetadata ::
  "PaymentFlowState \<Rightarrow> jsnum \<Rightarrow> jsnum \<Rightarrow> string \<Rightarrow> string option \<Rightarrow> Username option \<Rightarrow> Username option
     \<Rightarrow> TxMetadata \<times> TxMetadata" where
  "WalletIdIntraledgerLedgerMetadata flow feeDisplay amountDisplay displayCurrency memoOfPayer sender recipient =
     (map_of
       [(''type'', MType IntraLedger), (''pending'', MBool False), (''memoPayer'', opt_str memoOfPayer),
        (''username'', opt_str sender), (''usd'', MNum (js_div amountDisplay (Num 100))),
        (''satsFee'', sn (btcProtocolFee flow)), (''displayFee'', MNum feeDisplay),
        (''displayAmount'', MNum amountDisplay), (''displayCurrency'', MStr displayCurrency),
        (''centsAmount'', sn (usdPaymentAmount flow)), (''satsAmount'', sn (btcPaymentAmount flow)),
        (''centsFee'', sn (usdProtocolFee flow))],
      map_of [(''username'', opt_str recipient)])"

definition LnIntraledgerLedgerMetadata ::
  "PaymentHash \<Rightarrow> Pubkey \<Rightarrow> PaymentFlowState \<Rightarrow> jsnum \<Rightarrow> jsnum \<Rightarrow> string \<Rightarrow> string option \<Rightarrow> Username option
     \<Rightarrow> Username option \<Rightarrow> TxMetadata \<times> TxMetadata" where
  "LnIntraledgerLedgerMetadata hash pubkey flow feeDisplay amountDisplay displayCurrency memoOfPayer sender recipient =
     (map_of
       [(''type'', MType LnIntraLedger), (''pending'', MBool False), (''memoPayer'', MUndefined),
        (''username'', opt_str sender), (''hash'', MStr hash), (''pubkey'', MStr pubkey),
        (''usd'', MNum (js_div amountDisplay (Num 100))),
        (''satsFee'', sn (btcProtocolFee flow)), (''displayFee'', MNum feeDisplay),
        (''displayAmount'', MNum amountDisplay), (''displayCurrency'', MStr displayCurrency),
        (''centsAmount'', sn (usdPaymentAmount flow)), (''satsAmount'', sn (btcPaymentAmount flow)),
        (''centsFee'', sn (usdProtocolFee flow))],
      map_of [(''memoPayer'', opt_str memoOfPayer), (''username'', opt_str recipient)])"

definition OnChainTradeIntraAccountLedgerMetadata ::
  "jsnum \<Rightarrow> OnChainAddress list \<Rightarrow> bool \<Rightarrow> string option \<Rightarrow> TxMetadata \<times> TxMetadata" where
  "OnChainTradeIntraAccountLedgerMetadata amountDisplay payeeAddresses sendAll memoOfPayer =
     (map_of
       [(''type'', MType OnChainTradeIntraAccount), (''pending'', MBool False), (''usd'', MNum amountDisplay),
        (''memoPayer'', MUndefined), (''payee_addresses'', MStrs payeeAddresses), (''sendAll'', MBool sendAll)],
      map_of [(''memoPayer'', opt_str memoOfPayer)])"

definition WalletIdTradeIntraAccountLedgerMetadata ::
  "PaymentFlowState \<Rightarrow> jsnum \<Rightarrow> jsnum \<Rightarrow> string \<Rightarrow> string option \<Rightarrow> TxMetadata" where
  "WalletIdTradeIntraAccountLedgerMetadata flow feeDisplay amountDisplay displayCurrency memoOfPayer = map_of
     [(''type'', MType WalletIdTradeIntraAccount), (''pending'', MBool False), (''memoPayer'', opt_str memoOfPayer),
      (''usd'', MNum (js_div amountDisplay (Num 100))),
      (''satsFee'', sn (btcProtocolFee flow)), (''displayFee'', MNum feeDisplay),
      (''displayAmount'', MNum amountDisplay), (''displayCurrency'', MStr displayCurrency),
      (''centsAmount'', sn (usdPaymentAmount flow)), (''satsAmount'', sn (btcPaymentAmount flow)),
      (''centsFee'', sn (usdProtocolFee flow))]"

definition LnTradeIntraAccountLedgerMetadata ::
  "PaymentHash \<Rightarrow> Pubkey \<Rightarrow> PaymentFlowState \<Rightarrow> jsnum \<Rightarrow> jsnum \<Rightarrow> string \<Rightarrow> string option
     \<Rightarrow> TxMetadata \<times> TxMetadata" where
  "LnTradeIntraAccountLedgerMetadata hash pubkey flow feeDisplay amountDisplay displayCurrency memoOfPayer =
     (map_of
       [(''type'', MType LnTradeIntraAccount), (''pending'', MBool False), (''memoPayer'', MUndefined),
        (''hash'', MStr hash), (''pubkey'', MStr pubkey), (''usd'', MNum (js_div amountDisplay (Num 100))),
        (''satsFee'', sn (btcProtocolFee flow)), (''displayFee'', MNum feeDisplay),
        (''displayAmount'', MNum amountDisplay), (''displayCurrency'', MStr displayCurrency),
        (''centsAmount'', sn (usdPaymentAmount flow)), (''satsAmount'', sn (btcPaymentAmount flow)),
        (''centsFee'', sn (usdProtocolFee flow))],
      map_of [(''memoPayer'', opt_str memoOfPayer)])"

definition LnChannelOpenOrClosingFee :: "OnChainTxHash \<Rightarrow> TxMetadata" where
  "LnChannelOpenOrClosingFee txId = map_of
     [(''type'', MType Fee), (''pending'', MBool False), (''txid'', MStr txId)]"

definition EscrowMetadata :: TxMetadata where
  "EscrowMetadata = map_of [(''type'', MType Escrow), (''pending'', MBool False)]"

text \<open>The argument is \<^verbatim>\<open>collectedOn.toDateString()\<close>.\<close>

definition LnRoutingRevenue :: "string \<Rightarrow> TxMetadata" where
  "LnRoutingRevenue collectedOn = map_of
     [(''type'', MType RoutingRevenue), (''feesCollectedOn'', MStr collectedOn), (''pending'', MBool False)]"

section \<open>Queries\<close>

record LedgerQuery =
  q_accounts :: "LedgerAccountId list option"
  q_id :: "LedgerTransactionId option"
  q_hash :: "string option"
  q_username :: "Username option"
  q_type :: "LedgerTransactionType option"
  q_pending :: "bool option"

text \<open>
  \<open>book_ledger\<close> is \<^verbatim>\<open>MainBook.ledger\<close>, \<open>tx_countDocuments\<close> and \<open>tx_findOne_other\<close> are
  \<^verbatim>\<open>Transaction.countDocuments\<close> and \<^verbatim>\<open>Transaction.findOne\<close> (of a hash, outside an account), the
  aggregates are the total debit and credit of some types of an account since a date, and the
  accounts with pending payments. As elsewhere, a left value is a thrown exception.
\<close>

record ('e, 'w) query_env = "('e, 'w) ledger_env" +
  book_ledger :: "LedgerQuery \<Rightarrow> 'w \<Rightarrow> (string + ILedgerTransaction list) \<times> 'w"
  tx_countDocuments :: "LedgerQuery \<Rightarrow> 'w \<Rightarrow> (string + nat) \<times> 'w"
  tx_findOne_other :: "string \<Rightarrow> LedgerAccountId \<Rightarrow> string \<Rightarrow> 'w \<Rightarrow> (string + ILedgerTransaction option) \<times> 'w"
  tx_aggregate_volume ::
    "LedgerAccountId \<Rightarrow> LedgerTransactionType list \<Rightarrow> date \<Rightarrow> 'w \<Rightarrow> (string + (jsnum \<times> jsnum) option) \<times> 'w"
  tx_aggregate_pending :: "string \<Rightarrow> 'w \<Rightarrow> (string + LedgerAccountId list) \<times> 'w"

definition any_query :: LedgerQuery where
  "any_query = \<lparr>q_accounts = None, q_id = None, q_hash = None, q_username = None, q_type = None, q_pending = None\<rparr>"

definition ledger_results ::
  "('e, 'w, 'x) query_env_scheme \<Rightarrow> LedgerQuery \<Rightarrow> ('w, LedgerTransaction list) act" where
  "ledger_results E q =
     act_try (act_bind (act_call (book_ledger E q)) (\<lambda>results. act_return (map translateToLedgerTx results)))
       unknown_ledger"

definition getTransactionById ::
  "('e, 'w, 'x) query_env_scheme \<Rightarrow> LedgerTransactionId \<Rightarrow> ('w, LedgerTransaction) act" where
  "getTransactionById E txId =
     act_try
       (act_bind (act_call (book_ledger E (any_query\<lparr>q_accounts := Some [liabilitiesMainAccount], q_id := Some txId\<rparr>)))
         (\<lambda>results. case results of
            [tx] \<Rightarrow> act_return (translateToLedgerTx tx)
          | _ \<Rightarrow> act_fail (LedgerError CouldNotFindTransactionError)))
       unknown_ledger"

definition getTransactionsByHash ::
  "('e, 'w, 'x) query_env_scheme \<Rightarrow> string \<Rightarrow> ('w, LedgerTransaction list) act" where
  "getTransactionsByHash E hash =
     ledger_results E (any_query\<lparr>q_hash := Some hash, q_accounts := Some [liabilitiesMainAccount]\<rparr>)"

definition getTransactionsByWalletId ::
  "('e, 'w, 'x) query_env_scheme \<Rightarrow> WalletId \<Rightarrow> ('w, LedgerTransaction list) act" where
  "getTransactionsByWalletId E walletId =
     ledger_results E (any_query\<lparr>q_accounts := Some [toLiabilitiesWalletId walletId]\<rparr>)"

definition getTransactionsByWalletIds ::
  "('e, 'w, 'x) query_env_scheme \<Rightarrow> WalletId list \<Rightarrow> ('w, LedgerTransaction list) act" where
  "getTransactionsByWalletIds E walletIds =
     ledger_results E (any_query\<lparr>q_accounts := Some (map toLiabilitiesWalletId walletIds)\<rparr>)"

definition getTransactionsByWalletIdAndContactUsername ::
  "('e, 'w, 'x) query_env_scheme \<Rightarrow> WalletId \<Rightarrow> Username \<Rightarrow> ('w, LedgerTransaction list) act" where
  "getTransactionsByWalletIdAndContactUsername E walletId contactUsername =
     ledger_results E (any_query\<lparr>q_accounts := Some [toLiabilitiesWalletId walletId],
                                  q_username := Some contactUsername\<rparr>)"

definition listPendingPayments ::
  "('e, 'w, 'x) query_env_scheme \<Rightarrow> WalletId \<Rightarrow> ('w, LedgerTransaction list) act" where
  "listPendingPayments E walletId =
     ledger_results E (any_query\<lparr>q_accounts := Some [toLiabilitiesWalletId walletId],
                                  q_type := Some Payment, q_pending := Some True\<rparr>)"

text \<open>Exceptions of this count, and of the next two queries below, are not caught.\<close>

definition getPendingPaymentsCount ::
  "('e, 'w, 'x) query_env_scheme \<Rightarrow> WalletId \<Rightarrow> ('w, nat) act" where
  "getPendingPaymentsCount E walletId =
     act_call (tx_countDocuments E (any_query\<lparr>q_accounts := Some [toLiabilitiesWalletId walletId],
                                               q_type := Some Payment, q_pending := Some True\<rparr>))"

definition getWalletIdByTransactionHash ::
  "('e, 'w, 'x) query_env_scheme \<Rightarrow> OnChainTxHash \<Rightarrow> ('w ledger_state, WalletId) act" where
  "getWalletIdByTransactionHash E hash =
     act_bind getBankOwnerWalletId (\<lambda>bankOwner.
     act_bind (on_db (act_call (tx_findOne_other E liabilitiesMainAccount (toLiabilitiesWalletId bankOwner) hash)))
       (\<lambda>entry. case entry of
          None \<Rightarrow> act_fail (LedgerError CouldNotFindTransactionError)
        | Some e \<Rightarrow> (case toWalletId (tx_account e) of
              None \<Rightarrow> act_fail (LedgerError UnknownLedgerError)
            | Some walletId \<Rightarrow> act_return walletId)))"

definition listWalletIdsWithPendingPayments ::
  "('e, 'w, 'x) query_env_scheme \<Rightarrow> ('w, WalletId option list) act" where
  "listWalletIdsWithPendingPayments E =
     act_bind (act_call (tx_aggregate_pending E liabilitiesMainAccount)) (\<lambda>accounts. act_return (map toWalletId accounts))"

text \<open>
  A negative balance of a wallet that is not the dealer's is reported to tracing; looking the
  dealer's wallets up can throw.
\<close>

definition getWalletBalance ::
  "('e, 'w, 'x) query_env_scheme \<Rightarrow> WalletId \<Rightarrow> ('w ledger_state, jsnum) act" where
  "getWalletBalance E walletId =
     act_try
       (act_bind (on_db (act_call (book_balance E (toLiabilitiesWalletId walletId) None))) (\<lambda>balance.
          if js_less balance (Num 0)
          then act_bind getDealerUsdWalletId (\<lambda>_. act_bind getDealerBtcWalletId (\<lambda>_. act_return balance))
          else act_return balance))
       unknown_ledger"

definition getWalletBalanceAmount ::
  "('e, 'w, 'x) query_env_scheme \<Rightarrow> WalletDescriptor \<Rightarrow> ('w ledger_state, Amount) act" where
  "getWalletBalanceAmount E w =
     act_try
       (act_bind (on_db (act_call (book_balance E (toLiabilitiesWalletId (wd_id w)) None))) (\<lambda>balance.
        act_bind (if js_less balance (Num 0) then act_bind getDealerWalletIds (\<lambda>_. act_return ()) else act_return ())
          (\<lambda>_. act_result
            (case balanceAmountFromNumber balance (wd_currency w) of
               Inl e \<Rightarrow> if e = BigIntConversionError BigIntFloatConversionError
                        then balanceAmountFromNumber (js_floor balance) (wd_currency w) else Inl e
             | Inr a \<Rightarrow> Inr a))))
       unknown_ledger"

definition isOnChainTxRecorded ::
  "('e, 'w, 'x) query_env_scheme \<Rightarrow> WalletId \<Rightarrow> OnChainTxHash \<Rightarrow> ('w, bool) act" where
  "isOnChainTxRecorded E walletId txHash =
     act_try
       (act_bind (act_call (tx_countDocuments E (any_query\<lparr>q_accounts := Some [toLiabilitiesWalletId walletId],
            q_type := Some OnchainReceipt, q_hash := Some txHash\<rparr>))) (\<lambda>result. act_return (0 < result)))
       unknown_ledger"

definition isLnTxRecorded :: "('e, 'w, 'x) query_env_scheme \<Rightarrow> PaymentHash \<Rightarrow> ('w, bool) act" where
  "isLnTxRecorded E hash =
     act_try
       (act_bind (act_call (book_ledger E (any_query\<lparr>q_pending := Some False, q_hash := Some hash\<rparr>)))
         (\<lambda>results. act_return (0 < length results)))
       unknown_ledger"

definition isToHotWalletTxRecorded :: "('e, 'w, 'x) query_env_scheme \<Rightarrow> OnChainTxHash \<Rightarrow> ('w, bool) act" where
  "isToHotWalletTxRecorded E txHash =
     act_try
       (act_bind (act_call (tx_countDocuments E (any_query\<lparr>q_type := Some ToHotWallet, q_hash := Some txHash\<rparr>)))
         (\<lambda>result. act_return (0 < result)))
       unknown_ledger"

section \<open>Volumes\<close>

datatype TxnGroup =
    allPaymentVolumeSince | externalPaymentVolumeSince | intraledgerTxBaseVolumeSince
  | tradeIntraAccountTxBaseVolumeSince | lightningTxBaseVolumeSince | onChainTxBaseVolumeSince
  | allTxBaseVolumeSince

definition all_types :: "LedgerTransactionType list" where
  "all_types =
     [Invoice, Payment, LnFeeReimbursement, OnchainReceipt, OnchainPayment, IntraLedger, LnIntraLedger,
      OnchainIntraLedger, WalletIdTradeIntraAccount, LnTradeIntraAccount, OnChainTradeIntraAccount,
      Fee, ToColdStorage, ToHotWallet, Escrow, RoutingRevenue]"

fun TxnGroups :: "TxnGroup \<Rightarrow> LedgerTransactionType list" where
  "TxnGroups allPaymentVolumeSince = [IntraLedger, OnchainIntraLedger, LnIntraLedger, Payment, OnchainPayment]"
| "TxnGroups externalPaymentVolumeSince = [Payment, OnchainPayment]"
| "TxnGroups intraledgerTxBaseVolumeSince = [IntraLedger, OnchainIntraLedger, LnIntraLedger]"
| "TxnGroups tradeIntraAccountTxBaseVolumeSince =
     [WalletIdTradeIntraAccount, OnChainTradeIntraAccount, LnTradeIntraAccount]"
| "TxnGroups lightningTxBaseVolumeSince = [Payment, Invoice, LnFeeReimbursement]"
| "TxnGroups onChainTxBaseVolumeSince = [OnchainPayment, OnchainReceipt]"
| "TxnGroups allTxBaseVolumeSince = all_types"

record 'a TxVolume =
  outgoingBaseAmount :: 'a
  incomingBaseAmount :: 'a

definition txVolumeSince ::
  "('e, 'w, 'x) query_env_scheme \<Rightarrow> WalletId \<Rightarrow> date \<Rightarrow> TxnGroup \<Rightarrow> ('w, jsnum TxVolume) act" where
  "txVolumeSince E walletId timestamp txnGroup =
     act_try
       (act_bind (act_call (tx_aggregate_volume E (toLiabilitiesWalletId walletId) (TxnGroups txnGroup) timestamp))
         (\<lambda>result. act_return
            (case result of
               None \<Rightarrow> \<lparr>outgoingBaseAmount = Num 0, incomingBaseAmount = Num 0\<rparr>
             | Some (out, inc) \<Rightarrow> \<lparr>outgoingBaseAmount = out, incomingBaseAmount = inc\<rparr>)))
       unknown_ledger"

definition volumeFn ::
  "TxnGroup \<Rightarrow> ('e, 'w, 'x) query_env_scheme \<Rightarrow> WalletId \<Rightarrow> date \<Rightarrow> ('w, jsnum TxVolume) act" where
  "volumeFn txnGroup E walletId timestamp = txVolumeSince E walletId timestamp txnGroup"

definition volumeAmountFn ::
  "TxnGroup \<Rightarrow> ('e, 'w, 'x) query_env_scheme \<Rightarrow> WalletDescriptor \<Rightarrow> date \<Rightarrow> ('w, Amount TxVolume) act" where
  "volumeAmountFn txnGroup E w timestamp =
     act_bind (txVolumeSince E (wd_id w) timestamp txnGroup) (\<lambda>volume.
     act_bind (act_result (paymentAmountFromNumber (outgoingBaseAmount volume) (wd_currency w))) (\<lambda>out.
     act_bind (act_result (paymentAmountFromNumber (incomingBaseAmount volume) (wd_currency w))) (\<lambda>inc.
       act_return \<lparr>outgoingBaseAmount = out, incomingBaseAmount = inc\<rparr>)))"

section \<open>Payment flows from the ledger\<close>

definition PaymentFlowFromLedgerTransaction :: "LedgerTransaction \<Rightarrow> AccountId \<Rightarrow> PaymentFlowState result" where
  "PaymentFlowFromLedgerTransaction tx accountId =
     (if lt_type tx \<noteq> Some Payment then Inl (flow_err NonLnPaymentTransactionForPaymentFlowError)
      else case (lt_walletId tx, lt_currency tx, lt_paymentHash tx, lt_satsAmount tx, lt_centsAmount tx,
                 lt_satsFee tx, lt_centsFee tx) of
        (Some wallet, Some cur, Some hash, Some satsAmount, Some centsAmount, Some satsFee, Some centsFee) \<Rightarrow>
          result_bind (paymentAmountFromNumber satsAmount Btc) (\<lambda>btc.
          result_bind (paymentAmountFromNumber centsAmount Usd) (\<lambda>usd.
          result_bind (paymentAmountFromNumber satsFee Btc) (\<lambda>btcFee.
          result_bind (paymentAmountFromNumber centsFee Usd) (\<lambda>usdFee.
            Inr \<lparr>paymentHash = Some hash, intraLedgerHash = None, senderWalletId = wallet,
                 senderWalletCurrency = cur, senderAccountId = accountId, settlementMethod = SM_Lightning,
                 paymentInitiationMethod = PIM_Lightning, descriptionFromInvoice = [],
                 skipProbeForDestination = False, createdAt = lt_timestamp tx, paymentSentAndPending = True,
                 btcPaymentAmount = btc, usdPaymentAmount = usd,
                 inputAmount = (if cur = Usd then amount usd else amount btc),
                 btcProtocolFee = btcFee, usdProtocolFee = usdFee, recipientWalletId = None,
                 recipientWalletCurrency = None, recipientAccountId = None, recipientPubkey = None,
                 recipientUsername = None, outgoingNodePubkey = None, cachedRoute = None\<rparr>))))
      | _ \<Rightarrow> Inl (flow_err MissingPropsInTransactionForPaymentFlowError))"

section \<open>What queries return\<close>

text \<open>An account matches itself and the accounts below it.\<close>

definition query_matches :: "LedgerQuery \<Rightarrow> txn \<Rightarrow> bool" where
  "query_matches q t =
     ((case q_accounts q of None \<Rightarrow> True
        | Some as \<Rightarrow> list_ex (\<lambda>a. tx_account t = a \<or> starts_with (a @ '':'') (tx_account t)) as)
      \<and> (case q_hash q of None \<Rightarrow> True | Some h \<Rightarrow> tx_meta t ''hash'' = Some (MStr h))
      \<and> (case q_username q of None \<Rightarrow> True | Some u \<Rightarrow> tx_meta t ''username'' = Some (MStr u))
      \<and> (case q_type q of None \<Rightarrow> True | Some ty \<Rightarrow> tx_meta t ''type'' = Some (MType ty))
      \<and> (case q_pending q of None \<Rightarrow> True | Some b \<Rightarrow> tx_meta t ''pending'' = Some (MBool b)))"

definition has_hash :: "string \<Rightarrow> txn \<Rightarrow> bool" where
  "has_hash h t = (tx_meta t ''hash'' = Some (MStr h))"

definition is_pending :: "txn \<Rightarrow> bool" where
  "is_pending t = (tx_meta t ''pending'' = Some (MBool True))"

definition doc_of :: "LedgerJournalId \<times> txn \<Rightarrow> ILedgerTransaction" where
  "doc_of p = txn.extend (snd p) (ILedgerTransaction.fields (fst p @ tx_account (snd p)) (fst p) [] 0)"

text \<open>The list of journals with its queries.\<close>

definition list_query_env :: "(txn list, journals) query_env" where
  "list_query_env = ledger_env.extend list_book_env
     (query_env.fields
       (\<lambda>q w. (Inr (map doc_of (filter (\<lambda>(j, t). query_matches q t) (postings w))), w))
       (\<lambda>q w. (Inr (length (filter (\<lambda>(j, t). query_matches q t) (postings w))), w))
       (\<lambda>path other h w. (Inr (map_option doc_of (find (\<lambda>(j, t). starts_with (path @ '':'') (tx_account t)
            \<and> tx_account t \<noteq> other \<and> has_hash h t) (postings w))), w))
       (\<lambda>a tys d w. (Inr (Some (Num 0, Num 0)), w))
       (\<lambda>path w. (Inr (map (\<lambda>(j, t). tx_account t) (filter (\<lambda>(j, t). is_pending t) (postings w))), w)))"

definition sample_journals :: journals where
  "sample_journals = [(''j'', [\<lparr>tx_account = ''Liabilities:alice'', tx_credit = Num 0, tx_debit = Num 100,
     tx_meta = [''hash'' \<mapsto> MStr ''h'', ''pending'' \<mapsto> MBool True]\<rparr>])]"

text \<open>A document gives a flow back, up to what the ledger does not keep.\<close>

definition reads_back :: "PaymentFlowState \<Rightarrow> AccountId \<Rightarrow> ILedgerTransaction \<Rightarrow> bool" where
  "reads_back flow acc doc =
     (let own = amount (if senderWalletCurrency flow = Usd then usdPaymentAmount flow else btcPaymentAmount flow)
      in inputAmountFromLedgerTransaction (translateToLedgerTx doc) = Inr own
         \<and> PaymentFlowFromLedgerTransaction (translateToLedgerTx doc) acc =
             Inr (flow\<lparr>intraLedgerHash := None, senderAccountId := acc, paymentInitiationMethod := PIM_Lightning,
               descriptionFromInvoice := [], skipProbeForDestination := False, createdAt := doc_timestamp doc,
               paymentSentAndPending := True, inputAmount := own, recipientWalletId := None,
               recipientWalletCurrency := None, recipientAccountId := None, recipientPubkey := None,
               recipientUsername := None, outgoingNodePubkey := None, cachedRoute := None\<rparr>))"

definition sample_flow :: PaymentFlowState where
  "sample_flow =
     \<lparr>paymentHash = Some ''h'', intraLedgerHash = None, senderWalletId = ''alice'', senderWalletCurrency = Usd,
      senderAccountId = ''a'', settlementMethod = SM_Lightning, paymentInitiationMethod = PIM_Lightning,
      descriptionFromInvoice = ''tea'', skipProbeForDestination = False, createdAt = 0, paymentSentAndPending = False,
      btcPaymentAmount = BtcPaymentAmount 5000, usdPaymentAmount = UsdPaymentAmount 100, inputAmount = 5000,
      btcProtocolFee = BtcPaymentAmount 25, usdProtocolFee = UsdPaymentAmount 1, recipientWalletId = None,
      recipientWalletCurrency = None, recipientAccountId = None, recipientPubkey = None,
      recipientUsername = None, outgoingNodePubkey = None, cachedRoute = None\<rparr>"

locale ledger_docs = book E journals
  for E :: "('e, 'w, 'x) query_env_scheme" and journals :: "'w \<Rightarrow> journals" +
  assumes ledger_ok: "book_ledger E q w = (Inr r, w') \<Longrightarrow> q_id q = None \<Longrightarrow>
      journals w' = journals w
      \<and> mset (map txn.truncate r) = mset (filter (query_matches q) (map snd (postings (journals w))))"
    and ledger_fail: "book_ledger E q w = (Inl msg, w') \<Longrightarrow> journals w' = journals w"
    and update_hash_exact: "tx_updateMany_hash E h m w = (Inr n, w') \<Longrightarrow>
      journals w' = update_journals (\<lambda>(j, t). has_hash h t) m (journals w)
      \<and> (0 < n \<longrightarrow> (\<exists>p \<in> set (postings (journals w)). has_hash h (snd p)))"

lemma postings_update:
  "postings (update_journals P m js) =
     map (\<lambda>p. if P p then (fst p, (snd p)\<lparr>tx_meta := tx_meta (snd p) ++ m\<rparr>) else p) (postings js)"
  by (induction js) (simp_all add: postings_def update_journals_def comp_def case_prod_unfold if_distrib cong: if_cong)

context ledger_docs
begin

lemma book_ledger_nonempty:
  assumes "book_ledger E q w = (Inr r, w')" and "q_id q = None"
  shows "r \<noteq> [] \<longleftrightarrow> (\<exists>p \<in> set (postings (journals w)). query_matches q (snd p))"
proof -
  have "r \<noteq> [] \<longleftrightarrow> filter (query_matches q) (map snd (postings (journals w))) \<noteq> []"
    using ledger_ok [OF assms] by (metis mset_zero_iff mset_map map_is_Nil_conv)
  then show ?thesis by (force simp: filter_empty_conv)
qed

lemma isLnTxRecorded_iff:
  assumes "isLnTxRecorded E h w = (Inr b, w')"
  shows "b \<longleftrightarrow> (\<exists>p \<in> set (postings (journals w)). has_hash h (snd p) \<and> tx_meta (snd p) ''pending'' = Some (MBool False))"
    and "journals w' = journals w"
proof -
  let ?q = "any_query\<lparr>q_pending := Some False, q_hash := Some h\<rparr>"
  from assms obtain r where r: "book_ledger E ?q w = (Inr r, w')" and b: "b = (r \<noteq> [])"
    by (auto simp: isLnTxRecorded_def act_try_eq_Inr act_bind_eq_Inr act_call_eq_Inr)
  have id: "q_id ?q = None" by (simp add: any_query_def)
  show "journals w' = journals w" using ledger_ok [OF r id] by simp
  show "b \<longleftrightarrow> (\<exists>p \<in> set (postings (journals w)). has_hash h (snd p) \<and> tx_meta (snd p) ''pending'' = Some (MBool False))"
    unfolding b book_ledger_nonempty [OF r id]
    by (auto simp: query_matches_def any_query_def has_hash_def)
qed

lemma settled_not_pending:
  assumes "update_modified handler e (tx_updateMany_hash E h not_pending) w = (Inr (), w')"
  shows "\<exists>p \<in> set (postings (journals w')). has_hash h (snd p)"
    and "p \<in> set (postings (journals w')) \<Longrightarrow> has_hash h (snd p) \<Longrightarrow> tx_meta (snd p) ''pending'' = Some (MBool False)"
proof -
  obtain n where n: "tx_updateMany_hash E h not_pending w = (Inr n, w')" "0 < n"
    using assms by (auto simp: update_modified_def act_try_eq_Inr act_bind_eq_Inr act_call_eq_Inr split: if_splits)
  then obtain p' where p': "p' \<in> set (postings (journals w))" "has_hash h (snd p')"
    and w': "journals w' = update_journals (\<lambda>(j, t). has_hash h t) not_pending (journals w)"
    using update_hash_exact by blast
  have set': "set (postings (journals w')) =
      (\<lambda>p. if has_hash h (snd p) then (fst p, (snd p)\<lparr>tx_meta := tx_meta (snd p) ++ not_pending\<rparr>) else p)
        ` set (postings (journals w))"
    unfolding w' postings_update by (simp add: case_prod_unfold)
  show "\<exists>p \<in> set (postings (journals w')). has_hash h (snd p)"
    unfolding set' using p'
    by (intro bexI [OF _ imageI [OF p'(1)]]) (simp add: has_hash_def not_pending_def)
  show "tx_meta (snd p) ''pending'' = Some (MBool False)"
    if p: "p \<in> set (postings (journals w'))" "has_hash h (snd p)" for p
  proof -
    from p(1) [unfolded set'] obtain q where
      q: "p = (if has_hash h (snd q) then (fst q, (snd q)\<lparr>tx_meta := tx_meta (snd q) ++ not_pending\<rparr>) else q)"
      by (rule imageE)
    show ?thesis
    proof (cases "has_hash h (snd q)")
      case True
      then show ?thesis using q by (simp add: not_pending_def)
    next
      case False
      then show ?thesis using q p(2) by simp
    qed
  qed
qed

end

lemma list_query_env_sel:
  "entry_credit list_query_env = entry_credit list_book_env"
  "entry_debit list_query_env = entry_debit list_book_env"
  "entry_transactions list_query_env = entry_transactions list_book_env"
  "entry_set_transactions list_query_env = entry_set_transactions list_book_env"
  "book_entry list_query_env = book_entry list_book_env"
  "entry_commit list_query_env = entry_commit list_book_env"
  "book_void list_query_env = book_void list_book_env"
  "book_balance list_query_env = book_balance list_book_env"
  "tx_updateMany_hash list_query_env = tx_updateMany_hash list_book_env"
  "tx_updateMany_journal list_query_env = tx_updateMany_journal list_book_env"
  "md_insertMany list_query_env = md_insertMany list_book_env"
  "md_findOne_hash list_query_env = md_findOne_hash list_book_env"
  "book_ledger list_query_env = (\<lambda>q w. (Inr (map doc_of (filter (\<lambda>(j, t). query_matches q t) (postings w))), w))"
  by (simp_all add: list_query_env_def ledger_env.defs query_env.defs)

lemma list_book_env_update_hash:
  "tx_updateMany_hash list_book_env h m w =
     (Inr (length (filter (\<lambda>(j, t). has_hash h t) (postings w))), update_journals (\<lambda>(j, t). has_hash h t) m w)"
  by (simp add: list_book_env_def medici.defs ledger_env.defs has_hash_def)

lemma truncate_doc_of: "txn.truncate (doc_of p) = snd p"
  by (simp add: doc_of_def txn.defs ILedgerTransaction.defs)

interpretation list_documents: ledger_docs list_query_env "\<lambda>w. w"
proof unfold_locales
  fix q r and w w' :: journals
  assume "book_ledger list_query_env q w = (Inr r, w')"
  then have "w' = w" "map txn.truncate r = filter (query_matches q) (map snd (postings w))"
    by (auto simp: list_query_env_sel truncate_doc_of filter_map comp_def case_prod_unfold)
  then show "w' = w \<and> mset (map txn.truncate r) = mset (filter (query_matches q) (map snd (postings w)))"
    by metis
next
  fix h m n and w w' :: journals
  assume "tx_updateMany_hash list_query_env h m w = (Inr n, w')"
  then show "w' = update_journals (\<lambda>(j, t). has_hash h t) m w \<and> (0 < n \<longrightarrow> (\<exists>p\<in>set (postings w). has_hash h (snd p)))"
    by (auto simp: list_query_env_sel list_book_env_update_hash filter_empty_conv case_prod_unfold)
qed (auto simp: list_query_env_sel list_journals.transactions_credit list_journals.transactions_debit
    list_journals.transactions_set list_journals.entry_empty
    dest: list_journals.commit_ok list_journals.commit_fail list_journals.void_ok list_journals.void_fail
      list_journals.balance_reads list_journals.update_hash list_journals.update_journal
      list_journals.insert_metadata list_journals.find_metadata)

section \<open>Properties\<close>

lemma split_colon_nonempty: "split_colon s \<noteq> []"
  by (induction s) (auto split: list.splits)

lemma split_colon_plain: "CHR '':'' \<notin> set s \<Longrightarrow> split_colon s = [s]"
  by (induction s) auto

lemma split_colon_append:
  "CHR '':'' \<notin> set a \<Longrightarrow> split_colon (a @ CHR '':'' # b) = a # split_colon b"
  by (induction a) auto

lemma split_colon_two:
  "split_colon s = [a, b] \<Longrightarrow> s = a @ CHR '':'' # b \<and> CHR '':'' \<notin> set a \<and> CHR '':'' \<notin> set b"
proof (induction s arbitrary: a)
  case (Cons c cs)
  have one: "split_colon t = [x] \<Longrightarrow> t = x \<and> CHR '':'' \<notin> set x" for t x
    by (induction t arbitrary: x) (auto simp: split_colon_nonempty split: if_splits list.splits)
  show ?case
    using Cons one [of cs b] by (auto split: if_splits list.splits)
qed simp

text \<open>
  (C8) \<^bold>\<open>Paths of liabilities and wallet ids are inverse to each other.\<close> \<^verbatim>\<open>toWalletId\<close> returns
  a wallet id for a path if and only if the path is \<^verbatim>\<open>toLiabilitiesWalletId\<close> of that id and the id
  is not empty and has no colon: paths of other accounts, of deeper accounts and of no account
  give none.
\<close>

theorem wallet_path_roundtrip:
  "toWalletId path = Some w \<longleftrightarrow> path = toLiabilitiesWalletId w \<and> w \<noteq> [] \<and> CHR '':'' \<notin> set w"
proof
  assume "toWalletId path = Some w"
  then have "split_colon path = [liabilitiesMainAccount, w]" "w \<noteq> []"
    by (auto simp: toWalletId_def Let_def length_Suc_conv numeral_2_eq_2 split: if_splits)
  then show "path = toLiabilitiesWalletId w \<and> w \<noteq> [] \<and> CHR '':'' \<notin> set w"
    by (auto dest: split_colon_two simp: toLiabilitiesWalletId_def)
next
  have "CHR '':'' \<notin> set liabilitiesMainAccount"
    by (simp add: liabilitiesMainAccount_def)
  then show "path = toLiabilitiesWalletId w \<and> w \<noteq> [] \<and> CHR '':'' \<notin> set w \<Longrightarrow> toWalletId path = Some w"
    by (simp add: toWalletId_def toLiabilitiesWalletId_def split_colon_append split_colon_plain)
qed

text \<open>
  (C6) \<^bold>\<open>A settled payment is recorded.\<close> When settling a pending lightning payment succeeds, some
  posting has its hash, none of the postings with that hash is pending any more, and the test
  \<^verbatim>\<open>isLnTxRecorded\<close> that guards a second settlement then answers true.
\<close>

theorem settled_payment_recorded:
  assumes "ledger_docs E journals"
    and "settlePendingLnSend E h w = (Inr (), w1) \<or> settlePendingLnPayment E h w = (Inr (), w1)"
    and "isLnTxRecorded E h w1 = (Inr b, w2)"
  shows "b \<and> journals w2 = journals w1
    \<and> (\<forall>p \<in> set (postings (journals w1)). has_hash h (snd p) \<longrightarrow> \<not> is_pending (snd p))"
proof -
  have settled: "\<exists>p \<in> set (postings (journals w1)). has_hash h (snd p)"
    "\<And>p. p \<in> set (postings (journals w1)) \<Longrightarrow> has_hash h (snd p) \<Longrightarrow> tx_meta (snd p) ''pending'' = Some (MBool False)"
    using assms(2) ledger_docs.settled_not_pending [OF assms(1)]
    by (auto simp: settlePendingLnSend_def settlePendingLnPayment_def)
  then show ?thesis
    using ledger_docs.isLnTxRecorded_iff [OF assms(1,3)] by (auto simp: is_pending_def)
qed

theorem settled_payment_recorded_witness:
  "\<exists>w1 w2. settlePendingLnSend list_query_env ''h'' sample_journals = (Inr (), w1)
     \<and> isLnTxRecorded list_query_env ''h'' w1 = (Inr True, w2)
     \<and> (\<forall>p \<in> set (postings w1). has_hash ''h'' (snd p) \<longrightarrow> \<not> is_pending (snd p))"
proof -
  obtain w1 where s: "settlePendingLnSend list_query_env ''h'' sample_journals = (Inr (), w1)"
    by (simp add: settlePendingLnSend_def update_modified_def act_try_def act_bind_def act_call_def
        list_query_env_sel list_book_env_update_hash sample_journals_def postings_def has_hash_def)
  obtain b w2 where r: "isLnTxRecorded list_query_env ''h'' w1 = (Inr b, w2)"
    by (simp add: isLnTxRecorded_def act_try_def act_bind_def act_call_def list_query_env_sel)
  have "b \<and> w2 = w1 \<and> (\<forall>p \<in> set (postings w1). has_hash ''h'' (snd p) \<longrightarrow> \<not> is_pending (snd p))"
    using settled_payment_recorded [OF list_documents.ledger_docs_axioms disjI1 [OF s] r] .
  with s r show ?thesis by auto
qed

context medici_entry
begin

lemma send_entry_debit:
  fixes u b :: int and d :: LedgerAccountDescriptor
  assumes "entry_transactions M (eb_entry cfg) = []" and "is_safe_int u" "is_safe_int b" and "0 < u" "0 < b"
  defines "n \<equiv> if ad_currency d = Btc then b else u"
  shows "\<lparr>tx_account = ad_id d, tx_credit = Num 0, tx_debit = Num (of_int n),
      tx_meta = with_currency (eb_metadata cfg) (ad_currency d)\<rparr>
    \<in> set (entry_transactions M (creditLnd M (debitAccount M (withBankFee M (withTotalAmount cfg (UsdPaymentAmount u)
        (BtcPaymentAmount b)) ZERO_CENTS ZERO_SATS) d None)))"
  using assms
  by (cases "ad_currency d")
    (simp_all add: creditLnd_def lndLedgerAccountDescriptor_def entry_simps removeZeroAmountEntries_def transactions_set
      transactions_debit_amount transactions_credit_amount UsdPaymentAmount_def BtcPaymentAmount_def
      ZERO_CENTS_def ZERO_SATS_def js_eq_def)

end

lemma LnSendLedgerMetadata_lookup:
  "LnSendLedgerMetadata h pubkey flow fd ad dc known ''type'' = Some (MType Payment)"
  "LnSendLedgerMetadata h pubkey flow fd ad dc known ''pending'' = Some (MBool True)"
  "LnSendLedgerMetadata h pubkey flow fd ad dc known ''hash'' = Some (MStr h)"
  "LnSendLedgerMetadata h pubkey flow fd ad dc known ''satsAmount'' = Some (sn (btcPaymentAmount flow))"
  "LnSendLedgerMetadata h pubkey flow fd ad dc known ''centsAmount'' = Some (sn (usdPaymentAmount flow))"
  "LnSendLedgerMetadata h pubkey flow fd ad dc known ''satsFee'' = Some (sn (btcProtocolFee flow))"
  "LnSendLedgerMetadata h pubkey flow fd ad dc known ''centsFee'' = Some (sn (usdProtocolFee flow))"
  by (simp_all add: LnSendLedgerMetadata_def)

lemma translateToLedgerTx_sel:
  "lt_type (translateToLedgerTx doc) = meta_type (tx_meta doc)"
  "lt_walletId (translateToLedgerTx doc) = toWalletId (tx_account doc)"
  "lt_currency (translateToLedgerTx doc) = tx_currency (txn.truncate doc)"
  "lt_paymentHash (translateToLedgerTx doc) = str_or_undefined (meta_str (tx_meta doc) ''hash'')"
  "lt_debit (translateToLedgerTx doc) = tx_debit doc"
  "lt_timestamp (translateToLedgerTx doc) = doc_timestamp doc"
  "lt_satsAmount (translateToLedgerTx doc) = meta_num (tx_meta doc) ''satsAmount''"
  "lt_centsAmount (translateToLedgerTx doc) = meta_num (tx_meta doc) ''centsAmount''"
  "lt_satsFee (translateToLedgerTx doc) = meta_num (tx_meta doc) ''satsFee''"
  "lt_centsFee (translateToLedgerTx doc) = meta_num (tx_meta doc) ''centsFee''"
  "lt_pendingConfirmation (translateToLedgerTx doc) = meta_bool (tx_meta doc) ''pending''"
  by (simp_all add: translateToLedgerTx_def Let_def)

lemma toWalletId_ledger_account:
  "w \<noteq> [] \<Longrightarrow> CHR '':'' \<notin> set w \<Longrightarrow> toWalletId (toLedgerAccountId w) = Some w"
  by (simp add: toWalletId_def toLedgerAccountId_def liabilitiesMainAccount_def split_colon_plain)

lemma translated_send:
  fixes flow :: PaymentFlowState and n :: int
  assumes "txn.truncate doc = \<lparr>tx_account = toLedgerAccountId (senderWalletId flow), tx_credit = Num 0,
      tx_debit = Num (of_int n),
      tx_meta = with_currency (LnSendLedgerMetadata h pubkey flow fd ad dc known) c\<rparr>"
    and "h \<noteq> []" and "senderWalletId flow \<noteq> []" and "CHR '':'' \<notin> set (senderWalletId flow)"
  defines "tx \<equiv> translateToLedgerTx doc"
  shows "lt_type tx = Some Payment" "lt_walletId tx = Some (senderWalletId flow)" "lt_currency tx = Some c"
    "lt_paymentHash tx = Some h" "lt_debit tx = Num (of_int n)"
    "lt_satsAmount tx = Some (Number_of (amount (btcPaymentAmount flow)))"
    "lt_centsAmount tx = Some (Number_of (amount (usdPaymentAmount flow)))"
    "lt_satsFee tx = Some (Number_of (amount (btcProtocolFee flow)))"
    "lt_centsFee tx = Some (Number_of (amount (usdProtocolFee flow)))"
proof -
  have doc: "tx_account doc = toLedgerAccountId (senderWalletId flow)" "tx_debit doc = Num (of_int n)"
    "tx_meta doc = with_currency (LnSendLedgerMetadata h pubkey flow fd ad dc known) c"
    using assms(1) by (simp_all add: txn.defs)
  show "lt_type tx = Some Payment" "lt_walletId tx = Some (senderWalletId flow)" "lt_currency tx = Some c"
    "lt_paymentHash tx = Some h" "lt_debit tx = Num (of_int n)"
    "lt_satsAmount tx = Some (Number_of (amount (btcPaymentAmount flow)))"
    "lt_centsAmount tx = Some (Number_of (amount (usdPaymentAmount flow)))"
    "lt_satsFee tx = Some (Number_of (amount (btcProtocolFee flow)))"
    "lt_centsFee tx = Some (Number_of (amount (usdProtocolFee flow)))"
    unfolding tx_def translateToLedgerTx_sel doc assms(1)
    using assms(2-4) by (simp_all add: tx_currency_def meta_type_def meta_str_def meta_num_def
        LnSendLedgerMetadata_lookup toWalletId_ledger_account)
qed

lemma send_reads_back:
  fixes flow :: PaymentFlowState
  defines "b \<equiv> amount (btcPaymentAmount flow)" and "u \<equiv> amount (usdPaymentAmount flow)"
    and "bf \<equiv> amount (btcProtocolFee flow)" and "uf \<equiv> amount (usdProtocolFee flow)"
    and "c \<equiv> senderWalletCurrency flow"
  assumes "flow_ok flow" and "settlementMethod flow = SM_Lightning" and "paymentHash flow = Some h" and "h \<noteq> []"
    and "senderWalletId flow \<noteq> []" and "CHR '':'' \<notin> set (senderWalletId flow)"
    and safe: "is_safe_int b" "is_safe_int u" "is_safe_int bf" "is_safe_int uf"
    and "txn.truncate doc = \<lparr>tx_account = toLedgerAccountId (senderWalletId flow), tx_credit = Num 0,
      tx_debit = Num (of_int (if c = Btc then b + bf else u + uf)),
      tx_meta = with_currency (LnSendLedgerMetadata h pubkey flow fd ad dc known) c\<rparr>"
  shows "reads_back flow acc doc"
proof -
  note tx = translated_send [OF assms(16) assms(9-11)]
  have cur: "btcPaymentAmount flow = \<lparr>currency = Btc, amount = b\<rparr>" "usdPaymentAmount flow = \<lparr>currency = Usd, amount = u\<rparr>"
    "btcProtocolFee flow = \<lparr>currency = Btc, amount = bf\<rparr>" "usdProtocolFee flow = \<lparr>currency = Usd, amount = uf\<rparr>"
    using assms(6) by (auto simp: flow_ok_def btc_pos_def usd_pos_def fee_ok_def b_def u_def bf_def uf_def)
  have "inputAmountFromLedgerTransaction (translateToLedgerTx doc) = Inr (if c = Usd then u else b)"
    using safe js_sub_int [of "u + uf" uf] js_sub_int [of "b + bf" bf]
    by (cases c) (simp_all add: inputAmountFromLedgerTransaction_def tx Number_of_exact
        safeBigInt_def is_safe_int_def bf_def [symmetric] uf_def [symmetric])
  moreover have "PaymentFlowFromLedgerTransaction (translateToLedgerTx doc) acc =
      Inr (flow\<lparr>intraLedgerHash := None, senderAccountId := acc, paymentInitiationMethod := PIM_Lightning,
        descriptionFromInvoice := [], skipProbeForDestination := False, createdAt := doc_timestamp doc,
        paymentSentAndPending := True, inputAmount := (if c = Usd then u else b), recipientWalletId := None,
        recipientWalletCurrency := None, recipientAccountId := None, recipientPubkey := None,
        recipientUsername := None, outgoingNodePubkey := None, cachedRoute := None\<rparr>)"
    using assms(7,8) cur safe
    by (simp add: PaymentFlowFromLedgerTransaction_def tx translateToLedgerTx_sel(6) paymentAmountFromNumber_Number_of
        c_def)
  ultimately show ?thesis
    by (simp add: reads_back_def Let_def c_def u_def b_def if_distrib cong: if_cong)
qed

text \<open>
  (C7) \<^bold>\<open>A payment flow can be read back from the ledger.\<close> Take a well-formed flow that is sent
  over lightning, record its total with the metadata of \<^verbatim>\<open>LnSendLedgerMetadata\<close>, and read the
  sender's transaction from the ledger: \<^verbatim>\<open>PaymentFlowFromLedgerTransaction\<close> returns the flow, with
  the hash, wallet, currency, amounts and fees of the original, marked as pending, with the input
  amount in the currency of the sender, which is also what \<^verbatim>\<open>inputAmountFromLedgerTransaction\<close>
  returns. That is the input amount the flow is stored under unless a dollar wallet pays an invoice
  with an amount, which is stored under its satoshis.
\<close>

theorem flow_ledger_roundtrip:
  assumes "medici_entry M" and "entry_transactions M (eb_entry cfg) = []" and "flow_ok flow"
    and "settlementMethod flow = SM_Lightning" and "paymentHash flow = Some h" and "h \<noteq> []"
    and "senderWalletId flow \<noteq> []" and "CHR '':'' \<notin> set (senderWalletId flow)"
    and "totalAmountsForPayment flow = (btcTotal, usdTotal)"
    and "amount btcTotal \<le> 2 ^ 53" and "amount usdTotal \<le> 2 ^ 53"
    and "eb_metadata cfg = LnSendLedgerMetadata h pubkey flow fd ad dc known"
  shows "(\<exists>t \<in> set (entry_transactions M (creditLnd M (debitAccount M
      (withBankFee M (withTotalAmount cfg usdTotal btcTotal) ZERO_CENTS ZERO_SATS)
      (toLedgerAccountDescriptor (senderWalletDescriptor flow)) None))).
    \<forall>doc. txn.truncate doc = t \<longrightarrow> reads_back flow acc doc)
    \<and> (inputAmount flow = amount (btcPaymentAmount flow)
       \<or> inputAmount flow = amount (usdPaymentAmount flow) \<and> senderWalletCurrency flow = Usd)"
proof
  let ?b = "amount (btcPaymentAmount flow)" and ?u = "amount (usdPaymentAmount flow)"
    and ?bf = "amount (btcProtocolFee flow)" and ?uf = "amount (usdProtocolFee flow)"
    and ?d = "toLedgerAccountDescriptor (senderWalletDescriptor flow)"
  have pos: "0 < ?b" "0 < ?u" "0 \<le> ?bf" "0 \<le> ?uf"
    and cur: "currency (btcPaymentAmount flow) = Btc" "currency (usdPaymentAmount flow) = Usd"
    using assms(3) by (auto simp: flow_ok_def btc_pos_def usd_pos_def fee_ok_def)
  have totals: "btcTotal = BtcPaymentAmount (?b + ?bf)" "usdTotal = UsdPaymentAmount (?u + ?uf)"
    using assms(9) cur by (auto simp: totalAmountsForPayment_def calc_add_def BtcPaymentAmount_def UsdPaymentAmount_def)
  have safe: "is_safe_int ?b" "is_safe_int ?u" "is_safe_int ?bf" "is_safe_int ?uf"
    "is_safe_int (?b + ?bf)" "is_safe_int (?u + ?uf)"
    using assms(10,11) pos by (auto simp: totals is_safe_int_def BtcPaymentAmount_def UsdPaymentAmount_def)
  show "\<exists>t \<in> set (entry_transactions M (creditLnd M (debitAccount M
      (withBankFee M (withTotalAmount cfg usdTotal btcTotal) ZERO_CENTS ZERO_SATS) ?d None))).
    \<forall>doc. txn.truncate doc = t \<longrightarrow> reads_back flow acc doc"
  proof (rule bexI [OF _ medici_entry.send_entry_debit [OF assms(1,2) safe(6,5), of ?d, folded totals]], intro allI impI)
    fix doc :: ILedgerTransaction
    assume "txn.truncate doc = \<lparr>tx_account = ad_id ?d, tx_credit = Num 0,
      tx_debit = Num (of_int (if ad_currency ?d = Btc then ?b + ?bf else ?u + ?uf)),
      tx_meta = with_currency (eb_metadata cfg) (ad_currency ?d)\<rparr>"
    then show "reads_back flow acc doc"
      by (intro send_reads_back [OF assms(3-8) safe(1-4)])
        (simp add: assms(12) toLedgerAccountDescriptor_def senderWalletDescriptor_def)
  qed (use pos in simp_all)
qed (use assms(3) in \<open>auto simp: flow_ok_def\<close>)

lemma sample_flow_ok: "flow_ok sample_flow"
  by (simp add: flow_ok_def sample_flow_def btc_pos_def usd_pos_def fee_ok_def BtcPaymentAmount_def UsdPaymentAmount_def)

theorem flow_ledger_roundtrip_witness:
  "\<exists>t \<in> set (creditLnd list_medici (debitAccount list_medici
      (withBankFee list_medici (withTotalAmount \<lparr>eb_entry = [], eb_metadata =
          LnSendLedgerMetadata ''h'' ''node'' sample_flow (Num 1) (Num 100) ''USD'' False,
        eb_staticAccountIds = \<lparr>bankOwnerAccountId = ''b'', dealerBtcAccountId = ''db'', dealerUsdAccountId = ''du''\<rparr>\<rparr>
        (UsdPaymentAmount 101) (BtcPaymentAmount 5025)) ZERO_CENTS ZERO_SATS)
      (toLedgerAccountDescriptor (senderWalletDescriptor sample_flow)) None)).
    \<forall>doc. txn.truncate doc = t \<longrightarrow> reads_back sample_flow ''a'' doc"
  using flow_ledger_roundtrip [OF list_book.medici_entry_axioms _ sample_flow_ok, of
      "\<lparr>eb_entry = [], eb_metadata = LnSendLedgerMetadata ''h'' ''node'' sample_flow (Num 1) (Num 100) ''USD'' False,
        eb_staticAccountIds = \<lparr>bankOwnerAccountId = ''b'', dealerBtcAccountId = ''db'', dealerUsdAccountId = ''du''\<rparr>\<rparr>"
      "''h''" "BtcPaymentAmount 5025" "UsdPaymentAmount 101" "''node''" "Num 1" "Num 100" "''USD''" False "''a''"]
  by (simp add: sample_flow_def totalAmountsForPayment_def list_medici_def BtcPaymentAmount_def UsdPaymentAmount_def
      calc_add_def)

end
