(* ===== verification/Domain_Rules.thy ===== *)
theory Domain_Rules
  imports Ledger_Tx "HOL-Library.AList"
begin

text \<open>
  The rules of the domain that are functions of their input: checked identifiers
  (\<^verbatim>\<open>domain/accounts\<close>, \<^verbatim>\<open>domain/users\<close>, \<^verbatim>\<open>domain/wallets\<close>, \<^verbatim>\<open>domain/bitcoin/onchain\<close>), account
  limits, withdrawal and deposit fees, the imbalance of a wallet, activity, swap out and
  rebalance decisions, and the balances of incoming on-chain transactions.

  A regular expression is a predicate on the string it is matched against. The lemmas characterise
  what the checks accept, relate the limits to the volumes they bound, and show that the balances
  of incoming transactions are the sums of their outputs.
\<close>

section \<open>Identifiers\<close>

definition is_alnum :: "char \<Rightarrow> bool" where
  "is_alnum c = (c \<in> set ''0123456789abcdefghijklmnopqrstuvwxyzABCDEFGHIJKLMNOPQRSTUVWXYZ'')"

definition is_word_char :: "char \<Rightarrow> bool" where
  "is_word_char c = (is_alnum c \<or> c = CHR ''_'')"

text \<open>\<^verbatim>\<open>/^[0-9a-f]{8}-[0-9a-f]{4}-[1-5][0-9a-f]{3}-[89ab][0-9a-f]{3}-[0-9a-f]{12}$/i\<close>\<close>

definition UuidRegex :: "string \<Rightarrow> bool" where
  "UuidRegex s =
     (length s = 36
      \<and> list_all (\<lambda>i. if i \<in> {8, 13, 18, 23} then s ! i = CHR ''-''
                       else if i = 14 then s ! i \<in> set ''12345''
                       else if i = 19 then s ! i \<in> set ''89abAB''
                       else is_hex_digit (s ! i)) [0..<36])"

definition checkedToKratosUserId :: "string \<Rightarrow> string result" where
  "checkedToKratosUserId userId = (if UuidRegex userId then Inr userId else Inl (input_err InvalidKratosUserId))"

definition checkedToWalletId :: "string \<Rightarrow> WalletId result" where
  "checkedToWalletId walletId = (if UuidRegex walletId then Inr walletId else Inl (input_err InvalidWalletId))"

definition checkedCoordinates :: "jsnum \<Rightarrow> jsnum \<Rightarrow> (jsnum \<times> jsnum) result" where
  "checkedCoordinates latitude longitude =
     (if js_less latitude (Num (- 90)) \<or> js_less (Num 90) latitude
         \<or> js_less longitude (Num (- 180)) \<or> js_less (Num 180) longitude
      then Inl (input_err InvalidCoordinatesError) else Inr (latitude, longitude))"

definition checkedMapTitle :: "string \<Rightarrow> string result" where
  "checkedMapTitle title =
     (if length title < 3 \<or> 100 < length title then Inl (input_err InvalidBusinessTitleLengthError) else Inr title)"

datatype AccountStatus = AS_New | AS_Pending | AS_Active | AS_Locked

fun account_status_name :: "AccountStatus \<Rightarrow> string" where
  "account_status_name AS_New = ''new''"
| "account_status_name AS_Pending = ''pending''"
| "account_status_name AS_Active = ''active''"
| "account_status_name AS_Locked = ''locked''"

definition checkedAccountStatus :: "string \<Rightarrow> AccountStatus result" where
  "checkedAccountStatus status =
     (case find (\<lambda>a. account_status_name a = status) [AS_New, AS_Pending, AS_Active, AS_Locked] of
        None \<Rightarrow> Inl (input_err InvalidAccountStatusError) | Some a \<Rightarrow> Inr a)"

text \<open>\<^verbatim>\<open>/(?!^(1|3|bc1|lnbc1))^[0-9a-z_]{3,50}$/i\<close>\<close>

definition UsernameRegex :: "string \<Rightarrow> bool" where
  "UsernameRegex s =
     (3 \<le> length s \<and> length s \<le> 50 \<and> list_all is_word_char s
      \<and> \<not> list_ex (\<lambda>p. starts_with p (toLowerCase s)) [''1'', ''3'', ''bc1'', ''lnbc1''])"

definition checkedToUsername :: "string \<Rightarrow> Username result" where
  "checkedToUsername username = (if UsernameRegex username then Inr username else Inl (input_err InvalidUsername))"

definition ContactAliasRegex :: "string \<Rightarrow> bool" where
  "ContactAliasRegex s = (3 \<le> length s \<and> length s \<le> 50 \<and> list_all is_word_char s)"

definition checkedToContactAlias :: "string \<Rightarrow> string result" where
  "checkedToContactAlias alias = (if ContactAliasRegex alias then Inr alias else Inl (input_err InvalidContactAlias))"

definition checkedToAccountId :: "string \<Rightarrow> AccountId result" where
  "checkedToAccountId accountId = (if length accountId \<noteq> 24 then Inl InvalidAccountIdError else Inr accountId)"

text \<open>\<^verbatim>\<open>/^\+\d{7,14}$/\<close>\<close>

definition PhoneNumberRegex :: "string \<Rightarrow> bool" where
  "PhoneNumberRegex s =
     (case s of [] \<Rightarrow> False
      | c # ds \<Rightarrow> c = CHR ''+'' \<and> 7 \<le> length ds \<and> length ds \<le> 14 \<and> list_all is_digit ds)"

definition checkedToPhoneNumber :: "string \<Rightarrow> string result" where
  "checkedToPhoneNumber phone = (if PhoneNumberRegex phone then Inr phone else Inl (input_err InvalidPhoneNumber))"

text \<open>
  \<^verbatim>\<open>/^[\w-.+]+@([\w-]+\.)+[\w-]{2,4}$/i\<close>: the part before the only at sign, and labels separated by dots,
  the last of two to four characters.
\<close>

fun split_on :: "char \<Rightarrow> string \<Rightarrow> string list" where
  "split_on c [] = [[]]"
| "split_on c (x # xs) = (if x = c then [] # split_on c xs
     else case split_on c xs of [] \<Rightarrow> [[x]] | w # ws \<Rightarrow> (x # w) # ws)"

definition EmailAddressRegex :: "string \<Rightarrow> bool" where
  "EmailAddressRegex s =
     (case split_on (CHR ''@'') s of
        [local, domain] \<Rightarrow>
          let labels = split_on (CHR ''.'') domain
          in local \<noteq> [] \<and> list_all (\<lambda>c. is_word_char c \<or> c \<in> set ''-.+'') local
             \<and> 2 \<le> length labels
             \<and> list_all (\<lambda>l. l \<noteq> [] \<and> list_all (\<lambda>c. is_word_char c \<or> c = CHR ''-'') l) labels
             \<and> 2 \<le> length (last labels) \<and> length (last labels) \<le> 4
      | _ \<Rightarrow> False)"

definition checkedToEmailAddress :: "string \<Rightarrow> string result" where
  "checkedToEmailAddress email = (if EmailAddressRegex email then Inr email else Inl (input_err InvalidEmailAddress))"

definition Languages :: "string list" where
  "Languages =
    [''af'', ''af-ZA'', ''ar'', ''ar-AE'', ''ar-BH'', ''ar-DZ'', ''ar-EG'', ''ar-IQ'', ''ar-JO'',
     ''ar-KW'', ''ar-LB'', ''ar-LY'', ''ar-MA'', ''ar-OM'', ''ar-QA'', ''ar-SA'', ''ar-SY'', ''ar-TN'',
     ''ar-YE'', ''az'', ''az-AZ'', ''az-AZ'', ''be'', ''be-BY'', ''bg'', ''bg-BG'', ''bs-BA'', ''ca'',
     ''ca-ES'', ''cs'', ''cs-CZ'', ''cy'', ''cy-GB'', ''da'', ''da-DK'', ''de'', ''de-AT'', ''de-CH'',
     ''de-DE'', ''de-LI'', ''de-LU'', ''dv'', ''dv-MV'', ''el'', ''el-GR'', ''en'', ''en-AU'',
     ''en-BZ'', ''en-CA'', ''en-CB'', ''en-GB'', ''en-IE'', ''en-JM'', ''en-NZ'', ''en-PH'', ''en-TT'',
     ''en-US'', ''en-ZA'', ''en-ZW'', ''eo'', ''es'', ''es-AR'', ''es-BO'', ''es-CL'', ''es-CO'',
     ''es-CR'', ''es-DO'', ''es-EC'', ''es-ES'', ''es-ES'', ''es-GT'', ''es-HN'', ''es-MX'', ''es-NI'',
     ''es-PA'', ''es-PE'', ''es-PR'', ''es-PY'', ''es-SV'', ''es-UY'', ''es-VE'', ''et'', ''et-EE'',
     ''eu'', ''eu-ES'', ''fa'', ''fa-IR'', ''fi'', ''fi-FI'', ''fo'', ''fo-FO'', ''fr'', ''fr-BE'',
     ''fr-CA'', ''fr-CH'', ''fr-FR'', ''fr-LU'', ''fr-MC'', ''gl'', ''gl-ES'', ''gu'', ''gu-IN'',
     ''he'', ''he-IL'', ''hi'', ''hi-IN'', ''hr'', ''hr-BA'', ''hr-HR'', ''hu'', ''hu-HU'', ''hy'',
     ''hy-AM'', ''id'', ''id-ID'', ''is'', ''is-IS'', ''it'', ''it-CH'', ''it-IT'', ''ja'', ''ja-JP'',
     ''ka'', ''ka-GE'', ''kk'', ''kk-KZ'', ''kn'', ''kn-IN'', ''ko'', ''ko-KR'', ''kok'', ''kok-IN'',
     ''ky'', ''ky-KG'', ''lt'', ''lt-LT'', ''lv'', ''lv-LV'', ''mi'', ''mi-NZ'', ''mk'', ''mk-MK'',
     ''mn'', ''mn-MN'', ''mr'', ''mr-IN'', ''ms'', ''ms-BN'', ''ms-MY'', ''mt'', ''mt-MT'', ''nb'',
     ''nb-NO'', ''nl'', ''nl-BE'', ''nl-NL'', ''nn-NO'', ''ns'', ''ns-ZA'', ''pa'', ''pa-IN'', ''pl'',
     ''pl-PL'', ''ps'', ''ps-AR'', ''pt'', ''pt-BR'', ''pt-PT'', ''qu'', ''qu-BO'', ''qu-EC'',
     ''qu-PE'', ''ro'', ''ro-RO'', ''ru'', ''ru-RU'', ''sa'', ''sa-IN'', ''se'', ''se-FI'', ''se-FI'',
     ''se-FI'', ''se-NO'', ''se-NO'', ''se-NO'', ''se-SE'', ''se-SE'', ''se-SE'', ''sk'', ''sk-SK'',
     ''sl'', ''sl-SI'', ''sq'', ''sq-AL'', ''sr-BA'', ''sr-BA'', ''sr-SP'', ''sr-SP'', ''sv'',
     ''sv-FI'', ''sv-SE'', ''sw'', ''sw-KE'', ''syr'', ''syr-SY'', ''ta'', ''ta-IN'', ''te'', ''te-IN'',
     ''th'', ''th-TH'', ''tl'', ''tl-PH'', ''tn'', ''tn-ZA'', ''tr'', ''tr-TR'', ''tt'', ''tt-RU'',
     ''ts'', ''uk'', ''uk-UA'', ''ur'', ''ur-PK'', ''uz'', ''uz-UZ'', ''uz-UZ'', ''vi'', ''vi-VN'',
     ''xh'', ''xh-ZA'', ''zh'', ''zh-CN'', ''zh-HK'', ''zh-MO'', ''zh-SG'', ''zh-TW'', ''zu'', ''zu-ZA'']"

definition checkedToLanguage :: "string \<Rightarrow> string result" where
  "checkedToLanguage language =
     (if language = ''DEFAULT'' \<or> language = [] then Inr []
      else if language \<in> set Languages then Inr language else Inl (input_err InvalidLanguageError))"

datatype AccountLevel = One | Two

definition checkedToAccountLevel :: "jsnum \<Rightarrow> AccountLevel result" where
  "checkedToAccountLevel level =
     (if level = Num 1 then Inr One else if level = Num 2 then Inr Two else Inl (input_err InvalidAccountLevelError))"

datatype BtcNetwork = mainnet | testnet | signet | regtest

text \<open>\<^verbatim>\<open>[a-km-zA-HJ-NP-Z1-9]\<close>\<close>

definition is_base58 :: "char \<Rightarrow> bool" where
  "is_base58 c = (is_alnum c \<and> c \<notin> set ''0OIl'')"

definition base58_address :: "string \<Rightarrow> string \<Rightarrow> bool" where
  "base58_address firsts s =
     (case s of [] \<Rightarrow> False
      | c # cs \<Rightarrow> c \<in> set firsts \<and> 26 \<le> length cs \<and> length cs \<le> 34 \<and> list_all is_base58 cs)"

text \<open>\<^verbatim>\<open>/^<prefix>[a-z0-9]{39,59}$/i\<close>\<close>

definition segwit_address :: "string \<Rightarrow> string \<Rightarrow> bool" where
  "segwit_address prefix s =
     (let rest = drop (length prefix) s
      in toLowerCase (take (length prefix) s) = prefix \<and> length prefix \<le> length s
         \<and> 39 \<le> length rest \<and> length rest \<le> 59 \<and> list_all is_alnum rest)"

fun address_regexes :: "BtcNetwork \<Rightarrow> string \<Rightarrow> bool" where
  "address_regexes mainnet s = (base58_address ''13'' s \<or> segwit_address ''bc1'' s)"
| "address_regexes testnet s = (base58_address ''mn2'' s \<or> segwit_address ''tb1'' s)"
| "address_regexes signet s = (base58_address ''mn2'' s \<or> segwit_address ''tb1'' s)"
| "address_regexes regtest s = segwit_address ''bcrt1'' s"

definition checkedToOnChainAddress :: "BtcNetwork \<Rightarrow> string \<Rightarrow> OnChainAddress result" where
  "checkedToOnChainAddress network v = (if address_regexes network v then Inr v else Inl (input_err InvalidOnChainAddress))"

section \<open>Reward eligibility\<close>

definition ascii_upper :: "char \<Rightarrow> char" where
  "ascii_upper c = (if of_char c \<in> {97 .. 122 :: nat} then char_of (of_char c - (32 :: nat)) else c)"

definition toUpperCase :: "string \<Rightarrow> string" where
  "toUpperCase s = map ascii_upper s"

text \<open>An allow list that is empty allows everything; a deny list excludes what it names.\<close>

definition allowed_by :: "string list \<Rightarrow> string list \<Rightarrow> string \<Rightarrow> bool" where
  "allowed_by allow deny v = ((allow = [] \<or> v \<in> set allow) \<and> \<not> (deny \<noteq> [] \<and> v \<in> set deny))"

record Carrier =
  error_code :: string
  mobile_country_code :: string
  mobile_network_code :: string
  carrier_name :: string
  carrier_type :: string

record PhoneMetadata =
  carrier :: "Carrier option"
  countryCode :: "string option"

definition phone_validateForReward :: "string list \<Rightarrow> string list \<Rightarrow> PhoneMetadata option \<Rightarrow> unit result" where
  "phone_validateForReward denyPhoneCountries allowPhoneCountries meta =
     (case meta of
        None \<Rightarrow> Inl (input_err MissingPhoneMetadataError)
      | Some m \<Rightarrow>
          (case carrier m of
             None \<Rightarrow> Inl (input_err MissingPhoneMetadataError)
           | Some c \<Rightarrow>
               if \<not> truthy_str (countryCode m) then Inl (input_err MissingPhoneMetadataError)
               else if carrier_type c = ''voip'' then Inl (input_err InvalidPhoneMetadataTypeError)
               else if \<not> allowed_by allowPhoneCountries denyPhoneCountries (toUpperCase (the (countryCode m)))
               then Inl (input_err InvalidPhoneMetadataCountryError)
               else Inr ()))"

record IPType =
  ip :: "string option"
  provider :: "string option"
  country :: "string option"
  isoCode :: "string option"
  region :: "string option"
  city :: "string option"
  Type :: "string option"
  asn :: "string option"
  proxy :: "bool option"
  firstConnection :: date
  lastConnection :: date

record IPMetadataValidatorArgs =
  denyIPCountries :: "string list"
  allowIPCountries :: "string list"
  denyASNs :: "string list"
  allowASNs :: "string list"

definition ip_validateForReward :: "IPMetadataValidatorArgs \<Rightarrow> IPType option \<Rightarrow> unit result" where
  "ip_validateForReward args meta =
     (case meta of
        None \<Rightarrow> Inl (input_err MissingIPMetadataError)
      | Some m \<Rightarrow>
          if \<not> truthy_str (isoCode m) \<or> \<not> truthy_str (asn m) then Inl (input_err MissingIPMetadataError)
          else if proxy m = Some True then Inl (input_err InvalidIPMetadataProxyError)
          else if \<not> allowed_by (allowIPCountries args) (denyIPCountries args) (toUpperCase (the (isoCode m)))
          then Inl (input_err InvalidIPMetadataCountryError)
          else if \<not> allowed_by (allowASNs args) (denyASNs args) (toUpperCase (the (asn m)))
          then Inl (input_err InvalidIPMetadataASNError)
          else Inr ())"

section \<open>Accounts\<close>

record AccountContact =
  contact_id :: Username
  contact_username :: Username
  contact_alias :: string
  transactionsCount :: jsnum

record AccountStatusChange =
  change_status :: AccountStatus
  updatedAt :: "date option"
  updatedByUserId :: "string option"
  change_comment :: "string option"

record Account =
  acc_id :: AccountId
  acc_createdAt :: date
  acc_username :: "Username option"
  acc_defaultWalletId :: "WalletId option"
  acc_ownerId :: string
  acc_depositFeeRatio :: jsnum
  acc_withdrawFee :: jsnum
  acc_level :: AccountLevel
  acc_status :: AccountStatus
  acc_statusHistory :: "AccountStatusChange list"
  acc_title :: "string option"
  acc_coordinates :: "(jsnum \<times> jsnum) option"
  acc_contactEnabled :: bool
  acc_contacts :: "AccountContact list"
  acc_isEditor :: bool
  acc_role :: "string option"
  acc_quizQuestions :: "(string \<times> jsnum \<times> bool) list"
  acc_kratosUserId :: "string option"

definition AccountValidator :: "Account \<Rightarrow> WalletDescriptor \<Rightarrow> unit result" where
  "AccountValidator account wallet =
     (if acc_status account \<noteq> AS_Active then Inl (input_err InactiveAccountError)
      else if wd_accountId wallet \<noteq> acc_id account then Inl (input_err InvalidWalletId)
      else Inr ())"

section \<open>Limits\<close>

record IAccountLimits =
  intraLedgerLimit :: jsnum
  withdrawalLimit :: jsnum
  tradeIntraAccountLimit :: jsnum

text \<open>The configured limits: intraledger, withdrawal and trade, by level.\<close>

type_synonym limits_config = "(AccountLevel \<Rightarrow> jsnum) \<times> (AccountLevel \<Rightarrow> jsnum) \<times> (AccountLevel \<Rightarrow> jsnum)"

definition getAccountLimits :: "limits_config \<Rightarrow> AccountLevel \<Rightarrow> IAccountLimits" where
  "getAccountLimits config level =
     (case config of (intraLedger, withdrawal, tradeIntraAccount) \<Rightarrow>
        \<lparr>intraLedgerLimit = intraLedger level, withdrawalLimit = withdrawal level,
         tradeIntraAccountLimit = tradeIntraAccount level\<rparr>)"

definition checkLimitBase ::
  "jsnum \<Rightarrow> limits_error \<Rightarrow> price_ratio \<Rightarrow> Amount \<Rightarrow> Amount TxVolume \<Rightarrow> unit result" where
  "checkLimitBase limitAmount limitError priceRatio amt walletVolume =
     result_bind
       (if currency (outgoingBaseAmount walletVolume) = Btc
        then convertFromBtc priceRatio (outgoingBaseAmount walletVolume)
        else Inr (outgoingBaseAmount walletVolume)) (\<lambda>volumeInUsdAmount.
     result_bind (paymentAmountFromNumber limitAmount Usd) (\<lambda>limit.
       if amount limit - amount volumeInUsdAmount < amount amt then Inl (limits_err limitError) else Inr ()))"

definition checkIntraledger :: "IAccountLimits \<Rightarrow> price_ratio \<Rightarrow> Amount \<Rightarrow> Amount TxVolume \<Rightarrow> unit result" where
  "checkIntraledger limits = checkLimitBase (intraLedgerLimit limits) IntraledgerLimitsExceededError"

definition checkWithdrawal :: "IAccountLimits \<Rightarrow> price_ratio \<Rightarrow> Amount \<Rightarrow> Amount TxVolume \<Rightarrow> unit result" where
  "checkWithdrawal limits = checkLimitBase (withdrawalLimit limits) WithdrawalLimitsExceededError"

definition checkTradeIntraAccount :: "IAccountLimits \<Rightarrow> price_ratio \<Rightarrow> Amount \<Rightarrow> Amount TxVolume \<Rightarrow> unit result" where
  "checkTradeIntraAccount limits = checkLimitBase (tradeIntraAccountLimit limits) TradeIntraAccountLimitsExceededError"

definition checkTwoFA :: "jsnum \<Rightarrow> price_ratio \<Rightarrow> Amount \<Rightarrow> Amount TxVolume \<Rightarrow> unit result" where
  "checkTwoFA threshold = checkLimitBase threshold TwoFALimitsExceededError"

text \<open>The earlier checker compares numbers, not amounts.\<close>

definition check_number_limit :: "jsnum \<Rightarrow> limits_error \<Rightarrow> jsnum \<Rightarrow> jsnum TxVolume \<Rightarrow> unit result" where
  "check_number_limit limit limitError amt walletVolume =
     (let remainingLimit = js_sub limit (outgoingBaseAmount walletVolume)
      in if js_less remainingLimit amt then Inl (limits_err limitError) else Inr ())"

definition LimitsChecker_checkIntraledger :: "IAccountLimits \<Rightarrow> jsnum \<Rightarrow> jsnum TxVolume \<Rightarrow> unit result" where
  "LimitsChecker_checkIntraledger limits = check_number_limit (intraLedgerLimit limits) IntraledgerLimitsExceededError"

definition LimitsChecker_checkWithdrawal :: "IAccountLimits \<Rightarrow> jsnum \<Rightarrow> jsnum TxVolume \<Rightarrow> unit result" where
  "LimitsChecker_checkWithdrawal limits = check_number_limit (withdrawalLimit limits) WithdrawalLimitsExceededError"

definition limitCheckWithCurrencyConversion ::
  "jsnum \<Rightarrow> jsnum TxVolume \<Rightarrow> WalletCurrency \<Rightarrow> jsnum \<Rightarrow> (jsnum \<Rightarrow> jsnum TxVolume \<Rightarrow> unit result) \<Rightarrow> unit result" where
  "limitCheckWithCurrencyConversion amt walletVolume walletCurrency price limitsCheckerFn =
     (if walletCurrency = Usd then limitsCheckerFn amt walletVolume
      else limitsCheckerFn (dc_fromSatsToCents price amt)
             \<lparr>outgoingBaseAmount = dc_fromSatsToCents price (outgoingBaseAmount walletVolume),
              incomingBaseAmount = dc_fromSatsToCents price (incomingBaseAmount walletVolume)\<rparr>)"

section \<open>Fees\<close>

datatype WithdrawalFeePriceMethod = flat | proportionalOnImbalance

record OnchainWithdrawalConfig =
  thresholdImbalance :: jsnum
  feeRatio :: jsnum

text \<open>The total fee and the part of the bank.\<close>

definition onChainWithdrawalFee ::
  "OnchainWithdrawalConfig \<Rightarrow> jsnum \<Rightarrow> jsnum \<Rightarrow> jsnum \<Rightarrow> jsnum \<Rightarrow> jsnum \<times> jsnum" where
  "onChainWithdrawalFee cfg minerFee amt minBankFee imbalance =
     (let baseAmount = js_max (js_min (js_add (js_sub imbalance (thresholdImbalance cfg)) amt) amt) (Num 0);
          bankFee = js_max minBankFee (js_ceil (js_mul baseAmount (feeRatio cfg)))
      in (js_add bankFee minerFee, bankFee))"

definition onChainIntraLedgerFee :: jsnum where
  "onChainIntraLedgerFee = Num 0"

definition onChainDepositFee :: "jsnum \<Rightarrow> jsnum \<Rightarrow> jsnum" where
  "onChainDepositFee amt ratio = js_round (js_mul amt ratio)"

section \<open>Wallets and payment input\<close>

record OnChainAddressIdentifier =
  oca_pubkey :: Pubkey
  oca_address :: OnChainAddress

datatype WalletType = Checking

record Wallet = WalletDescriptor +
  wallet_type :: WalletType
  onChainAddressIdentifiers :: "OnChainAddressIdentifier list"

definition onChainAddresses :: "Wallet \<Rightarrow> OnChainAddress list" where
  "onChainAddresses w = map oca_address (onChainAddressIdentifiers w)"

text \<open>The recipient's wallet is looked up only when a recipient is given.\<close>

definition validatePaymentInput ::
  "(WalletId \<Rightarrow> ('w, Wallet) act) \<Rightarrow> jsnum \<Rightarrow> string \<Rightarrow> Account \<Rightarrow> string option
   \<Rightarrow> ('w, jsnum \<times> Wallet \<times> Wallet option) act" where
  "validatePaymentInput getWalletFn amt uncheckedSenderWalletId senderAccount uncheckedRecipientWalletId =
     act_bind (act_result (checkedToCurrencyBaseAmount amt)) (\<lambda>validAmount.
     if acc_status senderAccount \<noteq> AS_Active then act_fail (input_err InactiveAccountError)
     else
     act_bind (act_result (checkedToWalletId uncheckedSenderWalletId)) (\<lambda>senderId.
     act_bind (getWalletFn senderId) (\<lambda>senderWallet.
     if wd_accountId senderWallet \<noteq> acc_id senderAccount then act_fail (input_err InvalidWalletId)
     else if truthy_str uncheckedRecipientWalletId then
       act_bind (act_result (checkedToWalletId (the uncheckedRecipientWalletId))) (\<lambda>recipientId.
       act_bind (getWalletFn recipientId) (\<lambda>recipientWallet.
       if wd_id recipientWallet = wd_id senderWallet then act_fail (ValidationError SelfPaymentError)
       else act_return (validAmount, senderWallet, Some recipientWallet)))
     else act_return (validAmount, senderWallet, None))))"

section \<open>Imbalance, activity, swaps and cold storage\<close>

definition MS_PER_DAY :: int where
  "MS_PER_DAY = 24 * (60 * 60 * 1000)"

definition getNetInboundFlow ::
  "(WalletId \<Rightarrow> date \<Rightarrow> ('w, jsnum TxVolume) act) \<Rightarrow> WalletId \<Rightarrow> date \<Rightarrow> ('w, jsnum) act" where
  "getNetInboundFlow volume_fn walletId since =
     act_bind (volume_fn walletId since) (\<lambda>volume.
       act_return (js_sub (incomingBaseAmount volume) (outgoingBaseAmount volume)))"

definition getSwapOutImbalance ::
  "WithdrawalFeePriceMethod \<Rightarrow> (WalletId \<Rightarrow> date \<Rightarrow> ('w, jsnum TxVolume) act)
   \<Rightarrow> (WalletId \<Rightarrow> date \<Rightarrow> ('w, jsnum TxVolume) act) \<Rightarrow> int \<Rightarrow> date \<Rightarrow> WalletId \<Rightarrow> ('w, jsnum) act" where
  "getSwapOutImbalance method volumeLightningFn volumeOnChainFn sinceDaysAgo now walletId =
     (let since = now - sinceDaysAgo * MS_PER_DAY
      in if method = flat then act_return (Num 0)
         else
         act_bind (getNetInboundFlow volumeLightningFn walletId since) (\<lambda>lnNetInbound.
         act_bind (getNetInboundFlow volumeOnChainFn walletId since) (\<lambda>onChainNetInbound.
           act_return (js_sub lnNetInbound onChainNetInbound))))"

text \<open>The loop over the wallets keeps the outgoing and the incoming cents.\<close>

fun cumulated_volume ::
  "jsnum \<Rightarrow> (WalletId \<Rightarrow> date \<Rightarrow> ('w, jsnum TxVolume) act) \<Rightarrow> date \<Rightarrow> jsnum \<times> jsnum \<Rightarrow> Wallet list
   \<Rightarrow> ('w, jsnum \<times> jsnum) act" where
  "cumulated_volume price getVolumeFn timestamp cum [] = act_return cum"
| "cumulated_volume price getVolumeFn timestamp cum (w # ws) =
     act_bind (getVolumeFn (wd_id w) timestamp) (\<lambda>volume.
       let cents = (\<lambda>n. if wd_currency w = Btc then dc_fromSatsToCents price n else n)
       in cumulated_volume price getVolumeFn timestamp
            (js_add (fst cum) (cents (outgoingBaseAmount volume)),
             js_add (snd cum) (cents (incomingBaseAmount volume))) ws)"

definition aboveThreshold ::
  "jsnum \<Rightarrow> (WalletId \<Rightarrow> date \<Rightarrow> ('w, jsnum TxVolume) act) \<Rightarrow> jsnum \<Rightarrow> date \<Rightarrow> Wallet list \<Rightarrow> ('w, bool) act" where
  "aboveThreshold price getVolumeFn monthlyVolumeThreshold now wallets =
     act_bind (cumulated_volume price getVolumeFn (now - 30 * MS_PER_DAY) (Num 0, Num 0) wallets) (\<lambda>(out, inc).
       act_return (js_less monthlyVolumeThreshold out \<or> js_less monthlyVolumeThreshold inc))"

definition getSwapOutAmount :: "Amount \<Rightarrow> Amount \<Rightarrow> Amount \<Rightarrow> Amount \<Rightarrow> Amount" where
  "getSwapOutAmount loopOutWhenHotWalletLessThan swapOutAmount onChainHotWallet outboundLiquidity =
     (let isOnChainWalletDepleted = amount onChainHotWallet < amount loopOutWhenHotWalletLessThan;
          hasEnoughOutboundLiquidity = amount swapOutAmount < amount outboundLiquidity
      in if \<not> hasEnoughOutboundLiquidity then ZERO_SATS
         else if isOnChainWalletDepleted \<and> hasEnoughOutboundLiquidity then swapOutAmount
         else ZERO_SATS)"

record RebalanceCheckerConfig =
  minOnChainHotWalletBalance :: jsnum
  maxHotWalletBalance :: jsnum
  minRebalanceSize :: jsnum

definition getWithdrawFromHotWalletAmount :: "RebalanceCheckerConfig \<Rightarrow> jsnum \<Rightarrow> jsnum \<Rightarrow> jsnum" where
  "getWithdrawFromHotWalletAmount cfg onChainHotWalletBalance offChainHotWalletBalance =
     (let totalHotWallet = js_add onChainHotWalletBalance offChainHotWalletBalance;
          rebalanceAmount = js_sub onChainHotWalletBalance (minOnChainHotWalletBalance cfg)
      in if js_less (maxHotWalletBalance cfg) totalHotWallet \<and> js_less (minRebalanceSize cfg) rebalanceAmount
         then rebalanceAmount else Num 0)"

section \<open>On-chain transactions\<close>

record TxOut =
  out_sats :: jsnum
  out_address :: "OnChainAddress option"

record OnChainTransaction =
  rawtx_hash :: OnChainTxHash
  outs :: "TxOut list"

record IncomingOnChainTransaction =
  confirmations :: int
  rawTx :: OnChainTransaction
  in_fee :: jsnum
  in_createdAt :: date

text \<open>
  The decoder of raw transactions is a parameter: the id and the outputs (script and value) of a
  transaction in hexadecimal, and the address of an output script, which is undefined where the
  library throws.
\<close>

record 'script tx_library =
  fromHex :: "string \<Rightarrow> string + OnChainTxHash \<times> ('script \<times> jsnum) list"
  fromOutputScript :: "'script \<Rightarrow> BtcNetwork \<Rightarrow> OnChainAddress option"

text \<open>The library knows no signet.\<close>

fun network_mapping :: "BtcNetwork \<Rightarrow> BtcNetwork" where
  "network_mapping mainnet = mainnet"
| "network_mapping testnet = testnet"
| "network_mapping signet = testnet"
| "network_mapping regtest = regtest"

definition decodeOutput :: "'script tx_library \<Rightarrow> ('script \<times> jsnum) list \<Rightarrow> BtcNetwork \<Rightarrow> TxOut list" where
  "decodeOutput L os network =
     map (\<lambda>(script, v). \<lparr>out_sats = v, out_address = fromOutputScript L script network\<rparr>) os"

definition TxDecoder :: "'script tx_library \<Rightarrow> BtcNetwork \<Rightarrow> string \<Rightarrow> OnChainTransaction result" where
  "TxDecoder L networkName txHex =
     (case fromHex L txHex of
        Inl message \<Rightarrow> Inl (Thrown message)
      | Inr (txid, os) \<Rightarrow> Inr \<lparr>rawtx_hash = txid, outs = decodeOutput L os (network_mapping networkName)\<rparr>)"

definition uniqueAddressesForTxn :: "OnChainTransaction \<Rightarrow> OnChainAddress list" where
  "uniqueAddressesForTxn tx =
     foldl (\<lambda>a out. case out_address out of
              Some ad \<Rightarrow> if ad \<noteq> [] \<and> ad \<notin> set a then a @ [ad] else a
            | None \<Rightarrow> a) [] (outs tx)"

record TxFilterArgs =
  confirmationsLessThan :: "int option"
  confirmationsGreaterThanOrEqual :: "int option"
  filter_addresses :: "OnChainAddress list option"

text \<open>A bound of zero is falsy and does not filter.\<close>

definition TxFilter :: "TxFilterArgs \<Rightarrow> IncomingOnChainTransaction list \<Rightarrow> IncomingOnChainTransaction list" where
  "TxFilter args txs =
     filter (\<lambda>tx.
       if (case confirmationsGreaterThanOrEqual args of Some n \<Rightarrow> n \<noteq> 0 \<and> confirmations tx < n | None \<Rightarrow> False)
       then False
       else if (case confirmationsLessThan args of Some n \<Rightarrow> n \<noteq> 0 \<and> n \<le> confirmations tx | None \<Rightarrow> False)
       then False
       else if (case filter_addresses args of
                  Some ads \<Rightarrow> \<not> list_ex (\<lambda>out. case out_address out of Some a \<Rightarrow> a \<in> set ads | None \<Rightarrow> False)
                                (outs (rawTx tx))
                | None \<Rightarrow> False)
       then False
       else True) txs"

text \<open>The balances are objects with a key for every address, in the order of insertion.\<close>

type_synonym balances = "(string \<times> Amount) list"

definition add_balance :: "balances \<Rightarrow> string \<Rightarrow> Amount \<Rightarrow> balances" where
  "add_balance bs key amt =
     AList.update key (calc_add (case map_of bs key of Some a \<Rightarrow> a | None \<Rightarrow> ZERO_SATS) amt) bs"

fun balance_of_outs :: "balances \<Rightarrow> TxOut list \<Rightarrow> balances result" where
  "balance_of_outs bs [] = Inr bs"
| "balance_of_outs bs (out # os) =
     (if \<not> truthy_str (out_address out) then balance_of_outs bs os
      else result_bind (paymentAmountFromNumber (out_sats out) Btc) (\<lambda>outAmount.
        balance_of_outs (add_balance bs (the (out_address out)) outAmount) os))"

definition balanceFromIncomingTx :: "IncomingOnChainTransaction \<Rightarrow> balances result" where
  "balanceFromIncomingTx tx = balance_of_outs [] (outs (rawTx tx))"

fun merge_balances :: "balances \<Rightarrow> balances result list \<Rightarrow> balances result" where
  "merge_balances acc [] = Inr acc"
| "merge_balances acc (r # rs) =
     result_bind r (\<lambda>bs. merge_balances (foldl (\<lambda>m (a, amt). add_balance m a amt) acc bs) rs)"

definition balancesByAddresses :: "IncomingOnChainTransaction list \<Rightarrow> balances result" where
  "balancesByAddresses txns = merge_balances [] (map balanceFromIncomingTx txns)"

definition wallet_balance :: "balances \<Rightarrow> Wallet \<Rightarrow> Amount" where
  "wallet_balance bs w =
     foldl (\<lambda>acc (a, amt). if a \<in> set (onChainAddresses w) then calc_add acc amt else acc) ZERO_SATS bs"

definition balanceByWallet :: "IncomingOnChainTransaction list \<Rightarrow> Wallet list \<Rightarrow> balances result" where
  "balanceByWallet txns wallets =
     result_bind (balancesByAddresses txns) (\<lambda>bs.
       Inr (foldl (\<lambda>m w. AList.update (wd_id w) (wallet_balance bs w) m) [] wallets))"

section \<open>What the rules promise\<close>

text \<open>The volume in cents that a limit is compared with.\<close>

definition volume_cents :: "price_ratio \<Rightarrow> Amount TxVolume \<Rightarrow> Amount result" where
  "volume_cents ratio vol =
     (if currency (outgoingBaseAmount vol) = Btc then convertFromBtc ratio (outgoingBaseAmount vol)
      else Inr (outgoingBaseAmount vol))"

text \<open>
  Payments from a dollar wallet one after the other: each is checked against the volume of the
  payments accepted before it, and sent when the check accepts it.
\<close>

fun send_checked :: "jsnum \<Rightarrow> price_ratio \<Rightarrow> int \<Rightarrow> int list \<Rightarrow> int" where
  "send_checked limit ratio sent [] = sent"
| "send_checked limit ratio sent (n # ns) =
     (if checkLimitBase limit WithdrawalLimitsExceededError ratio (UsdPaymentAmount n)
           \<lparr>outgoingBaseAmount = UsdPaymentAmount sent, incomingBaseAmount = ZERO_CENTS\<rparr> = Inr ()
      then send_checked limit ratio (sent + n) ns else send_checked limit ratio sent ns)"

text \<open>The satoshis of the outputs whose address satisfies a predicate, as a whole number.\<close>

fun out_int :: "TxOut \<Rightarrow> int" where
  "out_int out = (case out_sats out of Num x \<Rightarrow> \<lfloor>x\<rfloor> | _ \<Rightarrow> 0)"

definition received :: "(OnChainAddress \<Rightarrow> bool) \<Rightarrow> TxOut list \<Rightarrow> int" where
  "received P os =
     sum_list (map out_int (filter (\<lambda>out. truthy_str (out_address out) \<and> P (the (out_address out))) os))"

definition all_outs :: "IncomingOnChainTransaction list \<Rightarrow> TxOut list" where
  "all_outs txns = concat (map (\<lambda>tx. outs (rawTx tx)) txns)"

definition out_ok :: "TxOut \<Rightarrow> bool" where
  "out_ok out = (truthy_str (out_address out) \<longrightarrow> js_isInteger (out_sats out))"

definition balances_sum :: "(string \<Rightarrow> bool) \<Rightarrow> balances \<Rightarrow> int" where
  "balances_sum P bs = sum_list (map (\<lambda>(a, amt). if P a then amount amt else 0) bs)"

definition balances_ok :: "balances \<Rightarrow> bool" where
  "balances_ok bs = (distinct (map fst bs) \<and> list_all (\<lambda>(a, amt). currency amt = Btc) bs)"

definition sample_account :: Account where
  "sample_account =
     \<lparr>acc_id = ''acc'', acc_createdAt = 0, acc_username = None, acc_defaultWalletId = Some ''w'', acc_ownerId = ''user'',
      acc_depositFeeRatio = Num 0, acc_withdrawFee = Num 0, acc_level = One, acc_status = AS_Active,
      acc_statusHistory = [], acc_title = None, acc_coordinates = None, acc_contactEnabled = True,
      acc_contacts = [], acc_isEditor = False, acc_role = None, acc_quizQuestions = [], acc_kratosUserId = None\<rparr>"

section \<open>Limits bound what is sent\<close>

lemma checkLimitBase_eq:
  "checkLimitBase limit err ratio amt vol =
     result_bind (volume_cents ratio vol) (\<lambda>v.
     result_bind (paymentAmountFromNumber limit Usd) (\<lambda>l.
       if amount v + amount amt \<le> amount l then Inr () else Inl (limits_err err)))"
  by (auto simp: checkLimitBase_def volume_cents_def result_bind_def split: sum.split)

lemma checkLimitBase_int:
  "volume_cents ratio vol = Inr v \<Longrightarrow>
   checkLimitBase (Num (of_int l)) err ratio amt vol =
     (if amount v + amount amt \<le> l then Inr () else Inl (limits_err err))"
  by (simp add: checkLimitBase_eq)



section \<open>Incoming balances are the sums of the outputs\<close>

lemma add_balance_sum:
  assumes "distinct (map fst bs)"
  shows "balances_sum P (add_balance bs k amt) = balances_sum P bs + (if P k then amount amt else 0)"
proof -
  have "balances_sum P (AList.update k v bs) =
      balances_sum P bs + (if P k then amount v - (case map_of bs k of Some a \<Rightarrow> amount a | None \<Rightarrow> 0) else 0)" for v
    using assms
  proof (induction bs)
    case (Cons b bs)
    then show ?case
      by (cases b) (auto simp: balances_sum_def map_of_eq_None_iff [THEN iffD2] split: option.splits)
  qed (simp add: balances_sum_def)
  then show ?thesis
    by (auto simp: add_balance_def calc_add_def ZERO_SATS_def split: option.splits)
qed

lemma add_balance_ok: "balances_ok bs \<Longrightarrow> currency amt = Btc \<Longrightarrow> balances_ok (add_balance bs k amt)"
proof -
  have "list_all (\<lambda>(a, amt). currency amt = Btc) (AList.update k v bs)"
    if "list_all (\<lambda>(a, amt). currency amt = Btc) bs" "currency v = Btc" for v
    using that by (induction bs) auto
  moreover have "currency a = Btc" if "balances_ok bs" "map_of bs k = Some a" for a
    using that by (auto simp: balances_ok_def list_all_iff dest!: map_of_SomeD)
  ultimately show "balances_ok bs \<Longrightarrow> currency amt = Btc \<Longrightarrow> ?thesis"
    by (auto simp: balances_ok_def add_balance_def calc_add_def ZERO_SATS_def distinct_update split: option.splits)
qed

lemma add_balance_keys: "fst ` set (add_balance bs k amt) = insert k (fst ` set bs)"
  by (simp add: add_balance_def dom_map_of_conv_image_fst [symmetric] update_conv')

lemma balance_of_outs_ok:
  assumes "balances_ok bs" and "list_all out_ok os"
  shows "\<exists>m. balance_of_outs bs os = Inr m \<and> balances_ok m
    \<and> (\<forall>P. balances_sum P m = balances_sum P bs + received P os)
    \<and> fst ` set m = fst ` set bs \<union> {the (out_address out) |out. out \<in> set os \<and> truthy_str (out_address out)}"
  using assms
proof (induction os arbitrary: bs)
  case (Cons out os)
  show ?case
  proof (cases "truthy_str (out_address out)")
    case False
    with Cons.IH [OF Cons.prems(1)] Cons.prems(2) show ?thesis
      by (fastforce simp: received_def)
  next
    case True
    with Cons.prems(2) obtain n where n: "out_sats out = Num (of_int n)"
      by (auto simp: out_ok_def js_isInteger_iff)
    let ?bs = "add_balance bs (the (out_address out)) \<lparr>currency = Btc, amount = n\<rparr>"
    from add_balance_ok [OF Cons.prems(1)] have ok: "balances_ok ?bs" by simp
    have "distinct (map fst bs)" using Cons.prems(1) by (simp add: balances_ok_def)
    with Cons.IH [OF ok] Cons.prems(2) True n show ?thesis
      by (auto simp: received_def add_balance_sum add_balance_keys)
  qed
qed (auto simp: received_def)

lemma foldl_add_balance:
  assumes "balances_ok bs" and "balances_ok acc"
  shows "balances_ok (foldl (\<lambda>m (a, amt). add_balance m a amt) acc bs)
    \<and> balances_sum P (foldl (\<lambda>m (a, amt). add_balance m a amt) acc bs) = balances_sum P acc + balances_sum P bs
    \<and> fst ` set (foldl (\<lambda>m (a, amt). add_balance m a amt) acc bs) = fst ` set acc \<union> fst ` set bs"
  using assms
proof (induction bs arbitrary: acc)
  case (Cons b bs)
  obtain a amt where b: "b = (a, amt)" by (cases b)
  with Cons.prems have "balances_ok bs" "currency amt = Btc" "distinct (map fst acc)"
    by (auto simp: balances_ok_def)
  with Cons.IH [of "add_balance acc a amt"] add_balance_ok [OF Cons.prems(2)] b show ?case
    by (auto simp: add_balance_sum add_balance_keys balances_sum_def [of _ "_ # _"] balances_sum_def [of _ bs])
qed (simp add: balances_sum_def)

lemma all_outs_simps [simp]:
  "all_outs [] = []"
  "all_outs (tx # txns) = outs (rawTx tx) @ all_outs txns"
  by (simp_all add: all_outs_def)

lemma received_append [simp]: "received P (xs @ ys) = received P xs + received P ys"
  by (simp add: received_def)

lemma merge_balances_ok:
  assumes "balances_ok acc" and "list_all out_ok (all_outs txns)"
  shows "\<exists>m. merge_balances acc (map balanceFromIncomingTx txns) = Inr m \<and> balances_ok m
    \<and> (\<forall>P. balances_sum P m = balances_sum P acc + received P (all_outs txns))
    \<and> fst ` set m = fst ` set acc \<union> {the (out_address out) |out. out \<in> set (all_outs txns) \<and> truthy_str (out_address out)}"
  using assms
proof (induction txns arbitrary: acc)
  case (Cons tx txns)
  have "balances_ok []" by (simp add: balances_ok_def)
  from balance_of_outs_ok [OF this, of "outs (rawTx tx)"] Cons.prems(2)
  obtain bs where bs: "balanceFromIncomingTx tx = Inr bs" "balances_ok bs"
    "\<And>P. balances_sum P bs = received P (outs (rawTx tx))"
    "fst ` set bs = {the (out_address out) |out. out \<in> set (outs (rawTx tx)) \<and> truthy_str (out_address out)}"
    by (auto simp: balanceFromIncomingTx_def balances_sum_def)
  let ?acc = "foldl (\<lambda>m (a, amt). add_balance m a amt) acc bs"
  note f = foldl_add_balance [OF bs(2) Cons.prems(1)]
  from f have "balances_ok ?acc" by blast
  from Cons.IH [OF this] Cons.prems(2) obtain m where
    "merge_balances ?acc (map balanceFromIncomingTx txns) = Inr m" "balances_ok m"
    "\<And>P. balances_sum P m = balances_sum P ?acc + received P (all_outs txns)"
    "fst ` set m = fst ` set ?acc \<union> {the (out_address out) |out. out \<in> set (all_outs txns) \<and> truthy_str (out_address out)}"
    by auto
  with bs f show ?case by auto
qed (auto simp: received_def)

lemma balances_sum_single:
  "distinct (map fst bs) \<Longrightarrow> (a, amt) \<in> set bs \<Longrightarrow> balances_sum (\<lambda>x. x = a) bs = amount amt"
proof (induction bs)
  case (Cons b bs)
  have "balances_sum (\<lambda>x. x = fst b) bs = 0"
    using Cons.prems(1) by (induction bs) (auto simp: balances_sum_def)
  moreover have "(a, amt) \<in> set bs \<Longrightarrow> a \<in> fst ` set bs"
    by force
  ultimately show ?case
    using Cons by (cases b) (auto simp: balances_sum_def)
qed simp

lemma wallet_balance_sum:
  "wallet_balance bs w = \<lparr>currency = Btc, amount = balances_sum (\<lambda>a. a \<in> set (onChainAddresses w)) bs\<rparr>"
proof -
  have "foldl (\<lambda>acc (a, amt). if a \<in> A then calc_add acc amt else acc) \<lparr>currency = Btc, amount = n\<rparr> bs
      = \<lparr>currency = Btc, amount = n + balances_sum (\<lambda>a. a \<in> A) bs\<rparr>" for n A
    by (induction bs arbitrary: n) (auto simp: balances_sum_def calc_add_def)
  from this [of _ 0] show ?thesis
    by (simp add: wallet_balance_def ZERO_SATS_def)
qed

lemma map_of_foldl_update:
  "map_of (foldl (\<lambda>m w. AList.update (f w) (g w) m) acc ws) k =
     (case find (\<lambda>w. f w = k) (rev ws) of Some w \<Rightarrow> Some (g w) | None \<Rightarrow> map_of acc k)"
proof (induction ws rule: rev_induct)
  case (snoc w ws)
  then show ?case by (simp add: update_conv')
qed simp

text \<open>
  (C28) \<^bold>\<open>Incoming balances are the sums of the outputs.\<close> When every output that pays to an address
  has a whole number of satoshis, the balances by address have exactly the addresses that are paid
  as keys, each with the sum of all outputs to it over all transactions, and the balance of a wallet
  is the sum of all outputs to any of its addresses: an output to an address that the wallet lists
  twice counts once, and an output without an address counts nowhere.
\<close>

theorem incoming_balances_sum:
  assumes "list_all out_ok (all_outs txns)" and "distinct (map wd_id wallets)"
  shows "\<exists>byAddress byWallet. balancesByAddresses txns = Inr byAddress \<and> balanceByWallet txns wallets = Inr byWallet
    \<and> (\<forall>a. map_of byAddress a =
         (if Some a \<in> out_address ` set (all_outs txns) \<and> a \<noteq> []
          then Some (BtcPaymentAmount (received (\<lambda>x. x = a) (all_outs txns))) else None))
    \<and> (\<forall>w \<in> set wallets. map_of byWallet (wd_id w) =
         Some (BtcPaymentAmount (received (\<lambda>a. a \<in> set (onChainAddresses w)) (all_outs txns))))"
proof -
  have "balances_ok []" by (simp add: balances_ok_def)
  from merge_balances_ok [OF this assms(1)] obtain m where m: "balancesByAddresses txns = Inr m" "balances_ok m"
    "\<And>P. balances_sum P m = received P (all_outs txns)"
    "fst ` set m = {the (out_address out) |out. out \<in> set (all_outs txns) \<and> truthy_str (out_address out)}"
    by (auto simp: balancesByAddresses_def balances_sum_def)
  have dist: "distinct (map fst m)" using m(2) by (simp add: balances_ok_def)
  have keys: "fst ` set m = {a. Some a \<in> out_address ` set (all_outs txns) \<and> a \<noteq> []}"
  proof -
    have "truthy_str (out_address out) \<and> the (out_address out) = a \<longleftrightarrow> Some a = out_address out \<and> a \<noteq> []" for out a
      by (cases "out_address out") auto
    moreover have "fst ` set m = {a. \<exists>out \<in> set (all_outs txns). truthy_str (out_address out) \<and> the (out_address out) = a}"
      unfolding m(4) by blast
    ultimately show ?thesis
      by (auto simp: image_iff)
  qed
  have "map_of m a = (if Some a \<in> out_address ` set (all_outs txns) \<and> a \<noteq> []
          then Some (BtcPaymentAmount (received (\<lambda>x. x = a) (all_outs txns))) else None)" for a
  proof (cases "map_of m a")
    case None
    then have "a \<notin> fst ` set m" by (simp add: map_of_eq_None_iff)
    with None keys show ?thesis by auto
  next
    case (Some amt)
    then have mem: "(a, amt) \<in> set m" by (rule map_of_SomeD)
    then have "a \<in> fst ` set m" "currency amt = Btc"
      using m(2) by (force, auto simp: balances_ok_def list_all_iff)
    with Some keys balances_sum_single [OF dist mem] m(3) [of "\<lambda>x. x = a"] show ?thesis
      by (auto simp: BtcPaymentAmount_def intro: Amount.equality)
  qed
  moreover have "map_of (foldl (\<lambda>m' w. AList.update (wd_id w) (wallet_balance m w) m') [] wallets) (wd_id w)
      = Some (wallet_balance m w)" if "w \<in> set wallets" for w
  proof -
    from that obtain v where v: "find (\<lambda>u. wd_id u = wd_id w) (rev wallets) = Some v"
      by (cases "find (\<lambda>u. wd_id u = wd_id w) (rev wallets)") (auto simp: find_None_iff)
    then have "v \<in> set wallets" "wd_id v = wd_id w" by (auto simp: find_Some_iff) (metis nth_mem set_rev length_rev)
    with that assms(2) have "v = w" by (auto simp: distinct_map dest: inj_onD)
    with v show ?thesis by (simp add: map_of_foldl_update)
  qed
  ultimately show ?thesis
    using m(1) by (auto simp: balanceByWallet_def wallet_balance_sum m(3) BtcPaymentAmount_def)
qed

theorem incoming_balances_sum_witness:
  "\<exists>byAddress byWallet.
     balancesByAddresses [\<lparr>confirmations = 1, rawTx = \<lparr>rawtx_hash = ''t'',
       outs = [\<lparr>out_sats = Num 3, out_address = Some ''a''\<rparr>, \<lparr>out_sats = Num 4, out_address = Some ''a''\<rparr>,
               \<lparr>out_sats = NaN, out_address = None\<rparr>]\<rparr>, in_fee = Num 1, in_createdAt = 0\<rparr>] = Inr byAddress
     \<and> map_of byAddress ''a'' = Some (BtcPaymentAmount 7)
     \<and> balanceByWallet [\<lparr>confirmations = 1, rawTx = \<lparr>rawtx_hash = ''t'',
       outs = [\<lparr>out_sats = Num 3, out_address = Some ''a''\<rparr>, \<lparr>out_sats = Num 4, out_address = Some ''a''\<rparr>,
               \<lparr>out_sats = NaN, out_address = None\<rparr>]\<rparr>, in_fee = Num 1, in_createdAt = 0\<rparr>]
         [\<lparr>wd_id = ''w'', wd_currency = Btc, wd_accountId = ''c'', wallet_type = Checking,
           onChainAddressIdentifiers = [\<lparr>oca_pubkey = ''p'', oca_address = ''a''\<rparr>, \<lparr>oca_pubkey = ''q'', oca_address = ''a''\<rparr>]\<rparr>]
         = Inr byWallet
     \<and> map_of byWallet ''w'' = Some (BtcPaymentAmount 7)"
  (is "\<exists>byAddress byWallet. balancesByAddresses ?txns = _ \<and> _ \<and> balanceByWallet _ ?ws = _ \<and> _")
proof -
  have "js_isInteger (Num 3)" "js_isInteger (Num 4)" "\<lfloor>3 :: rat\<rfloor> = 3" "\<lfloor>4 :: rat\<rfloor> = 4"
    by simp_all
  then show ?thesis
    using incoming_balances_sum [of ?txns ?ws]
    by (auto simp: out_ok_def received_def onChainAddresses_def)
qed

section \<open>Fees stay within their bounds\<close>

text \<open>
  (C29) \<^bold>\<open>On-chain fees stay within their bounds.\<close> For whole amounts below \<open>2 ^ 50\<close> satoshis and a ratio
  between zero and one, rounding included: the bank fee of a withdrawal is at least the minimum and
  at most the larger of the minimum and the amount, the total adds the miner fee exactly, and no
  proportional fee is charged while the withdrawal keeps the imbalance within the threshold. The
  fee of a deposit is between zero and the amount.
\<close>

theorem onchain_fees_bounded:
  assumes "thresholdImbalance cfg = Num (of_int t)" and "feeRatio cfg = Num r" and "0 \<le> r" and "r \<le> 1"
    and "0 \<le> amt" and "amt \<le> 2 ^ 50" and "\<bar>t\<bar> \<le> 2 ^ 50" and "\<bar>imb\<bar> \<le> 2 ^ 50"
    and "0 \<le> minBank" and "minBank \<le> 2 ^ 50" and "0 \<le> miner" and "miner \<le> 2 ^ 50"
  shows "(\<exists>bank. onChainWithdrawalFee cfg (Num (of_int miner)) (Num (of_int amt)) (Num (of_int minBank)) (Num (of_int imb))
       = (Num (of_int (bank + miner)), Num (of_int bank))
     \<and> minBank \<le> bank \<and> bank \<le> max minBank amt \<and> (imb + amt \<le> t \<longrightarrow> bank = minBank))
   \<and> (\<exists>fee. onChainDepositFee (Num (of_int amt)) (Num r) = Num (of_int fee) \<and> 0 \<le> fee \<and> fee \<le> amt)"
proof
  let ?base = "max (min (imb - t + amt) amt) 0"
  have base: "0 \<le> ?base" "?base \<le> amt" "?base < 2 ^ 53"
    using assms by auto
  have "js_add (js_sub (Num (of_int imb)) (Num (of_int t))) (Num (of_int amt)) = Num (of_int (imb - t + amt))"
    using assms by (subst js_sub_int, simp, subst js_add_int) auto
  then have eq: "js_max (js_min (js_add (js_sub (Num (of_int imb)) (Num (of_int t))) (Num (of_int amt))) (Num (of_int amt))) (Num 0)
      = Num (of_int ?base)"
    by (simp only: js_max_Num js_min_Num of_int_max of_int_min of_int_0)
  obtain y where y: "js_mul (Num (of_int ?base)) (Num r) = Num y" "0 \<le> y" "y \<le> of_int ?base"
    using js_mul_fraction [OF base(1,3) assms(3,4)] by blast
  let ?bank = "max minBank \<lceil>y\<rceil>"
  have ceil: "\<lceil>y\<rceil> \<le> ?base" "0 \<le> \<lceil>y\<rceil>"
    using y(2,3) by (simp_all only: ceiling_le_iff, simp)
  have bank: "js_max (Num (of_int minBank)) (js_ceil (Num y)) = Num (of_int ?bank)"
    by (simp only: js_ceil.simps js_max_Num of_int_max)
  have add: "js_add (Num (of_int ?bank)) (Num (of_int miner)) = Num (of_int (?bank + miner))"
    using ceil base assms by (intro js_add_int) auto
  have "?bank = minBank" if "imb + amt \<le> t"
  proof -
    from that have "?base = 0" by simp
    with ceil have "\<lceil>y\<rceil> = 0" by linarith
    with assms(9) show ?thesis by simp
  qed
  moreover have "minBank \<le> ?bank" "?bank \<le> max minBank amt"
    using ceil base by auto
  ultimately show "\<exists>bank. onChainWithdrawalFee cfg (Num (of_int miner)) (Num (of_int amt)) (Num (of_int minBank)) (Num (of_int imb))
       = (Num (of_int (bank + miner)), Num (of_int bank))
     \<and> minBank \<le> bank \<and> bank \<le> max minBank amt \<and> (imb + amt \<le> t \<longrightarrow> bank = minBank)"
    unfolding onChainWithdrawalFee_def Let_def assms(1,2) eq y(1) bank add by blast
next
  obtain y where y: "js_mul (Num (of_int amt)) (Num r) = Num y" "0 \<le> y" "y \<le> of_int amt"
    using js_mul_fraction [of amt r] assms by auto
  have "0 \<le> \<lfloor>y + 1 / 2\<rfloor>" "\<lfloor>y + 1 / 2\<rfloor> \<le> amt"
    using y(2,3) by linarith+
  with y(1) show "\<exists>fee. onChainDepositFee (Num (of_int amt)) (Num r) = Num (of_int fee) \<and> 0 \<le> fee \<and> fee \<le> amt"
    unfolding onChainDepositFee_def by auto
qed

theorem onchain_fees_bounded_witness:
  "\<exists>bank. onChainWithdrawalFee \<lparr>thresholdImbalance = Num (of_int 1000), feeRatio = Num (1 / 2)\<rparr>
       (Num (of_int 10)) (Num (of_int 100)) (Num (of_int 20)) (Num (of_int 0))
       = (Num (of_int (bank + 10)), Num (of_int bank)) \<and> bank = 20"
  using onchain_fees_bounded [of "\<lparr>thresholdImbalance = Num (of_int 1000), feeRatio = Num (1 / 2)\<rparr>" 1000 "1 / 2" 100 0 20 10]
  by auto

text \<open>
  (C30) \<^bold>\<open>Moves out of the hot wallet.\<close> For whole balances below \<open>2 ^ 50\<close> satoshis, a rebalance to
  cold storage moves nothing unless the hot wallet is above its maximum, moves more than the
  minimal size otherwise, and leaves exactly the on-chain minimum behind. A swap out is proposed
  exactly when the on-chain wallet is below its bound and the outbound liquidity exceeds the
  amount, so it never proposes more than there is.
\<close>

theorem hot_wallet_moves:
  assumes "\<bar>onChain\<bar> \<le> 2 ^ 50" and "\<bar>offChain\<bar> \<le> 2 ^ 50" and "\<bar>minOnChain\<bar> \<le> 2 ^ 50"
    and "minOnChainHotWalletBalance cfg = Num (of_int minOnChain)"
    and "maxHotWalletBalance cfg = Num (of_int maxHot)" and "minRebalanceSize cfg = Num (of_int minSize)"
    and "0 \<le> minSize"
  shows "(\<exists>n. getWithdrawFromHotWalletAmount cfg (Num (of_int onChain)) (Num (of_int offChain)) = Num (of_int n)
      \<and> (n \<noteq> 0 \<longleftrightarrow> maxHot < onChain + offChain \<and> minOnChain + minSize < onChain)
      \<and> (n \<noteq> 0 \<longrightarrow> minSize < n \<and> onChain - n = minOnChain))
    \<and> (getSwapOutAmount bound swap hot liquidity = (if amount hot < amount bound \<and> amount swap < amount liquidity then swap else ZERO_SATS))"
proof
  have add: "js_add (Num (of_int onChain)) (Num (of_int offChain)) = Num (of_int (onChain + offChain))"
    using assms(1,2) by (intro js_add_int) auto
  have sub: "js_sub (Num (of_int onChain)) (Num (of_int minOnChain)) = Num (of_int (onChain - minOnChain))"
    using assms(1,3) by (intro js_sub_int) auto
  show "\<exists>n. getWithdrawFromHotWalletAmount cfg (Num (of_int onChain)) (Num (of_int offChain)) = Num (of_int n)
      \<and> (n \<noteq> 0 \<longleftrightarrow> maxHot < onChain + offChain \<and> minOnChain + minSize < onChain)
      \<and> (n \<noteq> 0 \<longrightarrow> minSize < n \<and> onChain - n = minOnChain)"
  proof (cases "maxHot < onChain + offChain \<and> minSize < onChain - minOnChain")
    case True
    then show ?thesis
      using assms(7) unfolding getWithdrawFromHotWalletAmount_def Let_def add sub assms(4-6) js_less.simps of_int_less_iff
      by (intro exI [of _ "onChain - minOnChain"]) auto
  next
    case False
    then show ?thesis
      unfolding getWithdrawFromHotWalletAmount_def Let_def add sub assms(4-6) js_less.simps of_int_less_iff
      by (intro exI [of _ 0]) auto
  qed
qed (simp add: getSwapOutAmount_def Let_def)

theorem hot_wallet_moves_witness:
  "\<exists>n. getWithdrawFromHotWalletAmount \<lparr>minOnChainHotWalletBalance = Num (of_int 100), maxHotWalletBalance = Num (of_int 500),
       minRebalanceSize = Num (of_int 50)\<rparr> (Num (of_int 400)) (Num (of_int 300)) = Num (of_int n) \<and> n \<noteq> 0 \<and> 400 - n = 100"
  using hot_wallet_moves [of 400 300 100 "\<lparr>minOnChainHotWalletBalance = Num (of_int 100), maxHotWalletBalance = Num (of_int 500),
       minRebalanceSize = Num (of_int 50)\<rparr>" 500 50 undefined undefined undefined undefined]
  by (auto simp del: of_int_numeral)

section \<open>Names, filters and inputs\<close>

lemma starts_with_iff: "starts_with p s \<longleftrightarrow> take (length p) s = p"
  by (induction p s rule: starts_with.induct) auto

lemma toLowerCase_take: "toLowerCase (take n s) = take n (toLowerCase s)"
  by (simp add: toLowerCase_def take_map)

lemma mainnet_address_prefix:
  assumes "address_regexes mainnet s"
  shows "list_ex (\<lambda>p. starts_with p (toLowerCase s)) [''1'', ''3'', ''bc1'', ''lnbc1'']"
proof -
  have "starts_with ''bc1'' (toLowerCase s)" if "segwit_address ''bc1'' s"
    using that by (simp only: segwit_address_def Let_def starts_with_iff toLowerCase_take)
  moreover have "starts_with ''1'' (toLowerCase s) \<or> starts_with ''3'' (toLowerCase s)" if "base58_address ''13'' s"
    using that by (cases s) (auto simp: base58_address_def toLowerCase_def ascii_lower_def)
  ultimately show ?thesis
    using assms by auto
qed

lemma mainnet_address_no_dash:
  assumes "address_regexes mainnet s"
  shows "CHR ''-'' \<notin> set s"
proof -
  have "CHR ''-'' \<notin> set (take (length ''bc1'') s)" if "toLowerCase (take (length ''bc1'') s) = ''bc1''"
  proof
    assume "CHR ''-'' \<in> set (take (length ''bc1'') s)"
    then have "ascii_lower (CHR ''-'') \<in> set (toLowerCase (take (length ''bc1'') s))"
      unfolding toLowerCase_def by (simp only: set_map imageI)
    then show False
      unfolding that by (simp add: ascii_lower_def)
  qed
  moreover have dash: "\<not> is_alnum (CHR ''-'')"
    by (simp add: is_alnum_def)
  moreover have "set s = set (take (length ''bc1'') s) \<union> set (drop (length ''bc1'') s)"
    by (metis append_take_drop_id set_append)
  ultimately have "CHR ''-'' \<notin> set s" if "segwit_address ''bc1'' s"
    using that unfolding segwit_address_def Let_def list_all_iff by blast
  moreover have "CHR ''-'' \<notin> set s" if "base58_address ''13'' s"
    using that dash by (cases s) (auto simp: base58_address_def is_base58_def list_all_iff)
  ultimately show ?thesis
    using assms by auto
qed

lemma uuid_dash: "UuidRegex s \<Longrightarrow> CHR ''-'' \<in> set s"
  using nth_mem [of 8 s] by (auto simp: UuidRegex_def list_all_iff dest!: bspec [where x = 8])

text \<open>
  (C32) \<^bold>\<open>A username is never an address of the main network.\<close> What \<^verbatim>\<open>checkedToUsername\<close> accepts is rejected
  by \<^verbatim>\<open>checkedToOnChainAddress\<close> for the main network, and is a contact alias; a wallet id is neither a
  username nor such an address, so the three kinds of recipients cannot be confused.
\<close>

theorem recipients_distinct:
  "(checkedToUsername s = Inr u \<longrightarrow> is_error (checkedToOnChainAddress mainnet s) \<and> checkedToContactAlias s = Inr s)
   \<and> (checkedToWalletId s = Inr w \<longrightarrow> is_error (checkedToUsername s) \<and> is_error (checkedToOnChainAddress mainnet s))"
proof -
  have "\<not> is_alnum (CHR ''-'')" "\<not> is_word_char (CHR ''-'')"
    by (simp_all add: is_alnum_def is_word_char_def)
  then have "\<not> UsernameRegex s" "\<not> address_regexes mainnet s" if "UuidRegex s"
    using uuid_dash [OF that] mainnet_address_no_dash [of s]
    by (auto simp: UsernameRegex_def list_all_iff)
  moreover have "\<not> address_regexes mainnet s" "ContactAliasRegex s" if "UsernameRegex s"
    using that mainnet_address_prefix [of s] by (auto simp: UsernameRegex_def ContactAliasRegex_def)
  ultimately show ?thesis
    by (auto simp: checkedToUsername_def checkedToOnChainAddress_def checkedToContactAlias_def checkedToWalletId_def
        split: if_splits)
qed

theorem recipients_distinct_witness:
  "is_error (checkedToOnChainAddress mainnet ''alice'')
   \<and> is_error (checkedToUsername ''7b3f4ac0-1234-4abc-9def-0123456789ab'')"
  using recipients_distinct [of "''alice''" "''alice''" "[]"]
    recipients_distinct [of "''7b3f4ac0-1234-4abc-9def-0123456789ab''" "[]" "''7b3f4ac0-1234-4abc-9def-0123456789ab''"]
  by (simp add: checkedToUsername_def UsernameRegex_def is_word_char_def is_alnum_def toLowerCase_def ascii_lower_def
      checkedToWalletId_def UuidRegex_def is_hex_digit_def upt_rec)

text \<open>
  \<^bold>\<open>Confirmed and pending transactions are separated.\<close> For any number of confirmations that is not
  zero, the transactions with at least as many and those with fewer are complementary parts of the
  transactions, in their order; with addresses, each part consists of the transactions of that part
  that pay to one of them.
\<close>

lemma TxFilter_separates:
  assumes "n \<noteq> 0"
  shows "mset (TxFilter \<lparr>confirmationsLessThan = Some n, confirmationsGreaterThanOrEqual = None, filter_addresses = None\<rparr> txs)
       + mset (TxFilter \<lparr>confirmationsLessThan = None, confirmationsGreaterThanOrEqual = Some n, filter_addresses = None\<rparr> txs)
       = mset txs
     \<and> set (TxFilter \<lparr>confirmationsLessThan = Some n, confirmationsGreaterThanOrEqual = None, filter_addresses = ads\<rparr> txs)
       \<inter> set (TxFilter \<lparr>confirmationsLessThan = None, confirmationsGreaterThanOrEqual = Some n, filter_addresses = ads\<rparr> txs) = {}
     \<and> TxFilter \<lparr>confirmationsLessThan = lt, confirmationsGreaterThanOrEqual = ge, filter_addresses = Some as\<rparr> txs
       = filter (\<lambda>tx. \<exists>out \<in> set (outs (rawTx tx)). out_address out \<in> Some ` set as)
           (TxFilter \<lparr>confirmationsLessThan = lt, confirmationsGreaterThanOrEqual = ge, filter_addresses = None\<rparr> txs)"
proof (intro conjI)
  show "mset (TxFilter \<lparr>confirmationsLessThan = Some n, confirmationsGreaterThanOrEqual = None, filter_addresses = None\<rparr> txs)
       + mset (TxFilter \<lparr>confirmationsLessThan = None, confirmationsGreaterThanOrEqual = Some n, filter_addresses = None\<rparr> txs)
       = mset txs"
    using assms by (induction txs) (auto simp: TxFilter_def)
  show "TxFilter \<lparr>confirmationsLessThan = lt, confirmationsGreaterThanOrEqual = ge, filter_addresses = Some as\<rparr> txs
       = filter (\<lambda>tx. \<exists>out \<in> set (outs (rawTx tx)). out_address out \<in> Some ` set as)
           (TxFilter \<lparr>confirmationsLessThan = lt, confirmationsGreaterThanOrEqual = ge, filter_addresses = None\<rparr> txs)"
  proof -
    have "list_ex (\<lambda>out. case out_address out of None \<Rightarrow> False | Some a \<Rightarrow> a \<in> set as) os \<longleftrightarrow>
        (\<exists>out \<in> set os. out_address out \<in> Some ` set as)" for os :: "TxOut list"
      by (induction os) (auto split: option.splits)
    then show ?thesis
      unfolding TxFilter_def filter_filter TxFilterArgs.simps option.case by (intro filter_cong refl) simp
  qed
qed (use assms in \<open>auto simp: TxFilter_def\<close>)

text \<open>
  (C31) \<^bold>\<open>Validated input is safe to pay with.\<close> When the inputs of a payment are valid, the amount is
  positive, the sender's account is active and owns the sender's wallet, the wallets are
  the ones that were asked for, and a recipient's wallet, when one was asked for, is another wallet
  than the sender's.
\<close>

theorem validated_input_safe:
  assumes "validatePaymentInput getWallet amt sender account recipient w = (Inr (n, senderWallet, recipientWallet), w')"
    and "\<And>i v s t. getWallet i s = (Inr v, t) \<Longrightarrow> wd_id v = i"
  shows "n = amt \<and> js_less (Num 0) amt \<and> acc_status account = AS_Active \<and> wd_accountId senderWallet = acc_id account
    \<and> wd_id senderWallet = sender
    \<and> (case recipientWallet of
         None \<Rightarrow> \<not> truthy_str recipient
       | Some r \<Rightarrow> recipient = Some (wd_id r) \<and> wd_id r \<noteq> sender)"
proof -
  have ids: "checkedToWalletId s = Inr t \<Longrightarrow> t = s" for s t
    by (simp add: checkedToWalletId_def split: if_splits)
  have amt: "checkedToCurrencyBaseAmount a = Inr b \<Longrightarrow> b = a \<and> js_less (Num 0) a" for a b
    by (simp add: checkedToCurrencyBaseAmount_def split: if_splits)
  show ?thesis
    using assms(1) by (cases recipient) (auto simp: validatePaymentInput_def act_bind_eq_Inr dest!: ids amt assms(2) split: if_splits)
qed

theorem validated_input_safe_witness:
  "\<exists>senderWallet recipientWallet. validatePaymentInput (\<lambda>i s. (Inr \<lparr>wd_id = i, wd_currency = Btc, wd_accountId = ''acc'',
       wallet_type = Checking, onChainAddressIdentifiers = []\<rparr>, s)) (Num 5) ''7b3f4ac0-1234-4abc-9def-0123456789ab''
       sample_account (Some ''7b3f4ac0-1234-4abc-9def-0123456789ac'') () = (Inr (Num 5, senderWallet, recipientWallet), ())
     \<and> wd_accountId senderWallet = acc_id sample_account"
proof -
  let ?get = "\<lambda>i s. (Inr \<lparr>wd_id = i, wd_currency = Btc, wd_accountId = ''acc'',
       wallet_type = Checking, onChainAddressIdentifiers = []\<rparr>, s)"
  have "UuidRegex ''7b3f4ac0-1234-4abc-9def-0123456789ab''" "UuidRegex ''7b3f4ac0-1234-4abc-9def-0123456789ac''"
    by (simp_all add: UuidRegex_def is_hex_digit_def upt_rec)
  then obtain sw rw where "validatePaymentInput ?get (Num 5) ''7b3f4ac0-1234-4abc-9def-0123456789ab''
       sample_account (Some ''7b3f4ac0-1234-4abc-9def-0123456789ac'') () = (Inr (Num 5, sw, rw), ())"
    by (simp add: validatePaymentInput_def sample_account_def checkedToCurrencyBaseAmount_def checkedToWalletId_def
        act_bind_def)
  with validated_input_safe [OF this] show ?thesis by auto
qed

end
