(* ===== verification/Stores.thy ===== *)
theory Stores
  imports Domain_Rules
begin

text \<open>
  The repositories of \<^verbatim>\<open>services/mongoose\<close>: wallet invoices, payment flows, wallets and their on-chain
  addresses, accounts, users and their IPs, rewards, phone codes and lightning payments.

  The collections are parameters, fields of \<open>store_env\<close> that act on the state \<open>'v\<close> of the database
  outside the ledger; a left value is a thrown exception, with its message. Every repository
  function catches exceptions and returns the error of its class. The clock is a field as well.

  The lemmas show that a payment flow survives being stored, that a wallet invoice does, and what
  the repositories promise of the collections that hold them.
\<close>

type_synonym ('v, 'a) call = "'v \<Rightarrow> (string + 'a) \<times> 'v"

section \<open>Records of the database\<close>

record WalletInvoiceRecord =
  wir_id :: string
  wir_walletId :: string
  wir_cents :: "jsnum option"
  wir_secret :: string
  wir_currency :: WalletCurrency
  wir_timestamp :: date
  wir_selfGenerated :: bool
  wir_pubkey :: string
  wir_paid :: bool

record PaymentFlowStateRecord =
  pfr_paymentHash :: "string option"
  pfr_intraLedgerHash :: "string option"
  pfr_senderWalletId :: string
  pfr_senderWalletCurrency :: WalletCurrency
  pfr_senderAccountId :: string
  pfr_settlementMethod :: SettlementMethod
  pfr_paymentInitiationMethod :: PaymentInitiationMethod
  pfr_createdAt :: date
  pfr_paymentSentAndPending :: bool
  pfr_descriptionFromInvoice :: string
  pfr_skipProbeForDestination :: bool
  pfr_btcPaymentAmount :: jsnum
  pfr_usdPaymentAmount :: jsnum
  pfr_inputAmount :: jsnum
  pfr_btcProtocolFee :: jsnum
  pfr_usdProtocolFee :: jsnum
  pfr_recipientWalletId :: "string option"
  pfr_recipientWalletCurrency :: "WalletCurrency option"
  pfr_recipientAccountId :: "string option"
  pfr_recipientPubkey :: "string option"
  pfr_recipientUsername :: "string option"
  pfr_outgoingNodePubkey :: "string option"
  pfr_cachedRoute :: "RawRoute option"

record PaymentFlowStateRecordIndex =
  pfi_paymentHash :: "string option"
  pfi_intraLedgerHash :: "string option"
  pfi_senderWalletId :: string
  pfi_inputAmount :: jsnum

record WalletRecord =
  wr_id :: string
  wr_accountId :: string
  wr_type :: WalletType
  wr_currency :: WalletCurrency
  wr_onchain :: "OnChainAddressIdentifier list option"

record ContactObjectForUser =
  cou_id :: "string option"
  cou_name :: "string option"
  cou_transactionsCount :: jsnum

record UserRecord =
  ur_id :: string
  ur_kratosUserId :: "string option"
  ur_username :: "string option"
  ur_phone :: "string option"
  ur_role :: "string option"
  ur_level :: "AccountLevel option"
  ur_statusHistory :: "AccountStatusChange list"
  ur_language :: "string option"
  ur_twilio :: "PhoneMetadata option"
  ur_depositFeeRatio :: jsnum
  ur_withdrawFee :: jsnum
  ur_earn :: "string list option"
  ur_deviceToken :: "string list option"
  ur_contactEnabled :: "bool option"
  ur_contacts :: "ContactObjectForUser list"
  ur_created_at :: date
  ur_defaultWalletId :: "WalletId option"
  ur_lastIPs :: "IPType list option"
  ur_title :: "string option"
  ur_coordinates :: "(jsnum \<times> jsnum) option"

datatype PaymentStatus = PS_Pending | PS_Settled | PS_Failed

record LnPaymentConfirmedDetails =
  confirmedAt :: date
  cd_destination :: Pubkey
  revealedPreImage :: RevealedPreImage
  roundedUpFee :: jsnum
  milliSatsFee :: jsnum
  hopPubkeys :: "Pubkey list option"

text \<open>The attempts of a payment are kept as they are.\<close>

record LnPaymentType =
  lp_createdAt :: date
  lp_status :: PaymentStatus
  lp_paymentHash :: PaymentHash
  lp_paymentRequest :: "string option"
  lp_sentFromPubkey :: Pubkey
  lp_milliSatsAmount :: jsnum
  lp_roundedUpAmount :: jsnum
  lp_confirmedDetails :: "LnPaymentConfirmedDetails option"
  lp_attempts :: "string list option"
  lp_isCompleteRecord :: bool

record LnPaymentPartial =
  lpp_paymentHash :: PaymentHash
  lpp_paymentRequest :: "string option"
  lpp_sentFromPubkey :: Pubkey

section \<open>The collections\<close>

datatype user_query =
    User_id string
  | User_username_pattern string
  | User_kratos string
  | User_phone string

datatype wallet_query =
    Wallet_id WalletId
  | Wallet_account string
  | Wallet_address OnChainAddress
  | Wallet_addresses "OnChainAddress list"
  | Wallet_currency WalletCurrency

text \<open>The fields that an update of an account writes.\<close>

record AccountUpdate =
  au_level :: AccountLevel
  au_statusHistory :: "AccountStatusChange list"
  au_coordinates :: "(jsnum \<times> jsnum) option"
  au_title :: "string option"
  au_username :: "string option"
  au_contactEnabled :: bool
  au_contacts :: "ContactObjectForUser list"
  au_defaultWalletId :: "WalletId option"
  au_withdrawFee :: jsnum
  au_role :: "string option"
  au_kratosUserId :: "string option"

record 'v store_env =
  object_id :: "string \<Rightarrow> string + string"
  clock :: "'v \<Rightarrow> date"
  wic_save :: "WalletInvoice \<Rightarrow> jsnum option \<Rightarrow> ('v, WalletInvoiceRecord) call"
  wic_findOneAndUpdate_paid :: "PaymentHash \<Rightarrow> ('v, WalletInvoiceRecord option) call"
  wic_findOne :: "PaymentHash \<Rightarrow> ('v, WalletInvoiceRecord option) call"
  wic_find_unpaid :: "('v, WalletInvoiceRecord list) call"
  wic_deleteOne :: "PaymentHash \<Rightarrow> ('v, nat) call"
  wic_deleteMany_unpaid :: "date \<Rightarrow> ('v, nat) call"
  pfc_save :: "PaymentFlowStateRecord \<Rightarrow> ('v, PaymentFlowStateRecord) call"
  pfc_findOne :: "PaymentFlowStateRecordIndex \<Rightarrow> ('v, PaymentFlowStateRecord option) call"
  pfc_findOneAndUpdate :: "string option \<Rightarrow> string \<Rightarrow> jsnum \<Rightarrow> PaymentFlowStateRecord \<Rightarrow> ('v, PaymentFlowStateRecord option) call"
  pfc_findOneAndUpdate_not_pending :: "PaymentFlowStateRecordIndex \<Rightarrow> ('v, PaymentFlowStateRecord option) call"
  pfc_deleteOne :: "PaymentFlowStateRecordIndex \<Rightarrow> ('v, nat) call"
  pfc_deleteMany_expired :: "date \<Rightarrow> ('v, nat) call"
  wc_save :: "string \<Rightarrow> WalletType \<Rightarrow> WalletCurrency \<Rightarrow> ('v, WalletRecord) call"
  wc_findOne :: "wallet_query \<Rightarrow> ('v, WalletRecord option) call"
  wc_find :: "wallet_query \<Rightarrow> ('v, WalletRecord list) call"
  wc_push_onchain :: "WalletId \<Rightarrow> OnChainAddressIdentifier \<Rightarrow> ('v, nat \<times> nat) call"
  wc_last_onchain :: "WalletId \<Rightarrow> ('v, OnChainAddressIdentifier option option) call"
  uc_save :: "string \<Rightarrow> string option \<Rightarrow> PhoneMetadata option \<Rightarrow> ('v, UserRecord) call"
  uc_findOne :: "user_query \<Rightarrow> ('v, UserRecord option) call"
  uc_find_active :: "('v, UserRecord list) call"
  uc_find_businesses :: "('v, UserRecord list) call"
  uc_findOneAndUpdate_account :: "string \<Rightarrow> AccountUpdate \<Rightarrow> ('v, UserRecord option) call"
  uc_findOneAndUpdate_user ::
    "string \<Rightarrow> string option \<Rightarrow> string option \<Rightarrow> string list \<Rightarrow> ('v, UserRecord option) call"
  uc_push_earn :: "string \<Rightarrow> string \<Rightarrow> ('v, UserRecord option) call"
  uc_updateOne_ips :: "string \<Rightarrow> IPType list \<Rightarrow> ('v, nat \<times> nat) call"
  pcc_findOne :: "string \<Rightarrow> string \<Rightarrow> int \<Rightarrow> ('v, bool) call"
  pcc_create :: "string \<Rightarrow> string \<Rightarrow> ('v, unit) call"
  lpc_findOne :: "PaymentHash \<Rightarrow> ('v, LnPaymentType option) call"
  lpc_find_incomplete :: "('v, LnPaymentType list) call"
  lpc_upsert_partial :: "LnPaymentPartial \<Rightarrow> ('v, LnPaymentType) call"
  lpc_upsert :: "LnPaymentType \<Rightarrow> ('v, LnPaymentType) call"
  lpc_findOneAndUpdate :: "LnPaymentType \<Rightarrow> ('v, LnPaymentType option) call"

text \<open>
  \<open>object_id\<close> is the constructor of object ids, which throws on other strings; the counts of
  updates are the matched and the modified documents; \<open>uc_push_earn\<close> returns the document before the
  update; \<open>pcc_findOne\<close> tells whether a code of at least a creation time exists.
\<close>

definition toObjectId :: "('v, 'x) store_env_scheme \<Rightarrow> string \<Rightarrow> ('v, string) act" where
  "toObjectId E s = act_call (\<lambda>v. (object_id E s, v))"

definition repository :: "('v, 'a) act \<Rightarrow> ('v, 'a) act" where
  "repository m = act_try m parseRepositoryError"

section \<open>Wallet invoices\<close>

text \<open>
  The recipient of a stored invoice has no account: the field of the descriptor is left empty.
  A number of cents that is not whole makes \<^verbatim>\<open>BigInt\<close> throw.
\<close>

definition walletInvoiceFromRaw :: "WalletInvoiceRecord \<Rightarrow> WalletInvoice result" where
  "walletInvoiceFromRaw r =
     result_bind
       (case wir_cents r of
          None \<Rightarrow> Inr None
        | Some c \<Rightarrow>
            if \<not> js_truthy c then Inr None
            else (case js_BigInt c of None \<Rightarrow> Inl (Thrown ''RangeError'') | Some n \<Rightarrow> Inr (Some (UsdPaymentAmount n))))
       (\<lambda>usdAmount.
          Inr \<lparr>wi_paymentHash = wir_id r, wi_secret = wir_secret r, wi_selfGenerated = wir_selfGenerated r,
               wi_pubkey = wir_pubkey r, wi_usdAmount = usdAmount,
               wi_recipientWalletDescriptor = \<lparr>wd_id = wir_walletId r, wd_currency = wir_currency r, wd_accountId = []\<rparr>,
               wi_paid = wir_paid r\<rparr>)"

definition invoices_persistNew :: "('v, 'x) store_env_scheme \<Rightarrow> WalletInvoice \<Rightarrow> ('v, WalletInvoice) act" where
  "invoices_persistNew E invoice =
     repository
       (act_bind (act_call (wic_save E invoice
          (case wi_usdAmount invoice of None \<Rightarrow> None | Some u \<Rightarrow> Some (Number_of (amount u)))))
         (\<lambda>r. act_result (walletInvoiceFromRaw r)))"

definition markAsPaid :: "('v, 'x) store_env_scheme \<Rightarrow> PaymentHash \<Rightarrow> ('v, WalletInvoice) act" where
  "markAsPaid E hash =
     repository
       (act_bind (act_call (wic_findOneAndUpdate_paid E hash)) (\<lambda>r.
          case r of
            None \<Rightarrow> act_fail (not_found_err CouldNotFindWalletInvoiceError)
          | Some invoice \<Rightarrow> act_result (walletInvoiceFromRaw invoice)))"

definition findByPaymentHash :: "('v, 'x) store_env_scheme \<Rightarrow> PaymentHash \<Rightarrow> ('v, WalletInvoice) act" where
  "findByPaymentHash E hash =
     repository
       (act_bind (act_call (wic_findOne E hash)) (\<lambda>r.
          case r of
            None \<Rightarrow> act_fail (not_found_err CouldNotFindWalletInvoiceError)
          | Some invoice \<Rightarrow> act_result (walletInvoiceFromRaw invoice)))"

text \<open>The generator, as the list of what it yields.\<close>

definition yieldPending :: "('v, 'x) store_env_scheme \<Rightarrow> ('v, WalletInvoice list) act" where
  "yieldPending E =
     act_bind (act_try (act_call (wic_find_unpaid E)) (\<lambda>_. RepositoryError PlainRepositoryError)) (\<lambda>pending.
       act_result (map_result walletInvoiceFromRaw pending))"

definition deleteByPaymentHash :: "('v, 'x) store_env_scheme \<Rightarrow> PaymentHash \<Rightarrow> ('v, unit) act" where
  "deleteByPaymentHash E hash =
     act_try
       (act_bind (act_call (wic_deleteOne E hash)) (\<lambda>deletedCount.
          if deletedCount = 0 then act_fail (not_found_err CouldNotFindWalletInvoiceError) else act_return ()))
       (\<lambda>_. RepositoryError PlainRepositoryError)"

definition deleteUnpaidOlderThan :: "('v, 'x) store_env_scheme \<Rightarrow> date \<Rightarrow> ('v, nat) act" where
  "deleteUnpaidOlderThan E before =
     act_try (act_call (wic_deleteMany_unpaid E before)) (\<lambda>_. RepositoryError PlainRepositoryError)"

section \<open>Payment flows\<close>

text \<open>The two optional hashes of a flow: the lightning hash is preferred.\<close>

definition xor_hash :: "error \<Rightarrow> string option \<Rightarrow> string option \<Rightarrow> (string option \<times> string option) result" where
  "xor_hash err hash intraHash =
     (if truthy_str hash then Inr (hash, None)
      else if truthy_str intraHash then Inr (None, intraHash)
      else Inl err)"

definition paymentFlowFromRaw :: "PaymentFlowStateRecord \<Rightarrow> PaymentFlowState result" where
  "paymentFlowFromRaw r =
     result_bind (safeBigInt (pfr_inputAmount r)) (\<lambda>input.
     result_bind (xor_hash (flow_err InvalidLightningPaymentFlowStateError) (pfr_paymentHash r) (pfr_intraLedgerHash r))
       (\<lambda>(hash, intraHash).
     result_bind (paymentAmountFromNumber (pfr_btcPaymentAmount r) Btc) (\<lambda>btc.
     result_bind (paymentAmountFromNumber (pfr_usdPaymentAmount r) Usd) (\<lambda>usd.
     result_bind (paymentAmountFromNumber (pfr_btcProtocolFee r) Btc) (\<lambda>btcFee.
     result_bind (paymentAmountFromNumber (pfr_usdProtocolFee r) Usd) (\<lambda>usdFee.
       Inr \<lparr>paymentHash = hash, intraLedgerHash = intraHash, senderWalletId = pfr_senderWalletId r,
            senderWalletCurrency = pfr_senderWalletCurrency r, senderAccountId = pfr_senderAccountId r,
            settlementMethod = pfr_settlementMethod r, paymentInitiationMethod = pfr_paymentInitiationMethod r,
            descriptionFromInvoice = pfr_descriptionFromInvoice r,
            skipProbeForDestination = pfr_skipProbeForDestination r, createdAt = pfr_createdAt r,
            paymentSentAndPending = pfr_paymentSentAndPending r, btcPaymentAmount = btc, usdPaymentAmount = usd,
            inputAmount = input, btcProtocolFee = btcFee, usdProtocolFee = usdFee,
            recipientWalletId = str_or_undefined (pfr_recipientWalletId r),
            recipientWalletCurrency = pfr_recipientWalletCurrency r,
            recipientAccountId = str_or_undefined (pfr_recipientAccountId r),
            recipientPubkey = str_or_undefined (pfr_recipientPubkey r),
            recipientUsername = str_or_undefined (pfr_recipientUsername r),
            outgoingNodePubkey = str_or_undefined (pfr_outgoingNodePubkey r),
            cachedRoute = pfr_cachedRoute r\<rparr>))))))"

definition rawFromPaymentFlow :: "PaymentFlowState \<Rightarrow> PaymentFlowStateRecord result" where
  "rawFromPaymentFlow f =
     result_bind (xor_hash (flow_err InvalidLightningPaymentFlowStateError) (paymentHash f) (intraLedgerHash f))
       (\<lambda>(hash, intraHash).
       Inr \<lparr>pfr_paymentHash = hash, pfr_intraLedgerHash = intraHash, pfr_senderWalletId = senderWalletId f,
            pfr_senderWalletCurrency = senderWalletCurrency f, pfr_senderAccountId = senderAccountId f,
            pfr_settlementMethod = settlementMethod f, pfr_paymentInitiationMethod = paymentInitiationMethod f,
            pfr_createdAt = createdAt f, pfr_paymentSentAndPending = paymentSentAndPending f,
            pfr_descriptionFromInvoice = descriptionFromInvoice f,
            pfr_skipProbeForDestination = skipProbeForDestination f,
            pfr_btcPaymentAmount = Number_of (amount (btcPaymentAmount f)),
            pfr_usdPaymentAmount = Number_of (amount (usdPaymentAmount f)),
            pfr_inputAmount = Number_of (inputAmount f),
            pfr_btcProtocolFee = Number_of (amount (btcProtocolFee f)),
            pfr_usdProtocolFee = Number_of (amount (usdProtocolFee f)),
            pfr_recipientWalletId = recipientWalletId f, pfr_recipientWalletCurrency = recipientWalletCurrency f,
            pfr_recipientAccountId = recipientAccountId f, pfr_recipientPubkey = recipientPubkey f,
            pfr_recipientUsername = recipientUsername f, pfr_outgoingNodePubkey = outgoingNodePubkey f,
            pfr_cachedRoute = cachedRoute f\<rparr>)"

record PaymentFlowStateIndex =
  idx_paymentHash :: "string option"
  idx_intraLedgerHash :: "string option"
  idx_walletId :: WalletId
  idx_inputAmount :: int

definition rawIndexFromPaymentFlowIndex :: "PaymentFlowStateIndex \<Rightarrow> PaymentFlowStateRecordIndex result" where
  "rawIndexFromPaymentFlowIndex i =
     result_bind (xor_hash (flow_err InvalidLightningPaymentFlowStateError) (idx_paymentHash i) (idx_intraLedgerHash i))
       (\<lambda>(hash, intraHash).
       Inr \<lparr>pfi_paymentHash = hash, pfi_intraLedgerHash = intraHash, pfi_senderWalletId = idx_walletId i,
            pfi_inputAmount = Number_of (idx_inputAmount i)\<rparr>)"

definition elapsedSinceTimestamp :: "date \<Rightarrow> date \<Rightarrow> jsnum" where
  "elapsedSinceTimestamp now d = js_div (js_sub (Num (of_int now)) (Num (of_int d))) (Num 1000)"

definition isExpired_flow :: "PaymentFlowState \<Rightarrow> jsnum \<Rightarrow> date \<Rightarrow> bool" where
  "isExpired_flow f expiryTimeInSeconds now =
     (if paymentSentAndPending f then False
      else js_less expiryTimeInSeconds (elapsedSinceTimestamp now (createdAt f)))"

definition flows_persistNew :: "('v, 'x) store_env_scheme \<Rightarrow> PaymentFlowState \<Rightarrow> ('v, PaymentFlowState) act" where
  "flows_persistNew E f =
     repository
       (act_bind (act_result (rawFromPaymentFlow f)) (\<lambda>raw.
        act_bind (act_call (pfc_save E raw)) (\<lambda>saved. act_result (paymentFlowFromRaw saved))))"

definition deleteLightningPaymentFlow :: "('v, 'x) store_env_scheme \<Rightarrow> PaymentFlowStateIndex \<Rightarrow> ('v, unit) act" where
  "deleteLightningPaymentFlow E i =
     (let (hash, intraHash) =
        (if truthy_str (idx_paymentHash i) then (idx_paymentHash i, None) else (None, idx_intraLedgerHash i))
      in act_try
           (act_bind (act_call (pfc_deleteOne E
              \<lparr>pfi_paymentHash = hash, pfi_intraLedgerHash = intraHash, pfi_senderWalletId = idx_walletId i,
               pfi_inputAmount = Number_of (idx_inputAmount i)\<rparr>))
             (\<lambda>deletedCount. if deletedCount = 0 then act_fail (not_found_err CouldNotFindLightningPaymentFlowError)
                             else act_return ()))
           (\<lambda>_. RepositoryError UnknownRepositoryError))"

text \<open>The deletion of an expired flow is started and its result dropped.\<close>

definition findLightningPaymentFlow ::
  "('v, 'x) store_env_scheme \<Rightarrow> jsnum \<Rightarrow> PaymentFlowStateIndex \<Rightarrow> ('v, PaymentFlowState) act" where
  "findLightningPaymentFlow E expiryTimeInSeconds i =
     act_bind (act_result (xor_hash (RepositoryError BadInputsForFindError) (idx_paymentHash i) (idx_intraLedgerHash i)))
       (\<lambda>(hash, intraHash).
       repository
         (act_bind (act_call (pfc_findOne E
            \<lparr>pfi_paymentHash = hash, pfi_intraLedgerHash = intraHash, pfi_senderWalletId = idx_walletId i,
             pfi_inputAmount = Number_of (idx_inputAmount i)\<rparr>)) (\<lambda>result.
          case result of
            None \<Rightarrow> act_fail (not_found_err CouldNotFindLightningPaymentFlowError)
          | Some raw \<Rightarrow>
              act_bind (act_result (paymentFlowFromRaw raw)) (\<lambda>paymentFlow v.
                if isExpired_flow paymentFlow expiryTimeInSeconds (clock E v)
                then act_bind (act_attempt (deleteLightningPaymentFlow E (i\<lparr>idx_paymentHash := hash, idx_intraLedgerHash := intraHash\<rparr>)))
                       (\<lambda>_. act_fail (not_found_err CouldNotFindLightningPaymentFlowError)) v
                else act_return paymentFlow v))))"

definition updateLightningPaymentFlow :: "('v, 'x) store_env_scheme \<Rightarrow> PaymentFlowState \<Rightarrow> ('v, unit) act" where
  "updateLightningPaymentFlow E f =
     repository
       (act_bind (act_result (rawFromPaymentFlow f)) (\<lambda>raw.
        act_bind (act_call (pfc_findOneAndUpdate E (paymentHash f) (senderWalletId f) (Number_of (inputAmount f)) raw))
          (\<lambda>result. case result of
             None \<Rightarrow> act_fail (not_found_err CouldNotUpdateLightningPaymentFlowError)
           | Some _ \<Rightarrow> act_return ())))"

definition markLightningPaymentFlowNotPending ::
  "('v, 'x) store_env_scheme \<Rightarrow> PaymentFlowStateIndex \<Rightarrow> ('v, PaymentFlowState) act" where
  "markLightningPaymentFlowNotPending E i =
     act_bind (act_result (rawIndexFromPaymentFlowIndex i)) (\<lambda>raw.
       repository
         (act_bind (act_call (pfc_findOneAndUpdate_not_pending E raw)) (\<lambda>result.
          case result of
            None \<Rightarrow> act_fail (not_found_err CouldNotUpdateLightningPaymentFlowError)
          | Some flow \<Rightarrow> act_result (paymentFlowFromRaw flow))))"

definition deleteExpiredLightningPaymentFlows :: "('v, 'x) store_env_scheme \<Rightarrow> int \<Rightarrow> ('v, nat) act" where
  "deleteExpiredLightningPaymentFlows E expiryTimeInSeconds v =
     act_try
       (act_bind (act_call (pfc_deleteMany_expired E (clock E v - expiryTimeInSeconds * 1000))) (\<lambda>deletedCount.
          if deletedCount = 0 then act_fail (not_found_err NoExpiredLightningPaymentFlowsError)
          else act_return deletedCount))
       (\<lambda>_. RepositoryError UnknownRepositoryError) v"

section \<open>Wallets\<close>

definition resultToWallet :: "WalletRecord \<Rightarrow> Wallet" where
  "resultToWallet r =
     \<lparr>wd_id = wr_id r, wd_currency = wr_currency r, wd_accountId = wr_accountId r, wallet_type = wr_type r,
      onChainAddressIdentifiers = (case wr_onchain r of None \<Rightarrow> [] | Some os \<Rightarrow> os)\<rparr>"

text \<open>What a lookup returns: the error when there is no document.\<close>

definition found_or :: "could_not_find_error \<Rightarrow> ('a \<Rightarrow> 'b result) \<Rightarrow> 'a option \<Rightarrow> 'b result" where
  "found_or e f r = (case r of None \<Rightarrow> Inl (not_found_err e) | Some x \<Rightarrow> f x)"

definition wallets_findById :: "('v, 'x) store_env_scheme \<Rightarrow> WalletId \<Rightarrow> ('v, Wallet) act" where
  "wallets_findById E walletId =
     repository (act_bind (act_call (wc_findOne E (Wallet_id walletId))) (\<lambda>r.
       act_result (found_or CouldNotFindWalletFromIdError (\<lambda>w. Inr (resultToWallet w)) r)))"

definition listByAccountId :: "('v, 'x) store_env_scheme \<Rightarrow> AccountId \<Rightarrow> ('v, Wallet list) act" where
  "listByAccountId E accountId =
     repository (act_bind (toObjectId E accountId) (\<lambda>i.
       act_bind (act_call (wc_find E (Wallet_account i))) (\<lambda>r.
         if r = [] then act_fail (not_found_err CouldNotListWalletsFromAccountIdError)
         else act_return (map resultToWallet r))))"

definition findByAddress :: "('v, 'x) store_env_scheme \<Rightarrow> OnChainAddress \<Rightarrow> ('v, Wallet) act" where
  "findByAddress E address =
     repository (act_bind (act_call (wc_findOne E (Wallet_address address))) (\<lambda>r.
       act_result (found_or CouldNotFindWalletFromOnChainAddressError (\<lambda>w. Inr (resultToWallet w)) r)))"

definition listByAddresses :: "('v, 'x) store_env_scheme \<Rightarrow> OnChainAddress list \<Rightarrow> ('v, Wallet list) act" where
  "listByAddresses E addresses =
     repository (act_bind (act_call (wc_find E (Wallet_addresses addresses))) (\<lambda>r.
       if r = [] then act_fail (not_found_err CouldNotFindWalletFromOnChainAddressesError)
       else act_return (map resultToWallet r)))"

definition listByWalletCurrency :: "('v, 'x) store_env_scheme \<Rightarrow> WalletCurrency \<Rightarrow> ('v, Wallet list) act" where
  "listByWalletCurrency E c =
     repository (act_bind (act_call (wc_find E (Wallet_currency c))) (\<lambda>r. act_return (map resultToWallet r)))"

definition addresses_persistNew ::
  "('v, 'x) store_env_scheme \<Rightarrow> WalletId \<Rightarrow> OnChainAddressIdentifier \<Rightarrow> ('v, OnChainAddressIdentifier) act" where
  "addresses_persistNew E walletId onChainAddress =
     repository (act_bind (act_call (wc_push_onchain E walletId onChainAddress)) (\<lambda>(matchedCount, modifiedCount).
       if matchedCount = 0 then act_fail (not_found_err PlainCouldNotFindError)
       else if modifiedCount \<noteq> 1 then act_fail (RepositoryError PersistError)
       else act_return onChainAddress))"

definition findLastByWalletId :: "('v, 'x) store_env_scheme \<Rightarrow> WalletId \<Rightarrow> ('v, OnChainAddressIdentifier) act" where
  "findLastByWalletId E walletId =
     repository (act_bind (act_call (wc_last_onchain E walletId)) (\<lambda>r.
       case r of Some (Some lastAddress) \<Rightarrow> act_return lastAddress
       | _ \<Rightarrow> act_fail (not_found_err PlainCouldNotFindError)))"

section \<open>Accounts\<close>

fun contacts_of :: "ContactObjectForUser list \<Rightarrow> AccountContact list" where
  "contacts_of [] = []"
| "contacts_of (c # cs) =
     (case str_or_undefined (cou_id c) of
        None \<Rightarrow> contacts_of cs
      | Some i \<Rightarrow>
          \<lparr>contact_id = i, contact_username = i,
           contact_alias = (case str_or_undefined (cou_name c) of None \<Rightarrow> i | Some n \<Rightarrow> n),
           transactionsCount = cou_transactionsCount c\<rparr> # contacts_of cs)"

text \<open>
  The status is the one of the last change: reading it throws when there is none. The role is not
  copied; \<open>earn\<close> is the configured reward of a quiz question.
\<close>

definition translateToAccount :: "(string \<Rightarrow> jsnum) \<Rightarrow> UserRecord \<Rightarrow> Account result" where
  "translateToAccount earn r =
     (if ur_statusHistory r = [] then Inl (Thrown ''TypeError'')
      else Inr
        \<lparr>acc_id = ur_id r, acc_createdAt = ur_created_at r, acc_username = ur_username r,
         acc_defaultWalletId = ur_defaultWalletId r, acc_ownerId = ur_id r,
         acc_depositFeeRatio = ur_depositFeeRatio r, acc_withdrawFee = ur_withdrawFee r,
         acc_level = (case ur_level r of None \<Rightarrow> One | Some l \<Rightarrow> l),
         acc_status = change_status (last (ur_statusHistory r)), acc_statusHistory = ur_statusHistory r,
         acc_title = ur_title r, acc_coordinates = ur_coordinates r,
         acc_contactEnabled = (ur_contactEnabled r = Some True), acc_contacts = contacts_of (ur_contacts r),
         acc_isEditor = (ur_role r = Some ''editor''), acc_role = None,
         acc_quizQuestions = (case ur_earn r of None \<Rightarrow> [] | Some qs \<Rightarrow> map (\<lambda>q. (q, earn q, True)) qs),
         acc_kratosUserId = ur_kratosUserId r\<rparr>)"

record 'v account_env = "'v store_env" +
  onboardingEarn :: "string \<Rightarrow> jsnum"

definition listUnlockedAccounts :: "('v, 'x) account_env_scheme \<Rightarrow> ('v, Account list) act" where
  "listUnlockedAccounts E =
     repository (act_bind (act_call (uc_find_active E)) (\<lambda>r.
       if r = [] then act_fail (not_found_err PlainCouldNotFindError)
       else act_result (map_result (translateToAccount (onboardingEarn E)) r)))"

definition accounts_findById :: "('v, 'x) account_env_scheme \<Rightarrow> AccountId \<Rightarrow> ('v, Account) act" where
  "accounts_findById E accountId =
     repository (act_bind (toObjectId E accountId) (\<lambda>i.
       act_bind (act_call (uc_findOne E (User_id i))) (\<lambda>r.
         act_result (found_or PlainCouldNotFindError (translateToAccount (onboardingEarn E)) r))))"

definition findByUsername :: "('v, 'x) account_env_scheme \<Rightarrow> Username \<Rightarrow> ('v, Account) act" where
  "findByUsername E username =
     repository (act_bind (act_call (uc_findOne E (User_username_pattern username))) (\<lambda>r.
       act_result (found_or CouldNotFindAccountFromUsernameError (translateToAccount (onboardingEarn E)) r)))"

definition findByUserId :: "('v, 'x) account_env_scheme \<Rightarrow> string \<Rightarrow> ('v, Account) act" where
  "findByUserId E userId = accounts_findById E userId"

definition findByKratosUserId :: "('v, 'x) account_env_scheme \<Rightarrow> string \<Rightarrow> ('v, Account) act" where
  "findByKratosUserId E kratosUserId =
     repository (act_bind (act_call (uc_findOne E (User_kratos kratosUserId))) (\<lambda>r.
       act_result (found_or CouldNotFindAccountFromKratosIdError (translateToAccount (onboardingEarn E)) r)))"

text \<open>Username, title and coordinates of the businesses on the map.\<close>

definition listBusinessesForMap ::
  "('v, 'x) store_env_scheme \<Rightarrow> ('v, (Username option \<times> string option \<times> (jsnum \<times> jsnum) option) list) act" where
  "listBusinessesForMap E =
     repository (act_bind (act_call (uc_find_businesses E)) (\<lambda>r.
       act_return (map (\<lambda>u. (ur_username u, ur_title u, ur_coordinates u)) r)))"

definition accounts_update :: "('v, 'x) account_env_scheme \<Rightarrow> Account \<Rightarrow> ('v, Account) act" where
  "accounts_update E a =
     repository (act_bind (toObjectId E (acc_id a)) (\<lambda>i.
       act_bind (act_call (uc_findOneAndUpdate_account E i
         \<lparr>au_level = acc_level a, au_statusHistory = acc_statusHistory a, au_coordinates = acc_coordinates a,
          au_title = acc_title a, au_username = acc_username a, au_contactEnabled = acc_contactEnabled a,
          au_contacts = map (\<lambda>c. \<lparr>cou_id = Some (contact_username c), cou_name = Some (contact_alias c),
                                  cou_transactionsCount = transactionsCount c\<rparr>) (acc_contacts a),
          au_defaultWalletId = acc_defaultWalletId a, au_withdrawFee = acc_withdrawFee a, au_role = acc_role a,
          au_kratosUserId = acc_kratosUserId a\<rparr>)) (\<lambda>r.
         case r of
           None \<Rightarrow> act_fail (RepositoryError PlainRepositoryError)
         | Some u \<Rightarrow> act_result (translateToAccount (onboardingEarn E) u))))"

definition accounts_persistNew ::
  "('v, 'x) account_env_scheme \<Rightarrow> string \<Rightarrow> string option \<Rightarrow> PhoneMetadata option \<Rightarrow> ('v, Account) act" where
  "accounts_persistNew E kratosUserId phone phoneMetadata =
     repository (act_bind (act_call (uc_save E kratosUserId (str_or_undefined phone) phoneMetadata)) (\<lambda>u.
       act_result (translateToAccount (onboardingEarn E) u)))"

definition wallets_persistNew ::
  "('v, 'x) account_env_scheme \<Rightarrow> AccountId \<Rightarrow> WalletType \<Rightarrow> WalletCurrency \<Rightarrow> ('v, Wallet) act" where
  "wallets_persistNew E accountId type c =
     act_bind (accounts_findById E accountId) (\<lambda>_.
       repository (act_bind (toObjectId E accountId) (\<lambda>i.
         act_bind (act_call (wc_save E i type c)) (\<lambda>w. act_return (resultToWallet w)))))"

section \<open>Users, rewards, phone codes and lightning payments\<close>

record User =
  user_id :: string
  user_defaultAccountId :: AccountId
  user_deviceTokens :: "string list"
  user_createdAt :: date
  user_phone :: "string option"
  user_phoneMetadata :: "PhoneMetadata option"
  user_language :: "string option"

definition userFromRaw :: "UserRecord \<Rightarrow> User" where
  "userFromRaw r =
     \<lparr>user_id = ur_id r, user_defaultAccountId = ur_id r,
      user_deviceTokens = (case ur_deviceToken r of None \<Rightarrow> [] | Some ts \<Rightarrow> ts), user_createdAt = ur_created_at r,
      user_phone = ur_phone r, user_phoneMetadata = ur_twilio r, user_language = ur_language r\<rparr>"

definition users_findById :: "('v, 'x) store_env_scheme \<Rightarrow> string \<Rightarrow> ('v, User) act" where
  "users_findById E userId =
     repository (act_bind (toObjectId E userId) (\<lambda>i.
       act_bind (act_call (uc_findOne E (User_id i))) (\<lambda>r.
         act_result (found_or CouldNotFindUserFromIdError (\<lambda>u. Inr (userFromRaw u)) r))))"

definition findByPhone :: "('v, 'x) store_env_scheme \<Rightarrow> string \<Rightarrow> ('v, User) act" where
  "findByPhone E phone =
     repository (act_bind (act_call (uc_findOne E (User_phone phone))) (\<lambda>r.
       act_result (found_or CouldNotFindUserFromPhoneError (\<lambda>u. Inr (userFromRaw u)) r)))"

definition users_update :: "('v, 'x) store_env_scheme \<Rightarrow> User \<Rightarrow> ('v, User) act" where
  "users_update E u =
     repository (act_bind (toObjectId E (user_id u)) (\<lambda>i.
       act_bind (act_call (uc_findOneAndUpdate_user E i (user_phone u) (user_language u) (user_deviceTokens u))) (\<lambda>r.
         case r of
           None \<Rightarrow> act_fail (RepositoryError PlainRepositoryError)
         | Some raw \<Rightarrow> act_return (userFromRaw raw))))"

definition users_ips_update :: "('v, 'x) store_env_scheme \<Rightarrow> string \<Rightarrow> IPType list \<Rightarrow> ('v, unit) act" where
  "users_ips_update E userId lastIPs =
     repository (act_bind (toObjectId E userId) (\<lambda>i.
       act_bind (act_call (uc_updateOne_ips E i lastIPs)) (\<lambda>(matchedCount, modifiedCount).
         if matchedCount = 0 then act_fail (not_found_err PlainCouldNotFindError)
         else if modifiedCount \<noteq> 1 then act_fail (RepositoryError PersistError)
         else act_return ())))"

definition users_ips_findById :: "('v, 'x) store_env_scheme \<Rightarrow> string \<Rightarrow> ('v, string \<times> IPType list) act" where
  "users_ips_findById E userId =
     repository (act_bind (toObjectId E userId) (\<lambda>i.
       act_bind (act_call (uc_findOne E (User_id i))) (\<lambda>r.
         act_result (found_or CouldNotFindUserFromIdError
           (\<lambda>u. Inr (ur_id u, case ur_lastIPs u of None \<Rightarrow> [] | Some ips \<Rightarrow> ips)) r))))"

text \<open>The question is added whether or not it was there; \<open>earn\<close> of the old state tells.\<close>

definition rewards_add :: "('v, 'x) store_env_scheme \<Rightarrow> AccountId \<Rightarrow> string \<Rightarrow> ('v, unit) act" where
  "rewards_add E accountId quizQuestionId =
     act_try (act_bind (toObjectId E accountId) (\<lambda>i.
       act_bind (act_call (uc_push_earn E i quizQuestionId)) (\<lambda>oldState.
         case oldState of
           None \<Rightarrow> act_fail (RepositoryError UnknownRepositoryError)
         | Some u \<Rightarrow>
             (case ur_earn u of
                None \<Rightarrow> act_fail (Thrown ''TypeError'')
              | Some earn \<Rightarrow> if quizQuestionId \<notin> set earn then act_return () else act_fail RewardAlreadyPresentError))))
       (\<lambda>_. RepositoryError UnknownRepositoryError)"

definition existNewerThan :: "('v, 'x) store_env_scheme \<Rightarrow> string \<Rightarrow> string \<Rightarrow> int \<Rightarrow> ('v, unit) act" where
  "existNewerThan E phone code age v =
     repository (act_bind (act_call (pcc_findOne E phone code (clock E v - age * 1000))) (\<lambda>exists.
       if exists then act_return () else act_fail (not_found_err CouldNotFindPhoneCodeError))) v"

definition codes_persistNew :: "('v, 'x) store_env_scheme \<Rightarrow> string \<Rightarrow> string \<Rightarrow> ('v, unit) act" where
  "codes_persistNew E phone code = repository (act_call (pcc_create E phone code))"

definition payments_findByPaymentHash :: "('v, 'x) store_env_scheme \<Rightarrow> PaymentHash \<Rightarrow> ('v, LnPaymentType) act" where
  "payments_findByPaymentHash E hash =
     repository (act_bind (act_call (lpc_findOne E hash)) (\<lambda>r.
       act_result (found_or CouldNotFindLnPaymentFromHashError Inr r)))"

definition listIncomplete :: "('v, 'x) store_env_scheme \<Rightarrow> ('v, LnPaymentType list) act" where
  "listIncomplete E = repository (act_call (lpc_find_incomplete E))"

definition payments_persistNew ::
  "('v, 'x) store_env_scheme \<Rightarrow> LnPaymentPartial + LnPaymentType \<Rightarrow> ('v, LnPaymentPartial + LnPaymentType) act" where
  "payments_persistNew E payment =
     repository (act_bind (act_call (case payment of Inl p \<Rightarrow> lpc_upsert_partial E p | Inr p \<Rightarrow> lpc_upsert E p)) (\<lambda>r.
       act_return
         (if lp_isCompleteRecord r then Inr r
          else Inl \<lparr>lpp_paymentHash = lp_paymentHash r, lpp_paymentRequest = lp_paymentRequest r,
                    lpp_sentFromPubkey = lp_sentFromPubkey r\<rparr>)))"

definition payments_update :: "('v, 'x) store_env_scheme \<Rightarrow> LnPaymentType \<Rightarrow> ('v, LnPaymentType) act" where
  "payments_update E payment =
     repository (act_bind (act_call (lpc_findOneAndUpdate E payment)) (\<lambda>r.
       act_result (found_or CouldNotFindLnPaymentFromHashError Inr r)))"

section \<open>Collections in memory\<close>

fun update_first :: "('a \<Rightarrow> bool) \<Rightarrow> ('a \<Rightarrow> 'a) \<Rightarrow> 'a list \<Rightarrow> 'a list" where
  "update_first P f [] = []"
| "update_first P f (x # xs) = (if P x then f x # xs else x # update_first P f xs)"

fun remove_first :: "('a \<Rightarrow> bool) \<Rightarrow> 'a list \<Rightarrow> 'a list" where
  "remove_first P [] = []"
| "remove_first P (x # xs) = (if P x then xs else x # remove_first P xs)"

text \<open>A query for a flow mentions one of the hashes; documents are compared by the fields it mentions.\<close>

definition flow_matches :: "PaymentFlowStateRecordIndex \<Rightarrow> PaymentFlowStateRecord \<Rightarrow> bool" where
  "flow_matches i r =
     ((pfi_paymentHash i \<noteq> None \<longrightarrow> pfr_paymentHash r = pfi_paymentHash i)
      \<and> (pfi_intraLedgerHash i \<noteq> None \<longrightarrow> pfr_intraLedgerHash r = pfi_intraLedgerHash i)
      \<and> pfr_senderWalletId r = pfi_senderWalletId i \<and> pfr_inputAmount r = pfi_inputAmount i)"

fun wallet_matches :: "wallet_query \<Rightarrow> WalletRecord \<Rightarrow> bool" where
  "wallet_matches (Wallet_id i) w = (wr_id w = i)"
| "wallet_matches (Wallet_account a) w = (wr_accountId w = a)"
| "wallet_matches (Wallet_address a) w = (a \<in> oca_address ` set (case wr_onchain w of None \<Rightarrow> [] | Some os \<Rightarrow> os))"
| "wallet_matches (Wallet_addresses as) w =
     (case wr_onchain w of None \<Rightarrow> False | Some os \<Rightarrow> list_ex (\<lambda>x. oca_address x \<in> set as) os)"
| "wallet_matches (Wallet_currency c) w = (wr_currency w = c)"

fun user_matches :: "user_query \<Rightarrow> UserRecord \<Rightarrow> bool" where
  "user_matches (User_id i) u = (ur_id u = i)"
| "user_matches (User_username_pattern n) u = (map_option toLowerCase (ur_username u) = Some (toLowerCase n))"
| "user_matches (User_kratos k) u = (ur_kratosUserId u = Some k)"
| "user_matches (User_phone p) u = (ur_phone u = Some p)"

record mem_world =
  mem_clock :: date
  mem_invoices :: "WalletInvoiceRecord list"
  mem_flows :: "PaymentFlowStateRecord list"
  mem_wallets :: "WalletRecord list"
  mem_users :: "UserRecord list"
  mem_codes :: "(string \<times> string \<times> date) list"
  mem_payments :: "LnPaymentType list"

definition new_user :: "nat \<Rightarrow> date \<Rightarrow> string \<Rightarrow> string option \<Rightarrow> PhoneMetadata option \<Rightarrow> UserRecord" where
  "new_user n now kratosUserId phone meta =
     \<lparr>ur_id = replicate n CHR ''u'', ur_kratosUserId = Some kratosUserId, ur_username = None, ur_phone = phone, ur_role = None,
      ur_level = None, ur_statusHistory = [\<lparr>change_status = AS_Active, updatedAt = None, updatedByUserId = None, change_comment = None\<rparr>],
      ur_language = None, ur_twilio = meta, ur_depositFeeRatio = Num 0, ur_withdrawFee = Num 0, ur_earn = Some [],
      ur_deviceToken = None, ur_contactEnabled = None, ur_contacts = [], ur_created_at = now, ur_defaultWalletId = None,
      ur_lastIPs = None, ur_title = None, ur_coordinates = None\<rparr>"

definition partial_payment :: "date \<Rightarrow> LnPaymentPartial \<Rightarrow> LnPaymentType" where
  "partial_payment now p =
     \<lparr>lp_createdAt = now, lp_status = PS_Pending, lp_paymentHash = lpp_paymentHash p,
      lp_paymentRequest = lpp_paymentRequest p, lp_sentFromPubkey = lpp_sentFromPubkey p,
      lp_milliSatsAmount = Num 0, lp_roundedUpAmount = Num 0, lp_confirmedDetails = None, lp_attempts = None,
      lp_isCompleteRecord = False\<rparr>"

definition mem_env :: "mem_world account_env" where
  "mem_env =
     \<lparr>object_id = Inr, clock = mem_clock,
      wic_save = (\<lambda>i cents w.
        let r = \<lparr>wir_id = wi_paymentHash i, wir_walletId = wd_id (wi_recipientWalletDescriptor i), wir_cents = cents,
                 wir_secret = wi_secret i, wir_currency = wd_currency (wi_recipientWalletDescriptor i),
                 wir_timestamp = mem_clock w, wir_selfGenerated = wi_selfGenerated i, wir_pubkey = wi_pubkey i,
                 wir_paid = wi_paid i\<rparr>
        in (Inr r, w\<lparr>mem_invoices := mem_invoices w @ [r]\<rparr>)),
      wic_findOneAndUpdate_paid = (\<lambda>h w.
        (Inr (map_option (\<lambda>r. r\<lparr>wir_paid := True\<rparr>) (find (\<lambda>r. wir_id r = h) (mem_invoices w))),
         w\<lparr>mem_invoices := update_first (\<lambda>r. wir_id r = h) (\<lambda>r. r\<lparr>wir_paid := True\<rparr>) (mem_invoices w)\<rparr>)),
      wic_findOne = (\<lambda>h w. (Inr (find (\<lambda>r. wir_id r = h) (mem_invoices w)), w)),
      wic_find_unpaid = (\<lambda>w. (Inr (filter (\<lambda>r. \<not> wir_paid r) (mem_invoices w)), w)),
      wic_deleteOne = (\<lambda>h w.
        (Inr (if list_ex (\<lambda>r. wir_id r = h) (mem_invoices w) then 1 else 0),
         w\<lparr>mem_invoices := remove_first (\<lambda>r. wir_id r = h) (mem_invoices w)\<rparr>)),
      wic_deleteMany_unpaid = (\<lambda>d w.
        (Inr (length (filter (\<lambda>r. wir_timestamp r < d \<and> \<not> wir_paid r) (mem_invoices w))),
         w\<lparr>mem_invoices := filter (\<lambda>r. \<not> (wir_timestamp r < d \<and> \<not> wir_paid r)) (mem_invoices w)\<rparr>)),
      pfc_save = (\<lambda>r w. (Inr r, w\<lparr>mem_flows := mem_flows w @ [r]\<rparr>)),
      pfc_findOne = (\<lambda>i w. (Inr (find (flow_matches i) (mem_flows w)), w)),
      pfc_findOneAndUpdate = (\<lambda>h wid n r w.
        let i = \<lparr>pfi_paymentHash = h, pfi_intraLedgerHash = None, pfi_senderWalletId = wid, pfi_inputAmount = n\<rparr>
        in (Inr (map_option (\<lambda>_. r) (find (flow_matches i) (mem_flows w))),
            w\<lparr>mem_flows := update_first (flow_matches i) (\<lambda>_. r) (mem_flows w)\<rparr>)),
      pfc_findOneAndUpdate_not_pending = (\<lambda>i w.
        (Inr (map_option (\<lambda>r. r\<lparr>pfr_paymentSentAndPending := False\<rparr>) (find (flow_matches i) (mem_flows w))),
         w\<lparr>mem_flows := update_first (flow_matches i) (\<lambda>r. r\<lparr>pfr_paymentSentAndPending := False\<rparr>) (mem_flows w)\<rparr>)),
      pfc_deleteOne = (\<lambda>i w.
        (Inr (if list_ex (flow_matches i) (mem_flows w) then 1 else 0),
         w\<lparr>mem_flows := remove_first (flow_matches i) (mem_flows w)\<rparr>)),
      pfc_deleteMany_expired = (\<lambda>d w.
        (Inr (length (filter (\<lambda>r. pfr_createdAt r \<le> d \<and> \<not> pfr_paymentSentAndPending r) (mem_flows w))),
         w\<lparr>mem_flows := filter (\<lambda>r. \<not> (pfr_createdAt r \<le> d \<and> \<not> pfr_paymentSentAndPending r)) (mem_flows w)\<rparr>)),
      wc_save = (\<lambda>a t c w.
        let r = \<lparr>wr_id = replicate (length (mem_wallets w)) CHR ''w'', wr_accountId = a, wr_type = t, wr_currency = c,
                 wr_onchain = None\<rparr>
        in (Inr r, w\<lparr>mem_wallets := mem_wallets w @ [r]\<rparr>)),
      wc_findOne = (\<lambda>q w. (Inr (find (wallet_matches q) (mem_wallets w)), w)),
      wc_find = (\<lambda>q w. (Inr (filter (wallet_matches q) (mem_wallets w)), w)),
      wc_push_onchain = (\<lambda>i a w.
        let n = (if list_ex (\<lambda>r. wr_id r = i) (mem_wallets w) then 1 else 0)
        in (Inr (n, n), w\<lparr>mem_wallets := update_first (\<lambda>r. wr_id r = i)
              (\<lambda>r. r\<lparr>wr_onchain := Some ((case wr_onchain r of None \<Rightarrow> [] | Some os \<Rightarrow> os) @ [a])\<rparr>) (mem_wallets w)\<rparr>)),
      wc_last_onchain = (\<lambda>i w.
        (Inr (map_option (\<lambda>r. case wr_onchain r of None \<Rightarrow> None | Some os \<Rightarrow> if os = [] then None else Some (last os))
           (find (\<lambda>r. wr_id r = i) (mem_wallets w))), w)),
      uc_save = (\<lambda>k p m w.
        let u = new_user (length (mem_users w)) (mem_clock w) k p m in (Inr u, w\<lparr>mem_users := mem_users w @ [u]\<rparr>)),
      uc_findOne = (\<lambda>q w. (Inr (find (user_matches q) (mem_users w)), w)),
      uc_find_active = (\<lambda>w.
        (Inr (filter (\<lambda>u. ur_statusHistory u \<noteq> [] \<and> change_status (last (ur_statusHistory u)) = AS_Active) (mem_users w)), w)),
      uc_find_businesses = (\<lambda>w. (Inr (filter (\<lambda>u. ur_title u \<noteq> None \<and> ur_coordinates u \<noteq> None) (mem_users w)), w)),
      uc_findOneAndUpdate_account = (\<lambda>i a w.
        let f = (\<lambda>u. u\<lparr>ur_level := Some (au_level a), ur_statusHistory := au_statusHistory a,
                      ur_coordinates := au_coordinates a, ur_title := au_title a, ur_username := au_username a,
                      ur_contactEnabled := Some (au_contactEnabled a), ur_contacts := au_contacts a,
                      ur_defaultWalletId := au_defaultWalletId a, ur_withdrawFee := au_withdrawFee a,
                      ur_role := au_role a, ur_kratosUserId := au_kratosUserId a\<rparr>)
        in (Inr (map_option f (find (\<lambda>u. ur_id u = i) (mem_users w))),
            w\<lparr>mem_users := update_first (\<lambda>u. ur_id u = i) f (mem_users w)\<rparr>)),
      uc_findOneAndUpdate_user = (\<lambda>i p l ts w.
        let f = (\<lambda>u. u\<lparr>ur_phone := p, ur_language := l, ur_deviceToken := Some ts\<rparr>)
        in (Inr (map_option f (find (\<lambda>u. ur_id u = i) (mem_users w))),
            w\<lparr>mem_users := update_first (\<lambda>u. ur_id u = i) f (mem_users w)\<rparr>)),
      uc_push_earn = (\<lambda>i q w.
        (Inr (find (\<lambda>u. ur_id u = i) (mem_users w)),
         w\<lparr>mem_users := update_first (\<lambda>u. ur_id u = i)
             (\<lambda>u. u\<lparr>ur_earn := Some ((case ur_earn u of None \<Rightarrow> [] | Some qs \<Rightarrow> qs) @ [q])\<rparr>) (mem_users w)\<rparr>)),
      uc_updateOne_ips = (\<lambda>i ips w.
        let n = (if list_ex (\<lambda>u. ur_id u = i) (mem_users w) then 1 else 0)
        in (Inr (n, n), w\<lparr>mem_users := update_first (\<lambda>u. ur_id u = i) (\<lambda>u. u\<lparr>ur_lastIPs := Some ips\<rparr>) (mem_users w)\<rparr>)),
      pcc_findOne = (\<lambda>p c t w. (Inr (list_ex (\<lambda>(p', c', d). p' = p \<and> c' = c \<and> t \<le> d) (mem_codes w)), w)),
      pcc_create = (\<lambda>p c w. (Inr (), w\<lparr>mem_codes := mem_codes w @ [(p, c, mem_clock w)]\<rparr>)),
      lpc_findOne = (\<lambda>h w. (Inr (find (\<lambda>p. lp_paymentHash p = h) (mem_payments w)), w)),
      lpc_find_incomplete = (\<lambda>w. (Inr (filter (\<lambda>p. \<not> lp_isCompleteRecord p) (mem_payments w)), w)),
      lpc_upsert_partial = (\<lambda>p w.
        let r = partial_payment (mem_clock w) p in (Inr r, w\<lparr>mem_payments := mem_payments w @ [r]\<rparr>)),
      lpc_upsert = (\<lambda>p w. (Inr p, w\<lparr>mem_payments := mem_payments w @ [p]\<rparr>)),
      lpc_findOneAndUpdate = (\<lambda>p w.
        (Inr (map_option (\<lambda>_. p) (find (\<lambda>r. lp_paymentHash r = lp_paymentHash p) (mem_payments w))),
         w\<lparr>mem_payments := update_first (\<lambda>r. lp_paymentHash r = lp_paymentHash p) (\<lambda>_. p) (mem_payments w)\<rparr>)),
      onboardingEarn = (\<lambda>_. Num 1)\<rparr>"

definition empty_world :: mem_world where
  "empty_world = \<lparr>mem_clock = 0, mem_invoices = [], mem_flows = [], mem_wallets = [], mem_users = [], mem_codes = [],
     mem_payments = []\<rparr>"

definition raw_index :: "PaymentFlowStateIndex \<Rightarrow> PaymentFlowStateRecordIndex" where
  "raw_index i = \<lparr>pfi_paymentHash = idx_paymentHash i, pfi_intraLedgerHash = idx_intraLedgerHash i,
     pfi_senderWalletId = idx_walletId i, pfi_inputAmount = Number_of (idx_inputAmount i)\<rparr>"

definition not_pending_record :: "PaymentFlowStateRecord \<Rightarrow> PaymentFlowStateRecord" where
  "not_pending_record r = r\<lparr>pfr_paymentSentAndPending := False\<rparr>"

section \<open>What the repository of payment flows promises\<close>

text \<open>
  A flow is kept under its hash, the sender's wallet and its input amount. The abstract state of the
  repository is the map from these keys to flows.
\<close>

type_synonym flow_key = "string option \<times> string option \<times> WalletId \<times> jsnum"

definition raw_key :: "PaymentFlowStateRecord \<Rightarrow> flow_key" where
  "raw_key r = (pfr_paymentHash r, pfr_intraLedgerHash r, pfr_senderWalletId r, pfr_inputAmount r)"

definition flow_key_of :: "PaymentFlowState \<Rightarrow> flow_key" where
  "flow_key_of f = (paymentHash f, intraLedgerHash f, senderWalletId f, Number_of (inputAmount f))"

definition index_key :: "PaymentFlowStateIndex \<Rightarrow> flow_key" where
  "index_key i = (idx_paymentHash i, idx_intraLedgerHash i, idx_walletId i, Number_of (idx_inputAmount i))"

text \<open>One hash, which is not empty.\<close>

definition xor_ok :: "string option \<Rightarrow> string option \<Rightarrow> bool" where
  "xor_ok a b = (truthy_str a \<and> b = None \<or> a = None \<and> truthy_str b)"

definition non_empty :: "string option \<Rightarrow> bool" where
  "non_empty s = (s \<noteq> Some [])"

text \<open>What can be stored without loss: optional texts that are not empty, and numbers that are exact.\<close>

definition storable :: "PaymentFlowState \<Rightarrow> bool" where
  "storable f =
     (xor_ok (paymentHash f) (intraLedgerHash f)
      \<and> list_all is_safe_int [amount (btcPaymentAmount f), amount (usdPaymentAmount f), inputAmount f,
           amount (btcProtocolFee f), amount (usdProtocolFee f)]
      \<and> currency (btcPaymentAmount f) = Btc \<and> currency (btcProtocolFee f) = Btc
      \<and> currency (usdPaymentAmount f) = Usd \<and> currency (usdProtocolFee f) = Usd
      \<and> list_all non_empty [recipientWalletId f, recipientAccountId f, recipientPubkey f, recipientUsername f,
           outgoingNodePubkey f])"

definition raw_flow :: "PaymentFlowStateRecord \<Rightarrow> PaymentFlowState option" where
  "raw_flow r = (case paymentFlowFromRaw r of Inl _ \<Rightarrow> None | Inr f \<Rightarrow> Some f)"

definition flow_map :: "PaymentFlowStateRecord list \<Rightarrow> flow_key \<rightharpoonup> PaymentFlowState" where
  "flow_map rs k = (case find (\<lambda>r. raw_key r = k) rs of None \<Rightarrow> None | Some r \<Rightarrow> raw_flow r)"

definition flows_ok :: "PaymentFlowStateRecord list \<Rightarrow> bool" where
  "flows_ok rs =
     (distinct (map raw_key rs)
      \<and> list_all (\<lambda>r. xor_ok (pfr_paymentHash r) (pfr_intraLedgerHash r) \<and> raw_flow r \<noteq> None) rs)"

locale flow_collection =
  fixes E :: "('v, 'x) store_env_scheme" and docs :: "'v \<Rightarrow> PaymentFlowStateRecord list"
  assumes save_ok: "pfc_save E r v = (Inr s, v') \<Longrightarrow> s = r \<and> docs v' = docs v @ [r]"
    and save_fail: "pfc_save E r v = (Inl m, v') \<Longrightarrow> docs v' = docs v"
    and find_ok: "pfc_findOne E i v = (Inr d, v') \<Longrightarrow> d = find (flow_matches i) (docs v) \<and> docs v' = docs v"
    and find_fail: "pfc_findOne E i v = (Inl m, v') \<Longrightarrow> docs v' = docs v"
    and mark_ok: "pfc_findOneAndUpdate_not_pending E i v = (Inr d, v') \<Longrightarrow>
      d = map_option (\<lambda>r. r\<lparr>pfr_paymentSentAndPending := False\<rparr>) (find (flow_matches i) (docs v))
      \<and> docs v' = update_first (flow_matches i) (\<lambda>r. r\<lparr>pfr_paymentSentAndPending := False\<rparr>) (docs v)"
    and mark_fail: "pfc_findOneAndUpdate_not_pending E i v = (Inl m, v') \<Longrightarrow> docs v' = docs v"
    and delete_ok: "pfc_deleteOne E i v = (Inr n, v') \<Longrightarrow>
      docs v' = remove_first (flow_matches i) (docs v)"
    and delete_fail: "pfc_deleteOne E i v = (Inl m, v') \<Longrightarrow> docs v' = docs v"

interpretation mem_flow_collection: flow_collection mem_env mem_flows
  by unfold_locales (auto simp: mem_env_def)

lemma xor_hash_ok: "xor_ok a b \<Longrightarrow> xor_hash e a b = Inr (a, b)"
  by (auto simp: xor_ok_def xor_hash_def)

lemma str_or_undefined_id: "non_empty s \<Longrightarrow> str_or_undefined s = s"
  by (cases s) (auto simp: non_empty_def str_or_undefined_def truthy_str_def)

lemma safeBigInt_Number_of: "is_safe_int n \<Longrightarrow> safeBigInt (Number_of n) = Inr n"
  by (simp add: safeBigInt_def js_BigInt_Number_of)

lemma stored_flow:
  assumes "storable f"
  obtains r where "rawFromPaymentFlow f = Inr r" "paymentFlowFromRaw r = Inr f" "raw_key r = flow_key_of f"
    "pfr_paymentHash r = paymentHash f" "pfr_intraLedgerHash r = intraLedgerHash f"
    "pfr_paymentSentAndPending r = paymentSentAndPending f" "pfr_createdAt r = createdAt f"
proof -
  have x: "xor_hash e (paymentHash f) (intraLedgerHash f) = Inr (paymentHash f, intraLedgerHash f)" for e
    using assms by (simp add: storable_def xor_hash_ok)
  define r where "r = (case rawFromPaymentFlow f of Inr r \<Rightarrow> r)"
  have raw: "rawFromPaymentFlow f = Inr r"
    by (simp add: r_def rawFromPaymentFlow_def x)
  moreover have "paymentFlowFromRaw r = Inr f"
    using raw assms by (auto simp: rawFromPaymentFlow_def x paymentFlowFromRaw_def storable_def safeBigInt_Number_of
        paymentAmountFromNumber_Number_of str_or_undefined_id intro!: PaymentFlowState.equality Amount.equality)
  ultimately show thesis
    by (intro that [of r]) (auto simp: rawFromPaymentFlow_def x raw_key_def flow_key_of_def)
qed

lemma flow_matches_key:
  assumes "xor_ok (idx_paymentHash i) (idx_intraLedgerHash i)"
    and "xor_ok (pfr_paymentHash r) (pfr_intraLedgerHash r)"
  shows "flow_matches (raw_index i) r \<longleftrightarrow> raw_key r = index_key i"
  using assms by (auto simp: flow_matches_def raw_index_def raw_key_def index_key_def xor_ok_def)

lemma flows_ok_simps [simp]:
  "flows_ok []"
  "flows_ok (r # rs) \<longleftrightarrow> raw_key r \<notin> raw_key ` set rs \<and> xor_ok (pfr_paymentHash r) (pfr_intraLedgerHash r)
     \<and> raw_flow r \<noteq> None \<and> flows_ok rs"
  by (auto simp: flows_ok_def)

lemma flow_map_simps [simp]:
  "flow_map [] k = None"
  "flow_map (r # rs) k = (if raw_key r = k then raw_flow r else flow_map rs k)"
  by (simp_all add: flow_map_def)

lemma flow_map_None_iff: "flows_ok rs \<Longrightarrow> flow_map rs k = None \<longleftrightarrow> k \<notin> raw_key ` set rs"
  by (induction rs) auto

lemma find_index:
  assumes "flows_ok rs" and "xor_ok (idx_paymentHash i) (idx_intraLedgerHash i)"
  shows "find (flow_matches (raw_index i)) rs = find (\<lambda>r. raw_key r = index_key i) rs"
  using assms(1) by (induction rs) (auto simp: flow_matches_key [OF assms(2)])

lemma find_flow:
  assumes "flows_ok rs" and "find (\<lambda>r. raw_key r = k) rs = Some r"
  shows "\<exists>f. paymentFlowFromRaw r = Inr f \<and> flow_map rs k = Some f"
  using assms by (induction rs) (auto simp: raw_flow_def split: if_splits sum.splits)

lemma flow_map_snoc:
  "flow_map (rs @ [r]) k = (case flow_map rs k of None \<Rightarrow> if raw_key r = k \<and> k \<notin> raw_key ` set rs then raw_flow r else None | Some f \<Rightarrow> Some f)"
  if "flows_ok rs"
  using that by (induction rs) (auto split: option.splits)

lemma flows_ok_snoc:
  "flows_ok (rs @ [r]) \<longleftrightarrow> flows_ok rs \<and> raw_key r \<notin> raw_key ` set rs
     \<and> xor_ok (pfr_paymentHash r) (pfr_intraLedgerHash r) \<and> raw_flow r \<noteq> None"
  by (induction rs) auto

lemma not_pending_record_simps [simp]:
  "raw_key (not_pending_record r) = raw_key r"
  "pfr_paymentHash (not_pending_record r) = pfr_paymentHash r"
  "pfr_intraLedgerHash (not_pending_record r) = pfr_intraLedgerHash r"
  by (simp_all add: not_pending_record_def raw_key_def)

lemma paymentFlowFromRaw_not_pending:
  "paymentFlowFromRaw r = Inr f \<Longrightarrow> paymentFlowFromRaw (not_pending_record r) = Inr (f\<lparr>paymentSentAndPending := False\<rparr>)"
  by (auto simp: paymentFlowFromRaw_def not_pending_record_def result_bind_eq_Inr)

lemma raw_flow_not_pending:
  "raw_flow (not_pending_record r) = map_option (\<lambda>f. f\<lparr>paymentSentAndPending := False\<rparr>) (raw_flow r)"
  if "raw_flow r \<noteq> None"
  using that paymentFlowFromRaw_not_pending [of r] by (auto simp: raw_flow_def split: sum.splits)

lemma keys_update_first:
  "(\<And>r. raw_key (g r) = raw_key r) \<Longrightarrow> raw_key ` set (update_first P g rs) = raw_key ` set rs"
  by (induction rs) auto

lemma mark_flow_map:
  assumes "flows_ok rs" and "xor_ok (idx_paymentHash i) (idx_intraLedgerHash i)"
  defines "rs' \<equiv> update_first (flow_matches (raw_index i)) not_pending_record rs"
  shows "flows_ok rs'"
    and "flow_map rs' = (flow_map rs)(index_key i :=
      map_option (\<lambda>f. f\<lparr>paymentSentAndPending := False\<rparr>) (flow_map rs (index_key i)))"
proof -
  show "flows_ok rs'"
    unfolding rs'_def using assms(1)
    by (induction rs) (auto simp: keys_update_first raw_flow_not_pending)
  have "flow_map rs' k = (if k = index_key i
      then map_option (\<lambda>f. f\<lparr>paymentSentAndPending := False\<rparr>) (flow_map rs k) else flow_map rs k)" for k
    unfolding rs'_def using assms(1)
    by (induction rs) (auto simp: flow_matches_key [OF assms(2)] raw_flow_not_pending)
  then show "flow_map rs' = (flow_map rs)(index_key i :=
      map_option (\<lambda>f. f\<lparr>paymentSentAndPending := False\<rparr>) (flow_map rs (index_key i)))"
    by (intro ext) simp
qed

lemma delete_flow_map:
  assumes "flows_ok rs" and "xor_ok (idx_paymentHash i) (idx_intraLedgerHash i)"
  defines "rs' \<equiv> remove_first (flow_matches (raw_index i)) rs"
  shows "flows_ok rs'" and "flow_map rs' = (flow_map rs)(index_key i := None)"
proof -
  have sub: "set (remove_first P xs) \<subseteq> set xs" for P and xs :: "PaymentFlowStateRecord list"
    by (induction xs) auto
  show "flows_ok rs'"
    unfolding rs'_def using assms(1) by (induction rs) (auto dest: subsetD [OF sub])
  have "flow_map rs' k = (if k = index_key i then None else flow_map rs k)" for k
    unfolding rs'_def using assms(1)
    by (induction rs) (auto simp: flow_matches_key [OF assms(2)] flow_map_None_iff)
  then show "flow_map rs' = (flow_map rs)(index_key i := None)"
    by (intro ext) simp
qed

context flow_collection
begin

lemma repository_eq_Inr: "repository m v = (Inr x, v') \<longleftrightarrow> m v = (Inr x, v')"
  by (simp add: repository_def act_try_eq_Inr)

lemma persist_refines:
  assumes "flows_ok (docs v)" and "storable f" and "flow_map (docs v) (flow_key_of f) = None"
    and "flows_persistNew E f v = (Inr g, v')"
  shows "g = f \<and> flows_ok (docs v') \<and> flow_map (docs v') = (flow_map (docs v))(flow_key_of f \<mapsto> f)"
proof -
  obtain r where r: "rawFromPaymentFlow f = Inr r" "paymentFlowFromRaw r = Inr f" "raw_key r = flow_key_of f"
    "pfr_paymentHash r = paymentHash f" "pfr_intraLedgerHash r = intraLedgerHash f"
    using stored_flow [OF assms(2)] by metis
  obtain s where s: "pfc_save E r v = (Inr s, v')" "paymentFlowFromRaw s = Inr g"
    using assms(4) r(1) by (auto simp: flows_persistNew_def repository_eq_Inr act_bind_eq_Inr act_call_eq_Inr)
  then have "docs v' = docs v @ [r]" "g = f"
    using r(2) save_ok by fastforce+
  moreover have "flow_key_of f \<notin> raw_key ` set (docs v)"
    using assms(1,3) flow_map_None_iff by blast
  moreover have "raw_flow r = Some f" "xor_ok (pfr_paymentHash r) (pfr_intraLedgerHash r)"
    using r assms(2) by (simp_all add: raw_flow_def storable_def)
  ultimately show ?thesis
    using assms(1,3) r(3) by (auto simp: flows_ok_snoc flow_map_snoc fun_eq_iff split: option.splits)
qed

lemma mark_refines:
  assumes "flows_ok (docs v)" and "xor_ok (idx_paymentHash i) (idx_intraLedgerHash i)"
    and "markLightningPaymentFlowNotPending E i v = (r, v')"
  shows "flows_ok (docs v')
    \<and> (\<forall>g. r = Inr g \<longrightarrow>
        (\<exists>f. flow_map (docs v) (index_key i) = Some f \<and> g = f\<lparr>paymentSentAndPending := False\<rparr>)
        \<and> flow_map (docs v') = (flow_map (docs v))(index_key i \<mapsto> g))
    \<and> (r = Inl (not_found_err CouldNotUpdateLightningPaymentFlowError) \<longrightarrow>
        flow_map (docs v) (index_key i) = None \<and> flow_map (docs v') = flow_map (docs v))"
proof -
  have idx: "rawIndexFromPaymentFlowIndex i = Inr (raw_index i)"
    using assms(2) by (simp add: rawIndexFromPaymentFlowIndex_def xor_hash_ok raw_index_def)
  show ?thesis
  proof (cases "pfc_findOneAndUpdate_not_pending E (raw_index i) v")
    case (Pair a w)
    show ?thesis
    proof (cases a)
      case (Inl m)
      with Pair have "docs w = docs v" using mark_fail by simp
      moreover have "v' = w" "r = Inl (parseRepositoryError m)"
        using assms(3) Pair Inl
        by (auto simp: markLightningPaymentFlowNotPending_def idx repository_def act_try_def act_bind_def act_call_def)
      ultimately show ?thesis
        using assms(1) by (auto simp: parseRepositoryError_def split: if_splits)
    next
      case (Inr d)
      have d: "d = map_option not_pending_record (find (\<lambda>r. raw_key r = index_key i) (docs v))"
        and w: "docs w = update_first (flow_matches (raw_index i)) not_pending_record (docs v)"
        using mark_ok [OF Pair [unfolded Inr]] find_index [OF assms(1,2)] by (auto simp: not_pending_record_def [abs_def])
      note m = mark_flow_map [OF assms(1,2), folded w]
      show ?thesis
      proof (cases "find (\<lambda>r. raw_key r = index_key i) (docs v)")
        case None
        then have "flow_map (docs v) (index_key i) = None" by (simp add: flow_map_def)
        moreover have "v' = w" "r = Inl (not_found_err CouldNotUpdateLightningPaymentFlowError)"
          using assms(3) Pair Inr d None
          by (auto simp: markLightningPaymentFlowNotPending_def idx repository_def act_try_def act_bind_def act_call_def)
        ultimately show ?thesis using m by auto
      next
        case (Some raw)
        obtain f where f: "paymentFlowFromRaw raw = Inr f" "flow_map (docs v) (index_key i) = Some f"
          using find_flow [OF assms(1) Some] by blast
        then have "v' = w" "r = Inr (f\<lparr>paymentSentAndPending := False\<rparr>)"
          using assms(3) Pair Inr d Some paymentFlowFromRaw_not_pending [OF f(1)]
          by (auto simp: markLightningPaymentFlowNotPending_def idx repository_def act_try_def act_bind_def act_call_def)
        with f m show ?thesis by auto
      qed
    qed
  qed
qed

lemma delete_refines:
  assumes "flows_ok (docs v)" and "xor_ok (idx_paymentHash i) (idx_intraLedgerHash i)"
    and "deleteLightningPaymentFlow E i v = (r, v')"
  shows "flows_ok (docs v') \<and> (docs v' = docs v \<or> flow_map (docs v') = (flow_map (docs v))(index_key i := None))"
proof -
  have h: "(if truthy_str (idx_paymentHash i) then (idx_paymentHash i, None) else (None, idx_intraLedgerHash i))
      = (idx_paymentHash i, idx_intraLedgerHash i)"
    using assms(2) by (auto simp: xor_ok_def truthy_str_def)
  obtain a w where aw: "pfc_deleteOne E (raw_index i) v = (a, w)" by fastforce
  have "v' = w"
    using assms(3) aw
    by (auto simp: deleteLightningPaymentFlow_def h raw_index_def act_try_def act_bind_def act_call_def
        split: sum.splits if_splits)
  then show ?thesis
    using aw delete_ok delete_fail delete_flow_map [OF assms(1,2)] assms(1) by (cases a) auto
qed

lemma find_refines:
  assumes "flows_ok (docs v)" and "xor_ok (idx_paymentHash i) (idx_intraLedgerHash i)"
    and "findLightningPaymentFlow E t i v = (r, v')"
  shows "flows_ok (docs v')
    \<and> (\<forall>g. r = Inr g \<longrightarrow> flow_map (docs v) (index_key i) = Some g \<and> \<not> isExpired_flow g t (clock E v')
          \<and> docs v' = docs v)
    \<and> (docs v' = docs v \<or> flow_map (docs v') = (flow_map (docs v))(index_key i := None))"
proof -
  have idx: "i\<lparr>idx_paymentHash := idx_paymentHash i, idx_intraLedgerHash := idx_intraLedgerHash i\<rparr> = i"
    by simp
  obtain a w where aw: "pfc_findOne E (raw_index i) v = (a, w)" by fastforce
  then have w: "docs w = docs v" using find_ok find_fail by (cases a) auto
  note unf = findLightningPaymentFlow_def xor_hash_ok [OF assms(2)] raw_index_def repository_def act_try_def
    act_bind_def act_call_def act_attempt_def
  show ?thesis
  proof (cases a)
    case (Inl m)
    then have "v' = w" "r = Inl (parseRepositoryError m)"
      using assms(3) aw by (auto simp: unf)
    then show ?thesis using w assms(1) by simp
  next
    case (Inr d)
    then have d: "d = find (\<lambda>r. raw_key r = index_key i) (docs v)"
      using find_ok aw find_index [OF assms(1,2)] by auto
    show ?thesis
    proof (cases d)
      case None
      then have "v' = w" "r = Inl (not_found_err CouldNotFindLightningPaymentFlowError)"
        using assms(3) aw Inr by (auto simp: unf)
      then show ?thesis using w assms(1) by simp
    next
      case (Some raw)
      obtain f where f: "paymentFlowFromRaw raw = Inr f" "flow_map (docs v) (index_key i) = Some f"
        using find_flow [OF assms(1) d [symmetric, unfolded Some]] by blast
      obtain b u where bu: "deleteLightningPaymentFlow E i w = (b, u)" by fastforce
      have "(if isExpired_flow f t (clock E w)
          then r = Inl (not_found_err CouldNotFindLightningPaymentFlowError) \<and> v' = u
          else r = Inr f \<and> v' = w)"
        using assms(3) aw Inr Some f(1) bu by (auto simp: unf idx split: sum.splits prod.splits)
      then show ?thesis
        using delete_refines [OF _ assms(2) bu] w f(2) assms(1) by (auto split: if_splits)
    qed
  qed
qed

end

subsection \<open>Rewards\<close>

locale earn_collection =
  fixes E :: "('v, 'x) store_env_scheme" and earned :: "'v \<Rightarrow> string \<Rightarrow> string list option"
  assumes push_ok: "uc_push_earn E i q v = (Inr (Some u), v') \<Longrightarrow>
      ur_earn u = earned v i \<and> earned v' = (earned v)(i := Some ((case earned v i of None \<Rightarrow> [] | Some qs \<Rightarrow> qs) @ [q]))"
    and push_other: "uc_push_earn E i q v = (a, v') \<Longrightarrow> \<forall>u. a \<noteq> Inr (Some u) \<Longrightarrow> earned v' = earned v"
    and ids_keep: "object_id E s = Inr i \<Longrightarrow> i = s"

text \<open>Requests that arrive one after the other: the account, the question, and whether the reward was granted.\<close>

fun add_all :: "('v, 'x) store_env_scheme \<Rightarrow> (AccountId \<times> string) list \<Rightarrow> 'v \<Rightarrow> (AccountId \<times> string \<times> bool) list \<times> 'v" where
  "add_all E [] v = ([], v)"
| "add_all E ((a, q) # rs) v =
     (let (r, v1) = rewards_add E a q v; (os, v2) = add_all E rs v1 in ((a, q, r = Inr ()) # os, v2))"

definition granted :: "(AccountId \<times> string \<times> bool) list \<Rightarrow> (AccountId \<times> string) list" where
  "granted os = map (\<lambda>(a, q, _). (a, q)) (filter (\<lambda>(_, _, ok). ok) os)"

definition has_earned :: "(string \<Rightarrow> string list option) \<Rightarrow> AccountId \<times> string \<Rightarrow> bool" where
  "has_earned earn r = (case earn (fst r) of None \<Rightarrow> False | Some qs \<Rightarrow> snd r \<in> set qs)"

lemma granted_simps [simp]:
  "granted [] = []"
  "granted ((a, q, ok) # os) = (if ok then (a, q) # granted os else granted os)"
  by (simp_all add: granted_def)

context earn_collection
begin

lemma add_step:
  assumes "rewards_add E a q v = (r, v')"
  shows "has_earned (earned v) x \<Longrightarrow> has_earned (earned v') x" and "r = Inr () \<Longrightarrow> \<not> has_earned (earned v) (a, q) \<and> has_earned (earned v') (a, q)"
proof -
  consider (bad) e where "object_id E a = Inl e" "v' = v" "r \<noteq> Inr ()"
    | (other) b where "object_id E a = Inr a" "uc_push_earn E a q v = (b, v')" "\<forall>u. b \<noteq> Inr (Some u)" "r \<noteq> Inr ()"
    | (some) u where "object_id E a = Inr a" "uc_push_earn E a q v = (Inr (Some u), v')"
        "r = Inr () \<Longrightarrow> \<exists>qs. ur_earn u = Some qs \<and> q \<notin> set qs"
  proof (cases "object_id E a")
    case (Inl e)
    with assms bad show thesis
      by (auto simp: rewards_add_def toObjectId_def act_try_def act_bind_def act_result_def act_call_def split: sum.splits if_splits)
  next
    case (Inr i)
    then have i: "i = a" using ids_keep by simp
    obtain b w where bw: "uc_push_earn E a q v = (b, w)" by fastforce
    with Inr i assms other some show thesis
      by (cases b; cases "projr b")
        (auto simp: rewards_add_def toObjectId_def act_try_def act_bind_def act_result_def act_call_def
          act_fail_def act_return_def split: option.splits sum.splits if_splits error.splits)
  qed
  note c = this
  show "has_earned (earned v') x" if "has_earned (earned v) x"
    using c
  proof cases
    case some
    then show ?thesis using that push_ok by (cases x) (auto simp: has_earned_def split: option.splits if_splits)
  qed (use that push_other in \<open>auto simp: has_earned_def\<close>)
  show "\<not> has_earned (earned v) (a, q) \<and> has_earned (earned v') (a, q)" if "r = Inr ()"
    using c
  proof cases
    case some
    then show ?thesis using that push_ok [OF some(2)] by (auto simp: has_earned_def)
  qed (use that in auto)
qed

lemma add_all_once:
  "add_all E rs v = (os, v') \<Longrightarrow> distinct (granted os) \<and> (\<forall>x \<in> set (granted os). \<not> has_earned (earned v) x)"
proof (induction rs arbitrary: v os v')
  case (Cons r rs)
  obtain a q where r: "r = (a, q)" by fastforce
  obtain o1 v1 os1 v2 where s: "rewards_add E a q v = (o1, v1)" "add_all E rs v1 = (os1, v2)" "os = (a, q, o1 = Inr ()) # os1"
    using Cons.prems r by (auto split: prod.splits)
  then show ?case
    using Cons.IH [OF s(2)] add_step [OF s(1)] by auto
qed simp

end

definition mem_earned :: "mem_world \<Rightarrow> string \<Rightarrow> string list option" where
  "mem_earned w i = (case find (\<lambda>u. ur_id u = i) (mem_users w) of None \<Rightarrow> None | Some u \<Rightarrow> ur_earn u)"

lemma find_update_first:
  "(\<And>u. ur_id (g u) = ur_id u) \<Longrightarrow>
   find (\<lambda>u. ur_id u = j) (update_first (\<lambda>u. ur_id u = i) g us) =
     (if j = i then map_option g (find (\<lambda>u. ur_id u = i) us) else find (\<lambda>u. ur_id u = j) us)"
  by (induction us) auto

interpretation mem_earn: earn_collection mem_env mem_earned
proof
  show "ur_earn u = mem_earned v i \<and>
      mem_earned v' = (mem_earned v)(i \<mapsto> (case mem_earned v i of None \<Rightarrow> [] | Some qs \<Rightarrow> qs) @ [q])"
    if "uc_push_earn mem_env i q v = (Inr (Some u), v')" for i q v u v'
    using that by (auto simp: mem_env_def mem_earned_def find_update_first fun_eq_iff)
  show "mem_earned v' = mem_earned v"
    if "uc_push_earn mem_env i q v = (a, v')" "\<forall>u. a \<noteq> Inr (Some u)" for i q v a v'
  proof -
    have "find (\<lambda>u. ur_id u = i) (mem_users v) = None"
      using that by (cases "find (\<lambda>u. ur_id u = i) (mem_users v)") (auto simp: mem_env_def)
    then show ?thesis
      using that(1) by (auto simp: mem_env_def mem_earned_def find_update_first fun_eq_iff)
  qed
qed (simp add: mem_env_def)

section \<open>Properties\<close>



text \<open>
  (C20) A reward is granted at most once. In any sequence of requests, for any accounts and questions and in any
  order, no account is granted the reward of a question twice, nor one it had earned before the sequence began.
\<close>

theorem reward_granted_once:
  assumes "earn_collection E earned"
  shows "distinct (granted (fst (add_all E rs v))) \<and>
    list_all (\<lambda>x. \<not> has_earned (earned v) x) (granted (fst (add_all E rs v)))"
  using earn_collection.add_all_once [OF assms, of rs v] by (cases "add_all E rs v") (simp add: list_all_iff)

theorem reward_granted_once_witness:
  "granted (fst (add_all mem_env [([], ''q''), ([], ''q'')]
     (empty_world\<lparr>mem_users := [new_user 0 0 ''k'' None None]\<rparr>))) = [([], ''q'')]
   \<and> distinct (granted (fst (add_all mem_env [([], ''q''), ([], ''q'')]
     (empty_world\<lparr>mem_users := [new_user 0 0 ''k'' None None]\<rparr>))))"
  using reward_granted_once [OF mem_earn.earn_collection_axioms]
  by (simp add: rewards_add_def toObjectId_def act_try_def act_bind_def act_call_def act_fail_def act_return_def
      mem_env_def empty_world_def new_user_def)

end
