(* ===== verification/Lnd_Client.thy ===== *)
theory Lnd_Client
  imports Stores
begin

text \<open>
  The client of the lightning nodes, \<^verbatim>\<open>services/lnd/index.ts\<close>,
  \<^verbatim>\<open>services/lnd/onchain-service.ts\<close> and the parts of \<^verbatim>\<open>services/lnd/utils.ts\<close>
  they use, and the local cache of \<^verbatim>\<open>services/cache\<close>. The packages \<^verbatim>\<open>lightning\<close>,
  \<^verbatim>\<open>ln-service\<close> and \<^verbatim>\<open>node-cache\<close> are the parameters: the functions of
  \<open>lnd_env\<close>. A call of a node may answer or throw and may change the world. Texts that the nodes
  use for dates are the dates they denote, and an amount that is passed as text is the number it denotes.
\<close>

section \<open>What the nodes answer\<close>

text \<open>
  What is thrown: the message of an \<^verbatim>\<open>Error\<close>, and the entries of the array a node answers with,
  \<^verbatim>\<open>err[2].err.details\<close>, \<^verbatim>\<open>err[2].failures[0][2].err.details\<close> and
  \<^verbatim>\<open>err[1]\<close>.
\<close>

record lnd_err =
  le_message :: "string option"
  le_details :: "string option"
  le_failure :: "string option"
  le_type :: "string option"

type_synonym ('v, 'a) lnd_call = "'v \<Rightarrow> (lnd_err + 'a) \<times> 'v"

datatype NodeType = offchain | onchain

record LndParamsAuthed =
  node_lnd :: string
  node_pubkey :: Pubkey
  node_type :: "NodeType list"
  node_active :: bool

record channel_balance =
  channel_balance :: jsnum
  inbound :: "jsnum option"
  pending_balance :: jsnum

record pending_channel =
  is_closing :: bool
  pc_pending_balance :: jsnum
  pc_local_balance :: jsnum

record GetInvoiceResult =
  gi_id :: PaymentHash
  gi_created_at :: date
  gi_confirmed_at :: "date option"
  gi_is_confirmed :: "bool option"
  gi_is_canceled :: "bool option"
  gi_is_held :: "bool option"
  gi_payments :: "date list option"
  gi_received :: jsnum
  gi_received_mtokens :: string
  gi_secret :: SecretPreImage
  gi_description :: string
  gi_request :: "string option"
  gi_expires_at :: date
  gi_tokens :: jsnum

record lnd_payment =
  gp_id :: PaymentHash
  gp_created_at :: date
  gp_request :: "string option"
  gp_mtokens :: string
  gp_safe_tokens :: jsnum
  gp_confirmed_at :: date
  gp_destination :: Pubkey
  gp_secret :: RevealedPreImage
  gp_safe_fee :: jsnum
  gp_fee_mtokens :: string
  gp_timeout :: "jsnum option"

text \<open>A path is the list of the channels of its hops.\<close>

record lnd_pending =
  pp_id :: PaymentHash
  pp_created_at :: date
  pp_request :: "string option"
  pp_mtokens :: string
  pp_safe_tokens :: jsnum
  pp_timeout :: "jsnum option"
  pp_paths :: "string list list"

record GetPaymentResult =
  gpr_is_confirmed :: bool
  gpr_is_failed :: bool
  gpr_payment :: "lnd_payment option"
  gpr_pending :: "lnd_pending option"

record listed_payment = lnd_payment +
  lp_is_confirmed :: bool
  lp_hops :: "Pubkey list"
  lp_attempt_list :: "string list"

record PayResult =
  pay_safe_fee :: jsnum
  pay_secret :: RevealedPreImage

record hop_args =
  ha_base_fee_mtokens :: "jsnum option"
  ha_hop :: Hop

record ProbeForRouteArgs =
  pr_destination :: Pubkey
  pr_mtokens :: jsnum
  pr_routes :: "hop_args list list"
  pr_cltv_delta :: "jsnum option"
  pr_features :: "LnInvoiceFeature list"
  pr_max_fee :: jsnum
  pr_payment :: "string option"
  pr_total_mtokens :: "jsnum option"
  pr_tokens :: jsnum

record PayViaPaymentDetailsArgs =
  pd_id :: PaymentHash
  pd_destination :: Pubkey
  pd_mtokens :: int
  pd_payment :: "string option"
  pd_max_fee :: jsnum
  pd_cltv_delta :: "jsnum option"
  pd_features :: "LnInvoiceFeature list"
  pd_routes :: "Hop list list"

record CreateHodlInvoiceArgs =
  ch_id :: PaymentHash
  ch_description :: string
  ch_description_hash :: "string option"
  ch_tokens :: jsnum
  ch_expires_at :: date

record chain_transaction =
  ct_is_outgoing :: bool
  ct_transaction :: "string option"
  ct_confirmation_count :: "int option"
  ct_fee :: "jsnum option"
  ct_created_at :: date

datatype cache_value =
    Cached_number jsnum
  | Cached_channels "string list"
  | Cached_ticks "(jsnum \<times> jsnum) list"
  | Cached_txs "IncomingOnChainTransaction list"

text \<open>\<open>timer_fired\<close> tells whether the timer of a payment wins the race against the call.\<close>

record 'v lnd_env = "'v account_env" +
  lnd_params :: "'v \<Rightarrow> LndParamsAuthed list"
  timer_fired :: "'v \<Rightarrow> bool"
  parsePaymentRequest :: "string \<Rightarrow> string + ParsedPaymentRequest"
  ln_getChannelBalance :: "string \<Rightarrow> ('v, channel_balance) lnd_call"
  ln_getPendingChannels :: "string \<Rightarrow> ('v, pending_channel list) lnd_call"
  ln_probeForRoute :: "string \<Rightarrow> ProbeForRouteArgs \<Rightarrow> ('v, RawRoute option) lnd_call"
  ln_createHodlInvoice :: "string \<Rightarrow> CreateHodlInvoiceArgs \<Rightarrow> ('v, string) lnd_call"
  ln_getInvoice :: "string \<Rightarrow> PaymentHash \<Rightarrow> ('v, GetInvoiceResult) lnd_call"
  ln_getPayment :: "string \<Rightarrow> PaymentHash \<Rightarrow> ('v, GetPaymentResult) lnd_call"
  ln_getPayments :: "string \<Rightarrow> string option \<Rightarrow> ('v, listed_payment list \<times> string option) lnd_call"
  ln_getPendingPayments :: "string \<Rightarrow> string option \<Rightarrow> ('v, listed_payment list \<times> string option) lnd_call"
  ln_getFailedPayments :: "string \<Rightarrow> string option \<Rightarrow> ('v, listed_payment list \<times> string option) lnd_call"
  ln_getInvoices :: "string \<Rightarrow> string option \<Rightarrow> ('v, GetInvoiceResult list \<times> string option) lnd_call"
  ln_deletePayment :: "string \<Rightarrow> PaymentHash \<Rightarrow> ('v, unit) lnd_call"
  ln_settleHodlInvoice :: "string \<Rightarrow> SecretPreImage \<Rightarrow> ('v, unit) lnd_call"
  ln_cancelHodlInvoice :: "string \<Rightarrow> PaymentHash \<Rightarrow> ('v, unit) lnd_call"
  ln_payViaRoutes :: "string \<Rightarrow> RawRoute list \<Rightarrow> PaymentHash \<Rightarrow> ('v, PayResult) lnd_call"
  ln_payViaPaymentDetails :: "string \<Rightarrow> PayViaPaymentDetailsArgs \<Rightarrow> ('v, PayResult) lnd_call"
  ln_getWalletInfo :: "string \<Rightarrow> ('v, jsnum) lnd_call"
  ln_getClosedChannels :: "string \<Rightarrow> ('v, string list) lnd_call"
  ln_getChainBalance :: "string \<Rightarrow> ('v, jsnum) lnd_call"
  ln_getPendingChainBalance :: "string \<Rightarrow> ('v, jsnum) lnd_call"
  ln_getChainTransactions :: "string \<Rightarrow> jsnum \<Rightarrow> ('v, chain_transaction list) lnd_call"
  ln_createChainAddress :: "string \<Rightarrow> ('v, OnChainAddress) lnd_call"
  ln_getChainFeeEstimate :: "string \<Rightarrow> OnChainAddress \<Rightarrow> jsnum \<Rightarrow> jsnum \<Rightarrow> ('v, jsnum) lnd_call"
  ln_sendToChainAddress ::
    "string \<Rightarrow> OnChainAddress \<Rightarrow> jsnum \<Rightarrow> jsnum \<Rightarrow> string option \<Rightarrow> ('v, OnChainTxHash) lnd_call"
  nc_get :: "string \<Rightarrow> ('v, cache_value option) call"
  nc_set :: "string \<Rightarrow> cache_value \<Rightarrow> int \<Rightarrow> ('v, bool) call"
  nc_del :: "string \<Rightarrow> ('v, nat) call"

section \<open>The local cache\<close>

definition cache_set :: "('v, 'x) lnd_env_scheme \<Rightarrow> string \<Rightarrow> cache_value \<Rightarrow> int \<Rightarrow> ('v, cache_value) act" where
  "cache_set E key x ttlSecs =
     act_try (act_bind (act_call (nc_set E key x ttlSecs)) (\<lambda>res.
       if res then act_return x else act_fail (CacheServiceError CacheNotAvailableError)))
       (\<lambda>_. CacheServiceError UnknownCacheServiceError)"

definition cache_get :: "('v, 'x) lnd_env_scheme \<Rightarrow> string \<Rightarrow> ('v, cache_value) act" where
  "cache_get E key =
     act_try (act_bind (act_call (nc_get E key)) (\<lambda>x.
       case x of None \<Rightarrow> act_fail (CacheServiceError CacheUndefinedError) | Some y \<Rightarrow> act_return y))
       (\<lambda>_. CacheServiceError UnknownCacheServiceError)"

definition cache_getOrSet ::
  "('v, 'x) lnd_env_scheme \<Rightarrow> string \<Rightarrow> int \<Rightarrow> ('v, cache_value) act \<Rightarrow> ('v, cache_value) act" where
  "cache_getOrSet E key ttlSecs getForCaching =
     act_bind (act_attempt (cache_get E key)) (\<lambda>cachedData.
       case cachedData of
         Inr x \<Rightarrow> act_return x
       | Inl _ \<Rightarrow>
           act_bind getForCaching (\<lambda>x.
             act_bind (act_attempt (cache_set E key x ttlSecs)) (\<lambda>_. act_return x)))"

definition cache_clear :: "('v, 'x) lnd_env_scheme \<Rightarrow> string \<Rightarrow> ('v, unit) act" where
  "cache_clear E key =
     act_try (act_bind (act_call (nc_del E key)) (\<lambda>_. act_return ())) (\<lambda>_. CacheServiceError UnknownCacheServiceError)"


section \<open>The nodes and their errors\<close>

definition getLnds :: "('v, 'x) lnd_env_scheme \<Rightarrow> NodeType option \<Rightarrow> bool \<Rightarrow> 'v \<Rightarrow> LndParamsAuthed list" where
  "getLnds E type active v =
     (let result = lnd_params E v;
          result = (case type of None \<Rightarrow> result
                    | Some t \<Rightarrow> filter (\<lambda>node. list_ex (\<lambda>nodeType. nodeType = t) (node_type node)) result)
      in if active then filter node_active result else result)"

definition getActiveLnd :: "('v, 'x) lnd_env_scheme \<Rightarrow> ('v, LndParamsAuthed) act" where
  "getActiveLnd E v =
     (case getLnds E (Some offchain) True v of
        [] \<Rightarrow> (Inl (LightningError OffChainServiceUnavailableError), v)
      | node # _ \<Rightarrow> (Inr node, v))"

definition getActiveOnchainLnd :: "('v, 'x) lnd_env_scheme \<Rightarrow> ('v, LndParamsAuthed) act" where
  "getActiveOnchainLnd E v =
     (case getLnds E (Some onchain) True v of
        [] \<Rightarrow> (Inl (OnChainError OnChainServiceUnavailableError), v)
      | node # _ \<Rightarrow> (Inr node, v))"

definition getLndFromPubkey :: "('v, 'x) lnd_env_scheme \<Rightarrow> Pubkey option \<Rightarrow> ('v, string) act" where
  "getLndFromPubkey E pubkey v =
     (case find (\<lambda>node. pubkey = Some (node_pubkey node)) (getLnds E None True v) of
        None \<Rightarrow> (Inl (LightningError NoValidNodeForPubkeyError), v)
      | Some node \<Rightarrow> (Inr (node_lnd node), v))"

definition parseLndErrorDetails :: "lnd_err \<Rightarrow> string option" where
  "parseLndErrorDetails err =
     (if truthy_str (le_details err) then le_details err
      else if truthy_str (le_failure err) then le_failure err
      else le_type err)"

text \<open>A regular expression that is a plain text; \<^verbatim>\<open>undefined\<close> is tested as the text of that name.\<close>

definition details_match :: "string \<Rightarrow> lnd_err \<Rightarrow> bool" where
  "details_match known err =
     str_includes known (case parseLndErrorDetails err of None \<Rightarrow> ''undefined'' | Some d \<Rightarrow> d)"

datatype KnownLndErrorDetails =
    InsufficientBalance | InsufficientBalanceToAttemptPayment | InvoiceNotFound | InvoiceAlreadyPaid
  | UnableToFindRoute | UnknownNextPeer | LndDbCorruption | PaymentRejectedByDestination | UnknownPaymentHash
  | PaymentAttemptsTimedOut | ProbeForRouteTimedOut | SentPaymentNotFound | PaymentInTransition
  | PaymentForDeleteNotFound | SecretDoesNotMatchAnyExistingHodlInvoice | ConnectionDropped
  | TemporaryChannelFailure | InvoiceAlreadySettled | NoConnectionEstablished

fun known_details :: "KnownLndErrorDetails \<Rightarrow> string" where
  "known_details InsufficientBalance = ''insufficient local balance''"
| "known_details InsufficientBalanceToAttemptPayment = ''InsufficientBalanceToAttemptPayment''"
| "known_details InvoiceNotFound = ''unable to locate invoice''"
| "known_details InvoiceAlreadyPaid = ''invoice is already paid''"
| "known_details UnableToFindRoute = ''PaymentPathfindingFailedToFindPossibleRoute''"
| "known_details UnknownNextPeer = ''UnknownNextPeer''"
| "known_details LndDbCorruption = ''payment isn'' @ [CHR 0x27] @ ''t initiated''"
| "known_details PaymentRejectedByDestination = ''PaymentRejectedByDestination''"
| "known_details UnknownPaymentHash = ''UnknownPaymentHash''"
| "known_details PaymentAttemptsTimedOut = ''PaymentAttemptsTimedOut''"
| "known_details ProbeForRouteTimedOut = ''ProbeForRouteTimedOut''"
| "known_details SentPaymentNotFound = ''SentPaymentNotFound''"
| "known_details PaymentInTransition = ''payment is in transition''"
| "known_details PaymentForDeleteNotFound = ''non bucket element in payments bucket''"
| "known_details SecretDoesNotMatchAnyExistingHodlInvoice = ''SecretDoesNotMatchAnyExistingHodlInvoice''"
| "known_details ConnectionDropped = ''Connection dropped''"
| "known_details TemporaryChannelFailure = ''TemporaryChannelFailure''"
| "known_details InvoiceAlreadySettled = ''invoice already settled''"
| "known_details NoConnectionEstablished = ''No connection established''"

definition err_match :: "lnd_err \<Rightarrow> KnownLndErrorDetails \<Rightarrow> bool" where
  "err_match err known = details_match (known_details known) err"

definition handleCommonLightningServiceErrors :: "lnd_err \<Rightarrow> error" where
  "handleCommonLightningServiceErrors err =
     LightningError (if err_match err ConnectionDropped \<or> err_match err NoConnectionEstablished
                     then OffChainServiceUnavailableError else UnknownLightningServiceError)"

definition handleCommonRouteNotFoundErrors :: "lnd_err \<Rightarrow> error" where
  "handleCommonRouteNotFoundErrors err =
     LightningError (if err_match err ConnectionDropped \<or> err_match err NoConnectionEstablished
                     then OffChainServiceUnavailableError else UnknownRouteNotFoundError)"

definition handleSendPaymentLndErrors :: "lnd_err \<Rightarrow> error" where
  "handleSendPaymentLndErrors err =
     (if err_match err InvoiceAlreadyPaid then LightningError LnAlreadyPaidError
      else if err_match err UnableToFindRoute then LightningError RouteNotFoundError
      else if err_match err UnknownNextPeer then LightningError UnknownNextPeerError
      else if err_match err PaymentRejectedByDestination \<or> err_match err UnknownPaymentHash
      then LightningError InvoiceExpiredOrBadPaymentHashError
      else if err_match err PaymentAttemptsTimedOut then LightningError PaymentAttemptsTimedOutError
      else if err_match err PaymentInTransition then LightningError PaymentInTransitionError
      else if err_match err TemporaryChannelFailure then LightningError TemporaryChannelFailureError
      else if err_match err InsufficientBalanceToAttemptPayment then LightningError InsufficientBalanceForLnPaymentError
      else handleCommonLightningServiceErrors err)"

text \<open>A call inside a \<^verbatim>\<open>try\<close> whose \<^verbatim>\<open>catch\<close> returns an error.\<close>

definition lnd_catch :: "('v, 'a) lnd_call \<Rightarrow> (lnd_err \<Rightarrow> error) \<Rightarrow> ('v, 'a) act" where
  "lnd_catch c handler v = (case c v of (Inl err, v') \<Rightarrow> (Inl (handler err), v') | (Inr x, v') \<Rightarrow> (Inr x, v'))"

definition timeout_err :: lnd_err where
  "timeout_err = \<lparr>le_message = Some ''Timeout'', le_details = None, le_failure = None, le_type = None\<rparr>"

text \<open>\<^verbatim>\<open>Promise.race\<close> with a timer: the call has been started whatever the outcome of the race.\<close>

definition with_timeout :: "('v, 'x) lnd_env_scheme \<Rightarrow> ('v, 'a) lnd_call \<Rightarrow> ('v, 'a) lnd_call" where
  "with_timeout E c v = (case c v of (r, v') \<Rightarrow> (if timer_fired E v' then Inl timeout_err else r, v'))"

definition is_timeout :: "lnd_err \<Rightarrow> bool" where
  "is_timeout err = (le_message err = Some ''Timeout'')"

section \<open>The lightning service\<close>

text \<open>The service is made for the first active node, which the operations below get as \<open>node\<close>.\<close>

definition LndService :: "('v, 'x) lnd_env_scheme \<Rightarrow> ('v, LndParamsAuthed) act" where
  "LndService E = getActiveLnd E"

definition isLocal :: "('v, 'x) lnd_env_scheme \<Rightarrow> Pubkey \<Rightarrow> 'v \<Rightarrow> bool" where
  "isLocal E pubkey v = list_ex (\<lambda>item. node_pubkey item = pubkey) (getLnds E (Some offchain) False v)"

definition listActivePubkeys :: "('v, 'x) lnd_env_scheme \<Rightarrow> 'v \<Rightarrow> Pubkey list" where
  "listActivePubkeys E v = map node_pubkey (getLnds E (Some offchain) True v)"

definition listAllPubkeys :: "('v, 'x) lnd_env_scheme \<Rightarrow> 'v \<Rightarrow> Pubkey list" where
  "listAllPubkeys E v = map node_pubkey (getLnds E (Some offchain) False v)"

definition lnd_or_default :: "('v, 'x) lnd_env_scheme \<Rightarrow> LndParamsAuthed \<Rightarrow> Pubkey option \<Rightarrow> ('v, string) act" where
  "lnd_or_default E node pubkey =
     (if truthy_str pubkey then getLndFromPubkey E pubkey else act_return (node_lnd node))"

definition lnd_getBalance :: "('v, 'x) lnd_env_scheme \<Rightarrow> LndParamsAuthed \<Rightarrow> Pubkey option \<Rightarrow> ('v, jsnum) act" where
  "lnd_getBalance E node pubkey =
     act_bind (lnd_or_default E node pubkey) (\<lambda>lnd.
       act_bind (lnd_catch (ln_getChannelBalance E lnd) handleCommonLightningServiceErrors)
         (\<lambda>b. act_return (channel_balance b)))"

text \<open>Channel balance, inbound and outbound.\<close>

definition getInboundOutboundBalance ::
  "('v, 'x) lnd_env_scheme \<Rightarrow> LndParamsAuthed \<Rightarrow> Pubkey option \<Rightarrow> ('v, jsnum \<times> jsnum \<times> jsnum) act" where
  "getInboundOutboundBalance E node pubkey =
     act_bind (lnd_or_default E node pubkey) (\<lambda>lnd.
       act_bind (lnd_catch (ln_getChannelBalance E lnd) (\<lambda>_. LightningError UnknownLightningServiceError)) (\<lambda>b.
         let inboundBal = (case inbound b of None \<Rightarrow> Num 0 | Some i \<Rightarrow> i)
         in act_return (channel_balance b, inboundBal, js_sub (channel_balance b) inboundBal)))"

definition getOpeningChannelsBalance ::
  "('v, 'x) lnd_env_scheme \<Rightarrow> LndParamsAuthed \<Rightarrow> Pubkey option \<Rightarrow> ('v, jsnum) act" where
  "getOpeningChannelsBalance E node pubkey =
     act_bind (lnd_or_default E node pubkey) (\<lambda>lnd.
       act_bind (lnd_catch (ln_getChannelBalance E lnd) handleCommonLightningServiceErrors)
         (\<lambda>b. act_return (pending_balance b)))"

definition js_sum :: "jsnum list \<Rightarrow> jsnum" where
  "js_sum xs = foldl js_add (Num 0) xs"

definition getClosingChannelsBalance ::
  "('v, 'x) lnd_env_scheme \<Rightarrow> LndParamsAuthed \<Rightarrow> Pubkey option \<Rightarrow> ('v, jsnum) act" where
  "getClosingChannelsBalance E node pubkey =
     act_bind (lnd_or_default E node pubkey) (\<lambda>lnd.
       act_bind (lnd_catch (ln_getPendingChannels E lnd) handleCommonLightningServiceErrors) (\<lambda>pending_channels.
         act_return (js_sum (map (\<lambda>c.
           if is_closing c
           then (if js_truthy (pc_pending_balance c) then pc_pending_balance c else pc_local_balance c)
           else Num 0) pending_channels))))"

subsection \<open>Routes and invoices\<close>

text \<open>\<^verbatim>\<open>parseFloat\<close>: white space, a sign, digits with a fraction and an exponent, or \<^verbatim>\<open>Infinity\<close>.\<close>

definition exponent_of :: "string \<Rightarrow> int" where
  "exponent_of s =
     (case s of
        e # r \<Rightarrow>
          (let sign = (if r \<noteq> [] \<and> hd r = CHR ''-'' then - 1 else 1);
               ds = takeWhile is_digit (if r \<noteq> [] \<and> (hd r = CHR ''-'' \<or> hd r = CHR ''+'') then tl r else r)
           in if e \<in> {CHR ''e'', CHR ''E''} \<and> ds \<noteq> [] then sign * digits_value ds else 0)
      | [] \<Rightarrow> 0)"

definition js_parseFloat :: "string \<Rightarrow> jsnum" where
  "js_parseFloat s =
     (let t = dropWhile is_js_space s;
          negative = (t \<noteq> [] \<and> hd t = CHR ''-'');
          u = (if t \<noteq> [] \<and> (hd t = CHR ''-'' \<or> hd t = CHR ''+'') then tl t else t);
          whole = takeWhile is_digit u;
          r = dropWhile is_digit u;
          fraction = (if r \<noteq> [] \<and> hd r = CHR ''.'' then takeWhile is_digit (tl r) else []);
          e = exponent_of (if r \<noteq> [] \<and> hd r = CHR ''.'' then dropWhile is_digit (tl r) else r);
          x = of_int (digits_value (whole @ fraction)) / 10 ^ length fraction
            * (if 0 \<le> e then 10 ^ nat e else 1 / 10 ^ nat (- e))
      in if starts_with ''Infinity'' u then (if negative then NegInf else PosInf)
         else if whole = [] \<and> fraction = [] then NaN
         else fl (if negative then - x else x))"

definition probe_hop :: "Hop \<Rightarrow> hop_args" where
  "probe_hop hop =
     \<lparr>ha_base_fee_mtokens =
        (if truthy_str (baseFeeMTokens hop) then Some (js_parseFloat (the (baseFeeMTokens hop))) else None),
      ha_hop = hop\<rparr>"

definition probe_args :: "LnInvoice \<Rightarrow> jsnum \<Rightarrow> jsnum \<Rightarrow> ProbeForRouteArgs" where
  "probe_args decodedInvoice maxFee amt =
     (let mtokens = (if js_less (Num 0) (milliSatsAmount decodedInvoice) then milliSatsAmount decodedInvoice
                     else js_mul amt (Num 1000))
      in \<lparr>pr_destination = destination decodedInvoice,
          pr_mtokens = mtokens,
          pr_routes = map (map probe_hop) (routeHints decodedInvoice),
          pr_cltv_delta = (if truthy_num (cltvDelta decodedInvoice) then cltvDelta decodedInvoice else None),
          pr_features = features decodedInvoice,
          pr_max_fee = maxFee,
          pr_payment = str_or_undefined (Some (paymentSecret decodedInvoice)),
          pr_total_mtokens = (if paymentSecret decodedInvoice \<noteq> [] then Some mtokens else None),
          pr_tokens = amt\<rparr>)"

definition probe_errors :: "lnd_err \<Rightarrow> error" where
  "probe_errors err =
     (if is_timeout err then LightningError ProbeForRouteTimedOutFromApplicationError
      else if err_match err InsufficientBalance then LightningError InsufficientBalanceForRoutingError
      else if err_match err ProbeForRouteTimedOut then LightningError ProbeForRouteTimedOutError
      else handleCommonRouteNotFoundErrors err)"

definition probeForRoute ::
  "('v, 'x) lnd_env_scheme \<Rightarrow> LndParamsAuthed \<Rightarrow> LnInvoice \<Rightarrow> jsnum \<Rightarrow> jsnum \<Rightarrow> ('v, RawRoute) act" where
  "probeForRoute E node decodedInvoice maxFee amt =
     act_bind (lnd_catch (with_timeout E (ln_probeForRoute E (node_lnd node) (probe_args decodedInvoice maxFee amt)))
                 probe_errors)
       (\<lambda>route. case route of None \<Rightarrow> act_fail (LightningError RouteNotFoundError) | Some r \<Rightarrow> act_return r)"

definition findRouteForInvoice ::
  "('v, 'x) lnd_env_scheme \<Rightarrow> LndParamsAuthed \<Rightarrow> LnInvoice \<Rightarrow> Amount option \<Rightarrow> ('v, Pubkey \<times> RawRoute) act" where
  "findRouteForInvoice E node invoice amt =
     act_bind (case amt of
         Some a \<Rightarrow> act_return (Number_of (amount a))
       | None \<Rightarrow> (case inv_amount invoice of
            Some x \<Rightarrow> if js_truthy x \<and> js_less (Num 0) x then act_return x
                      else act_fail (LightningError PlainLightningServiceError)
          | None \<Rightarrow> act_fail (LightningError PlainLightningServiceError))) (\<lambda>sats.
     act_bind (act_result (paymentAmountFromNumber sats Btc)) (\<lambda>btcAmount.
     act_bind (act_result (maxProtocolFee FEECAP_BASIS_POINTS btcAmount)) (\<lambda>maxFeeAmount.
     act_bind (probeForRoute E node invoice (Number_of (amount maxFeeAmount)) sats) (\<lambda>rawRoute.
       act_return (node_pubkey node, rawRoute)))))"

definition findRouteForNoAmountInvoice ::
  "('v, 'x) lnd_env_scheme \<Rightarrow> LndParamsAuthed \<Rightarrow> LnInvoice \<Rightarrow> jsnum \<Rightarrow> jsnum \<Rightarrow> ('v, RawRoute) act" where
  "findRouteForNoAmountInvoice E node decodedInvoice maxFee amt =
     (if \<not> (js_truthy amt \<and> js_less (Num 0) amt) then act_fail (LightningError PlainLightningServiceError)
      else probeForRoute E node decodedInvoice maxFee amt)"

definition lnd_registerInvoice ::
  "('v, 'x) lnd_env_scheme \<Rightarrow> LndParamsAuthed \<Rightarrow> CreateHodlInvoiceArgs \<Rightarrow> ('v, RegisteredInvoice) act" where
  "lnd_registerInvoice E node args =
     act_bind (lnd_catch (ln_createHodlInvoice E (node_lnd node) args) handleCommonLightningServiceErrors) (\<lambda>request.
       case decodeInvoice (parsePaymentRequest E) request of
         Inl _ \<Rightarrow> act_fail (LightningError CouldNotDecodeReturnedPaymentRequest)
       | Inr returnedInvoice \<Rightarrow> act_return \<lparr>reg_invoice = returnedInvoice, reg_pubkey = node_pubkey node\<rparr>)"

record LnInvoiceLookup =
  il_paymentHash :: PaymentHash
  il_createdAt :: date
  il_confirmedAt :: "date option"
  il_isSettled :: bool
  il_isCanceled :: bool
  il_isHeld :: bool
  il_heldAt :: "date option"
  il_roundedDownReceived :: jsnum
  il_milliSatsReceived :: jsnum
  il_secretPreImage :: SecretPreImage
  il_description :: string
  il_paymentRequest :: "string option"
  il_expiresAt :: date
  il_roundedDownAmount :: jsnum

definition translateLnInvoiceLookup :: "GetInvoiceResult \<Rightarrow> LnInvoiceLookup" where
  "translateLnInvoiceLookup i =
     \<lparr>il_paymentHash = gi_id i, il_createdAt = gi_created_at i, il_confirmedAt = gi_confirmed_at i,
      il_isSettled = (gi_is_confirmed i = Some True), il_isCanceled = (gi_is_canceled i = Some True),
      il_isHeld = (gi_is_held i = Some True),
      il_heldAt = (case gi_payments i of None \<Rightarrow> None | Some [] \<Rightarrow> None | Some (p # _) \<Rightarrow> Some p),
      il_roundedDownReceived = gi_received i, il_milliSatsReceived = js_parseInt (gi_received_mtokens i),
      il_secretPreImage = gi_secret i, il_description = gi_description i,
      il_paymentRequest = str_or_undefined (gi_request i), il_expiresAt = gi_expires_at i,
      il_roundedDownAmount = gi_tokens i\<rparr>"

definition lookupInvoice :: "('v, 'x) lnd_env_scheme \<Rightarrow> Pubkey \<Rightarrow> PaymentHash \<Rightarrow> ('v, LnInvoiceLookup) act" where
  "lookupInvoice E pubkey hash =
     act_bind (getLndFromPubkey E (Some pubkey)) (\<lambda>lnd.
       act_bind (lnd_catch (ln_getInvoice E lnd hash)
           (\<lambda>err. if err_match err InvoiceNotFound then LightningError InvoiceNotFoundError
                  else handleCommonLightningServiceErrors err))
         (\<lambda>invoice. act_return (translateLnInvoiceLookup invoice)))"

text \<open>
  The pages of a listing: the next page is asked for as long as there is a token. Without a bound on
  the pages the loop need not end, so the result is optional.
\<close>

partial_function (option) list_pages ::
  "(string option \<Rightarrow> ('v, 'a list \<times> string option) lnd_call) \<Rightarrow> string option \<Rightarrow> 'a list \<Rightarrow> 'v
    \<Rightarrow> ((lnd_err + 'a list) \<times> 'v) option" where
  "list_pages getPage after acc v =
     (case getPage (str_or_undefined after) v of
        (Inl err, v') \<Rightarrow> Some (Inl err, v')
      | (Inr (xs, next), v') \<Rightarrow>
          if truthy_str next then list_pages getPage next (acc @ xs) v' else Some (Inr (acc @ xs), v'))"

definition listInvoices ::
  "('v, 'x) lnd_env_scheme \<Rightarrow> string \<Rightarrow> 'v \<Rightarrow> (LnInvoiceLookup list result \<times> 'v) option" where
  "listInvoices E lnd v =
     map_option (\<lambda>(r, v'). (case r of Inl err \<Rightarrow> Inl (handleCommonLightningServiceErrors err)
                             | Inr invoices \<Rightarrow> Inr (map translateLnInvoiceLookup invoices), v'))
       (list_pages (ln_getInvoices E lnd) None [] v)"

definition settleInvoice :: "('v, 'x) lnd_env_scheme \<Rightarrow> Pubkey \<Rightarrow> SecretPreImage \<Rightarrow> ('v, unit) act" where
  "settleInvoice E pubkey secret =
     act_bind (getLndFromPubkey E (Some pubkey)) (\<lambda>lnd.
       lnd_catch (ln_settleHodlInvoice E lnd secret)
         (\<lambda>err. if err_match err SecretDoesNotMatchAnyExistingHodlInvoice
                then LightningError SecretDoesNotMatchAnyExistingHodlInvoiceError
                else handleCommonLightningServiceErrors err))"

definition cancelInvoice :: "('v, 'x) lnd_env_scheme \<Rightarrow> Pubkey \<Rightarrow> PaymentHash \<Rightarrow> ('v, unit) act" where
  "cancelInvoice E pubkey hash =
     act_bind (getLndFromPubkey E (Some pubkey)) (\<lambda>lnd v.
       case ln_cancelHodlInvoice E lnd hash v of
         (Inr _, v') \<Rightarrow> (Inr (), v')
       | (Inl err, v') \<Rightarrow>
           (if err_match err InvoiceNotFound \<or> err_match err InvoiceAlreadySettled then Inr ()
            else Inl (handleCommonLightningServiceErrors err), v'))"

subsection \<open>Payments\<close>

record LnPaymentLookup =
  pl_createdAt :: date
  pl_status :: PaymentStatus
  pl_paymentHash :: PaymentHash
  pl_paymentRequest :: "string option"
  pl_milliSatsAmount :: jsnum
  pl_roundedUpAmount :: jsnum
  pl_confirmedDetails :: "LnPaymentConfirmedDetails option"
  pl_attempts :: "string list option"

text \<open>A payment, or only the fact that it failed.\<close>

datatype payment_lookup = Payment_lookup LnPaymentLookup | FailedPartial

definition cached_number :: "cache_value \<Rightarrow> jsnum" where
  "cached_number x = (case x of Cached_number n \<Rightarrow> n | _ \<Rightarrow> NaN)"

definition cached_channels :: "cache_value \<Rightarrow> string list" where
  "cached_channels x = (case x of Cached_channels cs \<Rightarrow> cs | _ \<Rightarrow> [])"

text \<open>
  A pending payment is taken as failed when its timeout has passed and the first channel of each path is closed.
\<close>

definition closed_channels_status ::
  "('v, 'x) lnd_env_scheme \<Rightarrow> (lnd_err \<Rightarrow> error) \<Rightarrow> string \<Rightarrow> lnd_pending \<Rightarrow> ('v, PaymentStatus) act" where
  "closed_channels_status E handler lnd p =
     act_bind (cache_getOrSet E ''lnd:closedChannels'' SECS_PER_5_MINS
         (act_bind (lnd_catch (ln_getClosedChannels E lnd) handler) (\<lambda>cs. act_return (Cached_channels cs))))
       (\<lambda>closedChannels.
         if cached_channels closedChannels \<noteq> [] \<and> list_ex (\<lambda>hops. hops = []) (pp_paths p)
         then act_fail (Thrown ''TypeError'')
         else if list_all (\<lambda>hops. list_ex (\<lambda>c. c = hd hops) (cached_channels closedChannels)) (pp_paths p)
         then act_return PS_Failed else act_return PS_Pending)"

definition payment_timeout :: "GetPaymentResult \<Rightarrow> jsnum option" where
  "payment_timeout result =
     (let pending = (case gpr_pending result of None \<Rightarrow> None | Some p \<Rightarrow> pp_timeout p)
      in if truthy_num pending then pending
         else case gpr_payment result of None \<Rightarrow> None | Some p \<Rightarrow> gp_timeout p)"

text \<open>
  The status of a payment; \<open>handler\<close> is the \<^verbatim>\<open>catch\<close> of the caller. Both caches have one
  key for all nodes.
\<close>

definition resolvePaymentStatus ::
  "('v, 'x) lnd_env_scheme \<Rightarrow> (lnd_err \<Rightarrow> error) \<Rightarrow> string \<Rightarrow> GetPaymentResult \<Rightarrow> ('v, PaymentStatus) act" where
  "resolvePaymentStatus E handler lnd result =
     (if gpr_is_confirmed result then act_return PS_Settled
      else if gpr_is_failed result then act_return PS_Failed
      else
        act_bind (cache_getOrSet E ''bitcoin:blockHeight'' SECS_PER_5_MINS
            (act_bind (lnd_catch (ln_getWalletInfo E lnd) handler) (\<lambda>h. act_return (Cached_number h))))
          (\<lambda>currentBlockHeight.
           let timeout = payment_timeout result
           in case gpr_pending result of
                Some p \<Rightarrow>
                  if truthy_num timeout \<and> js_less (the timeout) (cached_number currentBlockHeight)
                  then closed_channels_status E handler lnd p
                  else act_return PS_Pending
              | None \<Rightarrow> act_return PS_Pending))"

definition lookup_errors :: "lnd_err \<Rightarrow> error" where
  "lookup_errors err =
     (if err_match err SentPaymentNotFound then LightningError PaymentNotFoundError
      else handleCommonLightningServiceErrors err)"

text \<open>
  A \<^verbatim>\<open>TypeError\<close> thrown while the status is resolved has none of the details of a node's error.
\<close>

definition plain_lnd_err :: "string \<Rightarrow> lnd_err" where
  "plain_lnd_err msg = \<lparr>le_message = Some msg, le_details = None, le_failure = None, le_type = None\<rparr>"

definition lookupPaymentByPubkeyAndHash ::
  "('v, 'x) lnd_env_scheme \<Rightarrow> Pubkey \<Rightarrow> PaymentHash \<Rightarrow> ('v, payment_lookup) act" where
  "lookupPaymentByPubkeyAndHash E pubkey hash =
     act_try
      (act_bind (getLndFromPubkey E (Some pubkey)) (\<lambda>lnd.
       act_bind (lnd_catch (ln_getPayment E lnd hash) lookup_errors) (\<lambda>result.
       act_bind (resolvePaymentStatus E lookup_errors lnd result) (\<lambda>status.
         case gpr_payment result of
           Some p \<Rightarrow>
             act_return (Payment_lookup
               \<lparr>pl_createdAt = gp_created_at p, pl_status = status, pl_paymentHash = gp_id p,
                pl_paymentRequest = str_or_undefined (gp_request p),
                pl_milliSatsAmount = js_parseInt (gp_mtokens p), pl_roundedUpAmount = gp_safe_tokens p,
                pl_confirmedDetails = Some
                  \<lparr>confirmedAt = gp_confirmed_at p, cd_destination = gp_destination p,
                   revealedPreImage = gp_secret p, roundedUpFee = gp_safe_fee p,
                   milliSatsFee = js_parseInt (gp_fee_mtokens p), hopPubkeys = None\<rparr>,
                pl_attempts = None\<rparr>)
         | None \<Rightarrow>
             (case gpr_pending result of
                Some p \<Rightarrow>
                  act_return (Payment_lookup
                    \<lparr>pl_createdAt = pp_created_at p, pl_status = status, pl_paymentHash = pp_id p,
                     pl_paymentRequest = str_or_undefined (pp_request p),
                     pl_milliSatsAmount = js_parseInt (pp_mtokens p), pl_roundedUpAmount = pp_safe_tokens p,
                     pl_confirmedDetails = None, pl_attempts = None\<rparr>)
              | None \<Rightarrow> if status = PS_Failed then act_return FailedPartial
                        else act_fail (LightningError BadPaymentDataError))))))
      (\<lambda>msg. lookup_errors (plain_lnd_err msg))"

fun lookup_in_nodes ::
  "('v, 'x) lnd_env_scheme \<Rightarrow> PaymentHash \<Rightarrow> LndParamsAuthed list \<Rightarrow> ('v, payment_lookup) act" where
  "lookup_in_nodes E hash [] = act_fail (LightningError PaymentNotFoundError)"
| "lookup_in_nodes E hash (node # nodes) =
     act_bind (act_attempt (lookupPaymentByPubkeyAndHash E (node_pubkey node) hash)) (\<lambda>payment.
       case payment of Inl _ \<Rightarrow> lookup_in_nodes E hash nodes | Inr p \<Rightarrow> act_return p)"

definition lookupPayment ::
  "('v, 'x) lnd_env_scheme \<Rightarrow> Pubkey option \<Rightarrow> PaymentHash \<Rightarrow> ('v, payment_lookup) act" where
  "lookupPayment E pubkey hash v =
     (if truthy_str pubkey then lookupPaymentByPubkeyAndHash E (the pubkey) hash v
      else lookup_in_nodes E hash (getLnds E (Some offchain) False v) v)"

definition translateLnPaymentLookup :: "listed_payment \<Rightarrow> LnPaymentLookup" where
  "translateLnPaymentLookup p =
     \<lparr>pl_createdAt = gp_created_at p, pl_status = (if lp_is_confirmed p then PS_Settled else PS_Pending),
      pl_paymentHash = gp_id p, pl_paymentRequest = gp_request p,
      pl_milliSatsAmount = js_parseInt (gp_mtokens p), pl_roundedUpAmount = gp_safe_tokens p,
      pl_confirmedDetails =
        (if lp_is_confirmed p
         then Some \<lparr>confirmedAt = gp_confirmed_at p, cd_destination = gp_destination p,
                    revealedPreImage = gp_secret p, roundedUpFee = gp_safe_fee p,
                    milliSatsFee = js_parseInt (gp_fee_mtokens p), hopPubkeys = Some (lp_hops p)\<rparr>
         else None),
      pl_attempts = Some (lp_attempt_list p)\<rparr>"

text \<open>The payments of a page and the token of the next page, if there is one.\<close>

definition listPaymentsFactory ::
  "('v, 'x) lnd_env_scheme \<Rightarrow> (string \<Rightarrow> string option \<Rightarrow> ('v, listed_payment list \<times> string option) lnd_call)
    \<Rightarrow> string option \<Rightarrow> Pubkey \<Rightarrow> ('v, LnPaymentLookup list \<times> string option) act" where
  "listPaymentsFactory E getPaymentsFn after pubkey =
     act_bind (getLndFromPubkey E (Some pubkey)) (\<lambda>lnd.
       act_bind (lnd_catch (getPaymentsFn lnd (str_or_undefined after))
           (\<lambda>err. if err_match err LndDbCorruption then LightningError CorruptLndDbError
                  else handleCommonRouteNotFoundErrors err))
         (\<lambda>(payments, next). act_return (map translateLnPaymentLookup payments, str_or_undefined next)))"

definition listSettledPayments ::
  "('v, 'x) lnd_env_scheme \<Rightarrow> string option \<Rightarrow> Pubkey \<Rightarrow> ('v, LnPaymentLookup list \<times> string option) act" where
  "listSettledPayments E = listPaymentsFactory E (ln_getPayments E)"

definition lnd_listPendingPayments ::
  "('v, 'x) lnd_env_scheme \<Rightarrow> string option \<Rightarrow> Pubkey \<Rightarrow> ('v, LnPaymentLookup list \<times> string option) act" where
  "lnd_listPendingPayments E = listPaymentsFactory E (ln_getPendingPayments E)"

definition listFailedPayments ::
  "('v, 'x) lnd_env_scheme \<Rightarrow> string option \<Rightarrow> Pubkey \<Rightarrow> ('v, LnPaymentLookup list \<times> string option) act" where
  "listFailedPayments E after pubkey =
     act_bind (listPaymentsFactory E (ln_getFailedPayments E) after pubkey) (\<lambda>(lnPayments, endCursor).
       act_return (map (\<lambda>p. p\<lparr>pl_status := PS_Failed\<rparr>) lnPayments, endCursor))"

definition deletePaymentByPubkeyAndHash ::
  "('v, 'x) lnd_env_scheme \<Rightarrow> PaymentHash \<Rightarrow> Pubkey \<Rightarrow> ('v, bool) act" where
  "deletePaymentByPubkeyAndHash E hash pubkey =
     act_bind (getLndFromPubkey E (Some pubkey)) (\<lambda>lnd v.
       case ln_deletePayment E lnd hash v of
         (Inr _, v') \<Rightarrow> (Inr True, v')
       | (Inl err, v') \<Rightarrow>
           (if err_match err PaymentForDeleteNotFound then Inr False
            else Inl (handleCommonRouteNotFoundErrors err), v'))"

fun delete_in_nodes :: "('v, 'x) lnd_env_scheme \<Rightarrow> PaymentHash \<Rightarrow> Pubkey list \<Rightarrow> ('v, unit) act" where
  "delete_in_nodes E hash [] = act_return ()"
| "delete_in_nodes E hash (pubkey # pubkeys) =
     act_bind (deletePaymentByPubkeyAndHash E hash pubkey) (\<lambda>payment.
       if payment then act_return () else delete_in_nodes E hash pubkeys)"

definition deletePaymentByHash ::
  "('v, 'x) lnd_env_scheme \<Rightarrow> PaymentHash \<Rightarrow> Pubkey option \<Rightarrow> ('v, unit) act" where
  "deletePaymentByHash E hash pubkey v =
     delete_in_nodes E hash
       (if truthy_str pubkey then [the pubkey] else map node_pubkey (getLnds E (Some offchain) False v)) v"

record PayInvoiceResult =
  pir_roundedUpFee :: jsnum
  pir_revealedPreImage :: RevealedPreImage
  pir_sentFromPubkey :: Pubkey

definition pay_errors :: "lnd_err \<Rightarrow> error" where
  "pay_errors err =
     (if is_timeout err then LightningError LnPaymentPendingError else handleSendPaymentLndErrors err)"

definition payInvoiceViaRoutes ::
  "('v, 'x) lnd_env_scheme \<Rightarrow> PaymentHash \<Rightarrow> RawRoute \<Rightarrow> Pubkey option \<Rightarrow> ('v, PayInvoiceResult) act" where
  "payInvoiceViaRoutes E hash rawRoute pubkey =
     act_bind (getLndFromPubkey E pubkey) (\<lambda>lnd.
       act_bind (lnd_catch (with_timeout E (ln_payViaRoutes E lnd [rawRoute] hash)) pay_errors) (\<lambda>r.
         act_return \<lparr>pir_roundedUpFee = pay_safe_fee r, pir_revealedPreImage = pay_secret r,
                     pir_sentFromPubkey = the pubkey\<rparr>))"

definition payment_details :: "LnInvoice \<Rightarrow> Amount \<Rightarrow> Amount \<Rightarrow> PayViaPaymentDetailsArgs" where
  "payment_details decodedInvoice btc maxFeeAmount =
     \<lparr>pd_id = inv_paymentHash decodedInvoice, pd_destination = destination decodedInvoice,
      pd_mtokens = amount btc * 1000, pd_payment = Some (paymentSecret decodedInvoice),
      pd_max_fee = Number_of (amount maxFeeAmount),
      pd_cltv_delta = (if truthy_num (cltvDelta decodedInvoice) then cltvDelta decodedInvoice else None),
      pd_features = features decodedInvoice, pd_routes = routeHints decodedInvoice\<rparr>"

definition payInvoiceViaPaymentDetails ::
  "('v, 'x) lnd_env_scheme \<Rightarrow> LndParamsAuthed \<Rightarrow> LnInvoice \<Rightarrow> Amount \<Rightarrow> Amount \<Rightarrow> ('v, PayInvoiceResult) act" where
  "payInvoiceViaPaymentDetails E node decodedInvoice btc maxFeeAmount =
     act_bind (lnd_catch (with_timeout E (ln_payViaPaymentDetails E (node_lnd node)
                 (payment_details decodedInvoice btc maxFeeAmount))) pay_errors) (\<lambda>r.
       act_return \<lparr>pir_roundedUpFee = pay_safe_fee r, pir_revealedPreImage = pay_secret r,
                   pir_sentFromPubkey = node_pubkey node\<rparr>)"

section \<open>The on-chain service\<close>

definition OnChainService :: "('v, 'x) lnd_env_scheme \<Rightarrow> ('v, LndParamsAuthed) act" where
  "OnChainService E = getActiveOnchainLnd E"

definition onchain_listActivePubkeys :: "('v, 'x) lnd_env_scheme \<Rightarrow> 'v \<Rightarrow> Pubkey list" where
  "onchain_listActivePubkeys E v = map node_pubkey (getLnds E (Some onchain) True v)"

definition limit_here :: "string \<Rightarrow> bool" where
  "limit_here s =
     (starts_with '' [limit: '' s \<and>
      (let r = drop 9 s in takeWhile is_digit r \<noteq> [] \<and> starts_with '']'' (dropWhile is_digit r)))"

fun limit_after :: "string \<Rightarrow> bool" where
  "limit_after [] = False"
| "limit_after (c # cs) = (limit_here (c # cs) \<or> line_char c \<and> limit_after cs)"

definition too_long_chain :: string where
  "too_long_chain = ''unmatched backend error: -26: too-long-mempool-chain, too many ''"

fun CPFPAncestorLimitReached :: "string \<Rightarrow> bool" where
  "CPFPAncestorLimitReached [] = False"
| "CPFPAncestorLimitReached (c # cs) =
     (starts_with too_long_chain (c # cs) \<and> limit_after (drop (length too_long_chain) (c # cs))
      \<or> CPFPAncestorLimitReached cs)"

definition InsufficientFunds :: string where
  "InsufficientFunds = ''insufficient funds available to construct transaction''"

definition handleCommonOnChainServiceErrors :: "lnd_err \<Rightarrow> error" where
  "handleCommonOnChainServiceErrors err =
     OnChainError (if err_match err ConnectionDropped \<or> err_match err NoConnectionEstablished
                   then OnChainServiceUnavailableError else UnknownOnChainServiceError)"

definition onchain_getBalance :: "('v, 'x) lnd_env_scheme \<Rightarrow> LndParamsAuthed \<Rightarrow> Pubkey option \<Rightarrow> ('v, jsnum) act" where
  "onchain_getBalance E node pubkey =
     act_bind (lnd_or_default E node pubkey) (\<lambda>lnd.
       lnd_catch (ln_getChainBalance E lnd) (\<lambda>_. OnChainError OnChainServiceUnavailableError))"

definition getPendingBalance :: "('v, 'x) lnd_env_scheme \<Rightarrow> LndParamsAuthed \<Rightarrow> Pubkey option \<Rightarrow> ('v, jsnum) act" where
  "getPendingBalance E node pubkey =
     act_bind (lnd_or_default E node pubkey) (\<lambda>lnd.
       lnd_catch (ln_getPendingChainBalance E lnd) (\<lambda>_. OnChainError OnChainServiceUnavailableError))"

definition getCachedHeight :: "('v, 'x) lnd_env_scheme \<Rightarrow> ('v, jsnum) act" where
  "getCachedHeight E =
     act_bind (act_attempt (cache_get E ''bitcoin:blockHeight'')) (\<lambda>cachedHeight.
       act_return (case cachedHeight of Inl _ \<Rightarrow> Num 0 | Inr h \<Rightarrow> cached_number h))"

text \<open>
  The promise of the last call is returned without \<^verbatim>\<open>await\<close>: what it throws passes the
  \<^verbatim>\<open>catch\<close>.
\<close>

definition listTransactions ::
  "('v, 'x) lnd_env_scheme \<Rightarrow> LndParamsAuthed \<Rightarrow> jsnum \<Rightarrow> ('v, chain_transaction list) act" where
  "listTransactions E node scanDepth =
     act_bind (getCachedHeight E) (\<lambda>cachedHeight.
     act_bind (if js_truthy cachedHeight then act_return cachedHeight
         else act_bind (lnd_catch (ln_getWalletInfo E (node_lnd node)) handleCommonOnChainServiceErrors) (\<lambda>height.
              act_bind (act_attempt (cache_set E ''bitcoin:blockHeight'' (Cached_number height) SECS_PER_5_MINS))
                (\<lambda>_. act_return height))) (\<lambda>blockHeight.
       lnd_catch (ln_getChainTransactions E (node_lnd node) (js_max (Num 0) (js_sub blockHeight scanDepth)))
         (\<lambda>err. Thrown (case parseLndErrorDetails err of None \<Rightarrow> ''undefined'' | Some d \<Rightarrow> d))))"

definition extractTransactions ::
  "bool \<Rightarrow> (string \<Rightarrow> OnChainTransaction result) \<Rightarrow> chain_transaction list \<Rightarrow> IncomingOnChainTransaction list result" where
  "extractTransactions outgoing decode txs =
     map_result (\<lambda>tx. result_bind (decode (the (ct_transaction tx))) (\<lambda>raw.
         Inr \<lparr>confirmations = (case ct_confirmation_count tx of None \<Rightarrow> 0 | Some n \<Rightarrow> n), rawTx = raw,
              in_fee = (if truthy_num (ct_fee tx) then the (ct_fee tx) else Num 0), in_createdAt = ct_created_at tx\<rparr>))
       (filter (\<lambda>tx. ct_is_outgoing tx = outgoing \<and> truthy_str (ct_transaction tx)) txs)"

definition extractIncomingTransactions ::
  "(string \<Rightarrow> OnChainTransaction result) \<Rightarrow> chain_transaction list \<Rightarrow> IncomingOnChainTransaction list result" where
  "extractIncomingTransactions = extractTransactions False"

definition extractOutgoingTransactions ::
  "(string \<Rightarrow> OnChainTransaction result) \<Rightarrow> chain_transaction list \<Rightarrow> IncomingOnChainTransaction list result" where
  "extractOutgoingTransactions = extractTransactions True"

definition listIncomingTransactions ::
  "('v, 'x) lnd_env_scheme \<Rightarrow> (string \<Rightarrow> OnChainTransaction result) \<Rightarrow> LndParamsAuthed \<Rightarrow> jsnum
    \<Rightarrow> ('v, IncomingOnChainTransaction list) act" where
  "listIncomingTransactions E decode node scanDepth =
     act_bind (listTransactions E node scanDepth) (\<lambda>txs. act_result (extractIncomingTransactions decode txs))"

definition listOutgoingTransactions ::
  "('v, 'x) lnd_env_scheme \<Rightarrow> (string \<Rightarrow> OnChainTransaction result) \<Rightarrow> LndParamsAuthed \<Rightarrow> jsnum
    \<Rightarrow> ('v, IncomingOnChainTransaction list) act" where
  "listOutgoingTransactions E decode node scanDepth =
     act_bind (listTransactions E node scanDepth) (\<lambda>txs. act_result (extractOutgoingTransactions decode txs))"

definition createOnChainAddress :: "('v, 'x) lnd_env_scheme \<Rightarrow> LndParamsAuthed \<Rightarrow> ('v, OnChainAddressIdentifier) act" where
  "createOnChainAddress E node =
     act_bind (lnd_catch (ln_createChainAddress E (node_lnd node)) handleCommonOnChainServiceErrors) (\<lambda>address.
       act_return \<lparr>oca_pubkey = node_pubkey node, oca_address = address\<rparr>)"

definition lookupOnChainFee ::
  "('v, 'x) lnd_env_scheme \<Rightarrow> (string \<Rightarrow> OnChainTransaction result) \<Rightarrow> LndParamsAuthed \<Rightarrow> OnChainTxHash \<Rightarrow> jsnum
    \<Rightarrow> ('v, jsnum) act" where
  "lookupOnChainFee E decode node txHash scanDepth =
     act_bind (listOutgoingTransactions E decode node scanDepth) (\<lambda>onChainTxs.
       case find (\<lambda>tx. rawtx_hash (rawTx tx) = txHash) onChainTxs of
         None \<Rightarrow> act_fail (OnChainError CouldNotFindOnChainTransactionError)
       | Some tx \<Rightarrow> if js_truthy (in_fee tx) then act_return (in_fee tx)
                    else act_fail (OnChainError CouldNotFindOnChainTransactionError))"

definition getOnChainFeeEstimate ::
  "('v, 'x) lnd_env_scheme \<Rightarrow> LndParamsAuthed \<Rightarrow> jsnum \<Rightarrow> OnChainAddress \<Rightarrow> jsnum \<Rightarrow> ('v, jsnum) act" where
  "getOnChainFeeEstimate E node amt address targetConfirmations =
     lnd_catch (ln_getChainFeeEstimate E (node_lnd node) address amt targetConfirmations)
       (\<lambda>err. if details_match InsufficientFunds err then OnChainError InsufficientOnChainFundsError
              else handleCommonOnChainServiceErrors err)"

definition payToAddress ::
  "('v, 'x) lnd_env_scheme \<Rightarrow> LndParamsAuthed \<Rightarrow> jsnum \<Rightarrow> OnChainAddress \<Rightarrow> jsnum \<Rightarrow> string option
    \<Rightarrow> ('v, OnChainTxHash) act" where
  "payToAddress E node amt address targetConfirmations description =
     lnd_catch (ln_sendToChainAddress E (node_lnd node) address amt targetConfirmations description)
       (\<lambda>err. if details_match InsufficientFunds err then OnChainError InsufficientOnChainFundsError
              else if CPFPAncestorLimitReached (case parseLndErrorDetails err of None \<Rightarrow> ''undefined'' | Some d \<Rightarrow> d)
              then OnChainError CPFPAncestorLimitReachedError
              else handleCommonOnChainServiceErrors err)"

section \<open>A node with fixed answers\<close>

definition no_invoice :: lnd_err where
  "no_invoice = \<lparr>le_message = None, le_details = Some (known_details InvoiceNotFound), le_failure = None,
     le_type = Some ''UnexpectedLookupInvoiceErr''\<rparr>"

definition no_payment :: lnd_err where
  "no_payment = \<lparr>le_message = None, le_details = None, le_failure = None, le_type = Some (known_details SentPaymentNotFound)\<rparr>"

definition dropped :: lnd_err where
  "dropped = \<lparr>le_message = None, le_details = Some (known_details ConnectionDropped), le_failure = None, le_type = None\<rparr>"

definition test_node :: LndParamsAuthed where
  "test_node = \<lparr>node_lnd = ''lnd'', node_pubkey = ''node'', node_type = [offchain, onchain], node_active = True\<rparr>"

definition test_lnd ::
  "(PaymentHash \<Rightarrow> GetInvoiceResult option) \<Rightarrow> (PaymentHash \<Rightarrow> GetPaymentResult option) \<Rightarrow> lnd_err + PayResult
    \<Rightarrow> mem_world lnd_env" where
  "test_lnd invoices payments pay = account_env.extend mem_env
     (lnd_env.fields (\<lambda>_. [test_node]) (\<lambda>_. False) (\<lambda>_. Inr sample_request)
        (\<lambda>_ v. (Inr \<lparr>channel_balance = Num 0, inbound = None, pending_balance = Num 0\<rparr>, v))
        (\<lambda>_ v. (Inr [], v)) (\<lambda>_ _ v. (Inr None, v)) (\<lambda>_ _ v. (Inr ''request'', v))
        (\<lambda>_ h v. (case invoices h of None \<Rightarrow> Inl no_invoice | Some i \<Rightarrow> Inr i, v))
        (\<lambda>_ h v. (case payments h of None \<Rightarrow> Inl no_payment | Some p \<Rightarrow> Inr p, v))
        (\<lambda>_ _ v. (Inr ([], None), v)) (\<lambda>_ _ v. (Inr ([], None), v)) (\<lambda>_ _ v. (Inr ([], None), v))
        (\<lambda>_ token v. (Inr ([], if token = None then Some ''2'' else None), v))
        (\<lambda>_ _ v. (Inr (), v)) (\<lambda>_ _ v. (Inr (), v)) (\<lambda>_ _ v. (Inr (), v))
        (\<lambda>_ _ _ v. (pay, v)) (\<lambda>_ _ v. (pay, v)) (\<lambda>_ v. (Inr (Num 700000), v)) (\<lambda>_ v. (Inr [''c1''], v))
        (\<lambda>_ v. (Inr (Num 0), v)) (\<lambda>_ v. (Inr (Num 0), v)) (\<lambda>_ _ v. (Inl dropped, v))
        (\<lambda>_ v. (Inr ''address'', v)) (\<lambda>_ _ _ _ v. (Inr (Num 1), v)) (\<lambda>_ _ _ _ _ v. (Inr ''tx'', v))
        (\<lambda>_ v. (Inr None, v)) (\<lambda>_ _ _ v. (Inr True, v)) (\<lambda>_ v. (Inr 0, v)))"

definition expired_pending :: GetPaymentResult where
  "expired_pending =
     \<lparr>gpr_is_confirmed = False, gpr_is_failed = False, gpr_payment = None,
      gpr_pending = Some \<lparr>pp_id = ''h'', pp_created_at = 0, pp_request = None, pp_mtokens = ''1000'', pp_safe_tokens = Num 1,
        pp_timeout = Some (Num 600000), pp_paths = [[''c1'', ''c2'']]\<rparr>\<rparr>"

section \<open>Listings\<close>

text \<open>The pages that a listing visits, from a token on.\<close>

inductive visits ::
  "(string option \<Rightarrow> ('v, 'a list \<times> string option) lnd_call) \<Rightarrow> string option \<Rightarrow> 'v \<Rightarrow> 'a list list \<Rightarrow> 'v \<Rightarrow> bool"
  for getPage where
  last: "getPage (str_or_undefined after) v = (Inr (xs, next), v') \<Longrightarrow> \<not> truthy_str next \<Longrightarrow> visits getPage after v [xs] v'"
| more: "getPage (str_or_undefined after) v = (Inr (xs, next), w) \<Longrightarrow> truthy_str next \<Longrightarrow> visits getPage next w xss v'
         \<Longrightarrow> visits getPage after v (xs # xss) v'"

text \<open>The tokens of a node lead to the end: each one is nearer to it than the one before.\<close>

locale paged =
  fixes getPage :: "string option \<Rightarrow> ('v, 'a list \<times> string option) lnd_call" and left :: "string option \<Rightarrow> nat"
  assumes nearer: "getPage (str_or_undefined after) v = (Inr (xs, next), v') \<Longrightarrow> truthy_str next \<Longrightarrow> left next < left after"
begin

lemma list_pages_returns:
  "\<exists>r v'. list_pages getPage after acc v = Some (r, v')
     \<and> (\<forall>ys. r = Inr ys \<longrightarrow> (\<exists>xss. visits getPage after v xss v' \<and> ys = acc @ concat xss))"
proof (induction "left after" arbitrary: after acc v rule: less_induct)
  case less
  obtain r w where rw: "getPage (str_or_undefined after) v = (r, w)" by fastforce
  show ?case
  proof (cases r)
    case (Inl err)
    with rw show ?thesis by (subst list_pages.simps) simp
  next
    case (Inr p)
    obtain xs "next" where p: "p = (xs, next)" by fastforce
    note page = rw [unfolded Inr p]
    show ?thesis
    proof (cases "truthy_str next")
      case True
      obtain r' v' where r': "list_pages getPage next (acc @ xs) w = Some (r', v')"
        "\<forall>ys. r' = Inr ys \<longrightarrow> (\<exists>xss. visits getPage next w xss v' \<and> ys = (acc @ xs) @ concat xss)"
        using less nearer [OF page True] by blast
      have "list_pages getPage after acc v = Some (r', v')"
        using page True r'(1) by (subst list_pages.simps) simp
      moreover have "\<exists>xss. visits getPage after v xss v' \<and> ys = acc @ concat xss" if ok: "r' = Inr ys" for ys
      proof -
        obtain xss where "visits getPage next w xss v'" "ys = acc @ concat (xs # xss)"
          using ok r'(2) by auto
        then show ?thesis using visits.more [where getPage = getPage and after = after, OF page True] by blast
      qed
      ultimately show ?thesis by blast
    next
      case False
      then have "list_pages getPage after acc v = Some (Inr (acc @ concat [xs]), w)"
        using page by (subst list_pages.simps) simp
      then show ?thesis using visits.last [where getPage = getPage and after = after, OF page False] by blast
    qed
  qed
qed

end

text \<open>The fixed node has two pages of invoices.\<close>

lemma test_lnd_sel [simp]:
  "lnd_params (test_lnd invoices payments pay) v = [test_node]"
  "ln_getInvoices (test_lnd invoices payments pay) lnd t v = (Inr ([], if t = None then Some ''2'' else None), v)"
  "ln_getPayment (test_lnd invoices payments pay) lnd h v = (case payments h of None \<Rightarrow> Inl no_payment | Some p \<Rightarrow> Inr p, v)"
  "ln_getInvoice (test_lnd invoices payments pay) lnd h v = (case invoices h of None \<Rightarrow> Inl no_invoice | Some i \<Rightarrow> Inr i, v)"
  "ln_getWalletInfo (test_lnd invoices payments pay) lnd v = (Inr (Num 700000), v)"
  "ln_getClosedChannels (test_lnd invoices payments pay) lnd v = (Inr [''c1''], v)"
  "ln_getChainTransactions (test_lnd invoices payments pay) lnd a v = (Inl dropped, v)"
  "nc_get (test_lnd invoices payments pay) k v = (Inr None, v)"
  "nc_set (test_lnd invoices payments pay) k x n v = (Inr True, v)"
  "ln_settleHodlInvoice (test_lnd invoices payments pay) lnd s v = (Inr (), v)"
  "ln_cancelHodlInvoice (test_lnd invoices payments pay) lnd h v = (Inr (), v)"
  "ln_payViaPaymentDetails (test_lnd invoices payments pay) lnd d v = (pay, v)"
  "timer_fired (test_lnd invoices payments pay) v = False"
  by (simp_all add: test_lnd_def lnd_env.defs account_env.defs)

interpretation test_pages: paged "ln_getInvoices (test_lnd invoices payments pay) lnd" "\<lambda>t. if truthy_str t then 0 else 1"
proof
  show "(if truthy_str next then 0 else 1) < (if truthy_str after then 0 else (1 :: nat))"
    if "ln_getInvoices (test_lnd invoices payments pay) lnd (str_or_undefined after) v = (Inr (xs, next), v')" "truthy_str next"
    for after v xs "next" v'
    using that by (cases "truthy_str after") (auto simp: str_or_undefined_def split: if_splits)
qed

section \<open>Payments that failed\<close>

definition closed_known :: "('v, 'x) lnd_env_scheme \<Rightarrow> string \<Rightarrow> string list \<Rightarrow> bool" where
  "closed_known E lnd channels =
     ((\<exists>v v'. ln_getClosedChannels E lnd v = (Inr channels, v'))
      \<or> (\<exists>v x v'. nc_get E ''lnd:closedChannels'' v = (Inr (Some x), v') \<and> cached_channels x = channels))"

definition height_known :: "('v, 'x) lnd_env_scheme \<Rightarrow> string \<Rightarrow> jsnum \<Rightarrow> bool" where
  "height_known E lnd height =
     ((\<exists>v v'. ln_getWalletInfo E lnd v = (Inr height, v'))
      \<or> (\<exists>v x v'. nc_get E ''bitcoin:blockHeight'' v = (Inr (Some x), v') \<and> cached_number x = height))"

lemma cache_getOrSet_cases:
  assumes "cache_getOrSet E key ttl m v = (Inr x, v')"
  shows "(\<exists>w w'. nc_get E key w = (Inr (Some x), w')) \<or> (\<exists>w w'. m w = (Inr x, w'))"
proof -
  obtain a w where aw: "nc_get E key v = (a, w)" by fastforce
  show ?thesis
  proof (cases a)
    case (Inl e)
    then show ?thesis
      using assms aw
      by (auto simp: cache_getOrSet_def cache_get_def act_bind_def act_attempt_def act_try_def act_call_def act_return_def
          split: sum.splits prod.splits)
  next
    case (Inr y)
    then show ?thesis
      using assms aw
      by (cases y) (auto simp: cache_getOrSet_def cache_get_def act_bind_def act_attempt_def act_try_def act_call_def
          act_return_def act_fail_def split: sum.splits prod.splits)
  qed
qed

lemma lnd_catch_eq_Inr: "lnd_catch c h v = (Inr x, v') \<longleftrightarrow> c v = (Inr x, v')"
  by (auto simp: lnd_catch_def split: sum.splits prod.splits)

lemma resolved_failed:
  assumes "resolvePaymentStatus E h lnd result v = (Inr PS_Failed, v')"
  shows "\<not> gpr_is_confirmed result \<and> (gpr_is_failed result \<or>
    (\<exists>p t height channels. gpr_pending result = Some p \<and> payment_timeout result = Some t
       \<and> height_known E lnd height \<and> js_less t height \<and> closed_known E lnd channels
       \<and> list_all (\<lambda>hops. hd hops \<in> set channels) (pp_paths p)))"
proof (cases "gpr_is_confirmed result \<or> gpr_is_failed result")
  case True
  then show ?thesis
    using assms by (auto simp: resolvePaymentStatus_def act_return_def split: if_splits)
next
  case False
  then obtain height w p t where hw: "gpr_pending result = Some p" "payment_timeout result = Some t"
      "js_less t (cached_number height)"
    and height: "\<exists>w. cache_getOrSet E ''bitcoin:blockHeight'' SECS_PER_5_MINS
         (act_bind (lnd_catch (ln_getWalletInfo E lnd) h) (\<lambda>n. act_return (Cached_number n))) v = (Inr height, w)"
    and closed: "closed_channels_status E h lnd p w = (Inr PS_Failed, v')"
    using assms
    by (cases "payment_timeout result")
      (auto simp: resolvePaymentStatus_def act_bind_eq_Inr Let_def truthy_num_def split: option.splits if_splits)
  then obtain x u u' where x: "cache_getOrSet E ''lnd:closedChannels'' SECS_PER_5_MINS
         (act_bind (lnd_catch (ln_getClosedChannels E lnd) h) (\<lambda>cs. act_return (Cached_channels cs))) u = (Inr x, u')"
      "list_all (\<lambda>hops. list_ex (\<lambda>c. c = hd hops) (cached_channels x)) (pp_paths p)"
    by (auto simp: closed_channels_status_def act_bind_eq_Inr act_return_def act_fail_def split: if_splits)
  obtain w where "cache_getOrSet E ''bitcoin:blockHeight'' SECS_PER_5_MINS
      (act_bind (lnd_catch (ln_getWalletInfo E lnd) h) (\<lambda>n. act_return (Cached_number n))) v = (Inr height, w)"
    using height by blast
  from cache_getOrSet_cases [OF this] have "height_known E lnd (cached_number height)"
  proof (elim disjE exE)
    fix w w' assume "act_bind (lnd_catch (ln_getWalletInfo E lnd) h) (\<lambda>n. act_return (Cached_number n)) w = (Inr height, w')"
    then show ?thesis
      by (auto simp: height_known_def act_bind_eq_Inr lnd_catch_eq_Inr act_return_def cached_number_def)
  qed (unfold height_known_def, blast)
  moreover have "closed_known E lnd (cached_channels x)"
    using cache_getOrSet_cases [OF x(1)]
  proof (elim disjE exE)
    fix w w' assume "act_bind (lnd_catch (ln_getClosedChannels E lnd) h) (\<lambda>cs. act_return (Cached_channels cs)) w = (Inr x, w')"
    then show ?thesis
      by (auto simp: closed_known_def act_bind_eq_Inr lnd_catch_eq_Inr act_return_def cached_channels_def)
  qed (unfold closed_known_def, blast)
  moreover have "list_all (\<lambda>hops. hd hops \<in> set (cached_channels x)) (pp_paths p)"
    using x(2) by (simp add: list_ex_iff)
  ultimately show ?thesis using False hw by blast
qed

lemma getLndFromPubkey_Inr:
  "getLndFromPubkey E (Some pubkey) v = (Inr lnd, v') \<Longrightarrow>
     v' = v \<and> (\<exists>node \<in> set (getLnds E None True v). node_pubkey node = pubkey \<and> node_lnd node = lnd)"
  by (auto simp: getLndFromPubkey_def find_Some_iff split: option.splits)

section \<open>Properties\<close>

text \<open>
  (C22) The listing of a node's invoices ends: when every token of the node is nearer to the end of the list
  than the one before, the loop returns, and when no page fails it returns the invoices of all the pages it
  visited, in order, each once.
\<close>

theorem listInvoices_returns:
  assumes "paged (ln_getInvoices E lnd) left"
  shows "\<exists>r v'. listInvoices E lnd v = Some (r, v') \<and>
    (\<forall>ls. r = Inr ls \<longrightarrow>
       (\<exists>xss. visits (ln_getInvoices E lnd) None v xss v' \<and> ls = map translateLnInvoiceLookup (concat xss)))"
proof -
  obtain r v' where r: "list_pages (ln_getInvoices E lnd) None [] v = Some (r, v')"
    "\<forall>ys. r = Inr ys \<longrightarrow> (\<exists>xss. visits (ln_getInvoices E lnd) None v xss v' \<and> ys = [] @ concat xss)"
    using paged.list_pages_returns [OF assms] by blast
  then show ?thesis by (cases r) (auto simp: listInvoices_def)
qed

theorem listInvoices_returns_witness:
  "\<exists>r v'. listInvoices (test_lnd (\<lambda>_. None) (\<lambda>_. None) (Inl dropped)) ''lnd'' empty_world = Some (r, v')"
  using listInvoices_returns [OF test_pages.paged_axioms] by blast

text \<open>
  (C21) A payment is reported as failed only for a reason. A lookup that answers that a payment failed has the
  answer of an active node with that key, which does not say that the payment is confirmed, and the node says
  that it failed, or the payment is pending, its timeout is below the block height and each of its paths begins
  with a channel that the node, or the cache of an earlier answer, listed as closed.
\<close>

theorem lookup_failed_justified:
  assumes "lookupPaymentByPubkeyAndHash E pubkey hash v = (Inr p, v')"
    and "p = FailedPartial \<or> (\<exists>l. p = Payment_lookup l \<and> pl_status l = PS_Failed)"
  shows "\<exists>node result v1. node \<in> set (getLnds E None True v) \<and> node_pubkey node = pubkey
    \<and> ln_getPayment E (node_lnd node) hash v = (Inr result, v1) \<and> \<not> gpr_is_confirmed result
    \<and> (gpr_is_failed result \<or>
       (\<exists>pending t height channels. gpr_pending result = Some pending \<and> js_less t height
          \<and> payment_timeout result = Some t \<and> height_known E (node_lnd node) height
          \<and> closed_known E (node_lnd node) channels
          \<and> list_all (\<lambda>hops. hd hops \<in> set channels) (pp_paths pending)))"
proof -
  obtain lnd result v1 status v2 where l: "getLndFromPubkey E (Some pubkey) v = (Inr lnd, v)"
    "ln_getPayment E lnd hash v = (Inr result, v1)"
    "resolvePaymentStatus E lookup_errors lnd result v1 = (Inr status, v2)" "status = PS_Failed"
    using assms
    by (auto simp: lookupPaymentByPubkeyAndHash_def act_try_eq_Inr act_bind_eq_Inr lnd_catch_eq_Inr act_return_def
        act_fail_def dest: getLndFromPubkey_Inr split: option.splits if_splits)
  obtain node where "node \<in> set (getLnds E None True v)" "node_pubkey node = pubkey" "node_lnd node = lnd"
    using getLndFromPubkey_Inr [OF l(1)] by blast
  then show ?thesis
    using l(2) resolved_failed [OF l(3) [unfolded l(4)]] by blast
qed

theorem lookup_failed_justified_witness:
  "\<exists>node result v1. node \<in> set (getLnds (test_lnd (\<lambda>_. None) (\<lambda>_. Some expired_pending) (Inl dropped)) None True empty_world)
     \<and> ln_getPayment (test_lnd (\<lambda>_. None) (\<lambda>_. Some expired_pending) (Inl dropped)) (node_lnd node) ''h'' empty_world
         = (Inr result, v1) \<and> \<not> gpr_is_confirmed result"
proof -
  define E where "E = test_lnd (\<lambda>_. None) (\<lambda>_. Some expired_pending) (Inl dropped)"
  obtain l where "lookupPaymentByPubkeyAndHash E ''node'' ''h'' empty_world = (Inr (Payment_lookup l), empty_world)"
    "pl_status l = PS_Failed"
    by (simp add: lookupPaymentByPubkeyAndHash_def E_def getLndFromPubkey_def getLnds_def test_node_def lnd_catch_def
        resolvePaymentStatus_def payment_timeout_def closed_channels_status_def expired_pending_def cache_getOrSet_def cache_get_def cache_set_def
        act_try_def act_bind_def act_call_def act_attempt_def act_return_def act_fail_def cached_number_def
        cached_channels_def truthy_num_def)
  then show ?thesis
    using lookup_failed_justified [of E "''node''" "''h''" empty_world] unfolding E_def by blast
qed

text \<open>
  (C23) An error of the node can escape the on-chain service as an exception. When the block height is known to the
  cache and the node answers the request for its transactions with an error, the listing of transactions throws,
  although the same error would be returned as a service error had it come from the request for the height.
\<close>

theorem chain_listing_throws:
  assumes "nc_get E ''bitcoin:blockHeight'' v = (Inr c, v1)"
  shows "(\<forall>h err v2. c = Some (Cached_number h) \<longrightarrow> js_truthy h \<longrightarrow>
      ln_getChainTransactions E (node_lnd node) (js_max (Num 0) (js_sub h scanDepth)) v1 = (Inl err, v2) \<longrightarrow>
      (\<exists>msg. listIncomingTransactions E decode node scanDepth v = (Inl (Thrown msg), v2)))
   \<and> (\<forall>err v2. c = None \<longrightarrow> ln_getWalletInfo E (node_lnd node) v1 = (Inl err, v2) \<longrightarrow>
      (\<exists>e. listIncomingTransactions E decode node scanDepth v = (Inl (OnChainError e), v2)))"
proof (intro conjI allI impI)
  show "\<exists>msg. listIncomingTransactions E decode node scanDepth v = (Inl (Thrown msg), v2)"
    if "c = Some (Cached_number h)" "js_truthy h"
      "ln_getChainTransactions E (node_lnd node) (js_max (Num 0) (js_sub h scanDepth)) v1 = (Inl err, v2)" for h err v2
    using that assms
    by (simp add: listIncomingTransactions_def listTransactions_def getCachedHeight_def cache_get_def act_bind_def
        act_attempt_def act_try_def act_call_def act_return_def cached_number_def lnd_catch_def)
  show "\<exists>e. listIncomingTransactions E decode node scanDepth v = (Inl (OnChainError e), v2)"
    if "c = None" "ln_getWalletInfo E (node_lnd node) v1 = (Inl err, v2)" for err v2
    using that assms
    by (simp add: listIncomingTransactions_def listTransactions_def getCachedHeight_def cache_get_def act_bind_def
        act_attempt_def act_try_def act_call_def act_return_def act_fail_def lnd_catch_def handleCommonOnChainServiceErrors_def)
qed

theorem chain_listing_throws_witness:
  "\<exists>msg. listIncomingTransactions (test_lnd (\<lambda>_. None) (\<lambda>_. None) (Inl dropped)
       \<lparr>nc_get := \<lambda>_ v. (Inr (Some (Cached_number (Num 700000))), v)\<rparr>) (\<lambda>_. Inl PlainError) test_node (Num 10) empty_world
     = (Inl (Thrown msg), empty_world)"
  using chain_listing_throws [of "test_lnd (\<lambda>_. None) (\<lambda>_. None) (Inl dropped)
       \<lparr>nc_get := \<lambda>_ v. (Inr (Some (Cached_number (Num 700000))), v)\<rparr>" empty_world "Some (Cached_number (Num 700000))" empty_world
       test_node "Num 10" "\<lambda>_. Inl PlainError"]
  by (simp add: test_lnd_def lnd_env.defs account_env.defs)

end
