(* ===== verification/App_Env.thy ===== *)
theory App_Env
  imports Lnd_Client
begin

text \<open>
  What the application functions of \<^verbatim>\<open>app/\<close> act on and the services they share: the state, made
  of the ledger and the rest of the world, prices (\<^verbatim>\<open>services/price\<close>, \<^verbatim>\<open>app/prices\<close>),
  the quotes of the dealer (\<^verbatim>\<open>services/dealer-price\<close>) and locks (\<^verbatim>\<open>services/lock\<close>). The
  grpc clients and \<^verbatim>\<open>redlock\<close> are parameters: functions of \<open>app_env\<close>, which also has the values of
  the configuration.
\<close>

section \<open>State\<close>

text \<open>
  The ledger is changed through the ledger services only; invoices, accounts, lightning nodes, caches and the
  clock are the world of the repositories and clients.
\<close>

record ('w, 'v) app_state =
  app_ledger :: "'w ledger_state"
  app_world :: 'v

definition in_ledger :: "('w ledger_state, 'a) act \<Rightarrow> (('w, 'v) app_state, 'a) act" where
  "in_ledger m s = (case m (app_ledger s) of (r, l) \<Rightarrow> (r, s\<lparr>app_ledger := l\<rparr>))"

definition in_db :: "('w, 'a) act \<Rightarrow> (('w, 'v) app_state, 'a) act" where
  "in_db m = in_ledger (on_db m)"

definition in_world :: "('v, 'a) act \<Rightarrow> (('w, 'v) app_state, 'a) act" where
  "in_world m s = (case m (app_world s) of (r, v) \<Rightarrow> (r, s\<lparr>app_world := v\<rparr>))"

section \<open>Parameters\<close>

datatype quote = ImmediateBuy | ImmediateSell | FutureBuy | FutureSell

record dealer_err =
  de_details :: "string option"
  de_message :: string

text \<open>Acquiring a lock succeeds, fails after the attempts (\<^verbatim>\<open>ExecutionError\<close>) or fails otherwise.\<close>

datatype lock_attempt = Lock_done | Lock_attempts | Lock_error

text \<open>
  The answers of the dealer depend on the moment. Acquiring a lock takes time, in which others run: it may change
  the whole state.
\<close>

record ('w, 'v) app_env = "'v lnd_env" +
  price_getPrice :: "('v, jsnum) call"
  price_listPrices :: "string \<Rightarrow> ('v, (jsnum \<times> jsnum) list) call"
  dealer_centsFromSats :: "quote \<Rightarrow> jsnum \<Rightarrow> int option \<Rightarrow> 'v \<Rightarrow> dealer_err + jsnum"
  dealer_satsFromCents :: "quote \<Rightarrow> jsnum \<Rightarrow> int option \<Rightarrow> 'v \<Rightarrow> dealer_err + jsnum"
  dealer_midRate :: "'v \<Rightarrow> dealer_err + jsnum"
  lock_acquire :: "string \<Rightarrow> ('w, 'v) app_state \<Rightarrow> lock_attempt \<times> ('w, 'v) app_state"
  lock_release :: "string \<Rightarrow> ('w, 'v) app_state \<Rightarrow> lock_attempt \<times> ('w, 'v) app_state"
  lock_aborted :: "string \<Rightarrow> ('w, 'v) app_state \<Rightarrow> bool"
  conf_hedgingEnabled :: bool
  conf_precision :: jsnum
  conf_limits :: limits_config
  conf_pubkeysToSkipProbe :: "Pubkey list"

section \<open>Prices\<close>

definition SATS_PER_BTC :: jsnum where
  "SATS_PER_BTC = Num 100000000"

definition getRealTimePrice :: "('w, 'v, 'x) app_env_scheme \<Rightarrow> ('v, jsnum) act" where
  "getRealTimePrice E =
     act_try (act_bind (act_call (price_getPrice E)) (\<lambda>price.
         if js_less (Num 0) price then act_return (js_div price SATS_PER_BTC)
         else act_fail (PriceServiceError PriceNotAvailableError)))
       (\<lambda>_. PriceServiceError UnknownPriceServiceError)"

text \<open>A tick is the moment, in milliseconds, and the price.\<close>

definition listHistory :: "('w, 'v, 'x) app_env_scheme \<Rightarrow> string \<Rightarrow> ('v, (jsnum \<times> jsnum) list) act" where
  "listHistory E period =
     act_try (act_bind (act_call (price_listPrices E period)) (\<lambda>priceHistory.
         act_return (map (\<lambda>(timestamp, price). (js_mul timestamp (Num 1000), js_div price SATS_PER_BTC)) priceHistory)))
       (\<lambda>_. PriceServiceError UnknownPriceServiceError)"

definition getCachedPrice :: "('w, 'v, 'x) app_env_scheme \<Rightarrow> ('v, jsnum) act" where
  "getCachedPrice E =
     act_bind (act_attempt (cache_get E ''price:current'')) (\<lambda>cachedPrice.
       case cachedPrice of
         Inl _ \<Rightarrow> act_fail (PriceServiceError PriceNotAvailableError)
       | Inr x \<Rightarrow> act_return (cached_number x))"

definition getCurrentPrice :: "('w, 'v, 'x) app_env_scheme \<Rightarrow> ('v, jsnum) act" where
  "getCurrentPrice E =
     act_bind (act_attempt (getRealTimePrice E)) (\<lambda>realtimePrice.
       case realtimePrice of
         Inl _ \<Rightarrow> getCachedPrice E
       | Inr price \<Rightarrow>
           act_bind (act_attempt (cache_set E ''price:current'' (Cached_number price) 600)) (\<lambda>_. act_return price))"

definition getPriceHistory ::
  "('w, 'v, 'x) app_env_scheme \<Rightarrow> string \<Rightarrow> string \<Rightarrow> ('v, (jsnum \<times> jsnum) list) act" where
  "getPriceHistory E period interval =
     (let cacheKey = ''price:history:'' @ period @ ''-'' @ interval
      in act_bind (act_attempt (cache_get E cacheKey)) (\<lambda>cachedPriceHistory.
           case cachedPriceHistory of
             Inr x \<Rightarrow> act_return (case x of Cached_ticks ts \<Rightarrow> ts | _ \<Rightarrow> [])
           | Inl _ \<Rightarrow>
               act_bind (listHistory E period) (\<lambda>priceHistory.
                 if priceHistory \<noteq> []
                 then act_bind (act_attempt (cache_set E cacheKey (Cached_ticks priceHistory) 300))
                        (\<lambda>_. act_return priceHistory)
                 else act_fail (PriceServiceError PriceHistoryNotAvailableError))))"

section \<open>The dealer\<close>

definition parseDealerErrors :: "dealer_err \<Rightarrow> error" where
  "parseDealerErrors err =
     DealerPriceServiceError
       (if de_details err = Some ''No connection established'' then NoConnectionToDealerError
        else if str_includes ''StalePrice'' (de_message err) then DealerStalePriceError
        else UnknownDealerPriceServiceError)"

definition defaultTimeToExpiryInSeconds :: int where
  "defaultTimeToExpiryInSeconds = SECS_PER_5_MINS"

definition quote_time :: "quote \<Rightarrow> int \<Rightarrow> int option" where
  "quote_time q time = (if q = FutureBuy \<or> q = FutureSell then Some time else None)"

definition dealer_result :: "dealer_err + jsnum \<Rightarrow> jsnum result" where
  "dealer_result r = (case r of Inl err \<Rightarrow> Inl (parseDealerErrors err) | Inr x \<Rightarrow> Inr x)"

text \<open>
  The eight quotes of the older service, \<^verbatim>\<open>getCentsFromSatsForImmediateBuy\<close> to
  \<^verbatim>\<open>getSatsFromCentsForFutureSell\<close>, which ask for a number, and the ones of the newer service, which ask
  for an amount.
\<close>

definition getCentsFromSats :: "('w, 'v, 'x) app_env_scheme \<Rightarrow> quote \<Rightarrow> jsnum \<Rightarrow> int \<Rightarrow> 'v \<Rightarrow> jsnum result" where
  "getCentsFromSats E q sats time v = dealer_result (dealer_centsFromSats E q sats (quote_time q time) v)"

definition getSatsFromCents :: "('w, 'v, 'x) app_env_scheme \<Rightarrow> quote \<Rightarrow> jsnum \<Rightarrow> int \<Rightarrow> 'v \<Rightarrow> jsnum result" where
  "getSatsFromCents E q cents time v = dealer_result (dealer_satsFromCents E q cents (quote_time q time) v)"

definition getCentsPerSatsExchangeMidRate :: "('w, 'v, 'x) app_env_scheme \<Rightarrow> 'v \<Rightarrow> jsnum result" where
  "getCentsPerSatsExchangeMidRate E v = dealer_result (dealer_midRate E v)"

definition new_getCentsFromSats :: "('w, 'v, 'x) app_env_scheme \<Rightarrow> quote \<Rightarrow> 'v \<Rightarrow> Amount \<Rightarrow> Amount result" where
  "new_getCentsFromSats E q v btc =
     result_bind (getCentsFromSats E q (Number_of (amount btc)) defaultTimeToExpiryInSeconds v)
       (\<lambda>cents. paymentAmountFromNumber cents Usd)"

definition new_getSatsFromCents :: "('w, 'v, 'x) app_env_scheme \<Rightarrow> quote \<Rightarrow> 'v \<Rightarrow> Amount \<Rightarrow> Amount result" where
  "new_getSatsFromCents E q v usd =
     result_bind (getSatsFromCents E q (Number_of (amount usd)) defaultTimeToExpiryInSeconds v)
       (\<lambda>sats. paymentAmountFromNumber sats Btc)"

text \<open>A rate that is no number makes \<^verbatim>\<open>toPriceRatio\<close> throw, inside the \<^verbatim>\<open>try\<close>.\<close>

definition new_getCentsPerSatsExchangeMidRate :: "('w, 'v, 'x) app_env_scheme \<Rightarrow> 'v \<Rightarrow> price_ratio result" where
  "new_getCentsPerSatsExchangeMidRate E v =
     result_bind (getCentsPerSatsExchangeMidRate E v) (\<lambda>r.
       case toPriceRatio (conf_precision E) r of
         Inl (Thrown m) \<Rightarrow> Inl (parseDealerErrors \<lparr>de_details = None, de_message = m\<rparr>)
       | ratio \<Rightarrow> ratio)"

definition dealer_fns :: "('w, 'v, 'x) app_env_scheme \<Rightarrow> quote \<Rightarrow> 'v \<Rightarrow> ConversionFns" where
  "dealer_fns E q v = \<lparr>usdFromBtc = new_getCentsFromSats E q v, btcFromUsd = new_getSatsFromCents E q v\<rparr>"

text \<open>The mid price at a moment; the current price that a conversion leaves in the cache is not kept.\<close>

definition mid_ratio :: "('w, 'v, 'x) app_env_scheme \<Rightarrow> 'v \<Rightarrow> price_ratio result" where
  "mid_ratio E v =
     getMidPriceRatio (conf_precision E) (conf_hedgingEnabled E) (new_getCentsPerSatsExchangeMidRate E v)
       (fst (getCurrentPrice E v))"

definition mid_fns :: "('w, 'v, 'x) app_env_scheme \<Rightarrow> 'v \<Rightarrow> ConversionFns" where
  "mid_fns E v = \<lparr>usdFromBtc = usdFromBtcMidPriceFn (mid_ratio E v), btcFromUsd = btcFromUsdMidPriceFn (mid_ratio E v)\<rparr>"

section \<open>Locks\<close>

definition getWalletLockResource :: "WalletId \<Rightarrow> string" where
  "getWalletLockResource path = ''locks:wallet:'' @ path"

definition getPaymentHashLockResource :: "PaymentHash \<Rightarrow> string" where
  "getPaymentHashLockResource path = ''locks:paymenthash:'' @ path"

definition getOnChainTxHashLockResource :: "OnChainTxHash \<Rightarrow> string" where
  "getOnChainTxHashLockResource path = ''locks:onchaintxhash:'' @ path"

definition lock_errors :: "lock_attempt \<Rightarrow> error" where
  "lock_errors e =
     LockError (if e = Lock_attempts then ResourceAttemptsLockServiceError else UnknownLockServiceError)"

text \<open>
  The function runs between acquiring and releasing the lock; what it throws, and an error of the release, become
  lock errors. The signal is the path of the lock that is held.
\<close>

definition redlock ::
  "('w, 'v, 'x) app_env_scheme \<Rightarrow> string \<Rightarrow> string option \<Rightarrow> (string \<Rightarrow> (('w, 'v) app_state, 'a) act)
    \<Rightarrow> (('w, 'v) app_state, 'a) act" where
  "redlock E path signal asyncFn s =
     (case signal of
        Some held \<Rightarrow>
          if lock_aborted E held s then (Inl (LockError ResourceExpiredLockServiceError), s) else asyncFn held s
      | None \<Rightarrow>
          (case lock_acquire E path s of
             (Lock_done, s1) \<Rightarrow>
               (case asyncFn path s1 of
                  (r, s2) \<Rightarrow>
                    (case lock_release E path s2 of
                       (Lock_done, s3) \<Rightarrow>
                         (case r of Inl (Thrown m) \<Rightarrow> Inl (LockError UnknownLockServiceError) | _ \<Rightarrow> r, s3)
                     | (e, s3) \<Rightarrow> (Inl (lock_errors e), s3)))
           | (e, s1) \<Rightarrow> (Inl (lock_errors e), s1)))"

definition lockWalletId ::
  "('w, 'v, 'x) app_env_scheme \<Rightarrow> WalletId \<Rightarrow> (string \<Rightarrow> (('w, 'v) app_state, 'a) act) \<Rightarrow> (('w, 'v) app_state, 'a) act" where
  "lockWalletId E walletId asyncFn = redlock E (getWalletLockResource walletId) None asyncFn"

definition lockPaymentHash ::
  "('w, 'v, 'x) app_env_scheme \<Rightarrow> PaymentHash \<Rightarrow> (string \<Rightarrow> (('w, 'v) app_state, 'a) act) \<Rightarrow> (('w, 'v) app_state, 'a) act" where
  "lockPaymentHash E hash asyncFn = redlock E (getPaymentHashLockResource hash) None asyncFn"

definition lockOnChainTxHash ::
  "('w, 'v, 'x) app_env_scheme \<Rightarrow> OnChainTxHash \<Rightarrow> (string \<Rightarrow> (('w, 'v) app_state, 'a) act)
    \<Rightarrow> (('w, 'v) app_state, 'a) act" where
  "lockOnChainTxHash E txHash asyncFn = redlock E (getOnChainTxHashLockResource txHash) None asyncFn"

definition timestampDaysAgo :: "('v, 'x) lnd_env_scheme \<Rightarrow> int \<Rightarrow> 'v \<Rightarrow> date" where
  "timestampDaysAgo E days v = clock E v - days * MS_PER_DAY"

section \<open>Services with fixed answers\<close>

text \<open>Locks are always free, quotes and prices are two cents for a hundred satoshis.\<close>

definition test_quote :: "jsnum \<Rightarrow> dealer_err + jsnum" where
  "test_quote sats = Inr (js_max (Num 1) (js_floor (js_div sats (Num 50))))"

definition test_app ::
  "(PaymentHash \<Rightarrow> GetInvoiceResult option) \<Rightarrow> (PaymentHash \<Rightarrow> GetPaymentResult option) \<Rightarrow> lnd_err + PayResult
    \<Rightarrow> ('w, mem_world) app_env" where
  "test_app invoices payments pay = lnd_env.extend (test_lnd invoices payments pay)
     (app_env.fields (\<lambda>v. (Inr (Num 20000), v)) (\<lambda>_ v. (Inr [], v))
        (\<lambda>_ sats _ _. test_quote sats) (\<lambda>_ cents _ _. Inr (js_mul cents (Num 50))) (\<lambda>_. Inr (Num (1 / 50)))
        (\<lambda>_ s. (Lock_done, s)) (\<lambda>_ s. (Lock_done, s)) (\<lambda>_ _. False) True (Num 1000000)
        ((\<lambda>_. Num 100000), (\<lambda>_. Num 100000), (\<lambda>_. Num 100000)) [])"

section \<open>Lemmas\<close>

lemma in_ledger_eq_Inr:
  "in_ledger m s = (Inr x, s') \<longleftrightarrow> (\<exists>l. m (app_ledger s) = (Inr x, l) \<and> s' = s\<lparr>app_ledger := l\<rparr>)"
  by (auto simp: in_ledger_def split: prod.splits)

lemma in_world_eq_Inr:
  "in_world m s = (Inr x, s') \<longleftrightarrow> (\<exists>v. m (app_world s) = (Inr x, v) \<and> s' = s\<lparr>app_world := v\<rparr>)"
  by (auto simp: in_world_def split: prod.splits)

lemma in_db_eq_Inr:
  "in_db m s = (Inr x, s') \<longleftrightarrow>
     (\<exists>w. m (db (app_ledger s)) = (Inr x, w) \<and> s' = s\<lparr>app_ledger := (app_ledger s)\<lparr>db := w\<rparr>\<rparr>)"
  by (auto simp: in_db_def in_ledger_def on_db_def split: prod.splits)

text \<open>A property of the ledger is not touched by the rest of the world.\<close>

lemma keeps_in_world: "keeps (\<lambda>s. P (app_ledger s)) (in_world m)"
  by (auto simp: keeps_def in_world_def split: prod.splits)

lemma keeps_in_ledger: "keeps P m \<Longrightarrow> keeps (\<lambda>s. P (app_ledger s)) (in_ledger m)"
  by (force simp: keeps_def in_ledger_def split: prod.splits)

lemma keeps_in_db: "keeps P m \<Longrightarrow> keeps (\<lambda>s. P (db (app_ledger s))) (in_db m)"
  unfolding in_db_def by (rule keeps_in_ledger [OF keeps_on_db])

lemma keeps_case_result:
  "(\<And>e. keeps P (f e)) \<Longrightarrow> (\<And>x. keeps P (g x)) \<Longrightarrow> keeps P (case r of Inl e \<Rightarrow> f e | Inr x \<Rightarrow> g x)"
  by (cases r) simp_all

text \<open>What holds while the lock is held by others, and after the routine, holds after the lock is released.\<close>

definition lock_keeps :: "('w, 'v, 'x) app_env_scheme \<Rightarrow> (('w, 'v) app_state \<Rightarrow> bool) \<Rightarrow> bool" where
  "lock_keeps E P = (\<forall>path s. P s \<longrightarrow> P (snd (lock_acquire E path s)) \<and> P (snd (lock_release E path s)))"

lemma keeps_redlock:
  assumes "lock_keeps E P" and "\<And>signal. keeps P (asyncFn signal)"
  shows "keeps P (redlock E path None asyncFn)"
proof (unfold keeps_def, intro allI impI)
  fix s assume P: "P s"
  obtain a s1 where s1: "lock_acquire E path s = (a, s1)" by fastforce
  obtain r s2 where s2: "asyncFn path s1 = (r, s2)" by fastforce
  obtain b s3 where s3: "lock_release E path s2 = (b, s3)" by fastforce
  have "P s1" using assms(1) P s1 by (metis lock_keeps_def snd_conv)
  moreover have "P s2" using keepsD [OF assms(2) \<open>P s1\<close> s2] .
  moreover have "P s3" using assms(1) \<open>P s2\<close> s3 by (metis lock_keeps_def snd_conv)
  ultimately show "P (snd (redlock E path None asyncFn s))"
    using s1 s2 s3 by (auto simp: redlock_def split: lock_attempt.splits)
qed

lemma redlock_eq_Inr:
  "redlock E path None asyncFn s = (Inr x, s') \<longleftrightarrow>
     (\<exists>s1 s2. lock_acquire E path s = (Lock_done, s1) \<and> asyncFn path s1 = (Inr x, s2)
        \<and> lock_release E path s2 = (Lock_done, s'))"
  by (auto simp: redlock_def split: prod.splits lock_attempt.splits sum.splits error.splits)

end
