(* ===== verification/Settlement.thy ===== *)
theory Settlement
  imports App_Env
begin

text \<open>
  What happens to payments and invoices after the node has settled or failed them:
  \<^verbatim>\<open>app/payments/update-pending-payments.ts\<close>, \<^verbatim>\<open>app/wallets/update-pending-invoices.ts\<close>,
  \<^verbatim>\<open>app/wallets/reimburse-fee.ts\<close>, \<^verbatim>\<open>app/wallets/reimburse-failed-usd.ts\<close> and
  \<^verbatim>\<open>domain/ledger/fee-reimbursement.ts\<close>. \<open>L\<close> stands for the ledger's services and \<open>E\<close> for
  the rest. Logging, tracing and notifications are left out; a call whose promise is not awaited runs at once and
  its result is dropped.
\<close>

section \<open>Reimbursements\<close>

text \<open>Pairs are bitcoin, dollars.\<close>

definition getReimbursement :: "Amount \<times> Amount \<Rightarrow> price_ratio \<Rightarrow> Amount \<Rightarrow> (Amount \<times> Amount) result" where
  "getReimbursement prepaidFeeAmount priceRatio actualFee =
     (let feeDifferenceBtc = amount (fst prepaidFeeAmount) - amount actualFee;
          btc = \<lparr>currency = Btc, amount = feeDifferenceBtc\<rparr>
      in if feeDifferenceBtc < 0 then Inl (LedgerError FeeDifferenceError)
         else result_bind (if amount actualFee = 0 then convertFromBtc priceRatio btc
                           else convertFromBtcToFloor priceRatio btc) (\<lambda>usd. Inr (btc, usd)))"

definition reimbursement_metadata :: "PaymentHash \<Rightarrow> LedgerJournalId \<Rightarrow> Amount \<Rightarrow> Amount \<Rightarrow> jsnum \<Rightarrow> TxMetadata" where
  "reimbursement_metadata hash jid btc usd display = map_of
     [(''hash'', MStr hash), (''type'', MType LnFeeReimbursement), (''pending'', MBool False),
      (''related_journal'', MStr jid), (''usd'', MNum (js_div display (Num 100))),
      (''satsAmount'', sn btc), (''centsAmount'', sn usd), (''satsFee'', MNum (Num 0)), (''centsFee'', MNum (Num 0)),
      (''displayAmount'', MNum display), (''displayFee'', MNum (Num 0)), (''displayCurrency'', MStr ''USD'')]"

definition reimburseFee ::
  "('e, 'w, 'x) query_env_scheme \<Rightarrow> PaymentFlowState \<Rightarrow> LedgerJournalId \<Rightarrow> jsnum \<Rightarrow> RevealedPreImage option
    \<Rightarrow> (('w, 'v) app_state, unit) act" where
  "reimburseFee L flow jid actualFee revealed =
     act_bind (act_result (paymentAmountFromNumber actualFee Btc)) (\<lambda>actualFeeAmount.
     act_bind (act_result (PriceRatio (usdPaymentAmount flow) (btcPaymentAmount flow))) (\<lambda>priceRatio.
       case getReimbursement (btcProtocolFee flow, usdProtocolFee flow) priceRatio actualFeeAmount of
         Inl (Thrown m) \<Rightarrow> act_fail (Thrown m)
       | Inl _ \<Rightarrow> act_return ()
       | Inr (btc, usd) \<Rightarrow>
           if amount btc = 0 then act_return ()
           else
             act_bind (act_result (paymentHashForFlow flow)) (\<lambda>hash.
             act_bind (in_ledger (recordReceive L ''fee reimbursement'' (senderWalletDescriptor flow) (usd, btc) None
                 (reimbursement_metadata hash jid btc usd (ndc_fromUsdAmount (usdPerSat priceRatio) usd))
                 (Some hash) revealed))
               (\<lambda>_. act_return ()))))"

definition failed_metadata :: "PaymentFlowState \<Rightarrow> PaymentHash \<Rightarrow> LedgerJournalId \<Rightarrow> Amount \<Rightarrow> TxMetadata" where
  "failed_metadata flow hash jid dollars = map_of
     [(''hash'', MStr hash), (''type'', MType Payment), (''pending'', MBool False), (''related_journal'', MStr jid),
      (''usd'', sn dollars), (''satsAmount'', sn (btcPaymentAmount flow)), (''centsAmount'', sn (usdPaymentAmount flow)),
      (''satsFee'', sn (btcProtocolFee flow)), (''centsFee'', sn (usdProtocolFee flow)),
      (''displayAmount'', sn (usdPaymentAmount flow)), (''displayFee'', sn (usdProtocolFee flow)),
      (''displayCurrency'', MStr ''USD'')]"

text \<open>The bitcoin wallet that the amount of a failed payment of a dollar wallet goes to.\<close>

definition reimbursed_wallet :: "('v, 'x) store_env_scheme \<Rightarrow> WalletId \<Rightarrow> ('v, Wallet) act" where
  "reimbursed_wallet E walletId =
     act_bind (wallets_findById E walletId) (\<lambda>recipientWallet.
       if wd_currency recipientWallet = Btc then act_return recipientWallet
       else
         act_bind (listByAccountId E (wd_accountId recipientWallet)) (\<lambda>recipientWallets.
           case find (\<lambda>w. wd_currency w = Btc) recipientWallets of
             None \<Rightarrow> act_fail (not_found_err CouldNotFindBtcWalletForAccountError)
           | Some w \<Rightarrow> act_return w))"

definition reimburseFailedUsdPayment ::
  "('e, 'w, 'x) query_env_scheme \<Rightarrow> ('w, 'v, 'y) app_env_scheme \<Rightarrow> PaymentFlowState \<Rightarrow> LedgerJournalId
    \<Rightarrow> (('w, 'v) app_state, unit) act" where
  "reimburseFailedUsdPayment L E flow jid =
     act_bind (act_result (paymentHashForFlow flow)) (\<lambda>hash.
     act_bind (act_result (calc_divFloor (usdPaymentAmount flow) 100)) (\<lambda>dollars.
     act_bind (in_world (reimbursed_wallet E (wd_id (senderWalletDescriptor flow)))) (\<lambda>w.
       let (btcTotal, usdTotal) = totalAmountsForPayment flow
       in act_bind (in_ledger (recordReceive L ''Usd payment canceled'' (WalletDescriptor.truncate w) (usdTotal, btcTotal) None
              (failed_metadata flow hash jid dollars) (Some hash) None))
            (\<lambda>_. act_return ()))))"

section \<open>Pending payments\<close>

definition reconstructPendingPaymentFlow ::
  "('e, 'w, 'x) query_env_scheme \<Rightarrow> ('w, 'v, 'y) app_env_scheme \<Rightarrow> PaymentHash
    \<Rightarrow> (('w, 'v) app_state, PaymentFlowState) act" where
  "reconstructPendingPaymentFlow L E hash =
     act_bind (in_db (getTransactionsByHash L hash)) (\<lambda>ledgerTxns.
     act_bind (in_ledger getNonEndUserWalletIds) (\<lambda>(w1, w2, w3, w4).
       case find (\<lambda>tx. lt_pendingConfirmation tx = Some True \<and> lt_type tx = Some Payment
                       \<and> js_less (Num 0) (lt_debit tx)
                       \<and> (case lt_walletId tx of None \<Rightarrow> False | Some w \<Rightarrow> w \<notin> set [w1, w2, w3, w4])) ledgerTxns of
         None \<Rightarrow> act_fail (LedgerError CouldNotFindTransactionError)
       | Some payment \<Rightarrow>
           if \<not> truthy_str (lt_walletId payment) then act_fail (flow_err MissingPropsInTransactionForPaymentFlowError)
           else
             act_bind (in_world (wallets_findById E (the (lt_walletId payment)))) (\<lambda>senderWallet.
             act_bind (in_world (accounts_findById E (wd_accountId senderWallet))) (\<lambda>senderAccount.
               act_result (PaymentFlowFromLedgerTransaction payment (acc_id senderAccount))))))"

definition lookup_status :: "payment_lookup \<Rightarrow> PaymentStatus" where
  "lookup_status p = (case p of Payment_lookup l \<Rightarrow> pl_status l | FailedPartial \<Rightarrow> PS_Failed)"

definition lookup_details :: "payment_lookup \<Rightarrow> LnPaymentConfirmedDetails option" where
  "lookup_details p = (case p of Payment_lookup l \<Rightarrow> pl_confirmedDetails l | FailedPartial \<Rightarrow> None)"

definition lookup_fee :: "payment_lookup \<Rightarrow> jsnum" where
  "lookup_fee p =
     (case lookup_details p of
        Some d \<Rightarrow> if js_truthy (roundedUpFee d) then roundedUpFee d else Num 0
      | None \<Rightarrow> Num 0)"

text \<open>What follows once the postings of the payment are no longer pending.\<close>

definition finish_settled ::
  "('e, 'w, 'x) query_env_scheme \<Rightarrow> LedgerTransaction \<Rightarrow> PaymentHash \<Rightarrow> payment_lookup \<Rightarrow> PaymentFlowState
    \<Rightarrow> (('w, 'v) app_state, unit) act" where
  "finish_settled L pendingPayment hash lookup flow =
     (let revealed = map_option revealedPreImage (lookup_details lookup)
      in act_bind (if truthy_str revealed then act_attempt (in_db (updateMetadataByHash L hash revealed))
                   else act_return (Inr ())) (\<lambda>_.
         if lt_feeKnownInAdvance pendingPayment then act_return ()
         else if lt_displayAmount pendingPayment = None \<or> lt_displayFee pendingPayment = None
         then act_fail (LedgerError UnknownLedgerError)
         else reimburseFee L flow (lt_journalId pendingPayment) (lookup_fee lookup) revealed))"

definition finish_failed ::
  "('e, 'w, 'x) query_env_scheme \<Rightarrow> ('w, 'v, 'y) app_env_scheme \<Rightarrow> LedgerTransaction \<Rightarrow> PaymentHash \<Rightarrow> PaymentFlowState
    \<Rightarrow> (('w, 'v) app_state, unit) act" where
  "finish_failed L E pendingPayment hash flow =
     (if senderWalletCurrency flow = Btc
      then in_db (revertLightningPayment L (lt_journalId pendingPayment) hash)
      else reimburseFailedUsdPayment L E flow (lt_journalId pendingPayment))"

definition settle_behind_lock ::
  "('e, 'w, 'x) query_env_scheme \<Rightarrow> ('w, 'v, 'y) app_env_scheme \<Rightarrow> WalletId \<Rightarrow> LedgerTransaction \<Rightarrow> PaymentHash
    \<Rightarrow> payment_lookup \<Rightarrow> (('w, 'v) app_state, unit) act" where
  "settle_behind_lock L E walletId pendingPayment hash lookup =
     act_bind (in_db (isLnTxRecorded L hash)) (\<lambda>recorded.
       if recorded then act_return ()
       else
         act_bind (act_result (inputAmountFromLedgerTransaction pendingPayment)) (\<lambda>inputAmt.
         act_bind (act_attempt (in_world (markLightningPaymentFlowNotPending E
             \<lparr>idx_paymentHash = Some hash, idx_intraLedgerHash = None, idx_walletId = walletId, idx_inputAmount = inputAmt\<rparr>)))
           (\<lambda>marked.
         act_bind (case marked of Inl _ \<Rightarrow> reconstructPendingPaymentFlow L E hash | Inr flow \<Rightarrow> act_return flow) (\<lambda>flow.
         act_bind (in_db (settlePendingLnPayment L hash)) (\<lambda>_.
           if lookup_status lookup = PS_Settled then finish_settled L pendingPayment hash lookup flow
           else finish_failed L E pendingPayment hash flow)))))"

definition updatePendingPayment ::
  "('e, 'w, 'x) query_env_scheme \<Rightarrow> ('w, 'v, 'y) app_env_scheme \<Rightarrow> WalletId \<Rightarrow> LedgerTransaction
    \<Rightarrow> (('w, 'v) app_state, unit) act" where
  "updatePendingPayment L E walletId pendingPayment =
     act_bind (in_world (LndService E)) (\<lambda>_.
       if \<not> truthy_str (lt_paymentHash pendingPayment) then act_fail (Thrown ''InconsistentDataError'')
       else if \<not> truthy_str (lt_pubkey pendingPayment) then act_fail (Thrown ''InconsistentDataError'')
       else
         let hash = the (lt_paymentHash pendingPayment)
         in act_bind (in_world (lookupPayment E (lt_pubkey pendingPayment) hash)) (\<lambda>lookup.
              if lookup_status lookup = PS_Settled \<or> lookup_status lookup = PS_Failed
              then lockPaymentHash E hash (\<lambda>_. settle_behind_lock L E walletId pendingPayment hash lookup)
              else act_return ()))"

text \<open>Errors of a payment are dropped; an exception ends the loop.\<close>

fun update_each ::
  "('e, 'w, 'x) query_env_scheme \<Rightarrow> ('w, 'v, 'y) app_env_scheme \<Rightarrow> WalletId \<Rightarrow> LedgerTransaction list
    \<Rightarrow> (('w, 'v) app_state, unit) act" where
  "update_each L E walletId [] = act_return ()"
| "update_each L E walletId (p # ps) =
     act_bind (act_attempt (updatePendingPayment L E walletId p)) (\<lambda>r.
       case r of Inl (Thrown m) \<Rightarrow> act_fail (Thrown m) | _ \<Rightarrow> update_each L E walletId ps)"

definition updatePendingPaymentsByWalletId ::
  "('e, 'w, 'x) query_env_scheme \<Rightarrow> ('w, 'v, 'y) app_env_scheme \<Rightarrow> WalletId \<Rightarrow> (('w, 'v) app_state, unit) act" where
  "updatePendingPaymentsByWalletId L E walletId =
     act_bind (in_db (getPendingPaymentsCount L walletId)) (\<lambda>count.
       if count = 0 then act_return ()
       else act_bind (in_db (listPendingPayments L walletId)) (\<lambda>pendingPayments.
              update_each L E walletId pendingPayments))"

text \<open>
  \<^verbatim>\<open>runInParallel\<close>: what the processor throws is logged and dropped. The items are taken in order; what the
  other workers do at the same time is part of what may happen while a lock is acquired.
\<close>

fun runInParallel :: "('a \<Rightarrow> ('s, unit) act) \<Rightarrow> 'a list \<Rightarrow> ('s, unit) act" where
  "runInParallel processor [] = act_return ()"
| "runInParallel processor (item # items) =
     act_bind (act_attempt (processor item)) (\<lambda>_. runInParallel processor items)"

text \<open>
  A wallet id that the path of an account does not give is \<^verbatim>\<open>undefined\<close>, which reads as text in the path of
  the queries. An exception of the listing ends all workers and is dropped.
\<close>

definition updatePendingPayments ::
  "('e, 'w, 'x) query_env_scheme \<Rightarrow> ('w, 'v, 'y) app_env_scheme \<Rightarrow> (('w, 'v) app_state, unit) act" where
  "updatePendingPayments L E =
     act_bind (act_attempt (in_db (listWalletIdsWithPendingPayments L))) (\<lambda>walletIds.
       case walletIds of
         Inl _ \<Rightarrow> act_return ()
       | Inr ids \<Rightarrow>
           runInParallel (\<lambda>w. updatePendingPaymentsByWalletId L E (case w of None \<Rightarrow> ''undefined'' | Some i \<Rightarrow> i)) ids)"

section \<open>Pending invoices\<close>

definition declineHeldInvoice ::
  "('w, 'v, 'y) app_env_scheme \<Rightarrow> Pubkey \<Rightarrow> PaymentHash \<Rightarrow> ('v, bool) act" where
  "declineHeldInvoice E pubkey hash =
     act_bind (LndService E) (\<lambda>_.
     act_bind (act_attempt (lookupInvoice E pubkey hash)) (\<lambda>lookup.
       case lookup of
         Inl e \<Rightarrow>
           if e = LightningError InvoiceNotFoundError
           then act_bind (deleteByPaymentHash E hash) (\<lambda>_. act_return False)
           else act_fail e
       | Inr l \<Rightarrow>
           if il_isSettled l then act_fail (flow_err InvalidNonHodlInvoiceError)
           else if \<not> il_isHeld l then act_return False
           else
             act_bind (cancelInvoice E pubkey hash) (\<lambda>_.
             act_bind (act_attempt (deleteByPaymentHash E hash)) (\<lambda>_. act_return True))))"

text \<open>The quotes are the ones of the moment when the lock is held.\<close>

definition receiver_of ::
  "('w, 'v, 'y) app_env_scheme \<Rightarrow> WalletInvoice \<Rightarrow> Amount \<Rightarrow> 'v \<Rightarrow> WalletInvoiceReceiver result" where
  "receiver_of E walletInvoice receivedBtc v =
     WalletInvoiceReceiver walletInvoice receivedBtc (new_getCentsFromSats E ImmediateBuy v)
       (usdFromBtcMidPriceFn (mid_ratio E v))"

definition receive_behind_lock ::
  "('e, 'w, 'x) query_env_scheme \<Rightarrow> ('w, 'v, 'y) app_env_scheme \<Rightarrow> WalletInvoice \<Rightarrow> LnInvoiceLookup \<Rightarrow> Amount
    \<Rightarrow> (('w, 'v) app_state, bool) act" where
  "receive_behind_lock L E walletInvoice lookup receivedBtc =
     (let hash = wi_paymentHash walletInvoice
      in act_bind (act_attempt (in_world (findByPaymentHash E hash))) (\<lambda>invoiceToUpdate.
         case invoiceToUpdate of
           Inl e \<Rightarrow> if is_CouldNotFindError e then act_return False else act_fail e
         | Inr _ \<Rightarrow>
             if wi_paid walletInvoice then act_return True
             else
               act_bind (\<lambda>s. (receiver_of E walletInvoice receivedBtc (app_world s), s)) (\<lambda>receiver.
               act_bind (if il_isSettled lookup then act_return ()
                         else in_world (settleInvoice E (wi_pubkey walletInvoice) (wi_secret walletInvoice))) (\<lambda>_.
               act_bind (in_world (markAsPaid E hash)) (\<lambda>_.
               act_bind (in_world (wallets_findById E (wd_id (wi_recipientWalletDescriptor walletInvoice)))) (\<lambda>recipientWallet.
               act_bind (in_world (accounts_findById E (wd_accountId recipientWallet))) (\<lambda>recipientAccount.
               act_bind (in_ledger (recordReceive L (il_description lookup)
                   ((wi_recipientWalletDescriptor receiver)\<lparr>wd_accountId := acc_id recipientAccount\<rparr>)
                   (usdToCreditReceiver receiver, btcToCreditReceiver receiver)
                   (Some (wir_usdBankFee receiver, wir_btcBankFee receiver))
                   (LnReceiveLedgerMetadata hash (wir_btcBankFee receiver) (Number_of (amount (wir_usdBankFee receiver)))
                      (Number_of (amount (usdToCreditReceiver receiver))))
                   (Some hash) None)) (\<lambda>_.
               act_bind (in_world (users_findById E (acc_ownerId recipientAccount))) (\<lambda>_.
                 act_return True)))))))))"

definition updatePendingInvoiceBeforeFinally ::
  "('e, 'w, 'x) query_env_scheme \<Rightarrow> ('w, 'v, 'y) app_env_scheme \<Rightarrow> WalletInvoice \<Rightarrow> (('w, 'v) app_state, bool) act" where
  "updatePendingInvoiceBeforeFinally L E walletInvoice =
     (let pubkey = wi_pubkey walletInvoice; hash = wi_paymentHash walletInvoice
      in act_bind (in_world (LndService E)) (\<lambda>_.
         act_bind (act_attempt (in_world (lookupInvoice E pubkey hash))) (\<lambda>lnInvoiceLookup.
           case lnInvoiceLookup of
             Inl e \<Rightarrow>
               if e = LightningError InvoiceNotFoundError
               then act_bind (in_world (deleteByPaymentHash E hash)) (\<lambda>_. act_return False)
               else act_fail e
           | Inr l \<Rightarrow>
               (case checkedToSats (il_roundedDownReceived l) of
                  Inl _ \<Rightarrow> in_world (declineHeldInvoice E pubkey hash)
                | Inr roundedDownReceived \<Rightarrow>
                    if wi_paid walletInvoice then act_return True
                    else if \<not> il_isHeld l \<and> \<not> il_isSettled l then act_return False
                    else
                      act_bind (act_result (paymentAmountFromNumber roundedDownReceived Btc)) (\<lambda>receivedBtc.
                        lockPaymentHash E hash (\<lambda>_. receive_behind_lock L E walletInvoice l receivedBtc))))))"

text \<open>
  \<^verbatim>\<open>if (result)\<close>: an error is an object and so counts as true. An exception is not a result.
\<close>

definition updatePendingInvoice ::
  "('e, 'w, 'x) query_env_scheme \<Rightarrow> ('w, 'v, 'y) app_env_scheme \<Rightarrow> WalletInvoice \<Rightarrow> (('w, 'v) app_state, bool) act" where
  "updatePendingInvoice L E walletInvoice =
     act_bind (act_attempt (updatePendingInvoiceBeforeFinally L E walletInvoice)) (\<lambda>result.
       case result of
         Inl (Thrown m) \<Rightarrow> act_fail (Thrown m)
       | _ \<Rightarrow>
           if result \<noteq> Inr False \<and> \<not> wi_paid walletInvoice
           then act_bind (act_attempt (in_world (markAsPaid E (wi_paymentHash walletInvoice)))) (\<lambda>invoicePaid.
                  case invoicePaid of
                    Inl e \<Rightarrow> if e = not_found_err CouldNotFindWalletInvoiceError then act_result result else act_fail e
                  | Inr _ \<Rightarrow> act_result result)
           else act_result result)"

definition updatePendingInvoiceByPaymentHash ::
  "('e, 'w, 'x) query_env_scheme \<Rightarrow> ('w, 'v, 'y) app_env_scheme \<Rightarrow> PaymentHash \<Rightarrow> (('w, 'v) app_state, bool) act" where
  "updatePendingInvoiceByPaymentHash L E hash =
     act_bind (act_attempt (in_world (findByPaymentHash E hash))) (\<lambda>walletInvoice.
       case walletInvoice of
         Inl e \<Rightarrow> if is_CouldNotFindError e then act_return False else act_fail e
       | Inr i \<Rightarrow> updatePendingInvoice L E i)"

definition handleHeldInvoices ::
  "('e, 'w, 'x) query_env_scheme \<Rightarrow> ('w, 'v, 'y) app_env_scheme \<Rightarrow> (('w, 'v) app_state, unit) act" where
  "handleHeldInvoices L E =
     act_bind (act_attempt (in_world (yieldPending E))) (\<lambda>pendingInvoices.
       case pendingInvoices of
         Inl _ \<Rightarrow> act_return ()
       | Inr is \<Rightarrow>
           runInParallel (\<lambda>i. act_bind
             (if wd_currency (wi_recipientWalletDescriptor i) = Btc then updatePendingInvoice L E i
              else in_world (declineHeldInvoice E (wi_pubkey i) (wi_paymentHash i))) (\<lambda>_. act_return ())) is)"

section \<open>What the ledger keeps\<close>

text \<open>A hash is recorded when some posting has it and is not pending.\<close>

definition recorded :: "string \<Rightarrow> journals \<Rightarrow> bool" where
  "recorded h js =
     list_ex (\<lambda>p. has_hash h (snd p) \<and> tx_meta (snd p) ''pending'' = Some (MBool False)) (postings js)"

text \<open>
  The metadata of transactions are kept apart from the journals. An update by hash that breaks off may have
  reached some of the postings, but only postings of that hash. Volumes are read.
\<close>

locale ledger_store = ledger_docs L journals
  for L :: "('e, 'w, 'x) query_env_scheme" and journals :: "'w \<Rightarrow> journals" +
  assumes update_metadata: "md_updateMany L h r w = (n, w') \<Longrightarrow> journals w' = journals w"
    and volume_reads: "tx_aggregate_volume L a tys d w = (v, w') \<Longrightarrow> journals w' = journals w"
    and update_hash_partial: "tx_updateMany_hash L h m w = (n, w') \<Longrightarrow>
      \<exists>P. (\<forall>p. P p \<longrightarrow> has_hash h (snd p)) \<and> journals w' = update_journals P m (journals w)"

lemma list_updates:
  "md_updateMany list_query_env h r w = (Inr 0, w)"
  "snd (tx_aggregate_volume list_query_env a tys d w) = w"
  "snd (tx_updateMany_hash list_query_env h m w) = update_journals (\<lambda>p. has_hash h (snd p)) m w"
  by (simp_all add: list_query_env_def list_book_env_def medici.defs ledger_env.defs query_env.defs has_hash_def
      case_prod_unfold)

interpretation list_store: ledger_store list_query_env "\<lambda>w. w"
proof (unfold_locales, goal_cases)
  case (1 h r w n w')
  then show ?case using list_updates(1) [of h r w] by simp
next
  case (2 a tys d w v w')
  then show ?case using list_updates(2) [of a tys d w] by simp
next
  case (3 h m w n w')
  then have "w' = update_journals (\<lambda>p. has_hash h (snd p)) m w" using list_updates(3) [of h m w] by simp
  then show ?case by (intro exI [where x = "\<lambda>p. has_hash h (snd p)"] conjI allI impI)
qed

lemma postings_append: "postings (js @ js') = postings js @ postings js'"
  by (simp add: postings_def)

lemma recorded_append: "recorded h js \<Longrightarrow> recorded h (js @ js')"
  by (simp add: recorded_def postings_append)

abbreviation app_journals :: "('w \<Rightarrow> journals) \<Rightarrow> ('w, 'v) app_state \<Rightarrow> journals" where
  "app_journals journals s \<equiv> journals (db (app_ledger s))"

lemma in_world_ledger [simp]: "app_ledger (snd (in_world m s)) = app_ledger s"
  by (simp add: in_world_def split: prod.splits)

context ledger_store
begin

lemma keeps_recorded_commit: "keeps (\<lambda>w. recorded h (journals w)) (act_call (entry_commit L e))"
proof (rule keeps_call)
  fix w r w' assume "recorded h (journals w)" "entry_commit L e w = (r, w')"
  then show "recorded h (journals w')"
    by (cases r) (auto dest!: commit_ok commit_fail simp: recorded_append)
qed

lemma keeps_recorded_void: "keeps (\<lambda>w. recorded h (journals w)) (act_call (book_void L j reason))"
proof (rule keeps_call)
  fix w r w' assume "recorded h (journals w)" "book_void L j reason w = (r, w')"
  then show "recorded h (journals w')"
    by (cases r) (auto dest!: void_ok void_fail simp: recorded_append)
qed

lemma keeps_recorded_metadata:
  "keeps (\<lambda>w. recorded h (journals w)) (md_persistAll L rs)"
  "keeps (\<lambda>w. recorded h (journals w)) (updateMetadataByHash L h' r)"
proof -
  have "keeps (\<lambda>w. recorded h (journals w)) (act_call (md_insertMany L rs))" for rs
    by (rule keeps_call) (simp add: insert_metadata)
  then show "keeps (\<lambda>w. recorded h (journals w)) (md_persistAll L rs)"
    by (auto simp: md_persistAll_def intro!: keeps_intros)
  have "keeps (\<lambda>w. recorded h (journals w)) (act_call (md_updateMany L h' r))"
    by (rule keeps_call) (simp add: update_metadata)
  then show "keeps (\<lambda>w. recorded h (journals w)) (updateMetadataByHash L h' r)"
    unfolding updateMetadataByHash_def md_updateByHash_def by (auto intro!: keeps_intros)
qed

lemma keeps_recorded_persist: "keeps (\<lambda>w. recorded h (journals w)) (persistAndReturnEntry L e k r)"
  unfolding persistAndReturnEntry_def commit_and_persist_def Let_def
  by (intro keeps_intros keeps_recorded_commit keeps_recorded_metadata)

lemma keeps_recorded_receive:
  "keeps (\<lambda>s. recorded h (app_journals journals s)) (in_ledger (recordReceive L d w a f m k r))"
  unfolding recordReceive_def Let_def case_prod_unfold
  by (rule keeps_in_ledger [where P = "\<lambda>l. recorded h (journals (db l))"])
    (intro keeps_bind keeps_staticAccountIds keeps_on_db keeps_recorded_persist)

lemma keeps_recorded_reimburseFee: "keeps (\<lambda>s. recorded h (app_journals journals s)) (reimburseFee L flow j fee r)"
  unfolding reimburseFee_def
  by (intro keeps_intros keeps_bind_result)
    (auto split: sum.splits error.splits prod.splits intro!: keeps_intros keeps_recorded_receive)

lemma keeps_recorded_revert: "keeps (\<lambda>s. recorded h (app_journals journals s)) (in_db (revertLightningPayment L j k))"
  unfolding revertLightningPayment_def void_and_persist_def Let_def
  by (intro keeps_in_db [where P = "\<lambda>w. recorded h (journals w)"] keeps_intros keeps_recorded_void keeps_recorded_metadata)

lemma keeps_recorded_failed_usd:
  "keeps (\<lambda>s. recorded h (app_journals journals s)) (reimburseFailedUsdPayment L E flow j)"
  unfolding reimburseFailedUsdPayment_def Let_def case_prod_unfold
  by (intro keeps_intros keeps_recorded_receive keeps_in_world [where P = "\<lambda>l. recorded h (journals (db l))"])

lemma keeps_recorded_finish:
  "keeps (\<lambda>s. recorded h (app_journals journals s)) (finish_settled L p k l flow)"
  "keeps (\<lambda>s. recorded h (app_journals journals s)) (finish_failed L E p k flow)"
  unfolding finish_settled_def finish_failed_def Let_def
  by (auto intro!: keeps_intros keeps_recorded_reimburseFee keeps_recorded_revert keeps_recorded_failed_usd
      keeps_in_db [where P = "\<lambda>w. recorded h (journals w)"] keeps_recorded_metadata)

lemma settled_recorded:
  assumes "settlePendingLnPayment L h w = (Inr (), w')"
  shows "recorded h (journals w')"
proof -
  note t = settled_not_pending [OF assms [unfolded settlePendingLnPayment_def]]
  from t(1) obtain p where "p \<in> set (postings (journals w'))" "has_hash h (snd p)" by blast
  with t(2) show ?thesis unfolding recorded_def list_ex_iff by blast
qed

lemma recorded_test:
  assumes "in_db (isLnTxRecorded L h) s = (r, s')"
  shows "app_journals journals s' = app_journals journals s"
    and "r = Inr b \<Longrightarrow> b \<longleftrightarrow> recorded h (app_journals journals s)"
proof -
  obtain w' where w': "isLnTxRecorded L h (db (app_ledger s)) = (r, w')" "app_journals journals s' = journals w'"
    using assms by (auto simp: in_db_def in_ledger_def on_db_def split: prod.splits)
  show "r = Inr b \<Longrightarrow> b \<longleftrightarrow> recorded h (app_journals journals s)"
    using isLnTxRecorded_iff(1) w' by (auto simp: recorded_def list_ex_iff)
  show "app_journals journals s' = app_journals journals s"
  proof (cases r)
    case (Inr b)
    then show ?thesis using isLnTxRecorded_iff(2) w' by auto
  next
    case (Inl e)
    let ?q = "any_query\<lparr>q_pending := Some False, q_hash := Some h\<rparr>"
    obtain a v where "book_ledger L ?q (db (app_ledger s)) = (a, v)" by fastforce
    then show ?thesis
      using w' Inl ledger_fail
      by (cases a) (auto simp: isLnTxRecorded_def act_try_def act_bind_def act_call_def act_return_def)
  qed
qed

lemma settle_recorded_skips:
  assumes "recorded h (app_journals journals s)"
  shows "app_journals journals (snd (settle_behind_lock L E walletId p h lookup s)) = app_journals journals s"
proof -
  obtain r s' where r: "in_db (isLnTxRecorded L h) s = (r, s')" by fastforce
  note t = recorded_test [OF r]
  show ?thesis
  proof (cases r)
    case (Inl e)
    then show ?thesis using t(1) r by (simp add: settle_behind_lock_def act_bind_def)
  next
    case (Inr b)
    then show ?thesis using t(1) t(2) [OF Inr] r assms by (simp add: settle_behind_lock_def act_bind_def act_return_def)
  qed
qed

lemma settle_records:
  assumes "settle_behind_lock L E walletId p h lookup s = (Inr (), s')"
  shows "recorded h (app_journals journals s')"
proof -
  from assms obtain b s1 where b: "in_db (isLnTxRecorded L h) s = (Inr b, s1)"
    by (auto simp: settle_behind_lock_def act_bind_eq_Inr)
  show ?thesis
  proof (cases b)
    case True
    then show ?thesis
      using assms b recorded_test [OF b] by (auto simp: settle_behind_lock_def act_bind_def act_return_def)
  next
    case False
    then obtain s2 s3 flow where s2: "in_db (settlePendingLnPayment L h) s2 = (Inr (), s3)"
      and fin: "(if lookup_status lookup = PS_Settled then finish_settled L p h lookup flow
                 else finish_failed L E p h flow) s3 = (Inr (), s')"
      using assms unfolding settle_behind_lock_def act_bind_eq_Inr [where m = "in_db (isLnTxRecorded L h)"]
      by (auto simp: b act_bind_eq_Inr)
    have "recorded h (app_journals journals s3)"
      using s2 settled_recorded by (auto simp: in_db_eq_Inr)
    then show ?thesis
      using fin keepsD [OF keeps_recorded_finish(1)] keepsD [OF keeps_recorded_finish(2)] by (auto split: if_splits)
  qed
qed

end

lemma keeps_then:
  assumes "keeps P m" and "\<And>s x s'. m s = (Inr x, s') \<Longrightarrow> Q s'" and "\<And>x. keeps Q (f x)" and "\<And>s. Q s \<Longrightarrow> P s"
  shows "keeps P (act_bind m f)"
  unfolding keeps_def
proof (intro allI impI)
  fix s assume "P s"
  obtain r s' where m: "m s = (r, s')" by (cases "m s")
  show "P (snd (act_bind m f s))"
  proof (cases r)
    case (Inl e)
    then show ?thesis using keepsD [OF assms(1) \<open>P s\<close> m] m by (simp add: act_bind_def)
  next
    case (Inr x)
    then have "Q s'" using assms(2) m by blast
    then have "Q (snd (f x s'))" using assms(3) by (simp add: keeps_def)
    then show ?thesis using assms(4) m Inr by (simp add: act_bind_def)
  qed
qed

lemma keeps_if: "keeps P m \<Longrightarrow> keeps P m' \<Longrightarrow> keeps P (if b then m else m')"
  by simp

lemma keeps_case_option:
  "keeps P m \<Longrightarrow> (\<And>x. keeps P (f x)) \<Longrightarrow> keeps P (case r of None \<Rightarrow> m | Some x \<Rightarrow> f x)"
  by (cases r) simp_all

lemma update_journals_none:
  assumes "\<And>p. p \<in> set (postings js) \<Longrightarrow> \<not> P p"
  shows "update_journals P m js = js"
  using assms
proof (induction js)
  case Nil
  then show ?case by (simp add: update_journals_def)
next
  case (Cons j js)
  obtain k ts where j: "j = (k, ts)" by fastforce
  have "\<And>p. p \<in> set (postings js) \<Longrightarrow> \<not> P p" using Cons.prems by (simp add: postings_def)
  moreover have "\<And>t. t \<in> set ts \<Longrightarrow> \<not> P (k, t)" using Cons.prems by (simp add: postings_def j)
  ultimately show ?case
    using Cons.IH by (simp add: update_journals_def j map_idI)
qed

text \<open>While nothing else runs, acquiring and releasing a lock leaves the ledger alone.\<close>

definition quiet_locks :: "('w, 'v, 'x) app_env_scheme \<Rightarrow> ('w \<Rightarrow> journals) \<Rightarrow> bool" where
  "quiet_locks E journals =
     (\<forall>path s. app_journals journals (snd (lock_acquire E path s)) = app_journals journals s
             \<and> app_journals journals (snd (lock_release E path s)) = app_journals journals s)"

lemma quiet_locks_keep: "quiet_locks E journals \<Longrightarrow> lock_keeps E (\<lambda>s. P (app_journals journals s))"
  by (simp add: quiet_locks_def lock_keeps_def)

context ledger_store
begin

abbreviation same_or_recorded :: "journals \<Rightarrow> string \<Rightarrow> journals \<Rightarrow> bool" where
  "same_or_recorded js h js' \<equiv> js' = js \<or> recorded h js'"

lemma update_hash_records:
  assumes "tx_updateMany_hash L h not_pending w = (n, w')"
  shows "same_or_recorded (journals w) h (journals w')"
proof -
  obtain P where P: "\<And>p. P p \<Longrightarrow> has_hash h (snd p)" "journals w' = update_journals P not_pending (journals w)"
    using update_hash_partial [OF assms] by blast
  show ?thesis
  proof (cases "\<exists>p \<in> set (postings (journals w)). P p")
    case True
    then obtain p where p: "p \<in> set (postings (journals w))" "P p" by blast
    let ?q = "(fst p, (snd p)\<lparr>tx_meta := tx_meta (snd p) ++ not_pending\<rparr>)"
    have "?q \<in> set (postings (journals w'))"
      unfolding P(2) postings_update using p by force
    moreover have "has_hash h (snd ?q)" "tx_meta (snd ?q) ''pending'' = Some (MBool False)"
      using P(1) [OF p(2)] by (simp_all add: has_hash_def not_pending_def)
    ultimately show ?thesis unfolding recorded_def list_ex_iff by blast
  next
    case False
    then show ?thesis using update_journals_none P(2) by metis
  qed
qed

lemma keeps_same_settle:
  "keeps (\<lambda>s. same_or_recorded js h (app_journals journals s)) (in_db (settlePendingLnPayment L h))"
proof (rule keeps_in_db [where P = "\<lambda>w. same_or_recorded js h (journals w)"])
  have "keeps (\<lambda>w. same_or_recorded js h (journals w)) (act_call (tx_updateMany_hash L h not_pending))"
  proof (rule keeps_call)
    fix w r w' assume "same_or_recorded js h (journals w)" "tx_updateMany_hash L h not_pending w = (r, w')"
    then show "same_or_recorded js h (journals w')" using update_hash_records [of h w r w'] by auto
  qed
  then show "keeps (\<lambda>w. same_or_recorded js h (journals w)) (settlePendingLnPayment L h)"
    unfolding settlePendingLnPayment_def update_modified_def
    by (intro keeps_try keeps_bind keeps_if keeps_return keeps_fail)
qed

lemma keeps_ledger_results:
  assumes "q_id q = None"
  shows "keeps (\<lambda>w. P (journals w)) (ledger_results L q)"
proof -
  have "keeps (\<lambda>w. P (journals w)) (act_call (book_ledger L q))"
  proof (rule keeps_call)
    fix w r w' assume "P (journals w)" "book_ledger L q w = (r, w')"
    then show "P (journals w')" using ledger_ok [OF _ assms] ledger_fail by (cases r) auto
  qed
  then show ?thesis unfolding ledger_results_def by (intro keeps_intros)
qed

lemma keeps_reconstruct: "keeps (\<lambda>s. P (app_journals journals s)) (reconstructPendingPaymentFlow L E h)"
proof -
  have ids: "keeps (\<lambda>s. P (app_journals journals s)) (in_ledger getNonEndUserWalletIds)"
    unfolding getNonEndUserWalletIds_def getDealerWalletIds_def case_prod_unfold
    by (rule keeps_in_ledger [where P = "\<lambda>l. P (journals (db l))"]) (intro keeps_intros)
  have world: "keeps (\<lambda>s. P (app_journals journals s)) (in_world m)" for m
    by (rule keeps_in_world [where P = "\<lambda>l. P (journals (db l))"])
  have txns: "keeps (\<lambda>s. P (app_journals journals s)) (in_db (getTransactionsByHash L h))"
    unfolding getTransactionsByHash_def
    by (intro keeps_in_db [where P = "\<lambda>w. P (journals w)"] keeps_ledger_results) (simp add: any_query_def)
  show ?thesis
    unfolding reconstructPendingPaymentFlow_def
    apply (rule keeps_bind [OF txns])
    apply (rule keeps_bind [OF ids])
    apply (simp only: case_prod_unfold)
    apply (rule keeps_case_option, rule keeps_fail)
    apply (rule keeps_if, rule keeps_fail)
    apply (intro keeps_bind [OF world] keeps_result)
    done
qed

lemma keeps_same_behind_lock:
  "keeps (\<lambda>s. same_or_recorded js h (app_journals journals s)) (settle_behind_lock L E walletId p h lookup)"
proof -
  have test: "keeps (\<lambda>s. same_or_recorded js h (app_journals journals s)) (in_db (isLnTxRecorded L h))"
    by (simp add: keeps_def recorded_test(1) [OF surjective_pairing])
  have tail: "keeps (\<lambda>s. same_or_recorded js h (app_journals journals s))
      (act_bind (in_db (settlePendingLnPayment L h)) (\<lambda>_.
         if lookup_status lookup = PS_Settled then finish_settled L p h lookup flow else finish_failed L E p h flow))" for flow
    by (rule keeps_then [OF keeps_same_settle, where Q = "\<lambda>s. recorded h (app_journals journals s)"])
      (fastforce simp: in_db_eq_Inr dest: settled_recorded, simp_all add: keeps_recorded_finish)
  show ?thesis
    unfolding settle_behind_lock_def
    apply (rule keeps_bind [OF test])
    apply (rule keeps_if, rule keeps_return)
    apply (rule keeps_bind [OF keeps_result])
    apply (rule keeps_bind [OF keeps_attempt])
     apply (rule keeps_in_world [where P = "\<lambda>l. same_or_recorded js h (journals (db l))"])
    apply (rule keeps_bind [OF _ tail])
    apply (rule keeps_case_result)
     apply (rule keeps_reconstruct [where P = "\<lambda>js'. same_or_recorded js h js'"])
    apply (rule keeps_return)
    done
qed

end

lemma keeps_updatePendingPayment:
  assumes "lock_keeps E (\<lambda>s. P (app_journals journals s))" and "lt_paymentHash p = Some h"
    and "\<And>lookup. keeps (\<lambda>s. P (app_journals journals s)) (settle_behind_lock L E walletId p h lookup)"
  shows "keeps (\<lambda>s. P (app_journals journals s)) (updatePendingPayment L E walletId p)"
proof -
  note world = keeps_in_world [where P = "\<lambda>l. P (journals (db l))"]
  have "keeps (\<lambda>s. P (app_journals journals s))
      (lockPaymentHash E h (\<lambda>_. settle_behind_lock L E walletId p h lookup))" for lookup
    unfolding lockPaymentHash_def by (rule keeps_redlock [OF assms(1) assms(3)])
  then show ?thesis
    unfolding updatePendingPayment_def Let_def assms(2) option.sel
    by (intro keeps_bind [OF world] keeps_if keeps_fail keeps_return)
qed

context ledger_store
begin

lemma recorded_update_same:
  assumes "quiet_locks E journals" and "lt_paymentHash p = Some h" and "recorded h (app_journals journals s)"
  shows "app_journals journals (snd (updatePendingPayment L E walletId p s)) = app_journals journals s"
proof -
  have "keeps (\<lambda>s'. app_journals journals s' = app_journals journals s) (settle_behind_lock L E walletId p h lookup)" for lookup
    using assms(3) by (auto simp: keeps_def settle_recorded_skips)
  from keeps_updatePendingPayment [OF quiet_locks_keep [OF assms(1)] assms(2) this]
  show ?thesis by (simp add: keeps_def)
qed

lemma update_same_or_recorded:
  assumes "quiet_locks E journals" and "lt_paymentHash p = Some h"
  shows "same_or_recorded (app_journals journals s) h (app_journals journals (snd (updatePendingPayment L E walletId p s)))"
  using keeps_updatePendingPayment [OF quiet_locks_keep [OF assms(1)] assms(2) keeps_same_behind_lock]
  by (simp add: keeps_def)

end

section \<open>Properties of pending payments\<close>

text \<open>
  A scenario: alice's payment of five thousand satoshis with a fee of twenty-five, which the ledger has as journal
  \<open>k\<close> and the node says has failed.
\<close>

definition sent_flow :: PaymentFlowState where
  "sent_flow = sample_flow\<lparr>senderWalletCurrency := Btc\<rparr>"

definition sent_txn :: "bool \<Rightarrow> txn" where
  "sent_txn pending =
     \<lparr>tx_account = ''Liabilities:alice'', tx_credit = Num 0, tx_debit = Num 5025,
      tx_meta = [''hash'' \<mapsto> MStr ''h'', ''pending'' \<mapsto> MBool pending]\<rparr>"

definition sent_payment :: LedgerTransaction where
  "sent_payment =
     \<lparr>lt_id = ''t'', lt_walletId = Some ''alice'', lt_type = Some Payment, lt_debit = Num 5025, lt_credit = Num 0,
      lt_fee = Num 25, lt_usd = Num 1, lt_feeUsd = Num 0, lt_currency = Some Btc, lt_timestamp = 0,
      lt_pendingConfirmation = Some True, lt_journalId = ''k'', lt_lnMemo = [], lt_username = None,
      lt_memoFromPayer = None, lt_paymentHash = Some ''h'', lt_pubkey = Some ''node'', lt_address = None, lt_txHash = Some ''h'',
      lt_feeKnownInAdvance = False, lt_satsAmount = Some (Num 5000), lt_centsAmount = Some (Num 100),
      lt_satsFee = Some (Num 25), lt_centsFee = Some (Num 1), lt_displayAmount = Some (Num 100), lt_displayFee = Some (Num 1),
      lt_displayCurrency = Some ''USD'', lt_recipientWalletId = None\<rparr>"

definition ledger_with :: "journals \<Rightarrow> (journals, mem_world) app_state" where
  "ledger_with js = \<lparr>app_ledger = sample_ledger\<lparr>db := js\<rparr>, app_world = empty_world\<rparr>"

definition failed_app :: "(journals, mem_world) app_env" where
  "failed_app = (test_app (\<lambda>_. None)
     (\<lambda>_. Some \<lparr>gpr_is_confirmed = False, gpr_is_failed = True, gpr_payment = None, gpr_pending = None\<rparr>) (Inl dropped))
     \<lparr>pfc_findOneAndUpdate_not_pending := \<lambda>_ v. (Inr (Some (projr (rawFromPaymentFlow sent_flow))), v)\<rparr>"

lemmas app_simps = test_app_def test_lnd_def lnd_env.defs account_env.defs app_env.defs

lemmas act_simps = act_bind_def act_return_def act_fail_def act_attempt_def act_try_def act_call_def

lemmas list_db_simps = list_query_env_def list_book_env_def medici.defs ledger_env.defs query_env.defs postings_def

lemma failed_app_quiet: "quiet_locks failed_app (\<lambda>w. w)"
  by (simp add: quiet_locks_def failed_app_def app_simps)

lemma failed_node: "LndService failed_app v = (Inr test_node, v)"
  by (simp add: LndService_def getActiveLnd_def failed_app_def app_simps getLnds_def test_node_def act_simps)

lemma failed_lookup: "lookupPayment failed_app (Some ''node'') ''h'' v = (Inr FailedPartial, v)"
  by (simp add: lookupPayment_def lookupPaymentByPubkeyAndHash_def failed_app_def app_simps getLndFromPubkey_def getLnds_def
      test_node_def lnd_catch_def resolvePaymentStatus_def act_simps)

lemma sent_flow_marked:
  "markLightningPaymentFlowNotPending failed_app
     \<lparr>idx_paymentHash = Some ''h'', idx_intraLedgerHash = None, idx_walletId = w, idx_inputAmount = n\<rparr> v = (Inr sent_flow, v)"
proof -
  have "storable sent_flow"
    by (simp add: storable_def sent_flow_def sample_flow_def xor_ok_def truthy_str_def is_safe_int_def non_empty_def
        BtcPaymentAmount_def UsdPaymentAmount_def)
  then obtain r where r: "rawFromPaymentFlow sent_flow = Inr r" "paymentFlowFromRaw r = Inr sent_flow"
    by (rule stored_flow)
  then show ?thesis
    by (simp add: markLightningPaymentFlowNotPending_def rawIndexFromPaymentFlowIndex_def xor_hash_def truthy_str_def
        failed_app_def repository_def act_simps act_result_def)
qed

lemma sent_payment_simps:
  "lt_paymentHash sent_payment = Some ''h''" "lt_pubkey sent_payment = Some ''node''" "lt_journalId sent_payment = ''k''"
  by (simp_all add: sent_payment_def)

lemma sent_run:
  "updatePendingPayment list_query_env failed_app ''alice'' sent_payment (ledger_with [(''k'', [sent_txn True])])
   = (Inr (), ledger_with [(''k'', [sent_txn False]), (next_journal_id [(''k'', [sent_txn False])], [reverse_txn (sent_txn False)])])"
proof -
  have meta: "sent_txn False = (sent_txn True)\<lparr>tx_meta := tx_meta (sent_txn True) ++ not_pending\<rparr>"
    by (simp add: sent_txn_def not_pending_def)
  have fresh: "isLnTxRecorded list_query_env ''h'' [(''k'', [sent_txn True])] = (Inr False, [(''k'', [sent_txn True])])"
    by (simp add: isLnTxRecorded_def list_db_simps act_simps query_matches_def any_query_def sent_txn_def)
  have settle: "settlePendingLnPayment list_query_env ''h'' [(''k'', [sent_txn True])] = (Inr (), [(''k'', [sent_txn False])])"
    by (simp add: settlePendingLnPayment_def update_modified_def list_db_simps act_simps update_journals_def sent_txn_def not_pending_def)
  have revert: "revertLightningPayment list_query_env ''k'' ''h'' [(''k'', [sent_txn False])]
      = (Inr (), [(''k'', [sent_txn False]), (next_journal_id [(''k'', [sent_txn False])], [reverse_txn (sent_txn False)])])"
    by (simp add: revertLightningPayment_def void_and_persist_def list_db_simps act_simps md_persistAll_def Let_def)
  have input: "inputAmountFromLedgerTransaction sent_payment = Inr 5000"
    using js_sub_int [of 5025 25] js_BigInt_of_int [of 5000]
    by (simp add: inputAmountFromLedgerTransaction_def sent_payment_def safeBigInt_def)
  have locks: "lock_acquire failed_app path s = (Lock_done, s)" "lock_release failed_app path s = (Lock_done, s)" for path s
    by (simp_all add: failed_app_def app_simps)
  have flow: "senderWalletCurrency sent_flow = Btc" by (simp add: sent_flow_def)
  have "settle_behind_lock list_query_env failed_app ''alice'' sent_payment ''h'' FailedPartial (ledger_with [(''k'', [sent_txn True])])
      = (Inr (), ledger_with [(''k'', [sent_txn False]), (next_journal_id [(''k'', [sent_txn False])], [reverse_txn (sent_txn False)])])"
    unfolding settle_behind_lock_def finish_failed_def input ledger_with_def
    by (simp add: in_world_def in_db_def in_ledger_def on_db_def fresh settle revert sent_flow_marked
        lookup_status_def sent_payment_simps flow act_simps)
  then show ?thesis
    unfolding updatePendingPayment_def sent_payment_simps lockPaymentHash_def Let_def option.sel
    by (simp add: act_bind_def in_world_def failed_node failed_lookup lookup_status_def truthy_str_def redlock_def locks)
qed

text \<open>
  (C11) A payment is processed at most once. Once a run has changed the ledger for a payment, whatever its
  result, every later run for the same hash leaves the ledger as it is, while nothing else writes it: the fee is
  not reimbursed twice and a failed payment is not given back twice.
\<close>

theorem payment_processed_once:
  assumes "ledger_store L journals" and "quiet_locks E journals"
    and "lt_paymentHash payment = Some h" and "lt_paymentHash payment' = Some h"
    and "updatePendingPayment L E walletId payment s = (r, s1)"
    and "journals (db (app_ledger s1)) \<noteq> journals (db (app_ledger s))"
  shows "journals (db (app_ledger (snd (updatePendingPayment L E walletId' payment' s1)))) = journals (db (app_ledger s1))"
proof -
  have "recorded h (journals (db (app_ledger s1)))"
    using ledger_store.update_same_or_recorded [OF assms(1,2,3), where s = s and walletId = walletId] assms(5,6) by simp
  then show ?thesis by (rule ledger_store.recorded_update_same [OF assms(1,2,4)])
qed

theorem payment_processed_once_witness:
  "\<exists>s1. updatePendingPayment list_query_env failed_app ''alice'' sent_payment (ledger_with [(''k'', [sent_txn True])])
       = (Inr (), s1)
     \<and> length (db (app_ledger s1)) = 2
     \<and> db (app_ledger (snd (updatePendingPayment list_query_env failed_app ''alice'' sent_payment s1))) = db (app_ledger s1)"
proof -
  let ?s = "ledger_with [(''k'', [sent_txn True])]"
  note h = sent_payment_simps(1)
  show ?thesis
    using payment_processed_once [OF list_store.ledger_store_axioms failed_app_quiet h h sent_run]
    unfolding sent_run by (simp add: ledger_with_def)
qed

text \<open>
  (C12) A payment whose hash is recorded makes no progress. When some posting of the hash is settled, as after an
  attempt that failed and was given back, runs for another pending posting of the same hash leave the ledger as it
  is, however often they are repeated and whatever the node answers: what the second attempt took from the wallet
  is neither settled nor given back.
\<close>

theorem retried_payment_stays_pending:
  assumes "ledger_store L journals" and "quiet_locks E journals"
    and "lt_paymentHash payment = Some h" and "recorded h (journals (db (app_ledger s)))"
  shows "journals (db (app_ledger (((\<lambda>s. snd (updatePendingPayment L E walletId payment s)) ^^ n) s)))
    = journals (db (app_ledger s))"
proof (induction n)
  case (Suc n)
  let ?t = "((\<lambda>s. snd (updatePendingPayment L E walletId payment s)) ^^ n) s"
  have "recorded h (journals (db (app_ledger ?t)))" using assms(4) Suc.IH by simp
  from ledger_store.recorded_update_same [OF assms(1-3) this] Suc.IH show ?case by simp
qed simp

theorem retried_payment_stays_pending_witness:
  "list_ex (\<lambda>p. fst p = ''k'' \<and> is_pending (snd p)) (postings (db (app_ledger
     (((\<lambda>s. snd (updatePendingPayment list_query_env failed_app ''alice'' sent_payment s)) ^^ 3)
        (ledger_with [(''first'', [sent_txn False]), (''k'', [sent_txn True])])))))"
proof -
  have "recorded ''h'' (db (app_ledger (ledger_with [(''first'', [sent_txn False]), (''k'', [sent_txn True])])))"
    by (simp add: ledger_with_def recorded_def postings_def has_hash_def sent_txn_def)
  from retried_payment_stays_pending [OF list_store.ledger_store_axioms failed_app_quiet sent_payment_simps(1) this]
  show ?thesis
    by (simp add: ledger_with_def postings_def sent_txn_def is_pending_def)
qed



section \<open>Properties of pending invoices\<close>

lemma on_db_eq_Inr: "on_db m l = (Inr x, l') \<longleftrightarrow> (\<exists>w. m (db l) = (Inr x, w) \<and> l' = l\<lparr>db := w\<rparr>)"
  by (auto simp: on_db_def split: prod.splits)

context ledger_store
begin

lemma persist_appends:
  assumes "persistAndReturnEntry L e k r w = (Inr x, w')"
  shows "\<exists>j. journals w' = journals w @ [j]"
proof -
  obtain saved w1 where w1: "entry_commit L e w = (Inr saved, w1)"
    and w': "snd (md_persistAll L (metadata_records (transactionIds (translateToLedgerJournal saved)) k r) w1) = w'"
    using assms
    by (auto simp: persistAndReturnEntry_def commit_and_persist_def act_try_eq_Inr act_bind_eq_Inr act_call_eq_Inr
        act_attempt_apply Let_def)
  have "keeps (\<lambda>v. journals v = js) (act_call (md_insertMany L rs))" for js rs
    by (rule keeps_call) (simp add: insert_metadata)
  then have "keeps (\<lambda>v. journals v = js) (md_persistAll L rs)" for js rs
    unfolding md_persistAll_def by (intro keeps_if keeps_intros)
  then have "journals w' = journals w1" using w' by (auto simp: keeps_def)
  then show ?thesis using commit_ok [OF w1] by simp
qed

lemma receive_appends:
  assumes "in_ledger (recordReceive L d w a f m k r) s = (Inr x, s')"
  shows "\<exists>j. app_journals journals s' = app_journals journals s @ [j]"
proof -
  obtain l where l: "recordReceive L d w a f m k r (app_ledger s) = (Inr x, l)" "s' = s\<lparr>app_ledger := l\<rparr>"
    using assms by (auto simp: in_ledger_eq_Inr)
  moreover obtain u b uf bf where "a = (u, b)" "or_zero_fee f = (uf, bf)" by fastforce
  ultimately obtain ids l1 e w' where l1: "staticAccountIds (app_ledger s) = (Inr ids, l1)"
    and "persistAndReturnEntry L e k r (db l1) = (Inr x, w')" "db l = w'"
    by (auto simp: recordReceive_def act_bind_eq_Inr on_db_eq_Inr Let_def)
  moreover have "db l1 = db (app_ledger s)"
    using keepsD [OF keeps_staticAccountIds [where P = "\<lambda>w. w = db (app_ledger s)"] refl l1] by simp
  ultimately show ?thesis using persist_appends l(2) by fastforce
qed

lemma receive_behind_lock_appends:
  assumes "receive_behind_lock L E i l b s = (Inr True, s')" and "\<not> wi_paid i"
  shows "\<exists>j. app_journals journals s' = app_journals journals s @ [j]"
proof -
  obtain v s1 where s1: "act_attempt (in_world (findByPaymentHash E (wi_paymentHash i))) s = (Inr v, s1)"
    by (simp add: act_attempt_apply)
  from assms s1 obtain x where v: "v = Inr x"
    by (cases v) (auto simp: receive_behind_lock_def Let_def act_bind_eq_Inr act_return_def act_fail_def split: if_splits)
  have j1: "app_journals journals s1 = app_journals journals s"
    using s1 by (auto simp: act_attempt_apply)
  show ?thesis
    using assms unfolding receive_behind_lock_def Let_def act_bind_eq_Inr [where m = "act_attempt m'" for m'] s1
    by (auto simp: v j1 act_bind_eq_Inr in_world_eq_Inr act_return_def split: if_splits dest!: receive_appends)
qed

end

lemma keeps_paid_invoice:
  assumes "wi_paid i"
  shows "keeps (\<lambda>s. P (app_ledger s)) (updatePendingInvoice L E i)"
proof -
  note world = keeps_in_world [where P = P]
  have branch: "keeps (\<lambda>s. P (app_ledger s))
      (case r of Inl e \<Rightarrow> if e = LightningError InvoiceNotFoundError
           then act_bind (in_world (deleteByPaymentHash E (wi_paymentHash i))) (\<lambda>_. act_return False) else act_fail e
       | Inr l \<Rightarrow> (case checkedToSats (il_roundedDownReceived l) of
            Inl _ \<Rightarrow> in_world (declineHeldInvoice E (wi_pubkey i) (wi_paymentHash i))
          | Inr a \<Rightarrow> act_return True))" for r
    by (cases r) (auto intro!: keeps_if keeps_fail keeps_bind keeps_return world split: sum.splits)
  have "keeps (\<lambda>s. P (app_ledger s)) (updatePendingInvoiceBeforeFinally L E i)"
    unfolding updatePendingInvoiceBeforeFinally_def Let_def if_P [OF assms]
    by (rule keeps_bind [OF world], rule keeps_bind [OF keeps_attempt [OF world]], rule branch)
  then show ?thesis
    unfolding updatePendingInvoice_def
    by (rule keeps_bind [OF keeps_attempt]) (auto simp: assms intro: keeps_fail keeps_result split: sum.splits error.splits)
qed

text \<open>A scenario: an invoice over a dollar for alice, which the node holds as settled.\<close>

definition alice_invoice :: WalletInvoice where
  "alice_invoice =
     \<lparr>wi_paymentHash = ''h'', wi_secret = ''s'', wi_selfGenerated = True, wi_pubkey = ''node'',
      wi_usdAmount = Some (UsdPaymentAmount 100),
      wi_recipientWalletDescriptor = \<lparr>wd_id = ''alice'', wd_currency = Usd, wd_accountId = ''a''\<rparr>, wi_paid = False\<rparr>"

definition stored_invoice :: WalletInvoiceRecord where
  "stored_invoice =
     \<lparr>wir_id = ''h'', wir_walletId = ''alice'', wir_cents = None, wir_secret = ''s'', wir_currency = Usd,
      wir_timestamp = 0, wir_selfGenerated = True, wir_pubkey = ''node'', wir_paid = False\<rparr>"

definition alice_world :: "bool \<Rightarrow> mem_world" where
  "alice_world paid = empty_world
     \<lparr>mem_users := [new_user 1 0 ''kratos'' None None],
      mem_wallets := [\<lparr>wr_id = ''alice'', wr_accountId = ''u'', wr_type = Checking, wr_currency = Usd, wr_onchain = None\<rparr>],
      mem_invoices := [stored_invoice\<lparr>wir_paid := paid\<rparr>]\<rparr>"

definition paid_lookup :: LnInvoiceLookup where
  "paid_lookup =
     \<lparr>il_paymentHash = ''h'', il_createdAt = 0, il_confirmedAt = Some 0, il_isSettled = True, il_isCanceled = False,
      il_isHeld = False, il_heldAt = None, il_roundedDownReceived = Num 5000, il_milliSatsReceived = Num 5000000,
      il_secretPreImage = ''s'', il_description = ''tea'', il_paymentRequest = None, il_expiresAt = 0,
      il_roundedDownAmount = Num 5000\<rparr>"

definition dropped_app :: "(journals, mem_world) app_env" where
  "dropped_app = (test_app (\<lambda>_. None) (\<lambda>_. None) (Inl dropped))\<lparr>ln_getInvoice := \<lambda>_ _ v. (Inl dropped, v)\<rparr>"

definition alice_state :: "journals \<Rightarrow> bool \<Rightarrow> (journals, mem_world) app_state" where
  "alice_state js paid = \<lparr>app_ledger = sample_ledger\<lparr>db := js\<rparr>, app_world = alice_world paid\<rparr>"

lemma alice_simps:
  "findByPaymentHash dropped_app ''h'' (alice_world p) = (walletInvoiceFromRaw (stored_invoice\<lparr>wir_paid := p\<rparr>), alice_world p)"
  "markAsPaid dropped_app ''h'' (alice_world p) = (walletInvoiceFromRaw (stored_invoice\<lparr>wir_paid := True\<rparr>), alice_world True)"
  "wallets_findById dropped_app ''alice'' (alice_world p) =
     (Inr \<lparr>wd_id = ''alice'', wd_currency = Usd, wd_accountId = ''u'', wallet_type = Checking, onChainAddressIdentifiers = []\<rparr>,
      alice_world p)"
  "\<exists>a. accounts_findById dropped_app ''u'' (alice_world p) = (Inr a, alice_world p) \<and> acc_ownerId a = ''u''"
  "\<exists>u. users_findById dropped_app ''u'' (alice_world p) = (Inr u, alice_world p)"
  "\<exists>i. walletInvoiceFromRaw (stored_invoice\<lparr>wir_paid := p\<rparr>) = Inr i"
  by (simp_all add: findByPaymentHash_def markAsPaid_def wallets_findById_def accounts_findById_def users_findById_def
      toObjectId_def repository_def act_simps act_result_def dropped_app_def app_simps mem_env_def alice_world_def
      empty_world_def stored_invoice_def walletInvoiceFromRaw_def found_or_def resultToWallet_def new_user_def
      translateToAccount_def)

lemma alice_receive:
  "\<exists>j. receive_behind_lock list_query_env dropped_app alice_invoice paid_lookup (BtcPaymentAmount 5000) (alice_state js p)
     = (Inr True, alice_state (js @ [j]) True)"
proof -
  have ids: "\<exists>ids. staticAccountIds (sample_ledger\<lparr>db := js\<rparr>) = (Inr ids, sample_ledger\<lparr>db := js\<rparr>)"
    by (simp add: staticAccountIds_def getBankOwnerWalletId_def getDealerBtcWalletId_def getDealerUsdWalletId_def cached_def
        sample_ledger_def truthy_str_def act_simps)
  have persist: "\<exists>x. persistAndReturnEntry list_query_env e k r js = (Inr x, js @ [(next_journal_id js, e)])" for e k r
    by (simp add: persistAndReturnEntry_def commit_and_persist_def list_db_simps act_simps md_persistAll_def Let_def)
  have receive: "\<exists>x j. in_ledger (recordReceive list_query_env d w (u, b) (Some (uf, bf)) m k r) (alice_state js q)
      = (Inr x, alice_state (js @ [j]) q)" for d w u b uf bf m k r q
  proof -
    obtain i where i: "staticAccountIds (sample_ledger\<lparr>db := js\<rparr>) = (Inr i, sample_ledger\<lparr>db := js\<rparr>)" using ids by blast
    define e where "e = creditAccount list_query_env (debitLnd list_query_env
        (withBankFee list_query_env (withTotalAmount (builder_config list_query_env d i m) (calc_add u uf) (calc_add b bf)) uf bf))
        (toLedgerAccountDescriptor w)"
    obtain x where "persistAndReturnEntry list_query_env e k r js = (Inr x, js @ [(next_journal_id js, e)])" using persist by blast
    then show ?thesis
      by (simp add: recordReceive_def in_ledger_def alice_state_def act_bind_def i on_db_def or_zero_fee_def flip: e_def)
        blast
  qed
  obtain rcv where rcv: "receiver_of dropped_app alice_invoice (BtcPaymentAmount 5000) v = Inr rcv" for v
    by (simp add: receiver_of_def WalletInvoiceReceiver_def alice_invoice_def)
  have world: "app_world (alice_state js q) = alice_world q" "(alice_state js q)\<lparr>app_world := alice_world q'\<rparr> = alice_state js q'" for js q q'
    by (simp_all add: alice_state_def)
  obtain i1 where i1: "walletInvoiceFromRaw (stored_invoice\<lparr>wir_paid := p\<rparr>) = Inr i1" using alice_simps(6) by blast
  obtain i2 where i2: "walletInvoiceFromRaw (stored_invoice\<lparr>wir_paid := True\<rparr>) = Inr i2" using alice_simps(6) by blast
  obtain acc u where acc: "accounts_findById dropped_app ''u'' (alice_world True) = (Inr acc, alice_world True)"
    "acc_ownerId acc = ''u''" "users_findById dropped_app ''u'' (alice_world True) = (Inr u, alice_world True)"
    using alice_simps(4) [of True] alice_simps(5) [of True] by blast
  have invoice: "wi_paymentHash alice_invoice = ''h''" "\<not> wi_paid alice_invoice"
    "wd_id (wi_recipientWalletDescriptor alice_invoice) = ''alice''" "il_isSettled paid_lookup"
    by (simp_all add: alice_invoice_def paid_lookup_def)
  obtain x j where j: "in_ledger (recordReceive list_query_env (il_description paid_lookup)
      ((wi_recipientWalletDescriptor rcv)\<lparr>wd_accountId := acc_id acc\<rparr>) (usdToCreditReceiver rcv, btcToCreditReceiver rcv)
      (Some (wir_usdBankFee rcv, wir_btcBankFee rcv))
      (LnReceiveLedgerMetadata ''h'' (wir_btcBankFee rcv) (Number_of (amount (wir_usdBankFee rcv)))
         (Number_of (amount (usdToCreditReceiver rcv)))) (Some ''h'') None) (alice_state js True)
      = (Inr x, alice_state (js @ [j]) True)"
    using receive by blast
  have "receive_behind_lock list_query_env dropped_app alice_invoice paid_lookup (BtcPaymentAmount 5000) (alice_state js p)
     = (Inr True, alice_state (js @ [j]) True)"
    unfolding receive_behind_lock_def Let_def invoice
    by (simp add: act_simps in_world_def world alice_simps(1-3) i1 i2 rcv acc invoice j del: split_paired_Ex)
  then show ?thesis by blast
qed



text \<open>
  (C17) A lookup that fails marks the invoice as paid. When the node answers the lookup of an unpaid invoice with an
  error other than that it does not know it, the error is returned, nothing is credited, and the invoice is
  stored as paid, so that no later run will credit it.
\<close>

theorem failed_lookup_marks_paid:
  assumes "\<not> wi_paid i" and "LndService E (app_world s) = (Inr node, v1)"
    and "lookupInvoice E (wi_pubkey i) (wi_paymentHash i) v1 = (Inl (LightningError e), v2)" and "e \<noteq> InvoiceNotFoundError"
    and "markAsPaid E (wi_paymentHash i) v2 = (Inr paid, v3)"
  shows "updatePendingInvoice L E i s = (Inl (LightningError e), s\<lparr>app_world := v3\<rparr>)"
  using assms
  by (simp add: updatePendingInvoice_def updatePendingInvoiceBeforeFinally_def act_bind_def act_attempt_def in_world_def
      act_fail_def act_result_def Let_def)

theorem failed_lookup_marks_paid_witness:
  "\<exists>e. updatePendingInvoice list_query_env dropped_app alice_invoice (alice_state [] False)
       = (Inl (LightningError e), alice_state [] True)
     \<and> list_all wir_paid (mem_invoices (app_world (alice_state [] True)))"
proof -
  let ?s = "alice_state [] False"
  have node: "LndService dropped_app (app_world ?s) = (Inr test_node, alice_world False)"
    by (simp add: LndService_def getActiveLnd_def dropped_app_def app_simps getLnds_def test_node_def act_simps alice_state_def)
  have dropped: "\<not> err_match dropped InvoiceNotFound" by code_simp
  obtain e where e: "lookupInvoice dropped_app (wi_pubkey alice_invoice) (wi_paymentHash alice_invoice) (alice_world False)
      = (Inl (LightningError e), alice_world False)" "e \<noteq> InvoiceNotFoundError"
    by (simp add: lookupInvoice_def alice_invoice_def dropped_app_def app_simps getLndFromPubkey_def getLnds_def test_node_def
        lnd_catch_def act_simps dropped handleCommonLightningServiceErrors_def)
  obtain i2 where "walletInvoiceFromRaw (stored_invoice\<lparr>wir_paid := True\<rparr>) = Inr i2" using alice_simps(6) by blast
  then have mark: "markAsPaid dropped_app (wi_paymentHash alice_invoice) (alice_world False) = (Inr i2, alice_world True)"
    using alice_simps(2) by (simp add: alice_invoice_def)
  have unpaid: "\<not> wi_paid alice_invoice" by (simp add: alice_invoice_def)
  have "updatePendingInvoice list_query_env dropped_app alice_invoice ?s = (Inl (LightningError e), ?s\<lparr>app_world := alice_world True\<rparr>)"
    by (rule failed_lookup_marks_paid [OF unpaid node e mark])
  then show ?thesis by (auto simp: alice_state_def alice_world_def)
qed

end
