(* ===== verification/Send_Lightning.thy ===== *)
theory Send_Lightning
  imports Settlement
begin

text \<open>
  Sending: \<^verbatim>\<open>app/payments/helpers.ts\<close>, \<^verbatim>\<open>app/payments/send-lightning.ts\<close>,
  \<^verbatim>\<open>app/payments/send-intraledger.ts\<close>, \<^verbatim>\<open>app/payments/get-protocol-fee.ts\<close> and
  \<^verbatim>\<open>app/accounts/add-new-contact.ts\<close>. As before \<open>L\<close> stands for the ledger's services and \<open>E\<close> for the
  rest; notifications and tracing are left out, and a call whose promise is not awaited runs at once and its result is
  dropped.
\<close>

datatype PaymentSendStatus = Send_Success | Send_Failure | Send_Pending | Send_AlreadyPaid

definition ONE_DAY :: int where
  "ONE_DAY = 1"

definition MIN_SATS_FOR_PRICE_RATIO_PRECISION :: int where
  "MIN_SATS_FOR_PRICE_RATIO_PRECISION = 5000"

section \<open>Building the payment flow\<close>

text \<open>An error of a builder is a builder with an error; an exception leaves the function.\<close>

definition stage_of :: "'a result \<Rightarrow> ('s, 'a result) act" where
  "stage_of r = (case r of Inl (Thrown m) \<Rightarrow> act_fail (Thrown m) | _ \<Rightarrow> act_return r)"

text \<open>The wallet of the recipient, its node, the amount of the invoice in dollars and the username.\<close>

definition recipientDetailsFromInvoice ::
  "('v, 'x) account_env_scheme \<Rightarrow> LnInvoice \<Rightarrow> ('v, WalletDescriptor \<times> Pubkey \<times> Amount option \<times> Username option) act" where
  "recipientDetailsFromInvoice E invoice =
     act_bind (findByPaymentHash E (inv_paymentHash invoice)) (\<lambda>walletInvoice.
       if wi_paid walletInvoice then act_fail (ValidationError AlreadyPaidError)
       else
         act_bind (wallets_findById E (wd_id (wi_recipientWalletDescriptor walletInvoice))) (\<lambda>recipientWallet.
         act_bind (accounts_findById E (wd_accountId recipientWallet)) (\<lambda>recipientAccount.
           act_return
             (\<lparr>wd_id = wd_id (wi_recipientWalletDescriptor walletInvoice),
               wd_currency = wd_currency (wi_recipientWalletDescriptor walletInvoice), wd_accountId = acc_id recipientAccount\<rparr>,
              wi_pubkey walletInvoice, wi_usdAmount walletInvoice, acc_username recipientAccount))))"

definition isIntraLedger_true :: "LPFBWithSenderWalletState result \<Rightarrow> bool" where
  "isIntraLedger_true stage = (case stage of Inl _ \<Rightarrow> False | Inr s \<Rightarrow> b_settlementMethod s = SM_IntraLedger)"

definition quote_fns :: "('w, 'v, 'x) app_env_scheme \<Rightarrow> quote \<Rightarrow> quote \<Rightarrow> 'v \<Rightarrow> WithConversionArgs" where
  "quote_fns E buy sell v = \<lparr>hedgeBuyUsd = dealer_fns E buy v, hedgeSellUsd = dealer_fns E sell v, mid = mid_fns E v\<rparr>"

text \<open>\<open>buy\<close> and \<open>sell\<close> say which of the dealer's quotes the caller passes.\<close>

definition constructPaymentFlowBuilder ::
  "('w, 'v, 'x) app_env_scheme \<Rightarrow> quote \<Rightarrow> quote \<Rightarrow> WalletDescriptor \<Rightarrow> LnInvoice \<Rightarrow> jsnum option
    \<Rightarrow> ('v, LPFBWithConversionState result) act" where
  "constructPaymentFlowBuilder E buy sell senderWallet invoice uncheckedAmount =
     act_bind (LndService E) (\<lambda>_.
     act_bind (\<lambda>v. (Inr \<lparr>localNodeIds = listAllPubkeys E v, flaggedPubkeys = conf_pubkeysToSkipProbe E\<rparr>, v)) (\<lambda>config.
     act_bind (stage_of (if truthy_num uncheckedAmount then withNoAmountInvoice config invoice (the uncheckedAmount)
                         else withInvoice config invoice)) (\<lambda>builderWithInvoice.
     act_bind (stage_of (withSenderWallet builderWithInvoice senderWallet)) (\<lambda>builderWithSenderWallet.
     act_bind (if isIntraLedger_sender builderWithSenderWallet
               then act_bind (recipientDetailsFromInvoice E invoice) (\<lambda>(w, pubkey, usd, username).
                      stage_of (withRecipientWallet builderWithSenderWallet w (Some pubkey) usd username))
               else stage_of (withoutRecipientWallet builderWithSenderWallet)) (\<lambda>builderAfterRecipientStep.
     act_bind (\<lambda>v. stage_of (withConversion builderAfterRecipientStep (clock E v) (quote_fns E buy sell v)) v)
       (\<lambda>builderWithConversion.
       if lpfb_usdPaymentAmount builderWithConversion = Inl (amount_err InvalidZeroAmountPriceRatioInputError)
          \<and> isIntraLedger_true builderWithSenderWallet
       then act_fail (amount_err ZeroAmountForUsdRecipientError)
       else act_return builderWithConversion))))))"

section \<open>Limits\<close>

definition limits_check ::
  "TxnGroup \<Rightarrow> (IAccountLimits \<Rightarrow> price_ratio \<Rightarrow> Amount \<Rightarrow> Amount TxVolume \<Rightarrow> unit result)
    \<Rightarrow> ('e, 'w, 'x) query_env_scheme \<Rightarrow> ('w, 'v, 'y) app_env_scheme \<Rightarrow> Amount \<Rightarrow> WalletDescriptor \<Rightarrow> price_ratio
    \<Rightarrow> (('w, 'v) app_state, unit) act" where
  "limits_check txnGroup check L E amt wallet priceRatio =
     act_bind (\<lambda>s. in_db (volumeAmountFn txnGroup L wallet (timestampDaysAgo E ONE_DAY (app_world s))) s) (\<lambda>walletVolume.
     act_bind (in_world (accounts_findById E (wd_accountId wallet))) (\<lambda>account.
       act_result (check (getAccountLimits (conf_limits E) (acc_level account)) priceRatio amt walletVolume)))"

definition newCheckIntraledgerLimits ::
  "('e, 'w, 'x) query_env_scheme \<Rightarrow> ('w, 'v, 'y) app_env_scheme \<Rightarrow> Amount \<Rightarrow> WalletDescriptor \<Rightarrow> price_ratio
    \<Rightarrow> (('w, 'v) app_state, unit) act" where
  "newCheckIntraledgerLimits = limits_check intraledgerTxBaseVolumeSince checkIntraledger"

definition newCheckTradeIntraAccountLimits ::
  "('e, 'w, 'x) query_env_scheme \<Rightarrow> ('w, 'v, 'y) app_env_scheme \<Rightarrow> Amount \<Rightarrow> WalletDescriptor \<Rightarrow> price_ratio
    \<Rightarrow> (('w, 'v) app_state, unit) act" where
  "newCheckTradeIntraAccountLimits = limits_check tradeIntraAccountTxBaseVolumeSince checkTradeIntraAccount"

definition newCheckWithdrawalLimits ::
  "('e, 'w, 'x) query_env_scheme \<Rightarrow> ('w, 'v, 'y) app_env_scheme \<Rightarrow> Amount \<Rightarrow> WalletDescriptor \<Rightarrow> price_ratio
    \<Rightarrow> (('w, 'v) app_state, unit) act" where
  "newCheckWithdrawalLimits = limits_check externalPaymentVolumeSince checkWithdrawal"

definition getPriceRatioForLimits ::
  "('w, 'v, 'x) app_env_scheme \<Rightarrow> PaymentFlowState \<Rightarrow> ('v, price_ratio) act" where
  "getPriceRatioForLimits E flow v =
     (if amount (btcPaymentAmount flow) < MIN_SATS_FOR_PRICE_RATIO_PRECISION
      then result_bind (usdFromBtcMidPriceFn (mid_ratio E v) (BtcPaymentAmount MIN_SATS_FOR_PRICE_RATIO_PRECISION)) (\<lambda>usd.
             PriceRatio usd (BtcPaymentAmount MIN_SATS_FOR_PRICE_RATIO_PRECISION))
      else PriceRatio (usdPaymentAmount flow) (btcPaymentAmount flow), v)"

section \<open>Paying an invoice\<close>

definition validate_sender ::
  "('v, 'x) account_env_scheme \<Rightarrow> WalletId \<Rightarrow> Account \<Rightarrow> ('v, Wallet) act" where
  "validate_sender E walletId senderAccount =
     act_bind (wallets_findById E walletId) (\<lambda>senderWallet.
     act_bind (act_result (AccountValidator senderAccount (WalletDescriptor.truncate senderWallet))) (\<lambda>_.
       act_return senderWallet))"

definition validateInvoicePaymentInputs ::
  "('v, 'x) lnd_env_scheme \<Rightarrow> string \<Rightarrow> string \<Rightarrow> Account \<Rightarrow> ('v, Wallet \<times> LnInvoice \<times> Amount) act" where
  "validateInvoicePaymentInputs E uncheckedPaymentRequest uncheckedSenderWalletId senderAccount =
     act_bind (act_result (checkedToWalletId uncheckedSenderWalletId)) (\<lambda>senderWalletId.
     act_bind (act_result (decodeInvoice (parsePaymentRequest E) uncheckedPaymentRequest)) (\<lambda>decodedInvoice.
       case paymentAmount decodedInvoice of
         None \<Rightarrow> act_fail (flow_err LnPaymentRequestNonZeroAmountRequiredError)
       | Some lnInvoiceAmount \<Rightarrow>
           if \<not> 0 < amount lnInvoiceAmount then act_fail (flow_err LnPaymentRequestNonZeroAmountRequiredError)
           else act_bind (validate_sender E senderWalletId senderAccount) (\<lambda>senderWallet.
                  act_return (senderWallet, decodedInvoice, lnInvoiceAmount))))"

definition validateNoAmountInvoicePaymentInputs ::
  "('v, 'x) lnd_env_scheme \<Rightarrow> string \<Rightarrow> jsnum \<Rightarrow> string \<Rightarrow> Account \<Rightarrow> ('v, Wallet \<times> LnInvoice \<times> Amount) act" where
  "validateNoAmountInvoicePaymentInputs E uncheckedPaymentRequest amt uncheckedSenderWalletId senderAccount =
     act_bind (act_result (checkedToWalletId uncheckedSenderWalletId)) (\<lambda>senderWalletId.
     act_bind (act_result (decodeInvoice (parsePaymentRequest E) uncheckedPaymentRequest)) (\<lambda>decodedInvoice.
       if (case paymentAmount decodedInvoice of None \<Rightarrow> False | Some a \<Rightarrow> 0 < amount a)
       then act_fail (flow_err LnPaymentRequestZeroAmountRequiredError)
       else
         act_bind (validate_sender E senderWalletId senderAccount) (\<lambda>senderWallet.
         act_bind (act_result (if wd_currency senderWallet = Btc then checkedToBtcPaymentAmount (Some amt)
                               else checkedToUsdPaymentAmount (Some amt))) (\<lambda>inputPaymentAmount.
           act_return (senderWallet, decodedInvoice, inputPaymentAmount)))))"

definition getPaymentFlow ::
  "('w, 'v, 'x) app_env_scheme \<Rightarrow> Wallet \<Rightarrow> LnInvoice \<Rightarrow> Amount \<Rightarrow> jsnum option \<Rightarrow> ('v, PaymentFlowState) act" where
  "getPaymentFlow E senderWallet decodedInvoice inputPaymentAmount uncheckedAmount =
     act_bind (act_attempt (findLightningPaymentFlow E (Num (of_int defaultTimeToExpiryInSeconds))
         \<lparr>idx_paymentHash = Some (inv_paymentHash decodedInvoice), idx_intraLedgerHash = None,
          idx_walletId = wd_id senderWallet, idx_inputAmount = amount inputPaymentAmount\<rparr>)) (\<lambda>found.
       case found of
         Inr flow \<Rightarrow> act_return flow
       | Inl e \<Rightarrow>
           if e = not_found_err CouldNotFindLightningPaymentFlowError
           then
             act_bind (constructPaymentFlowBuilder E ImmediateBuy ImmediateSell (WalletDescriptor.truncate senderWallet)
                 decodedInvoice uncheckedAmount) (\<lambda>builderWithConversion.
             act_bind (act_result (withoutRoute builderWithConversion)) (\<lambda>flow.
             act_bind (flows_persistNew E flow) (\<lambda>_. act_return flow)))
           else act_fail e)"

definition not_aborted :: "('w, 'v, 'x) app_env_scheme \<Rightarrow> string \<Rightarrow> (('w, 'v) app_state, unit) act" where
  "not_aborted E signal s =
     (if lock_aborted E signal s then Inl (LockError ResourceExpiredLockServiceError) else Inr (), s)"

definition intraledger_metadata ::
  "bool \<Rightarrow> PaymentHash \<Rightarrow> Pubkey \<Rightarrow> PaymentFlowState \<Rightarrow> price_ratio \<Rightarrow> string option \<Rightarrow> Username option \<Rightarrow> Username option
    \<Rightarrow> TxMetadata \<times> TxMetadata" where
  "intraledger_metadata same_account hash payeePubkey flow ratio memo senderUsername payeeUsername =
     (let amountDisplay = ndc_fromUsdAmount (usdPerSat ratio) (usdPaymentAmount flow)
      in if same_account
         then LnTradeIntraAccountLedgerMetadata hash payeePubkey flow (Num 0) amountDisplay ''USD'' (str_or_undefined memo)
         else LnIntraledgerLedgerMetadata hash payeePubkey flow (Num 0) amountDisplay ''USD'' (str_or_undefined memo)
                senderUsername payeeUsername)"

text \<open>What happens while the sender's wallet is locked.\<close>

definition intraledger_behind_lock ::
  "('e, 'w, 'x) query_env_scheme \<Rightarrow> ('w, 'v, 'y) app_env_scheme \<Rightarrow> PaymentFlowState \<Rightarrow> Wallet \<Rightarrow> Wallet \<Rightarrow> PaymentHash
    \<Rightarrow> Pubkey \<Rightarrow> Username option \<Rightarrow> Username option \<Rightarrow> string option \<Rightarrow> string \<Rightarrow> (('w, 'v) app_state, PaymentSendStatus) act" where
  "intraledger_behind_lock L E flow senderWallet recipientWallet hash payeePubkey payeeUsername senderUsername memo signal =
     act_bind (in_db (isLnTxRecorded L hash)) (\<lambda>recorded.
       if recorded then act_return Send_AlreadyPaid
       else
         act_bind (in_ledger (getWalletBalanceAmount L (WalletDescriptor.truncate senderWallet))) (\<lambda>balance.
         act_bind (act_result (checkBalanceForSend flow balance)) (\<lambda>_.
         act_bind (act_result (PriceRatio (usdPaymentAmount flow) (btcPaymentAmount flow))) (\<lambda>priceRatio.
         act_bind (not_aborted E signal) (\<lambda>_.
           let (metadata, additionalDebitMetadata) =
             intraledger_metadata (wd_accountId senderWallet = wd_accountId recipientWallet) hash payeePubkey flow
               priceRatio memo senderUsername payeeUsername
           in case Payment_Flow.recipientWalletDescriptor flow of
                None \<Rightarrow> act_fail (flow_err InvalidLightningPaymentFlowBuilderStateError)
              | Some recipient \<Rightarrow>
                  act_bind (in_ledger (recordIntraledger L (descriptionFromInvoice flow) (senderWalletDescriptor flow) recipient
                      (usdPaymentAmount flow, btcPaymentAmount flow) metadata additionalDebitMetadata)) (\<lambda>_.
                  act_bind (in_world (LndService E)) (\<lambda>_.
                  act_bind (in_world (cancelInvoice E payeePubkey hash)) (\<lambda>_.
                  act_bind (in_world (markAsPaid E hash)) (\<lambda>_.
                  act_bind (in_world (accounts_findById E (wd_accountId recipientWallet))) (\<lambda>recipientAccount.
                  act_bind (in_world (users_findById E (acc_ownerId recipientAccount))) (\<lambda>_.
                    act_return Send_Success)))))))))))"

definition executePaymentViaIntraledger ::
  "('e, 'w, 'x) query_env_scheme \<Rightarrow> ('w, 'v, 'y) app_env_scheme \<Rightarrow> PaymentFlowState \<Rightarrow> Wallet \<Rightarrow> Username option
    \<Rightarrow> string option \<Rightarrow> (('w, 'v) app_state, PaymentSendStatus) act" where
  "executePaymentViaIntraledger L E flow senderWallet senderUsername memo =
     act_bind (in_world (getPriceRatioForLimits E flow)) (\<lambda>priceRatioForLimits.
     act_bind (act_result (paymentHashForFlow flow)) (\<lambda>hash.
       case recipientDetails flow of
         (payeeWalletId, payeeCurrency, payeePubkey, payeeUsername) \<Rightarrow>
           if \<not> (truthy_str payeeWalletId \<and> payeeCurrency \<noteq> None \<and> truthy_str payeePubkey)
           then act_fail (flow_err InvalidLightningPaymentFlowBuilderStateError)
           else
             act_bind (in_world (wallets_findById E (the payeeWalletId))) (\<lambda>recipientWallet.
             act_bind ((if wd_accountId senderWallet = wd_accountId recipientWallet then newCheckTradeIntraAccountLimits
                        else newCheckIntraledgerLimits) L E (usdPaymentAmount flow) (WalletDescriptor.truncate senderWallet)
                        priceRatioForLimits) (\<lambda>_.
               lockWalletId E (wd_id senderWallet) (\<lambda>signal.
                 intraledger_behind_lock L E flow senderWallet recipientWallet hash (the payeePubkey) payeeUsername
                   senderUsername memo signal)))))"

definition LnAlreadyPaid :: error where
  "LnAlreadyPaid = LightningError LnAlreadyPaidError"

text \<open>What is stored about the payment without waiting for it.\<close>

definition note_payment ::
  "('e, 'w, 'x) query_env_scheme \<Rightarrow> ('w, 'v, 'y) app_env_scheme \<Rightarrow> LnInvoice \<Rightarrow> Pubkey \<Rightarrow> PayInvoiceResult result
    \<Rightarrow> (('w, 'v) app_state, unit) act" where
  "note_payment L E decodedInvoice sentFrom payResult =
     (if payResult = Inl LnAlreadyPaid then act_return ()
      else
        act_bind (act_attempt (in_world (payments_persistNew E (Inl
          \<lparr>lpp_paymentHash = inv_paymentHash decodedInvoice, lpp_paymentRequest = Some (paymentRequest decodedInvoice),
           lpp_sentFromPubkey = sentFrom\<rparr>)))) (\<lambda>_.
          case payResult of
            Inl _ \<Rightarrow> act_return ()
          | Inr r \<Rightarrow>
              act_bind (act_attempt (in_db (updateMetadataByHash L (inv_paymentHash decodedInvoice) (Some (pir_revealedPreImage r)))))
                (\<lambda>_. act_return ())))"

definition finish_send ::
  "('e, 'w, 'x) query_env_scheme \<Rightarrow> ('w, 'v, 'y) app_env_scheme \<Rightarrow> PaymentHash \<Rightarrow> PaymentFlowState \<Rightarrow> RawRoute option
    \<Rightarrow> LedgerJournalId \<Rightarrow> PayInvoiceResult result \<Rightarrow> (('w, 'v) app_state, PaymentSendStatus) act" where
  "finish_send L E hash flow rawRoute jid payResult =
     (if payResult = Inl (LightningError LnPaymentPendingError)
      then act_bind (act_attempt (in_world (updateLightningPaymentFlow E (flow\<lparr>paymentSentAndPending := True\<rparr>)))) (\<lambda>_.
             act_return Send_Pending)
      else
        act_bind (in_db (settlePendingLnSend L hash)) (\<lambda>_.
          case payResult of
            Inl e \<Rightarrow>
              act_bind (in_db (recordLnSendRevert L jid hash)) (\<lambda>_.
                if e = LnAlreadyPaid then act_return Send_AlreadyPaid else act_fail e)
          | Inr r \<Rightarrow>
              act_bind (if rawRoute = None then reimburseFee L flow jid (pir_roundedUpFee r) (Some (pir_revealedPreImage r))
                        else act_return ()) (\<lambda>_.
                act_return Send_Success)))"

definition pay_invoice ::
  "('w, 'v, 'y) app_env_scheme \<Rightarrow> LndParamsAuthed \<Rightarrow> LnInvoice \<Rightarrow> PaymentFlowState \<Rightarrow> RawRoute option \<Rightarrow> Pubkey option
    \<Rightarrow> ('v, PayInvoiceResult) act" where
  "pay_invoice E node decodedInvoice flow rawRoute outgoing =
     (case rawRoute of
        Some route \<Rightarrow> payInvoiceViaRoutes E (inv_paymentHash decodedInvoice) route outgoing
      | None \<Rightarrow> payInvoiceViaPaymentDetails E node decodedInvoice (btcPaymentAmount flow) (btcProtocolFee flow))"

text \<open>The amount with the fee, in dollars and in bitcoin.\<close>

definition amount_to_debit :: "PaymentFlowState \<Rightarrow> Amount \<times> Amount" where
  "amount_to_debit flow =
     (\<lparr>currency = currency (usdPaymentAmount flow), amount = amount (usdPaymentAmount flow) + amount (usdProtocolFee flow)\<rparr>,
      \<lparr>currency = currency (btcPaymentAmount flow), amount = amount (btcPaymentAmount flow) + amount (btcProtocolFee flow)\<rparr>)"

text \<open>From the journal on: the node is asked to pay, and the journal is settled, or settled and reverted.\<close>

definition send_recorded ::
  "('e, 'w, 'x) query_env_scheme \<Rightarrow> ('w, 'v, 'y) app_env_scheme \<Rightarrow> LndParamsAuthed \<Rightarrow> LnInvoice \<Rightarrow> PaymentFlowState
    \<Rightarrow> TxMetadata \<Rightarrow> (('w, 'v) app_state, PaymentSendStatus) act" where
  "send_recorded L E node decodedInvoice flow metadata =
     (case routeDetails flow of
        (rawRoute, outgoing) \<Rightarrow>
          act_bind (in_ledger (recordSend L (descriptionFromInvoice flow) (senderWalletDescriptor flow) (amount_to_debit flow)
              None metadata)) (\<lambda>journal.
          act_bind (act_attempt (in_world (pay_invoice E node decodedInvoice flow rawRoute outgoing))) (\<lambda>payResult.
            case payResult of
              Inl (Thrown m) \<Rightarrow> act_fail (Thrown m)
            | _ \<Rightarrow>
                act_bind (note_payment L E decodedInvoice
                    (if truthy_str outgoing then the outgoing else node_pubkey node) payResult) (\<lambda>_.
                  finish_send L E (inv_paymentHash decodedInvoice) flow rawRoute (journalId journal) payResult))))"

definition send_behind_lock ::
  "('e, 'w, 'x) query_env_scheme \<Rightarrow> ('w, 'v, 'y) app_env_scheme \<Rightarrow> LnInvoice \<Rightarrow> PaymentFlowState \<Rightarrow> Wallet \<Rightarrow> string
    \<Rightarrow> (('w, 'v) app_state, PaymentSendStatus) act" where
  "send_behind_lock L E decodedInvoice flow senderWallet signal =
     (let hash = inv_paymentHash decodedInvoice
      in act_bind (in_db (getTransactionsByHash L hash)) (\<lambda>ledgerTransactions.
           if list_ex (\<lambda>tx. lt_pendingConfirmation tx = Some True) ledgerTransactions
           then act_fail (flow_err LnPaymentRequestInTransitError)
           else
             act_bind (in_ledger (getWalletBalanceAmount L (WalletDescriptor.truncate senderWallet))) (\<lambda>balance.
             act_bind (act_result (checkBalanceForSend flow balance)) (\<lambda>_.
             act_bind (in_world (LndService E)) (\<lambda>node.
             act_bind (act_result (PriceRatio (usdPaymentAmount flow) (btcPaymentAmount flow))) (\<lambda>priceRatio.
             act_bind (not_aborted E signal) (\<lambda>_.
               let (rawRoute, outgoing) = routeDetails flow;
                   display = ndc_fromUsdAmount (usdPerSat priceRatio)
               in send_recorded L E node decodedInvoice flow
                    (LnSendLedgerMetadata hash (if truthy_str outgoing then the outgoing else node_pubkey node)
                       flow (display (usdProtocolFee flow)) (display (usdPaymentAmount flow)) ''USD'' (rawRoute \<noteq> None)))))))))"

definition executePaymentViaLn ::
  "('e, 'w, 'x) query_env_scheme \<Rightarrow> ('w, 'v, 'y) app_env_scheme \<Rightarrow> LnInvoice \<Rightarrow> PaymentFlowState \<Rightarrow> Wallet
    \<Rightarrow> (('w, 'v) app_state, PaymentSendStatus) act" where
  "executePaymentViaLn L E decodedInvoice flow senderWallet =
     act_bind (in_world (getPriceRatioForLimits E flow)) (\<lambda>priceRatioForLimits.
     act_bind (newCheckWithdrawalLimits L E (usdPaymentAmount flow) (WalletDescriptor.truncate senderWallet) priceRatioForLimits) (\<lambda>_.
       lockWalletId E (wd_id senderWallet) (send_behind_lock L E decodedInvoice flow senderWallet)))"

text \<open>
  The callers test the validation for an \<^verbatim>\<open>AlreadyPaidError\<close>, which the validation never returns: the paid invoice is
  found later, when the flow is built, and then its error is the result.
\<close>

definition execute_payment ::
  "('e, 'w, 'x) query_env_scheme \<Rightarrow> ('w, 'v, 'y) app_env_scheme \<Rightarrow> Account \<Rightarrow> string option \<Rightarrow> jsnum option
    \<Rightarrow> (Wallet \<times> LnInvoice \<times> Amount) result \<Rightarrow> (('w, 'v) app_state, PaymentSendStatus) act" where
  "execute_payment L E senderAccount memo uncheckedAmount validatedPaymentInputs =
     (case validatedPaymentInputs of
        Inl e \<Rightarrow> if e = ValidationError AlreadyPaidError then act_return Send_AlreadyPaid else act_fail e
      | Inr (senderWallet, decodedInvoice, inputPaymentAmount) \<Rightarrow>
          act_bind (in_world (getPaymentFlow E senderWallet decodedInvoice inputPaymentAmount uncheckedAmount)) (\<lambda>flow.
            if settlementMethod flow = SM_IntraLedger
            then executePaymentViaIntraledger L E flow senderWallet (acc_username senderAccount) memo
            else executePaymentViaLn L E decodedInvoice flow senderWallet))"

definition payInvoiceByWalletId ::
  "('e, 'w, 'x) query_env_scheme \<Rightarrow> ('w, 'v, 'y) app_env_scheme \<Rightarrow> string \<Rightarrow> string option \<Rightarrow> string \<Rightarrow> Account
    \<Rightarrow> (('w, 'v) app_state, PaymentSendStatus) act" where
  "payInvoiceByWalletId L E uncheckedPaymentRequest memo uncheckedSenderWalletId senderAccount =
     act_bind (act_attempt (in_world (validateInvoicePaymentInputs E uncheckedPaymentRequest uncheckedSenderWalletId senderAccount)))
       (execute_payment L E senderAccount memo None)"

definition payNoAmountInvoiceByWalletId ::
  "('e, 'w, 'x) query_env_scheme \<Rightarrow> ('w, 'v, 'y) app_env_scheme \<Rightarrow> string \<Rightarrow> jsnum \<Rightarrow> string option \<Rightarrow> string \<Rightarrow> Account
    \<Rightarrow> (('w, 'v) app_state, PaymentSendStatus) act" where
  "payNoAmountInvoiceByWalletId L E uncheckedPaymentRequest amt memo uncheckedSenderWalletId senderAccount =
     act_bind (act_attempt (in_world (validateNoAmountInvoicePaymentInputs E uncheckedPaymentRequest amt uncheckedSenderWalletId
         senderAccount)))
       (execute_payment L E senderAccount memo (Some amt))"

section \<open>Paying another wallet\<close>

text \<open>
  \<^verbatim>\<open>addNewContact\<close>: the counter of a contact of that name goes up, or the contact is added.
\<close>

fun count_contact :: "Username \<Rightarrow> AccountContact list \<Rightarrow> AccountContact list" where
  "count_contact name [] = [\<lparr>contact_id = name, contact_username = name, contact_alias = [], transactionsCount = Num 1\<rparr>]"
| "count_contact name (c # cs) =
     (if contact_username c = name then c\<lparr>transactionsCount := js_add (transactionsCount c) (Num 1)\<rparr> # cs
      else c # count_contact name cs)"

definition addNewContact :: "('v, 'x) account_env_scheme \<Rightarrow> AccountId \<Rightarrow> Username \<Rightarrow> ('v, Account) act" where
  "addNewContact E accountId contactUsername =
     act_bind (findByUsername E contactUsername) (\<lambda>_.
     act_bind (accounts_findById E accountId) (\<lambda>account.
       let account' = account\<lparr>acc_contacts := count_contact contactUsername (acc_contacts account)\<rparr>
       in act_bind (accounts_update E account') (\<lambda>_. act_return account')))"

definition addContactsAfterSend :: "('v, 'x) account_env_scheme \<Rightarrow> Account \<Rightarrow> Account \<Rightarrow> ('v, unit) act" where
  "addContactsAfterSend E senderAccount recipientAccount =
     (if \<not> (acc_contactEnabled senderAccount \<and> acc_contactEnabled recipientAccount) then act_return ()
      else
        act_bind (if truthy_str (acc_username recipientAccount)
                  then act_bind (addNewContact E (acc_id senderAccount) (the (acc_username recipientAccount))) (\<lambda>_. act_return ())
                  else act_return ()) (\<lambda>_.
        if truthy_str (acc_username senderAccount)
        then act_bind (addNewContact E (acc_id recipientAccount) (the (acc_username senderAccount))) (\<lambda>_. act_return ())
        else act_return ()))"

definition validateIntraledgerPaymentInputs ::
  "('v, 'x) account_env_scheme \<Rightarrow> string \<Rightarrow> string \<Rightarrow> Account \<Rightarrow> ('v, Wallet \<times> Wallet \<times> Account) act" where
  "validateIntraledgerPaymentInputs E uncheckedSenderWalletId uncheckedRecipientWalletId senderAccount =
     act_bind (act_result (checkedToWalletId uncheckedSenderWalletId)) (\<lambda>senderWalletId.
     act_bind (validate_sender E senderWalletId senderAccount) (\<lambda>senderWallet.
     act_bind (act_result (checkedToWalletId uncheckedRecipientWalletId)) (\<lambda>payeeWalletId.
     act_bind (wallets_findById E payeeWalletId) (\<lambda>recipientWallet.
     act_bind (accounts_findById E (wd_accountId recipientWallet)) (\<lambda>recipientAccount.
       act_return (senderWallet, recipientWallet, recipientAccount))))))"

definition wallet_transfer_metadata ::
  "bool \<Rightarrow> PaymentFlowState \<Rightarrow> price_ratio \<Rightarrow> string option \<Rightarrow> Username option \<Rightarrow> Username option \<Rightarrow> TxMetadata \<times> TxMetadata" where
  "wallet_transfer_metadata same_account flow ratio memo senderUsername payeeUsername =
     (let amountDisplay = ndc_fromUsdAmount (usdPerSat ratio) (usdPaymentAmount flow)
      in if same_account
         then (WalletIdTradeIntraAccountLedgerMetadata flow (Num 0) amountDisplay ''USD'' (str_or_undefined memo), Map.empty)
         else WalletIdIntraledgerLedgerMetadata flow (Num 0) amountDisplay ''USD'' (str_or_undefined memo)
                senderUsername payeeUsername)"

definition transfer_behind_lock ::
  "('e, 'w, 'x) query_env_scheme \<Rightarrow> ('w, 'v, 'y) app_env_scheme \<Rightarrow> PaymentFlowState \<Rightarrow> Account \<Rightarrow> Wallet \<Rightarrow> Account \<Rightarrow> Wallet
    \<Rightarrow> string option \<Rightarrow> string \<Rightarrow> (('w, 'v) app_state, PaymentSendStatus) act" where
  "transfer_behind_lock L E flow senderAccount senderWallet recipientAccount recipientWallet memo signal =
     act_bind (in_ledger (getWalletBalanceAmount L (WalletDescriptor.truncate senderWallet))) (\<lambda>balance.
     act_bind (act_result (checkBalanceForSend flow balance)) (\<lambda>_.
     act_bind (act_result (PriceRatio (usdPaymentAmount flow) (btcPaymentAmount flow))) (\<lambda>priceRatio.
     act_bind (not_aborted E signal) (\<lambda>_.
       let (metadata, additionalDebitMetadata) =
         wallet_transfer_metadata (wd_accountId senderWallet = wd_accountId recipientWallet) flow priceRatio memo
           (acc_username senderAccount) (snd (snd (snd (recipientDetails flow))))
       in case Payment_Flow.recipientWalletDescriptor flow of
            None \<Rightarrow> act_fail (flow_err InvalidLightningPaymentFlowBuilderStateError)
          | Some recipient \<Rightarrow>
              act_bind (in_ledger (recordIntraledger L (descriptionFromInvoice flow) (senderWalletDescriptor flow) recipient
                  (usdPaymentAmount flow, btcPaymentAmount flow) metadata additionalDebitMetadata)) (\<lambda>_.
              act_bind (in_world (users_findById E (acc_ownerId recipientAccount))) (\<lambda>_.
                act_return Send_Success))))))"

definition executeTransferViaIntraledger ::
  "('e, 'w, 'x) query_env_scheme \<Rightarrow> ('w, 'v, 'y) app_env_scheme \<Rightarrow> PaymentFlowState \<Rightarrow> Account \<Rightarrow> Wallet \<Rightarrow> Account \<Rightarrow> Wallet
    \<Rightarrow> string option \<Rightarrow> (('w, 'v) app_state, PaymentSendStatus) act" where
  "executeTransferViaIntraledger L E flow senderAccount senderWallet recipientAccount recipientWallet memo =
     act_bind (in_world (getPriceRatioForLimits E flow)) (\<lambda>priceRatioForLimits.
     act_bind ((if wd_accountId senderWallet = wd_accountId recipientWallet then newCheckTradeIntraAccountLimits
                else newCheckIntraledgerLimits) L E (usdPaymentAmount flow) (WalletDescriptor.truncate senderWallet)
                priceRatioForLimits) (\<lambda>_.
       case recipientDetails flow of
         (payeeWalletId, payeeCurrency, _) \<Rightarrow>
           if \<not> (truthy_str payeeWalletId \<and> payeeCurrency \<noteq> None)
           then act_fail (flow_err InvalidLightningPaymentFlowBuilderStateError)
           else lockWalletId E (wd_id senderWallet)
                  (transfer_behind_lock L E flow senderAccount senderWallet recipientAccount recipientWallet memo)))"

text \<open>\<open>hash\<close> is the random hash that the builder gives the transfer.\<close>

definition intraledgerPaymentSendWalletId ::
  "('e, 'w, 'x) query_env_scheme \<Rightarrow> ('w, 'v, 'y) app_env_scheme \<Rightarrow> IntraLedgerHash \<Rightarrow> string \<Rightarrow> Account \<Rightarrow> jsnum
    \<Rightarrow> string option \<Rightarrow> string \<Rightarrow> (('w, 'v) app_state, PaymentSendStatus) act" where
  "intraledgerPaymentSendWalletId L E hash uncheckedRecipientWalletId senderAccount uncheckedAmount memo uncheckedSenderWalletId =
     act_bind (in_world (validateIntraledgerPaymentInputs E uncheckedSenderWalletId uncheckedRecipientWalletId senderAccount))
       (\<lambda>(senderWallet, recipientWallet, recipientAccount).
     act_bind (\<lambda>s.
       let config = \<lparr>localNodeIds = [], flaggedPubkeys = conf_pubkeysToSkipProbe E\<rparr>;
           sender = withSenderWallet (withoutInvoice config hash uncheckedAmount (case memo of None \<Rightarrow> [] | Some m \<Rightarrow> m))
             (WalletDescriptor.truncate senderWallet);
           recipient = withRecipientWallet sender
             \<lparr>wd_id = wd_id recipientWallet, wd_currency = wd_currency recipientWallet, wd_accountId = acc_id recipientAccount\<rparr>
             None None (acc_username recipientAccount)
       in (case withoutRoute (withConversion recipient (clock E (app_world s)) (quote_fns E ImmediateBuy ImmediateSell (app_world s))) of
             Inl e \<Rightarrow> Inl (if e = amount_err InvalidZeroAmountPriceRatioInputError then amount_err ZeroAmountForUsdRecipientError else e)
           | Inr flow \<Rightarrow> Inr flow, s)) (\<lambda>flow.
     act_bind (executeTransferViaIntraledger L E flow senderAccount senderWallet recipientAccount recipientWallet memo)
       (\<lambda>paymentSendStatus.
     act_bind (if acc_id senderAccount \<noteq> acc_id recipientAccount
               then act_attempt (in_world (addContactsAfterSend E senderAccount recipientAccount)) else act_return (Inr ()))
       (\<lambda>addContactResult.
         case addContactResult of Inl (Thrown m) \<Rightarrow> act_fail (Thrown m) | _ \<Rightarrow> act_return paymentSendStatus))))"

section \<open>Estimating the fee of an invoice\<close>

text \<open>\<^verbatim>\<open>app/partial-result.ts\<close>.\<close>

datatype 'a PartialResult = Partial_ok 'a | Partial_partial 'a error | Partial_err error

definition partial_errors :: "('s, 'a PartialResult) act \<Rightarrow> ('s, 'a PartialResult) act" where
  "partial_errors m =
     act_bind (act_attempt m) (\<lambda>r.
       case r of Inl (Thrown msg) \<Rightarrow> act_fail (Thrown msg) | Inl e \<Rightarrow> act_return (Partial_err e) | Inr p \<Rightarrow> act_return p)"

definition estimate_persisted ::
  "('w, 'v, 'y) app_env_scheme \<Rightarrow> PaymentFlowState \<Rightarrow> (('w, 'v) app_state, Amount PartialResult) act" where
  "estimate_persisted E flow =
     act_bind (act_attempt (in_world (flows_persistNew E flow))) (\<lambda>persistedPayment.
       case persistedPayment of
         Inl (Thrown m) \<Rightarrow> act_fail (Thrown m)
       | Inl e \<Rightarrow> act_return (Partial_partial (protocolFeeInSenderWalletCurrency flow) e)
       | Inr persisted \<Rightarrow> act_return (Partial_ok (protocolFeeInSenderWalletCurrency persisted)))"

definition estimate_via_ln ::
  "('w, 'v, 'y) app_env_scheme \<Rightarrow> LnInvoice \<Rightarrow> LPFBWithConversionState result \<Rightarrow> Amount
    \<Rightarrow> (('w, 'v) app_state, Amount PartialResult) act" where
  "estimate_via_ln E invoice builder btc =
     act_bind (in_world (LndService E)) (\<lambda>node.
     act_bind (if lpfb_skipProbeForDestination builder = Inr False
               then act_attempt (in_world (findRouteForInvoice E node invoice (Some btc)))
               else act_return (Inl (flow_err SkipProbeForPubkeyError))) (\<lambda>routeResult.
       case routeResult of
         Inl (Thrown m) \<Rightarrow> act_fail (Thrown m)
       | Inl e \<Rightarrow>
           act_bind (act_result (withoutRoute builder)) (\<lambda>flow.
           act_bind (act_attempt (in_world (flows_persistNew E flow))) (\<lambda>_.
             act_return
               (if e = flow_err SkipProbeForPubkeyError then Partial_ok (protocolFeeInSenderWalletCurrency flow)
                else Partial_partial (protocolFeeInSenderWalletCurrency flow) e)))
       | Inr (pubkey, route) \<Rightarrow> act_bind (act_result (withRoute builder pubkey route)) (estimate_persisted E)))"

definition estimateLightningFee ::
  "('e, 'w, 'x) query_env_scheme \<Rightarrow> ('w, 'v, 'y) app_env_scheme \<Rightarrow> string \<Rightarrow> LnInvoice \<Rightarrow> jsnum option
    \<Rightarrow> (('w, 'v) app_state, Amount PartialResult) act" where
  "estimateLightningFee L E uncheckedSenderWalletId invoice uncheckedAmount =
     partial_errors
       (act_bind (act_result (checkedToWalletId uncheckedSenderWalletId)) (\<lambda>senderWalletId.
        act_bind (in_world (wallets_findById E senderWalletId)) (\<lambda>senderWallet.
        act_bind (in_world (constructPaymentFlowBuilder E FutureBuy FutureSell (WalletDescriptor.truncate senderWallet) invoice
            uncheckedAmount)) (\<lambda>builder.
        act_bind (act_result (lpfb_usdPaymentAmount builder)) (\<lambda>usd.
        act_bind (act_result (lpfb_btcPaymentAmount builder)) (\<lambda>btc.
        act_bind (act_result (PriceRatio usd btc)) (\<lambda>priceRatio.
          let wallet = WalletDescriptor.truncate senderWallet
          in if lpfb_isTradeIntraAccount builder = Inr True
             then act_bind (newCheckTradeIntraAccountLimits L E usd wallet priceRatio) (\<lambda>_.
                    act_bind (act_result (withoutRoute builder)) (estimate_persisted E))
             else if lpfb_isIntraLedger builder = Inr True
             then act_bind (newCheckIntraledgerLimits L E usd wallet priceRatio) (\<lambda>_.
                    act_bind (act_result (withoutRoute builder)) (estimate_persisted E))
             else act_bind (newCheckWithdrawalLimits L E usd wallet priceRatio) (\<lambda>_.
                    estimate_via_ln E invoice builder btc))))))))"

definition getLightningFeeEstimation ::
  "('e, 'w, 'x) query_env_scheme \<Rightarrow> ('w, 'v, 'y) app_env_scheme \<Rightarrow> string \<Rightarrow> string
    \<Rightarrow> (('w, 'v) app_state, Amount PartialResult) act" where
  "getLightningFeeEstimation L E walletId uncheckedPaymentRequest =
     partial_errors
       (act_bind (act_result (decodeInvoice (parsePaymentRequest E) uncheckedPaymentRequest)) (\<lambda>decodedInvoice.
          if paymentAmount decodedInvoice = None then act_fail (flow_err LnPaymentRequestNonZeroAmountRequiredError)
          else estimateLightningFee L E walletId decodedInvoice None))"

definition getNoAmountLightningFeeEstimation ::
  "('e, 'w, 'x) query_env_scheme \<Rightarrow> ('w, 'v, 'y) app_env_scheme \<Rightarrow> string \<Rightarrow> string \<Rightarrow> jsnum
    \<Rightarrow> (('w, 'v) app_state, Amount PartialResult) act" where
  "getNoAmountLightningFeeEstimation L E walletId uncheckedPaymentRequest amt =
     partial_errors
       (act_bind (act_result (decodeInvoice (parsePaymentRequest E) uncheckedPaymentRequest)) (\<lambda>decodedInvoice.
          if truthy_num (inv_amount decodedInvoice) \<and> js_less (Num 0) (the (inv_amount decodedInvoice))
          then act_fail (flow_err LnPaymentRequestZeroAmountRequiredError)
          else estimateLightningFee L E walletId decodedInvoice (Some amt)))"

section \<open>The ledger stays balanced\<close>

text \<open>The amounts of a flow that the journals of the ledger hold, fees included.\<close>

definition flow_fits :: "PaymentFlowState \<Rightarrow> bool" where
  "flow_fits f =
     (currency (usdPaymentAmount f) = Usd \<and> currency (usdProtocolFee f) = Usd
      \<and> currency (btcPaymentAmount f) = Btc \<and> currency (btcProtocolFee f) = Btc
      \<and> 0 \<le> amount (usdPaymentAmount f) \<and> 0 \<le> amount (usdProtocolFee f)
      \<and> 0 \<le> amount (btcPaymentAmount f) \<and> 0 \<le> amount (btcProtocolFee f)
      \<and> amount (btcProtocolFee f) \<le> amount (btcPaymentAmount f)
      \<and> ledger_amount (amount (usdPaymentAmount f) + amount (usdProtocolFee f))
      \<and> ledger_amount (amount (btcPaymentAmount f) + amount (btcProtocolFee f)))"

lemma amount_by_currency:
  "currency a = Usd \<Longrightarrow> a = UsdPaymentAmount (amount a)" "currency a = Btc \<Longrightarrow> a = BtcPaymentAmount (amount a)"
  by (simp_all add: UsdPaymentAmount_def BtcPaymentAmount_def)

lemma flow_fits_amounts:
  assumes "flow_fits f"
  shows "usdPaymentAmount f = UsdPaymentAmount (amount (usdPaymentAmount f))"
    "btcPaymentAmount f = BtcPaymentAmount (amount (btcPaymentAmount f))"
    "ledger_amount (amount (usdPaymentAmount f))" "ledger_amount (amount (btcPaymentAmount f))"
    "amount_to_debit f = (UsdPaymentAmount (amount (usdPaymentAmount f) + amount (usdProtocolFee f)),
       BtcPaymentAmount (amount (btcPaymentAmount f) + amount (btcProtocolFee f)))"
    "ledger_amount (amount (usdPaymentAmount f) + amount (usdProtocolFee f))"
    "ledger_amount (amount (btcPaymentAmount f) + amount (btcProtocolFee f))"
  using assms by (auto simp: flow_fits_def amount_by_currency ledger_amount_def amount_to_debit_def
      UsdPaymentAmount_def BtcPaymentAmount_def)

lemma reimbursement_fits:
  assumes fits: "flow_fits f" and ratio: "PriceRatio (usdPaymentAmount f) (btcPaymentAmount f) = Inr r"
    and fee: "0 \<le> amount fee"
    and reimbursement: "getReimbursement (btcProtocolFee f, usdProtocolFee f) r fee = Inr (btc, usd)"
  shows "\<exists>u b. usd = UsdPaymentAmount u \<and> btc = BtcPaymentAmount b \<and> ledger_amount u \<and> ledger_amount b"
proof -
  let ?u = "amount (usdPaymentAmount f)" and ?b = "amount (btcPaymentAmount f)"
  define d where "d = amount (btcProtocolFee f) - amount fee"
  have r: "r = \<lparr>pr_usd = usdPaymentAmount f, pr_btc = btcPaymentAmount f\<rparr>" and pos: "0 < ?u" "0 < ?b"
    using ratio fits by (auto simp: PriceRatio_Inr flow_fits_def)
  have d: "0 \<le> d" "d \<le> ?b"
    using reimbursement fits fee by (auto simp: getReimbursement_def d_def flow_fits_def Let_def split: if_splits)
  have x: "0 \<le> d * ?u" "d * ?u \<le> ?u * ?b" using d pos by (simp_all add: mult.commute mult_left_mono)
  have le: "div_round (d * ?u) ?b \<le> ?u" "div_floor (d * ?u) ?b \<le> ?u"
    using half.mono [OF x pos(2)] half.exact [of ?u ?b] down.mono [OF x pos(2)] down.exact [of ?u ?b] pos by simp_all
  have ge: "0 \<le> div_round (d * ?u) ?b" "0 \<le> div_floor (d * ?u) ?b"
    using half.nonneg [OF x(1) pos(2)] down.nonneg [OF x(1) pos(2)] by simp_all
  obtain u where "btc = BtcPaymentAmount d" "usd = UsdPaymentAmount u" "0 \<le> u" "u \<le> ?u"
    using reimbursement le ge pos
    by (auto simp: getReimbursement_def r convertFromBtc_eq convertFromBtcToFloor_eq Let_def UsdPaymentAmount_def
        BtcPaymentAmount_def simp flip: d_def split: if_splits)
  moreover have "ledger_amount ?u" "ledger_amount ?b" using flow_fits_amounts [OF fits] by simp_all
  ultimately show ?thesis using d by (intro exI [where x = u] exI [where x = d]) (simp add: ledger_amount_def)
qed

context ledger_store
begin

abbreviation app_ok :: "('w, 'v) app_state \<Rightarrow> bool" where
  "app_ok s \<equiv> journals_balanced (app_journals journals s)"

lemma keeps_ok_world: "keeps app_ok (in_world m)"
  by (rule keeps_in_world [where P = "\<lambda>l. journals_balanced (journals (db l))"])

lemma keeps_ok_ledger: "keeps (\<lambda>l. journals_balanced (journals (db l))) m \<Longrightarrow> keeps app_ok (in_ledger m)"
  by (rule keeps_in_ledger)

lemma keeps_ok_db: "keeps (\<lambda>w. journals_balanced (journals w)) m \<Longrightarrow> keeps app_ok (in_db m)"
  by (rule keeps_in_db)

lemma keeps_ok_queries:
  "keeps app_ok (in_db (isLnTxRecorded L h))" "keeps app_ok (in_db (getTransactionsByHash L h))"
  "keeps app_ok (in_ledger (getWalletBalanceAmount L wallet))"
proof -
  show "keeps app_ok (in_db (isLnTxRecorded L h))"
    by (simp add: keeps_def recorded_test(1) [OF surjective_pairing])
  show "keeps app_ok (in_db (getTransactionsByHash L h))"
    unfolding getTransactionsByHash_def by (intro keeps_ok_db keeps_ledger_results) (simp add: any_query_def)
  show "keeps app_ok (in_ledger (getWalletBalanceAmount L wallet))"
    unfolding getWalletBalanceAmount_def getDealerWalletIds_def
    by (intro keeps_ok_ledger keeps_intros keeps_if)
qed

lemma keeps_ok_not_aborted: "keeps app_ok (not_aborted E signal)"
  by (simp add: keeps_def not_aborted_def)

lemma keeps_ok_limits: "keeps app_ok (limits_check g c L E a w r)"
proof -
  have "keeps (\<lambda>w. journals_balanced (journals w)) (act_call (tx_aggregate_volume L b tys d))" for b tys d
    by (rule keeps_call) (simp add: volume_reads)
  then have "keeps (\<lambda>w. journals_balanced (journals w)) (volumeAmountFn g L w d)" for d
    unfolding volumeAmountFn_def txVolumeSince_def by (intro keeps_intros)
  then have "keeps app_ok (\<lambda>s. in_db (volumeAmountFn g L w (timestampDaysAgo E ONE_DAY (app_world s))) s)"
    using keeps_ok_db unfolding keeps_def by blast
  then show ?thesis
    unfolding limits_check_def by (intro keeps_bind keeps_ok_world keeps_result)
qed

lemma keeps_ok_reimburseFee:
  assumes "flow_fits flow" and "\<And>n. fee = Num (of_int n) \<Longrightarrow> 0 \<le> n"
  shows "keeps app_ok (reimburseFee L flow j fee pre)"
proof -
  have receive: "keeps app_ok (in_ledger (recordReceive L d w (usd, btc) None m k pre))"
    if given: "PriceRatio (usdPaymentAmount flow) (btcPaymentAmount flow) = Inr r" "paymentAmountFromNumber fee Btc = Inr a"
      "getReimbursement (btcProtocolFee flow, usdProtocolFee flow) r a = Inr (btc, usd)" for d w usd btc m k r a
  proof -
    have "0 \<le> amount a" using given(2) assms(2) by (auto simp: paymentAmountFromNumber_Inr)
    then obtain u b where ub: "usd = UsdPaymentAmount u" "btc = BtcPaymentAmount b" "ledger_amount u" "ledger_amount b"
      using reimbursement_fits [OF assms(1) given(1) _ given(3)] by blast
    show ?thesis unfolding ub(1,2)
      by (rule keeps_ok_ledger, rule keeps_recordReceive [of u b 0 0]) (simp_all add: ub ledger_amount_def [of 0])
  qed
  show ?thesis
    unfolding reimburseFee_def
    by (intro keeps_bind_result)
      (auto split: sum.splits error.splits prod.splits intro!: keeps_fail keeps_return keeps_if keeps_bind [OF keeps_result]
        keeps_bind [OF receive])
qed

lemma keeps_ok_note: "keeps app_ok (note_payment L E invoice sentFrom r)"
proof -
  have "keeps (\<lambda>w. journals_balanced (journals w)) (act_call (md_updateMany L h p))" for h p
    by (rule keeps_call) (simp add: update_metadata)
  then have meta: "keeps app_ok (in_db (updateMetadataByHash L h p))" for h p
    unfolding updateMetadataByHash_def md_updateByHash_def by (intro keeps_ok_db keeps_intros keeps_if)
  show ?thesis
    unfolding note_payment_def
    by (intro keeps_if keeps_return keeps_bind keeps_attempt keeps_ok_world keeps_case_result meta)
qed

end

text \<open>A node does not report a negative fee.\<close>

definition node_fees_ok :: "('w, 'v, 'x) app_env_scheme \<Rightarrow> bool" where
  "node_fees_ok E =
     (\<forall>lnd args v r v' n. ln_payViaPaymentDetails E lnd args v = (Inr r, v') \<longrightarrow> pay_safe_fee r = Num (of_int n) \<longrightarrow> 0 \<le> n)"

lemma paid_fee:
  assumes "node_fees_ok E" and "pay_invoice E node invoice flow None out v = (Inr r, v')" and "pir_roundedUpFee r = Num (of_int n)"
  shows "0 \<le> n"
proof -
  obtain p w where "with_timeout E (ln_payViaPaymentDetails E (node_lnd node)
      (payment_details invoice (btcPaymentAmount flow) (btcProtocolFee flow))) v = (Inr p, w)"
    and r: "pir_roundedUpFee r = pay_safe_fee p"
    using assms(2) by (auto simp: pay_invoice_def payInvoiceViaPaymentDetails_def act_bind_eq_Inr lnd_catch_eq_Inr)
  then have "ln_payViaPaymentDetails E (node_lnd node) (payment_details invoice (btcPaymentAmount flow) (btcProtocolFee flow)) v
      = (Inr p, w)"
    by (auto simp: with_timeout_def split: prod.splits if_splits)
  then show ?thesis using assms(1,3) r unfolding node_fees_ok_def by metis
qed

context ledger_store
begin

lemma keeps_ok_finish_send:
  assumes "flow_fits flow" and "\<And>r n. route = None \<Longrightarrow> pay = Inr r \<Longrightarrow> pir_roundedUpFee r = Num (of_int n) \<Longrightarrow> 0 \<le> n"
  shows "keeps app_ok (finish_send L E h flow route j pay)"
proof (cases pay)
  case (Inl e)
  then show ?thesis
    unfolding finish_send_def
    by (simp only: sum.case) (intro keeps_if keeps_bind keeps_attempt keeps_return keeps_fail keeps_ok_world keeps_ok_db keeps_status_updates)
next
  case (Inr r)
  have "keeps app_ok (act_bind (if route = None then reimburseFee L flow j (pir_roundedUpFee r) (Some (pir_revealedPreImage r))
      else act_return ()) (\<lambda>_. act_return Send_Success))"
  proof (rule keeps_bind [OF _ keeps_return], cases "route = None")
    case True
    then show "keeps app_ok (if route = None then reimburseFee L flow j (pir_roundedUpFee r) (Some (pir_revealedPreImage r))
        else act_return ())"
      using keeps_ok_reimburseFee [OF assms(1) assms(2) [OF True Inr]] by simp
  qed (auto simp: keeps_def)
  then show ?thesis
    unfolding finish_send_def Inr sum.case
    by (intro keeps_if keeps_bind [OF keeps_ok_db [OF keeps_status_updates(1)]] keeps_bind [OF keeps_attempt [OF keeps_ok_world]]
        keeps_return)
qed

lemma keeps_ok_send_recorded:
  assumes "flow_fits flow" and "node_fees_ok E"
  shows "keeps app_ok (send_recorded L E node invoice flow metadata)"
proof -
  obtain route out where route: "routeDetails flow = (route, out)" by fastforce
  note fits = flow_fits_amounts [OF assms(1)]
  have recording: "keeps app_ok (in_ledger (recordSend L d w (amount_to_debit flow) None m))" for d w m
    unfolding fits(5)
    by (rule keeps_ok_ledger, rule keeps_recordSend [where uf = 0 and bf = 0]) (simp_all add: fits(6,7) ledger_amount_def [of 0])
  have pay: "keeps app_ok (act_bind (act_attempt (in_world (pay_invoice E node invoice flow route out))) (\<lambda>r.
      case r of Inl (Thrown m) \<Rightarrow> act_fail (Thrown m)
      | _ \<Rightarrow> act_bind (note_payment L E invoice sentFrom r) (\<lambda>_. finish_send L E h flow route j r)))" for sentFrom h j
  proof (rule keeps_bind_yields [where Q = "\<lambda>r. \<forall>x n. route = None \<longrightarrow> r = Inr x \<longrightarrow> pir_roundedUpFee x = Num (of_int n) \<longrightarrow> 0 \<le> n"])
    show "keeps app_ok (act_attempt (in_world (pay_invoice E node invoice flow route out)))"
      by (intro keeps_attempt keeps_ok_world)
    show "yields (act_attempt (in_world (pay_invoice E node invoice flow route out)))
        (\<lambda>r. \<forall>x n. route = None \<longrightarrow> r = Inr x \<longrightarrow> pir_roundedUpFee x = Num (of_int n) \<longrightarrow> 0 \<le> n)"
      using paid_fee [OF assms(2)]
      by (auto simp: yields_def act_attempt_def in_world_def split: prod.splits)
    fix r :: "PayInvoiceResult result"
    assume "\<forall>x n. route = None \<longrightarrow> r = Inr x \<longrightarrow> pir_roundedUpFee x = Num (of_int n) \<longrightarrow> 0 \<le> n"
    then have "keeps app_ok (act_bind (note_payment L E invoice sentFrom r) (\<lambda>_. finish_send L E h flow route j r))"
      by (intro keeps_bind keeps_ok_note keeps_ok_finish_send assms(1)) blast
    then show "keeps app_ok (case r of Inl (Thrown m) \<Rightarrow> act_fail (Thrown m)
        | _ \<Rightarrow> act_bind (note_payment L E invoice sentFrom r) (\<lambda>_. finish_send L E h flow route j r))"
      by (auto split: sum.splits error.splits intro: keeps_fail)
  qed
  show ?thesis
    unfolding send_recorded_def route prod.case by (rule keeps_bind [OF recording pay])
qed

lemma keeps_ok_send_behind_lock:
  assumes "flow_fits flow" and "node_fees_ok E"
  shows "keeps app_ok (send_behind_lock L E invoice flow wallet signal)"
  unfolding send_behind_lock_def Let_def case_prod_unfold
  by (intro keeps_bind keeps_if keeps_fail keeps_result keeps_ok_queries keeps_ok_world keeps_ok_not_aborted
      keeps_ok_send_recorded assms)

lemma keeps_ok_recordIntraledger:
  assumes "flow_fits flow"
  shows "keeps app_ok (in_ledger (recordIntraledger L d w r (usdPaymentAmount flow, btcPaymentAmount flow) m a))"
proof -
  note fits = flow_fits_amounts [OF assms]
  show ?thesis
    by (subst fits(1), subst fits(2), rule keeps_ok_ledger, rule keeps_recordIntraledger [OF fits(3,4)])
qed

lemma keeps_ok_intraledger_behind_lock:
  assumes "flow_fits flow"
  shows "keeps app_ok (intraledger_behind_lock L E flow w r h pk ru su memo signal)"
  unfolding intraledger_behind_lock_def Let_def case_prod_unfold
  by (intro keeps_bind keeps_if keeps_case_option keeps_fail keeps_return keeps_result keeps_ok_queries keeps_ok_world
      keeps_ok_not_aborted keeps_ok_recordIntraledger assms)

lemma keeps_ok_transfer_behind_lock:
  assumes "flow_fits flow"
  shows "keeps app_ok (transfer_behind_lock L E flow sa sw ra rw memo signal)"
  unfolding transfer_behind_lock_def Let_def case_prod_unfold
  by (intro keeps_bind keeps_if keeps_case_option keeps_fail keeps_return keeps_result keeps_ok_queries keeps_ok_world
      keeps_ok_not_aborted keeps_ok_recordIntraledger assms)

lemma keeps_ok_execute:
  assumes fits: "flow_fits flow" and fees: "node_fees_ok E" and locks: "lock_keeps E app_ok"
  shows "keeps app_ok (executePaymentViaLn L E invoice flow wallet)"
    and "keeps app_ok (executePaymentViaIntraledger L E flow wallet name memo)"
    and "keeps app_ok (executeTransferViaIntraledger L E flow sa sw ra rw memo)"
proof -
  note limits = newCheckWithdrawalLimits_def newCheckTradeIntraAccountLimits_def newCheckIntraledgerLimits_def
  show "keeps app_ok (executePaymentViaLn L E invoice flow wallet)"
    unfolding executePaymentViaLn_def lockWalletId_def limits
    by (intro keeps_bind keeps_ok_world keeps_ok_limits keeps_redlock [OF locks] keeps_ok_send_behind_lock fits fees)
  show "keeps app_ok (executePaymentViaIntraledger L E flow wallet name memo)"
    unfolding executePaymentViaIntraledger_def lockWalletId_def limits case_prod_unfold
    apply (rule keeps_bind [OF keeps_ok_world])
    apply (rule keeps_bind [OF keeps_result])
    apply (rule keeps_if, rule keeps_fail)
    apply (rule keeps_bind [OF keeps_ok_world])
    apply (rule keeps_bind)
     apply (simp add: keeps_ok_limits)
    apply (rule keeps_redlock [OF locks keeps_ok_intraledger_behind_lock [OF fits]])
    done
  show "keeps app_ok (executeTransferViaIntraledger L E flow sa sw ra rw memo)"
    unfolding executeTransferViaIntraledger_def lockWalletId_def limits case_prod_unfold
    apply (rule keeps_bind [OF keeps_ok_world])
    apply (rule keeps_bind)
     apply (simp add: keeps_ok_limits)
    apply (rule keeps_if, rule keeps_fail)
    apply (rule keeps_redlock [OF locks keeps_ok_transfer_behind_lock [OF fits]])
    done
qed

end

section \<open>What stands before a payment\<close>

definition in_transit :: "PaymentHash \<Rightarrow> journals \<Rightarrow> bool" where
  "in_transit h js =
     list_ex (\<lambda>p. has_hash h (snd p) \<and> is_pending (snd p)
                  \<and> starts_with (liabilitiesMainAccount @ '':'') (tx_account (snd p))) (postings js)"

definition flow_total :: "PaymentFlowState \<Rightarrow> int" where
  "flow_total flow =
     (if senderWalletCurrency flow = Usd then amount (usdPaymentAmount flow) + amount (usdProtocolFee flow)
      else amount (btcPaymentAmount flow) + amount (btcProtocolFee flow))"

lemma untouched_in_db: "in_db m s = (r, s') \<Longrightarrow> app_world s' = app_world s"
  by (auto simp: in_db_def in_ledger_def split: prod.splits)

lemma untouched_in_ledger: "in_ledger m s = (r, s') \<Longrightarrow> app_world s' = app_world s"
  by (auto simp: in_ledger_def split: prod.splits)

context ledger_store
begin

lemma transactions_by_hash:
  assumes "in_db (getTransactionsByHash L h) s = (r, s')"
  shows "app_journals journals s' = app_journals journals s"
    and "r = Inr txs \<Longrightarrow> in_transit h (app_journals journals s) \<Longrightarrow>
      list_ex (\<lambda>tx. lt_pendingConfirmation tx = Some True) txs"
proof -
  let ?q = "any_query\<lparr>q_hash := Some h, q_accounts := Some [liabilitiesMainAccount]\<rparr>"
  have id: "q_id ?q = None" by (simp add: any_query_def)
  have "keeps (\<lambda>t. app_journals journals t = app_journals journals s) (in_db (getTransactionsByHash L h))"
    unfolding getTransactionsByHash_def
    by (rule keeps_in_db [where P = "\<lambda>w. journals w = app_journals journals s"], rule keeps_ledger_results [OF id])
  then show "app_journals journals s' = app_journals journals s" using assms by (auto simp: keeps_def)
  assume ok: "r = Inr txs" and "in_transit h (app_journals journals s)"
  then obtain p where p: "p \<in> set (postings (app_journals journals s))" "has_hash h (snd p)" "is_pending (snd p)"
    "starts_with (liabilitiesMainAccount @ '':'') (tx_account (snd p))"
    by (auto simp: in_transit_def list_ex_iff)
  obtain docs w' where docs: "book_ledger L ?q (db (app_ledger s)) = (Inr docs, w')" and txs: "txs = map translateToLedgerTx docs"
    using assms ok
    by (auto simp: in_db_eq_Inr getTransactionsByHash_def ledger_results_def act_try_eq_Inr act_bind_eq_Inr act_call_eq_Inr)
  have "snd p \<in># mset (filter (query_matches ?q) (map snd (postings (app_journals journals s))))"
    using p by (auto simp: query_matches_def any_query_def has_hash_def)
  then have "snd p \<in># mset (map txn.truncate docs)" using ledger_ok [OF docs id] by simp
  then obtain d where d: "d \<in> set docs" "txn.truncate d = snd p" by auto
  have "tx_meta d = tx_meta (txn.truncate d)" by (simp add: txn.defs)
  then have "lt_pendingConfirmation (translateToLedgerTx d) = Some True"
    using p(3) d(2) by (simp add: translateToLedgerTx_def Let_def is_pending_def meta_bool_def)
  with d(1) show "list_ex (\<lambda>tx. lt_pendingConfirmation tx = Some True) txs"
    unfolding txs list_ex_iff by auto
qed

lemma wallet_balance:
  assumes "in_ledger (getWalletBalanceAmount L wallet) s = (r, s')"
    and bal: "\<And>w b w'. journals w = app_journals journals s \<Longrightarrow>
      book_balance L (toLiabilitiesWalletId (wd_id wallet)) None w = (Inr b, w') \<Longrightarrow> b = Num (of_int bal)"
  shows "app_journals journals s' = app_journals journals s"
    and "r = Inr a \<Longrightarrow> amount a = bal \<and> currency a = wd_currency wallet"
proof -
  have "keeps (\<lambda>w. journals w = app_journals journals s) (act_call (book_balance L (toLiabilitiesWalletId (wd_id wallet)) None))"
    by (rule keeps_call) (simp add: balance_reads)
  then have "keeps (\<lambda>t. app_journals journals t = app_journals journals s) (in_ledger (getWalletBalanceAmount L wallet))"
    unfolding getWalletBalanceAmount_def getDealerWalletIds_def
    by (intro keeps_in_ledger [where P = "\<lambda>l. journals (db l) = app_journals journals s"] keeps_intros keeps_if
        keeps_special_wallets [where P = "\<lambda>w. journals w = app_journals journals s"]
        keeps_on_db [where P = "\<lambda>w. journals w = app_journals journals s"])
  then show "app_journals journals s' = app_journals journals s" using assms(1) by (auto simp: keeps_def)
  assume "r = Inr a"
  then obtain x w where x: "book_balance L (toLiabilitiesWalletId (wd_id wallet)) None (db (app_ledger s)) = (Inr x, w)"
    "(case balanceAmountFromNumber x (wd_currency wallet) of
        Inl e \<Rightarrow> if e = BigIntConversionError BigIntFloatConversionError
                 then balanceAmountFromNumber (js_floor x) (wd_currency wallet) else Inl e
      | Inr a \<Rightarrow> Inr a) = Inr a"
    using assms(1)
    by (auto simp: in_ledger_eq_Inr getWalletBalanceAmount_def act_try_eq_Inr act_bind_eq_Inr on_db_eq_Inr act_call_eq_Inr
        act_result_def)
  have "x = Num (of_int bal)" using bal [OF refl x(1)] .
  then show "amount a = bal \<and> currency a = wd_currency wallet"
    using x(2) by (auto simp: balanceAmountFromNumber_def safeBigInt_def)
qed

end

lemma keeps_run: "keeps P m \<Longrightarrow> P s \<Longrightarrow> P (snd (m s))"
  by (simp add: keeps_def)

lemma balance_refused:
  assumes "amount a < flow_total flow"
  shows "\<exists>e. checkBalanceForSend flow a = Inl e"
  using assms by (cases "currency a") (auto simp: checkBalanceForSend_def flow_total_def calc_add_def Let_def)

section \<open>Properties of payments\<close>

text \<open>A scenario: alice pays an invoice over five thousand satoshis from a dollar wallet; the node asks a fee of three.\<close>

definition tea_invoice :: LnInvoice where
  "tea_invoice =
     \<lparr>destination = ''shop'', inv_paymentHash = ''h'', paymentRequest = ''lnbc50u'', milliSatsAmount = Num 5000000,
      inv_description = ''tea'', cltvDelta = None, inv_amount = Some (Num 5000), paymentAmount = Some (BtcPaymentAmount 5000),
      routeHints = [], paymentSecret = ''s'', features = [], expiresAt = 0, isExpired = False\<rparr>"

definition alice_wallet :: Wallet where
  "alice_wallet = \<lparr>wd_id = ''alice'', wd_currency = Usd, wd_accountId = ''a'', wallet_type = Checking, onChainAddressIdentifiers = []\<rparr>"

definition paying_app :: "(journals, mem_world) app_env" where
  "paying_app = test_app (\<lambda>_. None) (\<lambda>_. None) (Inr \<lparr>pay_safe_fee = Num 3, pay_secret = ''p''\<rparr>)"

lemma paying_app_ok: "lock_keeps paying_app P" "node_fees_ok paying_app"
  by (auto simp: lock_keeps_def node_fees_ok_def paying_app_def app_simps)

text \<open>
  (C9) Payments keep the ledger balanced. Whatever a payment of an invoice, over the network or between wallets, or a
  transfer to another wallet does to the ledger, and however it ends, every journal is balanced in both currencies, when
  the amounts with their fees are within the bounds of the ledger and the others who hold locks keep it balanced.
\<close>

theorem payments_keep_ledger_balanced:
  assumes "ledger_store L journals" and "lock_keeps E (\<lambda>s. journals_balanced (journals (db (app_ledger s))))"
    and "node_fees_ok E" and "flow_fits flow" and "journals_balanced (journals (db (app_ledger s)))"
  shows "journals_balanced (journals (db (app_ledger (snd (executePaymentViaLn L E invoice flow wallet s)))))
    \<and> journals_balanced (journals (db (app_ledger (snd (executePaymentViaIntraledger L E flow wallet name memo s)))))
    \<and> journals_balanced (journals (db (app_ledger (snd
         (executeTransferViaIntraledger L E flow account wallet recipientAccount recipientWallet memo s)))))"
  using keeps_run [OF ledger_store.keeps_ok_execute(1) [OF assms(1,4,3,2)] assms(5)]
    keeps_run [OF ledger_store.keeps_ok_execute(2) [OF assms(1,4,3,2)] assms(5)]
    keeps_run [OF ledger_store.keeps_ok_execute(3) [OF assms(1,4,3,2)] assms(5)] by (intro conjI)

theorem payments_keep_ledger_balanced_witness:
  "journals_balanced (db (app_ledger (snd (executePaymentViaLn list_query_env paying_app tea_invoice sample_flow alice_wallet
     (ledger_with [])))))"
proof -
  have fits: "flow_fits sample_flow"
    by (simp add: flow_fits_def sample_flow_def BtcPaymentAmount_def UsdPaymentAmount_def ledger_amount_def)
  have start: "journals_balanced (db (app_ledger (ledger_with [])))"
    by (simp add: ledger_with_def journals_balanced_def)
  show ?thesis
    using payments_keep_ledger_balanced [OF list_store.ledger_store_axioms paying_app_ok(1) paying_app_ok(2) fits start] by blast
qed

text \<open>
  (C10) No payment is sent without cover, and none twice at a time. When a posting of the invoice's hash is still pending, or
  the balance of the wallet is less than the amount with the fee, the sender gets an error, the ledger has no new
  posting and the node and the collections are not even asked.
\<close>

theorem uncovered_payment_refused:
  assumes "ledger_store L journals"
    and "\<And>w b w'. journals w = journals (db (app_ledger s)) \<Longrightarrow>
      book_balance L (toLiabilitiesWalletId (wd_id wallet)) None w = (Inr b, w') \<Longrightarrow> b = Num (of_int bal)"
    and "in_transit (inv_paymentHash invoice) (journals (db (app_ledger s))) \<or> bal < flow_total flow"
  shows "\<exists>e s'. send_behind_lock L E invoice flow wallet signal s = (Inl e, s')
    \<and> app_world s' = app_world s \<and> journals (db (app_ledger s')) = journals (db (app_ledger s))"
proof -
  let ?w = "WalletDescriptor.truncate wallet"
  obtain r1 s1 where s1: "in_db (getTransactionsByHash L (inv_paymentHash invoice)) s = (r1, s1)" by fastforce
  obtain r2 s2 where s2: "in_ledger (getWalletBalanceAmount L ?w) s1 = (r2, s2)" by fastforce
  note t = ledger_store.transactions_by_hash [OF assms(1) s1]
  have bal: "b = Num (of_int bal)"
    if "journals w = journals (db (app_ledger s1))" "book_balance L (toLiabilitiesWalletId (wd_id ?w)) None w = (Inr b, w')" for w b w'
    using that assms(2) t(1) by (simp add: WalletDescriptor.defs)
  have b1: "journals (db (app_ledger s2)) = journals (db (app_ledger s1))"
    by (rule ledger_store.wallet_balance(1) [OF assms(1) s2]) (rule bal)
  have b2: "amount a = bal" if "r2 = Inr a" for a
    using ledger_store.wallet_balance(2) [OF assms(1) s2 _ that] bal by blast
  have same: "app_world s1 = app_world s" "app_world s2 = app_world s" "journals (db (app_ledger s2)) = journals (db (app_ledger s))"
    using untouched_in_db [OF s1] untouched_in_ledger [OF s2] t(1) b1 by simp_all
  consider (err) e where "r1 = Inl e"
    | (transit) txs where "r1 = Inr txs" "list_ex (\<lambda>tx. lt_pendingConfirmation tx = Some True) txs"
    | (balance) txs where "r1 = Inr txs" "\<not> list_ex (\<lambda>tx. lt_pendingConfirmation tx = Some True) txs"
    by (cases r1) auto
  then show ?thesis
  proof cases
    case balance
    then have less: "bal < flow_total flow" using t(2) assms(3) by blast
    show ?thesis
    proof (cases r2)
      case (Inr a)
      then have "amount a < flow_total flow" using b2 [OF Inr] less by simp
      then obtain e where "checkBalanceForSend flow a = Inl e" using balance_refused by blast
      then show ?thesis
        using balance Inr s1 s2 same by (simp add: send_behind_lock_def act_bind_def Let_def)
    qed (use balance s1 s2 same in \<open>simp add: send_behind_lock_def act_bind_def Let_def\<close>)
  qed (use s1 same t(1) in \<open>simp_all add: send_behind_lock_def act_bind_def Let_def\<close>)
qed

theorem uncovered_payment_refused_witness:
  "\<exists>e s'. send_behind_lock list_query_env paying_app tea_invoice sample_flow alice_wallet ''locks:wallet:alice''
        (ledger_with [(''k'', [sent_txn True])]) = (Inl e, s')
     \<and> db (app_ledger s') = [(''k'', [sent_txn True])]"
proof -
  let ?s = "ledger_with [(''k'', [sent_txn True])]"
  have js: "db (app_ledger ?s) = [(''k'', [sent_txn True])]" by (simp add: ledger_with_def)
  have "b = Num (of_int 0)"
    if "w = db (app_ledger ?s)" "book_balance list_query_env (toLiabilitiesWalletId (wd_id alice_wallet)) None w = (Inr b, w')" for w b w'
    using that(2) unfolding that(1) js
    by (simp add: list_db_simps sent_txn_def account_net_def net_def tx_currency_def)
  moreover have "in_transit (inv_paymentHash tea_invoice) (db (app_ledger ?s))"
    unfolding js
    by (simp add: in_transit_def postings_def sent_txn_def tea_invoice_def has_hash_def is_pending_def starts_with_iff
        liabilitiesMainAccount_def)
  ultimately show ?thesis
    using uncovered_payment_refused [OF list_store.ledger_store_axioms, of ?s alice_wallet 0 tea_invoice sample_flow
        paying_app "''locks:wallet:alice''"] unfolding js by blast
qed

end
