(* ===== verification/Onchain_Payments.thy ===== *)
theory Onchain_Payments
  imports Send_Lightning
begin

text \<open>
  On-chain money: \<^verbatim>\<open>app/wallets/send-on-chain.ts\<close>, \<^verbatim>\<open>app/wallets/get-on-chain-fee.ts\<close>,
  \<^verbatim>\<open>app/wallets/update-on-chain-receipt.ts\<close>, \<^verbatim>\<open>app/wallets/private/check-limit-helpers.ts\<close>,
  \<^verbatim>\<open>services/cold-storage\<close>, \<^verbatim>\<open>app/cold-storage\<close> and the balances of the nodes in
  \<^verbatim>\<open>app/lightning/get-balances.ts\<close>. The bitcoind client, the redis cache, the random temporary hash, the
  decoder of raw transactions and the configuration are fields of \<open>chain_env\<close>; notifications, logs and tracing are
  left out.
\<close>

section \<open>Parameters\<close>

text \<open>
  The bitcoind client is made for a wallet, or for none; making it may throw. A transaction of its wallet has an amount
  and a fee in bitcoin, a funded transaction the encoded transaction and its fee. How a number is printed matters for
  the description of some journals only.
\<close>

record ('w, 'v) chain_env = "('w, 'v) app_env" +
  chain_decode :: "string \<Rightarrow> OnChainTransaction result"
  num_toString :: "jsnum \<Rightarrow> string"
  random_hash :: "'v \<Rightarrow> OnChainTxHash"
  rc_get :: "string \<Rightarrow> ('v, cache_value option) call"
  rc_set :: "string \<Rightarrow> cache_value \<Rightarrow> int \<Rightarrow> ('v, bool) call"
  bc_client :: "string option \<Rightarrow> ('v, unit) call"
  bc_listWallets :: "('v, string list) call"
  bc_getBalance :: "string \<Rightarrow> ('v, jsnum) call"
  bc_walletCreateFundedPsbt :: "string \<Rightarrow> OnChainAddress \<Rightarrow> jsnum \<Rightarrow> jsnum \<Rightarrow> ('v, string \<times> jsnum) call"
  bc_getNewAddress :: "string \<Rightarrow> ('v, string) call"
  bc_getAddressInfo :: "string \<Rightarrow> OnChainAddress \<Rightarrow> ('v, bool) call"
  bc_getTransaction :: "string \<Rightarrow> OnChainTxHash \<Rightarrow> ('v, jsnum \<times> jsnum) call"
  conf_network :: BtcNetwork
  conf_dustThreshold :: jsnum
  conf_withdrawal :: OnchainWithdrawalConfig
  conf_withdrawMethod :: WithdrawalFeePriceMethod
  conf_withdrawDaysLookback :: int
  conf_withdrawDefaultMin :: jsnum
  conf_scanDepthOutgoing :: jsnum
  conf_minConfirmations :: int
  conf_walletPattern :: string
  conf_onChainWallet :: string
  conf_rebalance :: RebalanceCheckerConfig
  conf_coldTargetConfirmations :: jsnum

text \<open>An error that the caller logs; an exception passes.\<close>

definition logged :: "('s, unit) act \<Rightarrow> ('s, unit) act" where
  "logged m =
     act_bind (act_attempt m) (\<lambda>r. case r of Inl (Thrown msg) \<Rightarrow> act_fail (Thrown msg) | _ \<Rightarrow> act_return ())"

text \<open>A result that the caller tests for errors; an exception passes.\<close>

definition checked :: "('s, 'a) act \<Rightarrow> ('s, 'a result) act" where
  "checked m =
     act_bind (act_attempt m) (\<lambda>r. case r of Inl (Thrown msg) \<Rightarrow> act_fail (Thrown msg) | _ \<Rightarrow> act_return r)"

section \<open>Cold storage\<close>

definition cold_err :: "string \<Rightarrow> error" where
  "cold_err _ = ColdStorageServiceError UnknownColdStorageServiceError"

definition getBitcoindClient :: "('w, 'v, 'x) chain_env_scheme \<Rightarrow> string option \<Rightarrow> ('v, unit) act" where
  "getBitcoindClient E wallet = act_try (act_call (bc_client E wallet)) cold_err"

text \<open>The current wallet stands for its client.\<close>

definition getBitcoindCurrentWalletClient :: "('w, 'v, 'x) chain_env_scheme \<Rightarrow> ('v, string) act" where
  "getBitcoindCurrentWalletClient E =
     act_try
       (act_bind (getBitcoindClient E None) (\<lambda>_.
        act_bind (act_call (bc_listWallets E)) (\<lambda>wallets.
          case find (\<lambda>item. str_includes (conf_onChainWallet E) item)
                 (filter (\<lambda>item. str_includes (conf_walletPattern E) item) wallets) of
            None \<Rightarrow> act_fail (ColdStorageServiceError InvalidCurrentColdStorageWalletServiceError)
          | Some wallet \<Rightarrow>
              if wallet = [] then act_fail (ColdStorageServiceError InvalidCurrentColdStorageWalletServiceError)
              else act_bind (getBitcoindClient E (Some wallet)) (\<lambda>_. act_return wallet))))
       cold_err"

definition ColdStorageService :: "('w, 'v, 'x) chain_env_scheme \<Rightarrow> ('v, string) act" where
  "ColdStorageService E = getBitcoindCurrentWalletClient E"

definition cold_listWallets :: "('w, 'v, 'x) chain_env_scheme \<Rightarrow> ('v, string list) act" where
  "cold_listWallets E =
     act_try
       (act_bind (getBitcoindClient E None) (\<lambda>_.
        act_bind (act_call (bc_listWallets E)) (\<lambda>wallets.
          act_return (filter (\<lambda>item. str_includes (conf_walletPattern E) item) wallets))))
       cold_err"

text \<open>A wallet whose client cannot be made is skipped.\<close>

fun cold_balances :: "('w, 'v, 'x) chain_env_scheme \<Rightarrow> string list \<Rightarrow> ('v, (string \<times> jsnum) list) act" where
  "cold_balances E [] = act_return []"
| "cold_balances E (walletName # names) =
     act_bind (act_attempt (getBitcoindClient E (Some walletName))) (\<lambda>client.
       case client of
         Inl _ \<Rightarrow> cold_balances E names
       | Inr _ \<Rightarrow>
           act_bind (act_call (bc_getBalance E walletName)) (\<lambda>balance.
           act_bind (cold_balances E names) (\<lambda>balances. act_return ((walletName, btc2sat balance) # balances))))"

definition cold_getBalances :: "('w, 'v, 'x) chain_env_scheme \<Rightarrow> ('v, (string \<times> jsnum) list) act" where
  "cold_getBalances E = act_try (act_bind (cold_listWallets E) (\<lambda>names. cold_balances E names)) cold_err"

text \<open>An error in place of the client has no \<^verbatim>\<open>getBalance\<close>: the call throws.\<close>

definition cold_getBalance :: "('w, 'v, 'x) chain_env_scheme \<Rightarrow> string \<Rightarrow> ('v, string \<times> jsnum) act" where
  "cold_getBalance E walletName =
     act_try
       (act_bind (act_attempt (getBitcoindClient E (Some walletName))) (\<lambda>client.
          case client of
            Inl _ \<Rightarrow> act_fail (Thrown ''TypeError'')
          | Inr _ \<Rightarrow> act_bind (act_call (bc_getBalance E walletName)) (\<lambda>balance. act_return (walletName, btc2sat balance))))
       cold_err"

definition createPsbt ::
  "('w, 'v, 'x) chain_env_scheme \<Rightarrow> string \<Rightarrow> OnChainAddress \<Rightarrow> jsnum \<Rightarrow> jsnum \<Rightarrow> ('v, string \<times> jsnum) act" where
  "createPsbt E walletName onChainAddress amt targetConfirmations =
     act_try
       (act_bind (getBitcoindClient E (Some walletName)) (\<lambda>_.
        act_bind (act_call (bc_walletCreateFundedPsbt E walletName onChainAddress (sat2btc amt) targetConfirmations))
          (\<lambda>(psbt, fee). act_return (psbt, btc2sat fee))))
       (\<lambda>message. ColdStorageServiceError
          (if str_includes ''Insufficient funds'' message then InsufficientBalanceForRebalanceError
           else UnknownColdStorageServiceError))"

definition cold_createOnChainAddress :: "('w, 'v, 'x) chain_env_scheme \<Rightarrow> string \<Rightarrow> ('v, OnChainAddress) act" where
  "cold_createOnChainAddress E client =
     act_try (act_bind (act_call (bc_getNewAddress E client)) (\<lambda>address.
         act_result (checkedToOnChainAddress (conf_network E) address))) cold_err"

definition isDerivedAddress :: "('w, 'v, 'x) chain_env_scheme \<Rightarrow> string \<Rightarrow> OnChainAddress \<Rightarrow> ('v, bool) act" where
  "isDerivedAddress E client address = act_try (act_call (bc_getAddressInfo E client address)) cold_err"

definition isWithdrawalTransaction :: "('w, 'v, 'x) chain_env_scheme \<Rightarrow> string \<Rightarrow> OnChainTxHash \<Rightarrow> ('v, bool) act" where
  "isWithdrawalTransaction E client txHash =
     act_try (act_bind (act_call (bc_getTransaction E client txHash)) (\<lambda>(amt, _). act_return (js_less amt (Num 0))))
       (\<lambda>message. ColdStorageServiceError
          (if message = ''Invalid or non-wallet transaction id'' then InvalidOrNonWalletTransactionError
           else UnknownColdStorageServiceError))"

definition lookupTransactionFee :: "('w, 'v, 'x) chain_env_scheme \<Rightarrow> string \<Rightarrow> OnChainTxHash \<Rightarrow> ('v, jsnum) act" where
  "lookupTransactionFee E client txHash =
     act_try (act_bind (act_call (bc_getTransaction E client txHash)) (\<lambda>(_, fee). act_return (btc2sat (js_abs fee))))
       cold_err"

section \<open>Balances of the nodes\<close>

definition sumBalances :: "jsnum result list \<Rightarrow> jsnum" where
  "sumBalances balances = foldl (\<lambda>total b. case b of Inl _ \<Rightarrow> total | Inr x \<Rightarrow> js_add total x) (Num 0) balances"

fun all_balances :: "(Pubkey \<Rightarrow> ('v, jsnum) act) \<Rightarrow> Pubkey list \<Rightarrow> ('v, jsnum result list) act" where
  "all_balances f [] = act_return []"
| "all_balances f (pubkey # pubkeys) =
     act_bind (checked (f pubkey)) (\<lambda>b. act_bind (all_balances f pubkeys) (\<lambda>bs. act_return (b # bs)))"

definition cached_balance :: "('w, 'v, 'x) chain_env_scheme \<Rightarrow> string \<Rightarrow> ('v, jsnum) act \<Rightarrow> ('v, jsnum) act" where
  "cached_balance E key getForCaching =
     act_bind (cache_getOrSet E key 60 (act_bind getForCaching (\<lambda>x. act_return (Cached_number x))))
       (\<lambda>x. act_return (cached_number x))"

text \<open>The sum over the active nodes, asked for one after the other; a node that fails adds nothing.\<close>

definition nodes_balance ::
  "('w, 'v, 'x) chain_env_scheme \<Rightarrow> ('v \<Rightarrow> Pubkey list) \<Rightarrow> (Pubkey \<Rightarrow> ('v, jsnum) act) \<Rightarrow> ('v, jsnum) act" where
  "nodes_balance E pubkeys f v = act_bind (all_balances f (pubkeys v)) (\<lambda>bs. act_return (sumBalances bs)) v"

definition getOffChainBalance :: "('w, 'v, 'x) chain_env_scheme \<Rightarrow> ('v, jsnum) act" where
  "getOffChainBalance E =
     cached_balance E ''lnd:offChainBalance'' (act_bind (LndService E) (\<lambda>node.
       nodes_balance E (listActivePubkeys E) (\<lambda>pubkey. lnd_getBalance E node (Some pubkey))))"

definition getOpeningChannelBalance :: "('w, 'v, 'x) chain_env_scheme \<Rightarrow> ('v, jsnum) act" where
  "getOpeningChannelBalance E =
     cached_balance E ''lnd:openingChannelBalance'' (act_bind (LndService E) (\<lambda>node.
       nodes_balance E (listActivePubkeys E) (\<lambda>pubkey. getOpeningChannelsBalance E node (Some pubkey))))"

definition getClosingChannelBalance :: "('w, 'v, 'x) chain_env_scheme \<Rightarrow> ('v, jsnum) act" where
  "getClosingChannelBalance E =
     cached_balance E ''lnd:closingChannelBalance'' (act_bind (LndService E) (\<lambda>node.
       nodes_balance E (listActivePubkeys E) (\<lambda>pubkey. getClosingChannelsBalance E node (Some pubkey))))"

definition getOnChainBalance :: "('w, 'v, 'x) chain_env_scheme \<Rightarrow> ('v, jsnum) act" where
  "getOnChainBalance E =
     cached_balance E ''lnd:onChainBalance'' (act_bind (OnChainService E) (\<lambda>node.
       act_bind (nodes_balance E (onchain_listActivePubkeys E) (\<lambda>pubkey. onchain_getBalance E node (Some pubkey))) (\<lambda>onChain.
       act_bind (nodes_balance E (onchain_listActivePubkeys E) (\<lambda>pubkey. getPendingBalance E node (Some pubkey)))
         (\<lambda>onChainPending. act_return (js_add onChain onChainPending)))))"

definition getTotalBalance :: "('w, 'v, 'x) chain_env_scheme \<Rightarrow> ('v, jsnum) act" where
  "getTotalBalance E =
     act_bind (checked (getOnChainBalance E)) (\<lambda>onChain.
     act_bind (checked (getOffChainBalance E)) (\<lambda>offChain.
     act_bind (checked (getOpeningChannelBalance E)) (\<lambda>opening.
     act_bind (checked (getClosingChannelBalance E)) (\<lambda>closing.
       act_return (sumBalances [onChain, offChain, opening, closing])))))"

section \<open>Rebalancing with the cold storage\<close>

definition rebalanceToColdWallet ::
  "('e, 'w, 'x) query_env_scheme \<Rightarrow> ('w, 'v, 'y) chain_env_scheme \<Rightarrow> (('w, 'v) app_state, bool) act" where
  "rebalanceToColdWallet L E =
     act_bind (in_world (ColdStorageService E)) (\<lambda>client.
     act_bind (in_world (OnChainService E)) (\<lambda>node.
     act_bind (in_world (LndService E)) (\<lambda>_.
     act_bind (in_world (getCurrentPrice E)) (\<lambda>displayCurrencyPerSat.
     act_bind (in_world (onchain_getBalance E node None)) (\<lambda>onChainBalance.
     act_bind (in_world (getOffChainBalance E)) (\<lambda>offChainBalance.
       let rebalanceAmount = getWithdrawFromHotWalletAmount (conf_rebalance E) onChainBalance offChainBalance
       in if js_le rebalanceAmount (Num 0) then act_return False
          else
            act_bind (in_world (cold_createOnChainAddress E client)) (\<lambda>address.
            act_bind (in_world (payToAddress E node rebalanceAmount address (conf_coldTargetConfirmations E) None)) (\<lambda>txHash.
            act_bind (checked (in_world (lookupOnChainFee E (chain_decode E) node txHash (conf_scanDepthOutgoing E)))) (\<lambda>looked.
              let fee = (case looked of Inl _ \<Rightarrow> Num 0 | Inr f \<Rightarrow> f)
              in act_bind (in_ledger (addColdStorageTxReceive L txHash address
                     (''deposit of '' @ num_toString E rebalanceAmount @ '' sats to the cold storage wallet'') rebalanceAmount fee
                     (dc_fromSats displayCurrencyPerSat fee) (dc_fromSats displayCurrencyPerSat rebalanceAmount)))
                   (\<lambda>_. act_return True))))))))))"

definition rebalanceToHotWallet ::
  "('w, 'v, 'x) chain_env_scheme \<Rightarrow> string \<Rightarrow> jsnum \<Rightarrow> jsnum \<Rightarrow> ('v, string \<times> jsnum) act" where
  "rebalanceToHotWallet E walletName amt targetConfirmations =
     act_bind (act_result (checkedToSats amt)) (\<lambda>checkedAmount.
     act_bind (act_result (checkedToTargetConfs targetConfirmations)) (\<lambda>targetConfs.
     act_bind (ColdStorageService E) (\<lambda>_.
     act_bind (OnChainService E) (\<lambda>node.
     act_bind (Lnd_Client.createOnChainAddress E node) (\<lambda>onChainAddress.
       createPsbt E walletName (oca_address onChainAddress) checkedAmount targetConfs)))))"

section \<open>Limits of the older payments\<close>

definition wallet_limits_check ::
  "TxnGroup \<Rightarrow> (IAccountLimits \<Rightarrow> jsnum \<Rightarrow> jsnum TxVolume \<Rightarrow> unit result) \<Rightarrow> ('e, 'w, 'x) query_env_scheme
    \<Rightarrow> ('w, 'v, 'y) app_env_scheme \<Rightarrow> jsnum \<Rightarrow> WalletId \<Rightarrow> WalletCurrency \<Rightarrow> Account \<Rightarrow> jsnum \<Rightarrow> (('w, 'v) app_state, unit) act" where
  "wallet_limits_check txnGroup check L E amt walletId walletCurrency account price =
     act_bind (\<lambda>s. in_db (volumeFn txnGroup L walletId (timestampDaysAgo E ONE_DAY (app_world s))) s) (\<lambda>walletVolume.
       act_result (limitCheckWithCurrencyConversion amt walletVolume walletCurrency price
         (check (getAccountLimits (conf_limits E) (acc_level account)))))"

definition checkIntraledgerLimits ::
  "('e, 'w, 'x) query_env_scheme \<Rightarrow> ('w, 'v, 'y) app_env_scheme \<Rightarrow> jsnum \<Rightarrow> WalletId \<Rightarrow> WalletCurrency \<Rightarrow> Account \<Rightarrow> jsnum
    \<Rightarrow> (('w, 'v) app_state, unit) act" where
  "checkIntraledgerLimits = wallet_limits_check intraledgerTxBaseVolumeSince LimitsChecker_checkIntraledger"

definition checkWithdrawalLimits ::
  "('e, 'w, 'x) query_env_scheme \<Rightarrow> ('w, 'v, 'y) app_env_scheme \<Rightarrow> jsnum \<Rightarrow> WalletId \<Rightarrow> WalletCurrency \<Rightarrow> Account \<Rightarrow> jsnum
    \<Rightarrow> (('w, 'v) app_state, unit) act" where
  "checkWithdrawalLimits = wallet_limits_check externalPaymentVolumeSince LimitsChecker_checkWithdrawal"

section \<open>The fee of an on-chain payment\<close>

definition swap_out_imbalance ::
  "('e, 'w, 'x) query_env_scheme \<Rightarrow> ('w, 'v, 'y) chain_env_scheme \<Rightarrow> WalletId \<Rightarrow> (('w, 'v) app_state, jsnum) act" where
  "swap_out_imbalance L E walletId s =
     in_db (getSwapOutImbalance (conf_withdrawMethod E) (volumeFn lightningTxBaseVolumeSince L)
       (volumeFn onChainTxBaseVolumeSince L) (conf_withdrawDaysLookback E) (clock E (app_world s)) walletId) s"

text \<open>A wallet that receives on the address, or any error but the two that are tested, makes the fee the one inside.\<close>

definition getOnChainFee ::
  "('e, 'w, 'x) query_env_scheme \<Rightarrow> ('w, 'v, 'y) chain_env_scheme \<Rightarrow> string \<Rightarrow> Account \<Rightarrow> jsnum \<Rightarrow> OnChainAddress \<Rightarrow> jsnum
    \<Rightarrow> (('w, 'v) app_state, jsnum) act" where
  "getOnChainFee L E walletId account amt address targetConfirmations =
     act_bind (act_result (checkedToSats amt)) (\<lambda>amountChecked.
     act_bind (act_result (checkedToTargetConfs targetConfirmations)) (\<lambda>targetConfsChecked.
     act_bind (act_result (checkedToWalletId walletId)) (\<lambda>walletIdChecked.
     act_bind (in_world (wallets_findById E walletIdChecked)) (\<lambda>wallet.
     act_bind (checked (in_world (findByAddress E address))) (\<lambda>payeeWallet.
       if payeeWallet = Inl (RepositoryError UnknownRepositoryError) then act_fail (RepositoryError UnknownRepositoryError)
       else if payeeWallet \<noteq> Inl (not_found_err CouldNotFindWalletFromOnChainAddressError)
       then act_return onChainIntraLedgerFee
       else if js_less amountChecked (conf_dustThreshold E) then act_fail (ValidationError LessThanDustThresholdError)
       else
         act_bind (in_ledger (getWalletBalance L (wd_id wallet))) (\<lambda>balance.
           if js_less balance amountChecked then act_fail (ValidationError InsufficientBalanceError)
           else
             act_bind (in_world (OnChainService E)) (\<lambda>node.
             act_bind (in_world (getOnChainFeeEstimate E node amountChecked address targetConfsChecked)) (\<lambda>minerFee.
             act_bind (swap_out_imbalance L E walletId) (\<lambda>imbalance.
               act_return (fst (onChainWithdrawalFee (conf_withdrawal E) minerFee amountChecked (acc_withdrawFee account)
                 imbalance)))))))))))"

section \<open>Paying to an address\<close>

text \<open>What happens while the sender's wallet is locked when the address is the one of a wallet.\<close>

definition onchain_intraledger_behind_lock ::
  "('e, 'w, 'x) query_env_scheme \<Rightarrow> ('w, 'v, 'y) chain_env_scheme \<Rightarrow> Account \<Rightarrow> Wallet \<Rightarrow> Account \<Rightarrow> Wallet \<Rightarrow> jsnum \<Rightarrow> jsnum
    \<Rightarrow> OnChainAddress \<Rightarrow> string option \<Rightarrow> bool \<Rightarrow> string \<Rightarrow> (('w, 'v) app_state, PaymentSendStatus) act" where
  "onchain_intraledger_behind_lock L E senderAccount senderWallet recipientAccount recipientWallet amt amountDisplayCurrency
       address memo sendAll signal =
     act_bind (in_ledger (getWalletBalance L (wd_id senderWallet))) (\<lambda>balance.
       if js_less balance amt then act_fail (ValidationError InsufficientBalanceError)
       else
         act_bind (not_aborted E signal) (\<lambda>_.
         act_bind (in_ledger (addOnChainIntraledgerTxTransfer L (wd_id senderWallet) (wd_currency senderWallet)
             (acc_username senderAccount) [] amt amountDisplayCurrency [address] sendAll (wd_id recipientWallet)
             (wd_currency recipientWallet) (acc_username recipientAccount) (str_or_undefined memo))) (\<lambda>_.
         act_bind (in_world (users_findById E (acc_ownerId recipientAccount))) (\<lambda>_.
           act_return Send_Success))))"

definition onchain_executePaymentViaIntraledger ::
  "('e, 'w, 'x) query_env_scheme \<Rightarrow> ('w, 'v, 'y) chain_env_scheme \<Rightarrow> Account \<Rightarrow> Wallet \<Rightarrow> Wallet \<Rightarrow> jsnum \<Rightarrow> OnChainAddress
    \<Rightarrow> string option \<Rightarrow> bool \<Rightarrow> (('w, 'v) app_state, PaymentSendStatus) act" where
  "onchain_executePaymentViaIntraledger L E senderAccount senderWallet recipientWallet amt address memo sendAll =
     (if wd_id recipientWallet = wd_id senderWallet then act_fail (ValidationError SelfPaymentError)
      else if \<not> (wd_currency recipientWallet = Btc \<and> wd_currency senderWallet = Btc) then act_fail NotImplementedError
      else
        act_bind (in_world (getCurrentPrice E)) (\<lambda>displayCurrencyPerSat.
        act_bind (checkIntraledgerLimits L E amt (wd_id senderWallet) (wd_currency senderWallet) senderAccount
            displayCurrencyPerSat) (\<lambda>_.
        act_bind (in_world (accounts_findById E (wd_accountId recipientWallet))) (\<lambda>recipientAccount.
          lockWalletId E (wd_id senderWallet) (\<lambda>signal.
            onchain_intraledger_behind_lock L E senderAccount senderWallet recipientAccount recipientWallet amt
              (dc_fromSats displayCurrencyPerSat amt) address memo sendAll signal)))))"

text \<open>
  What follows once the transaction is broadcast or refused: two kinds of refusal revert the journal, any other error
  leaves it pending. The miner's fee is only reported.
\<close>

definition after_broadcast ::
  "('e, 'w, 'x) query_env_scheme \<Rightarrow> ('w, 'v, 'y) chain_env_scheme \<Rightarrow> LndParamsAuthed \<Rightarrow> LedgerJournalId
    \<Rightarrow> OnChainTxHash result \<Rightarrow> (('w, 'v) app_state, PaymentSendStatus) act" where
  "after_broadcast L E node jid sent =
     (case sent of
        Inl e \<Rightarrow>
          if e = OnChainError InsufficientOnChainFundsError \<or> e = OnChainError CPFPAncestorLimitReachedError
          then act_bind (in_db (revertOnChainPayment L jid None)) (\<lambda>_. act_fail e)
          else act_fail e
      | Inr txHash \<Rightarrow>
          act_bind (in_db (setOnChainTxSendHash L jid txHash)) (\<lambda>_.
          act_bind (checked (in_world (lookupOnChainFee E (chain_decode E) node txHash (conf_scanDepthOutgoing E)))) (\<lambda>_.
            act_return Send_Success)))"

text \<open>The total fee, and the part of the bank, that a payment is charged.\<close>

definition charged_fees :: "('w, 'v, 'y) chain_env_scheme \<Rightarrow> Account \<Rightarrow> jsnum \<Rightarrow> jsnum \<Rightarrow> jsnum \<Rightarrow> jsnum \<times> jsnum" where
  "charged_fees E senderAccount minerFee amountToSend imbalance =
     onChainWithdrawalFee (conf_withdrawal E) minerFee amountToSend
       (if js_truthy (acc_withdrawFee senderAccount) then acc_withdrawFee senderAccount else conf_withdrawDefaultMin E)
       imbalance"

definition onchain_behind_lock ::
  "('e, 'w, 'x) query_env_scheme \<Rightarrow> ('w, 'v, 'y) chain_env_scheme \<Rightarrow> LndParamsAuthed \<Rightarrow> jsnum \<Rightarrow> Account \<Rightarrow> Wallet \<Rightarrow> jsnum
    \<Rightarrow> jsnum \<Rightarrow> OnChainAddress \<Rightarrow> jsnum \<Rightarrow> string option \<Rightarrow> bool \<Rightarrow> string \<Rightarrow> (('w, 'v) app_state, PaymentSendStatus) act" where
  "onchain_behind_lock L E node price senderAccount senderWallet amt amountToSend address targetConfirmations memo sendAll
       signal =
     act_bind (in_ledger (getWalletBalance L (wd_id senderWallet))) (\<lambda>balance.
     act_bind (getOnChainFee L E (wd_id senderWallet) senderAccount amt address targetConfirmations) (\<lambda>estimatedFee.
       if js_less balance (js_add amountToSend estimatedFee) then act_fail (ValidationError InsufficientBalanceError)
       else
         act_bind (not_aborted E signal) (\<lambda>_.
         act_bind (swap_out_imbalance L E (wd_id senderWallet)) (\<lambda>imbalance.
         act_bind (in_world (getOnChainFeeEstimate E node amountToSend address targetConfirmations)) (\<lambda>minerFee.
           let (totalFee, bankFee) = charged_fees E senderAccount minerFee amountToSend imbalance;
               sats = js_add amountToSend totalFee
           in act_bind (\<lambda>s. in_ledger (addOnChainTxSend L (wd_id senderWallet) (wd_currency senderWallet)
                  (random_hash E (app_world s)) address (case memo of None \<Rightarrow> [] | Some m \<Rightarrow> m) sats bankFee
                  (dc_fromSats price sats) totalFee (dc_fromSats price totalFee) sendAll) s) (\<lambda>journal.
              act_bind (checked (in_world (payToAddress E node amountToSend address targetConfirmations
                  (Some (''journal-'' @ journalId journal))))) (\<lambda>sent.
                after_broadcast L E node (journalId journal) sent)))))))"

definition executePaymentViaOnChain ::
  "('e, 'w, 'x) query_env_scheme \<Rightarrow> ('w, 'v, 'y) chain_env_scheme \<Rightarrow> Account \<Rightarrow> Wallet \<Rightarrow> jsnum \<Rightarrow> OnChainAddress \<Rightarrow> jsnum
    \<Rightarrow> string option \<Rightarrow> bool \<Rightarrow> (('w, 'v) app_state, PaymentSendStatus) act" where
  "executePaymentViaOnChain L E senderAccount senderWallet amt address targetConfirmations memo sendAll =
     (if wd_currency senderWallet \<noteq> Btc then act_fail NotImplementedError
      else
        act_bind (in_world (OnChainService E)) (\<lambda>node.
        act_bind (in_world (getCurrentPrice E)) (\<lambda>displayCurrencyPerSat.
        act_bind (checkWithdrawalLimits L E amt (wd_id senderWallet) (wd_currency senderWallet) senderAccount
            displayCurrencyPerSat) (\<lambda>_.
        act_bind (in_world (onchain_getBalance E node None)) (\<lambda>onChainAvailableBalance.
        act_bind (getOnChainFee L E (wd_id senderWallet) senderAccount amt address targetConfirmations) (\<lambda>estimatedFee.
          let amountToSend = (if sendAll then js_sub amt estimatedFee else amt)
          in if js_less onChainAvailableBalance (js_add amountToSend estimatedFee)
             then act_fail (ValidationError RebalanceNeededError)
             else if js_less amountToSend (conf_dustThreshold E) then act_fail (ValidationError LessThanDustThresholdError)
             else lockWalletId E (wd_id senderWallet) (\<lambda>signal.
                    onchain_behind_lock L E node displayCurrencyPerSat senderAccount senderWallet amt amountToSend address
                      targetConfirmations memo sendAll signal)))))))"

definition payOnChainByWalletId ::
  "('e, 'w, 'x) query_env_scheme \<Rightarrow> ('w, 'v, 'y) chain_env_scheme \<Rightarrow> Account \<Rightarrow> WalletId \<Rightarrow> jsnum \<Rightarrow> string \<Rightarrow> jsnum
    \<Rightarrow> string option \<Rightarrow> bool \<Rightarrow> (('w, 'v) app_state, PaymentSendStatus) act" where
  "payOnChainByWalletId L E senderAccount walletId amountRaw address targetConfirmations memo sendAll =
     act_bind (if sendAll then in_ledger (getWalletBalance L walletId) else act_result (checkedToSats amountRaw))
       (\<lambda>checkedAmount.
     act_bind (in_world (validatePaymentInput (wallets_findById E) checkedAmount walletId senderAccount None))
       (\<lambda>(amt, senderWallet, _).
     act_bind (act_result (checkedToOnChainAddress (conf_network E) address)) (\<lambda>checkedAddress.
     act_bind (act_result (checkedToTargetConfs targetConfirmations)) (\<lambda>checkedTargetConfirmations.
     act_bind (checked (in_world (findByAddress E checkedAddress))) (\<lambda>recipientWallet.
       case recipientWallet of
         Inr w \<Rightarrow> onchain_executePaymentViaIntraledger L E senderAccount senderWallet w amt checkedAddress memo sendAll
       | Inl _ \<Rightarrow> executePaymentViaOnChain L E senderAccount senderWallet amt checkedAddress checkedTargetConfirmations memo
                  sendAll)))))"

section \<open>Receiving\<close>

definition deposit_behind_lock ::
  "('e, 'w, 'x) query_env_scheme \<Rightarrow> ('w, 'v, 'y) chain_env_scheme \<Rightarrow> Wallet \<Rightarrow> jsnum \<Rightarrow> jsnum \<Rightarrow> OnChainTxHash \<Rightarrow> TxOut
    \<Rightarrow> (('w, 'v) app_state, unit) act" where
  "deposit_behind_lock L E wallet price depositFeeRatio txHash out =
     (case out_address out of
        None \<Rightarrow> act_return ()
      | Some address \<Rightarrow>
          if address \<notin> set (onChainAddresses wallet) then act_return ()
          else
            let fee = onChainDepositFee (out_sats out) depositFeeRatio
            in act_bind (in_ledger (addOnChainTxReceive L (wd_id wallet) (wd_currency wallet) txHash (out_sats out) fee
                   (dc_fromSats price fee) (dc_fromSats price (out_sats out)) address)) (\<lambda>_.
               act_bind (in_world (accounts_findById E (wd_accountId wallet))) (\<lambda>recipientAccount.
               act_bind (in_world (users_findById E (acc_ownerId recipientAccount))) (\<lambda>_. act_return ()))))"

fun for_each :: "('a \<Rightarrow> ('s, unit) act) \<Rightarrow> 'a list \<Rightarrow> ('s, unit) act" where
  "for_each f [] = act_return ()"
| "for_each f (x # xs) = act_bind (f x) (\<lambda>_. for_each f xs)"

definition processTxForWallet ::
  "('e, 'w, 'x) query_env_scheme \<Rightarrow> ('w, 'v, 'y) chain_env_scheme \<Rightarrow> Wallet \<Rightarrow> IncomingOnChainTransaction
    \<Rightarrow> (('w, 'v) app_state, unit) act" where
  "processTxForWallet L E wallet tx =
     act_bind (in_world (getCurrentPrice E)) (\<lambda>displayCurrencyPerSat.
       lockOnChainTxHash E (rawtx_hash (rawTx tx)) (\<lambda>_.
         act_bind (in_db (isOnChainTxRecorded L (wd_id wallet) (rawtx_hash (rawTx tx)))) (\<lambda>recorded.
         act_bind (in_world (accounts_findById E (wd_accountId wallet))) (\<lambda>account.
           if recorded then act_return ()
           else for_each (deposit_behind_lock L E wallet displayCurrencyPerSat (acc_depositFeeRatio account)
                  (rawtx_hash (rawTx tx))) (outs (rawTx tx))))))"

text \<open>An output to the cold storage itself, or one that cannot be told, is passed over.\<close>

definition hot_wallet_output ::
  "('e, 'w, 'x) query_env_scheme \<Rightarrow> ('w, 'v, 'y) chain_env_scheme \<Rightarrow> string \<Rightarrow> jsnum \<Rightarrow> IncomingOnChainTransaction \<Rightarrow> TxOut
    \<Rightarrow> (('w, 'v) app_state, unit) act" where
  "hot_wallet_output L E client price tx out =
     (if \<not> truthy_str (out_address out) then act_return ()
      else
        let address = the (out_address out); txHash = rawtx_hash (rawTx tx)
        in act_bind (checked (in_world (isDerivedAddress E client address))) (\<lambda>isColdStorageAddress.
             if isColdStorageAddress \<noteq> Inr False then act_return ()
             else
               act_bind (if js_truthy (in_fee tx) then act_return (Inr (in_fee tx))
                         else checked (in_world (lookupTransactionFee E client txHash))) (\<lambda>looked.
                 let fee = (case looked of Inl _ \<Rightarrow> Num 0 | Inr f \<Rightarrow> f); sats = out_sats out
                 in logged (act_bind (in_ledger (addColdStorageTxSend L txHash address
                        (''deposit to hot wallet of '' @ num_toString E sats @ '' sats from the cold storage wallet'') sats fee
                        (dc_fromSats price fee) (dc_fromSats price sats))) (\<lambda>_. act_return ())))))"

definition processTxForHotWallet ::
  "('e, 'w, 'x) query_env_scheme \<Rightarrow> ('w, 'v, 'y) chain_env_scheme \<Rightarrow> IncomingOnChainTransaction \<Rightarrow> (('w, 'v) app_state, unit) act" where
  "processTxForHotWallet L E tx =
     act_bind (in_world (ColdStorageService E)) (\<lambda>client.
     act_bind (in_world (isWithdrawalTransaction E client (rawtx_hash (rawTx tx)))) (\<lambda>isFromColdStorage.
       if \<not> isFromColdStorage then act_return ()
       else
         act_bind (in_world (getCurrentPrice E)) (\<lambda>displayCurrencyPerSat.
           lockOnChainTxHash E (rawtx_hash (rawTx tx)) (\<lambda>_.
             act_bind (in_db (isToHotWalletTxRecorded L (rawtx_hash (rawTx tx)))) (\<lambda>recorded.
               if recorded then act_return ()
               else for_each (hot_wallet_output L E client displayCurrencyPerSat tx) (outs (rawTx tx)))))))"

definition receive_tx ::
  "('e, 'w, 'x) query_env_scheme \<Rightarrow> ('w, 'v, 'y) chain_env_scheme \<Rightarrow> IncomingOnChainTransaction \<Rightarrow> (('w, 'v) app_state, unit) act" where
  "receive_tx L E tx =
     (if confirmations tx < conf_minConfirmations E then act_return ()
      else
        act_bind (checked (in_world (listByAddresses E (uniqueAddressesForTxn (rawTx tx))))) (\<lambda>wallets.
          case wallets of
            Inl e \<Rightarrow>
              if e = not_found_err CouldNotFindWalletFromOnChainAddressesError then logged (processTxForHotWallet L E tx)
              else act_return ()
          | Inr ws \<Rightarrow> for_each (\<lambda>wallet. logged (processTxForWallet L E wallet tx)) ws))"

definition redis_set :: "('w, 'v, 'x) chain_env_scheme \<Rightarrow> string \<Rightarrow> cache_value \<Rightarrow> int \<Rightarrow> ('v, unit) act" where
  "redis_set E key x ttlSecs =
     act_try (act_bind (act_call (rc_set E key x ttlSecs)) (\<lambda>res.
       if res then act_return () else act_fail (CacheServiceError CacheNotAvailableError)))
       (\<lambda>_. CacheServiceError UnknownCacheServiceError)"

definition redis_get :: "('w, 'v, 'x) chain_env_scheme \<Rightarrow> string \<Rightarrow> ('v, cache_value) act" where
  "redis_get E key =
     act_try (act_bind (act_call (rc_get E key)) (\<lambda>x.
       case x of None \<Rightarrow> act_fail (CacheServiceError CacheUndefinedError) | Some y \<Rightarrow> act_return y))
       (\<lambda>_. CacheServiceError UnknownCacheServiceError)"

definition updateOnChainReceipt ::
  "('e, 'w, 'x) query_env_scheme \<Rightarrow> ('w, 'v, 'y) chain_env_scheme \<Rightarrow> jsnum \<Rightarrow> (('w, 'v) app_state, nat) act" where
  "updateOnChainReceipt L E scanDepth =
     act_bind (in_world (OnChainService E)) (\<lambda>node.
     act_bind (in_world (listIncomingTransactions E (chain_decode E) node scanDepth)) (\<lambda>onChainTxs.
     act_bind (act_attempt (in_world (redis_set E ''bitcoin:lastOnChainTxs'' (Cached_txs onChainTxs) 600))) (\<lambda>_.
     act_bind (for_each (receive_tx L E) onChainTxs) (\<lambda>_. act_return (length onChainTxs)))))"

section \<open>What the ledger keeps of deposits\<close>

text \<open>A deposit is recorded when a receipt with its hash is posted to the account of the wallet.\<close>

definition deposit_posting :: "WalletId \<Rightarrow> OnChainTxHash \<Rightarrow> txn \<Rightarrow> bool" where
  "deposit_posting walletId h t =
     (tx_account t = toLiabilitiesWalletId walletId \<and> has_hash h t \<and> tx_meta t ''type'' = Some (MType OnchainReceipt))"

definition deposit_recorded :: "WalletId \<Rightarrow> OnChainTxHash \<Rightarrow> journals \<Rightarrow> bool" where
  "deposit_recorded walletId h js = list_ex (\<lambda>p. deposit_posting walletId h (snd p)) (postings js)"

text \<open>The outputs to the wallet are whole amounts and more than their fee.\<close>

definition deposits_whole :: "Wallet \<Rightarrow> jsnum \<Rightarrow> TxOut list \<Rightarrow> bool" where
  "deposits_whole w ratio os =
     list_all (\<lambda>out. case out_address out of
         None \<Rightarrow> True
       | Some address \<Rightarrow> address \<in> set (onChainAddresses w) \<longrightarrow>
           (\<exists>n f. out_sats out = Num (of_int n) \<and> onChainDepositFee (out_sats out) ratio = Num (of_int f)
              \<and> 0 \<le> f \<and> f < n \<and> ledger_amount n)) os"

text \<open>The total of an account over all journals.\<close>

definition account_total :: "LedgerAccountId \<Rightarrow> journals \<Rightarrow> rat" where
  "account_total a js = sum_list (map (\<lambda>(j, ts). account_net a Btc ts + account_net a Usd ts) js)"

text \<open>
  Counting documents and balances read the book; a count finds the postings of the account it asks for, and a balance
  is the total of its account. A committed journal has an identifier of its own.
\<close>

locale counting_store = ledger_store L journals
  for L :: "('e, 'w, 'x) query_env_scheme" and journals :: "'w \<Rightarrow> journals" +
  assumes count_reads: "tx_countDocuments L q w = (r, w') \<Longrightarrow> journals w' = journals w"
    and count_found: "tx_countDocuments L q w = (Inr n, w') \<Longrightarrow> q_id q = None \<Longrightarrow> q_accounts q = Some as \<Longrightarrow>
      p \<in> set (postings (journals w)) \<Longrightarrow> tx_account (snd p) \<in> set as \<Longrightarrow> query_matches q (snd p) \<Longrightarrow> 0 < n"
    and commit_fresh: "entry_commit L e w = (Inr saved, w') \<Longrightarrow> saved_id saved \<notin> fst ` set (journals w)"
    and balance_total: "book_balance L a None w = (Inr b, w') \<Longrightarrow> b = Num (account_total a (journals w))"

interpretation list_counting: counting_store list_query_env "\<lambda>w. w"
proof (unfold_locales, goal_cases)
  case (2 q w n w' as p)
  then have "n = length (filter (\<lambda>(j, t). query_matches q t) (postings w))"
    by (auto simp: list_query_env_def ledger_env.defs query_env.defs)
  moreover have "p \<in> set (filter (\<lambda>(j, t). query_matches q t) (postings w))" using 2 by (simp add: case_prod_unfold)
  ultimately show ?case by (metis length_pos_if_in_set)
next
  case (3 e w saved w')
  then have "saved_id saved = next_journal_id w" by (auto simp: list_query_env_sel list_book_env_commit)
  then show ?case using next_journal_id_fresh [of w] by simp
qed (auto simp: list_query_env_def list_book_env_def medici.defs ledger_env.defs query_env.defs account_total_def)

lemma deposit_recorded_append: "deposit_recorded w h js \<Longrightarrow> deposit_recorded w h (js @ js')"
  by (simp add: deposit_recorded_def postings_append)

lemma keeps_checked: "keeps P m \<Longrightarrow> keeps P (checked m)"
  unfolding checked_def by (intro keeps_bind keeps_attempt) (auto split: sum.splits error.splits intro: keeps_intros)

lemma keeps_logged: "keeps P m \<Longrightarrow> keeps P (logged m)"
  unfolding logged_def by (intro keeps_bind keeps_attempt) (auto split: sum.splits error.splits intro: keeps_intros)

lemma keeps_for_each: "(\<And>x. x \<in> set xs \<Longrightarrow> keeps P (f x)) \<Longrightarrow> keeps P (for_each f xs)"
  by (induction xs) (simp_all add: keeps_return keeps_bind)

context counting_store
begin

lemma keeps_reads: "keeps (\<lambda>w. P (journals w)) (isOnChainTxRecorded L wid h)"
proof -
  have "keeps (\<lambda>w. P (journals w)) (act_call (tx_countDocuments L q))" for q
    by (rule keeps_call) (simp add: count_reads)
  then show ?thesis unfolding isOnChainTxRecorded_def by (intro keeps_intros)
qed

lemma recorded_found:
  assumes "isOnChainTxRecorded L wid h w = (Inr b, w')" and "deposit_recorded wid h (journals w)"
  shows "b"
proof -
  let ?q = "any_query\<lparr>q_accounts := Some [toLiabilitiesWalletId wid], q_type := Some OnchainReceipt, q_hash := Some h\<rparr>"
  obtain n where n: "tx_countDocuments L ?q w = (Inr n, w')" "b \<longleftrightarrow> 0 < n"
    using assms(1) by (auto simp: isOnChainTxRecorded_def act_try_eq_Inr act_bind_eq_Inr act_call_eq_Inr)
  obtain p where p: "p \<in> set (postings (journals w))" "deposit_posting wid h (snd p)"
    using assms(2) by (auto simp: deposit_recorded_def list_ex_iff)
  then have "tx_account (snd p) \<in> set [toLiabilitiesWalletId wid]" "query_matches ?q (snd p)"
    by (simp_all add: deposit_posting_def query_matches_def any_query_def has_hash_def)
  then show ?thesis using count_found [OF n(1) _ _ p(1)] n(2) by (simp add: any_query_def)
qed

text \<open>An entry with a posting of the deposit leaves the book as it is or records the deposit.\<close>

lemma keeps_deposit_commit:
  assumes "list_ex (deposit_posting wid h) (entry_transactions L e)"
  shows "keeps (\<lambda>w. journals w = js \<or> deposit_recorded wid h (journals w)) (commit_and_persist L e hash pre)"
proof -
  have "keeps (\<lambda>w. journals w = js \<or> deposit_recorded wid h (journals w)) (act_call (entry_commit L e))"
  proof (rule keeps_call)
    fix w r w' assume w: "journals w = js \<or> deposit_recorded wid h (journals w)" "entry_commit L e w = (r, w')"
    show "journals w' = js \<or> deposit_recorded wid h (journals w')"
    proof (cases r)
      case (Inl m)
      then show ?thesis using w commit_fail by auto
    next
      case (Inr saved)
      then have "journals w' = journals w @ [(saved_id saved, entry_transactions L e)]" using w commit_ok by blast
      moreover have "deposit_recorded wid h [(saved_id saved, entry_transactions L e)]"
        using assms by (auto simp: deposit_recorded_def postings_def list_ex_iff)
      ultimately show ?thesis by (simp add: deposit_recorded_def postings_append)
    qed
  qed
  moreover have "keeps (\<lambda>w. journals w = js \<or> deposit_recorded wid h (journals w)) (md_persistAll L rs)" for rs
  proof -
    have "keeps (\<lambda>w. journals w = js \<or> deposit_recorded wid h (journals w)) (act_call (md_insertMany L rs))"
      by (rule keeps_call) (simp add: insert_metadata)
    then show ?thesis by (auto simp: md_persistAll_def intro!: keeps_intros)
  qed
  ultimately show ?thesis
    unfolding commit_and_persist_def Let_def by (intro keeps_bind keeps_attempt keeps_return)
qed

lemma receipt_has_posting:
  fixes n f :: int
  assumes "0 \<le> f" "f < n" "ledger_amount n"
    and "m ''hash'' = Some (MStr h)" "m ''type'' = Some (MType OnchainReceipt)"
  shows "list_ex (deposit_posting wid h) (entry_transactions L (legacy_creditAccount L
      (legacy_debitLnd L (legacy_withFee L (builder_config L d ids m) (BtcPaymentAmount f)) (BtcPaymentAmount n))
      (toLedgerAccountId wid) None))"
proof -
  have safe: "is_safe_int n" "is_safe_int f" "is_safe_int (n - f)"
    using assms(1-3) by (simp_all add: ledger_amount_def is_safe_int_def)
  define s where "s = legacy_debitLnd L (legacy_withFee L (builder_config L d ids m) (BtcPaymentAmount f)) (BtcPaymentAmount n)"
  have s: "eb_metadata s = m" "lb_debitAmount s = BtcPaymentAmount n" "lb_fee s = BtcPaymentAmount f"
    by (simp_all add: s_def legacy_debitLnd_def legacy_withFee_def builder_config_def Let_def)
  let ?t = "\<lparr>tx_account = toLedgerAccountId wid, tx_credit = Num (of_int (n - f)), tx_debit = Num 0, tx_meta = with_currency m Btc\<rparr>"
  have "entry_transactions L (credit_amount L (eb_entry s) (toLedgerAccountId wid) (BtcPaymentAmount (n - f)) m)
      = entry_transactions L (eb_entry s) @ [?t]"
    using safe(3) by (simp add: transactions_credit_amount BtcPaymentAmount_def)
  moreover have "legacy_creditAccount L s (toLedgerAccountId wid) None =
      removeZeroAmountEntries L (credit_amount L (eb_entry s) (toLedgerAccountId wid) (BtcPaymentAmount (n - f)) m)"
    by (simp add: legacy_creditAccount_def legacy_creditAccount_btc_def s Let_def calc_sub_def BtcPaymentAmount_def)
  moreover have "\<not> js_eq (tx_credit ?t) (Num 0)" using assms(2) by (simp add: js_eq_def)
  ultimately have "?t \<in> set (entry_transactions L (legacy_creditAccount L s (toLedgerAccountId wid) None))"
    by (simp add: removeZeroAmountEntries_def transactions_set)
  moreover have "deposit_posting wid h ?t"
    using assms(4,5) by (simp add: deposit_posting_def has_hash_def toLedgerAccountId_def toLiabilitiesWalletId_def)
  ultimately show ?thesis unfolding s_def [symmetric] list_ex_iff by (rule bexI [rotated])
qed

end

lemma paymentAmountFromNumber_whole:
  "paymentAmountFromNumber (Num (of_int n)) Btc = Inr a \<Longrightarrow> a = \<lparr>currency = Btc, amount = n\<rparr>"
  by simp

lemma keeps_bind_amount:
  "(\<And>a. x = Inr a \<Longrightarrow> keeps P (f a)) \<Longrightarrow> keeps P (act_bind (act_result x) f)"
  by (cases x) (simp_all add: keeps_fail)

context counting_store
begin

lemma keeps_deposit_receive:
  fixes n f :: int
  assumes "0 \<le> f" "f < n" "ledger_amount n"
  shows "keeps (\<lambda>l. journals (db l) = js \<or> deposit_recorded wid h (journals (db l)))
    (addOnChainTxReceive L wid c h (Num (of_int n)) (Num (of_int f)) fd ad address)"
proof -
  let ?P = "\<lambda>w. journals w = js \<or> deposit_recorded wid h (journals w)"
  have entry: "keeps ?P (commit_and_persist L (legacy_creditAccount L
      (legacy_debitLnd L (legacy_withFee L (builder_config L d ids m) \<lparr>currency = Btc, amount = k\<rparr>)
         \<lparr>currency = Btc, amount = n\<rparr>) (toLedgerAccountId wid) None) hash pre)"
    if "m ''hash'' = Some (MStr h)" "m ''type'' = Some (MType OnchainReceipt)" "k = f \<or> k = 0" for d ids m k hash pre
    using receipt_has_posting [OF _ _ assms(3) that(1,2), of k] assms that(3) unfolding amount_eqs
    by (intro keeps_deposit_commit) auto
  note ids = keeps_bind [OF keeps_staticAccountIds [where P = ?P]]
  let ?m = "map_of [(''type'', MType OnchainReceipt), (''pending'', MBool False), (''hash'', MStr h),
      (''fee'', MNum (Num (of_int f))), (''feeUsd'', MNum fd), (''usd'', MNum ad), (''payee_addresses'', MStrs [address])]"
  have m: "?m ''hash'' = Some (MStr h)" "?m ''type'' = Some (MType OnchainReceipt)" by simp_all
  have fee: "keeps (\<lambda>l. ?P (db l)) (addReceiptFee L ?m (Num (of_int f)) wid c (Num (of_int n)) [])"
    unfolding addReceiptFee_def Let_def
    apply (rule ids)
    apply (rule keeps_if [OF keeps_fail])
    apply (rule keeps_bind_amount)+
    apply (drule paymentAmountFromNumber_whole)+
    apply hypsubst
    apply (intro keeps_on_db [where P = ?P] keeps_try entry [OF m])
    apply simp
    done
  have no_fee: "keeps (\<lambda>l. ?P (db l)) (addReceiptNoFee L ?m wid c (Num (of_int n)) None [] None)"
  proof (cases c)
    case Btc
    show ?thesis
      unfolding addReceiptNoFee_def Let_def legacy_withoutFee_def ZERO_SATS_def Btc WalletCurrency.case act_bind_return
      apply (rule ids)
      apply (rule keeps_bind_amount)
      apply (drule paymentAmountFromNumber_whole)+
    apply hypsubst
      apply (intro keeps_on_db [where P = ?P] keeps_try entry [OF m])
      apply simp
      done
  next
    case Usd
    show ?thesis
      unfolding addReceiptNoFee_def Let_def Usd WalletCurrency.case option.case act_bind_fail
      by (intro ids keeps_bind_amount keeps_fail)
  qed
  show ?thesis
    unfolding addOnChainTxReceive_def Let_def by (intro keeps_if fee no_fee)
qed

lemma keeps_deposit_output:
  assumes "deposits_whole wallet ratio [out]"
  shows "keeps (\<lambda>s. app_journals journals s = js \<or> deposit_recorded (wd_id wallet) h (app_journals journals s))
    (deposit_behind_lock L E wallet price ratio h out)"
proof (cases "out_address out")
  case None
  then show ?thesis by (simp add: deposit_behind_lock_def keeps_return)
next
  case (Some address)
  let ?P = "\<lambda>s. app_journals journals s = js \<or> deposit_recorded (wd_id wallet) h (app_journals journals s)"
  note world = keeps_in_world [where P = "\<lambda>l. journals (db l) = js \<or> deposit_recorded (wd_id wallet) h (journals (db l))"]
  show ?thesis
  proof (cases "address \<in> set (onChainAddresses wallet)")
    case False
    with Some show ?thesis by (simp add: deposit_behind_lock_def keeps_return)
  next
    case True
    then obtain n f :: int where nf: "out_sats out = Num (of_int n)" "onChainDepositFee (out_sats out) ratio = Num (of_int f)"
      "0 \<le> f" "f < n" "ledger_amount n"
      using assms Some by (auto simp: deposits_whole_def)
    note receive = keeps_in_ledger [OF keeps_deposit_receive [OF nf(3-5)]]
    show ?thesis
      unfolding deposit_behind_lock_def Some option.case Let_def nf(2) unfolding nf(1)
      by (rule keeps_if [OF keeps_return]) (intro keeps_bind [OF receive] keeps_bind [OF world] keeps_return)
  qed
qed

lemma keeps_deposit_behind_lock:
  assumes "\<And>account v v'. accounts_findById E (wd_accountId wallet) v = (Inr account, v')
      \<Longrightarrow> deposits_whole wallet (acc_depositFeeRatio account) (outs (rawTx tx))"
  defines "h \<equiv> rawtx_hash (rawTx tx)"
  shows "keeps (\<lambda>s. app_journals journals s = js \<or> deposit_recorded (wd_id wallet) h (app_journals journals s))
    (act_bind (in_db (isOnChainTxRecorded L (wd_id wallet) h)) (\<lambda>b.
       act_bind (in_world (accounts_findById E (wd_accountId wallet))) (\<lambda>account.
         if b then act_return ()
         else for_each (deposit_behind_lock L E wallet price (acc_depositFeeRatio account) h) (outs (rawTx tx)))))"
    (is "keeps ?P _")
proof -
  note world = keeps_in_world [where P = "\<lambda>l. journals (db l) = js \<or> deposit_recorded (wd_id wallet) h (journals (db l))"]
  have test: "keeps ?P (in_db (isOnChainTxRecorded L (wd_id wallet) h))"
    by (rule keeps_in_db [where P = "\<lambda>w. journals w = js \<or> deposit_recorded (wd_id wallet) h (journals w)"])
      (rule keeps_reads [where P = "\<lambda>x. x = js \<or> deposit_recorded (wd_id wallet) h x"])
  have out: "keeps ?P (for_each (deposit_behind_lock L E wallet price ratio h) os)" if "deposits_whole wallet ratio os" for ratio os
    using that by (intro keeps_for_each keeps_deposit_output) (auto simp: deposits_whole_def list_all_iff)
  have "yields (in_world (accounts_findById E (wd_accountId wallet)))
      (\<lambda>account. deposits_whole wallet (acc_depositFeeRatio account) (outs (rawTx tx)))"
    unfolding yields_def in_world_eq_Inr using assms(1) by blast
  note inner = keeps_bind_yields [OF world this]
  have "keeps ?P (act_bind (in_world (accounts_findById E (wd_accountId wallet))) (\<lambda>account.
      if b then act_return ()
      else for_each (deposit_behind_lock L E wallet price (acc_depositFeeRatio account) h) (outs (rawTx tx))))" for b
    by (rule inner) (intro keeps_if keeps_return out)
  then show ?thesis by (rule keeps_bind [OF test])
qed

lemma deposit_recorded_skips:
  assumes "deposit_recorded (wd_id wallet) (rawtx_hash (rawTx tx)) js"
  shows "keeps (\<lambda>s. app_journals journals s = js)
    (act_bind (in_db (isOnChainTxRecorded L (wd_id wallet) (rawtx_hash (rawTx tx)))) (\<lambda>b.
       act_bind (in_world (accounts_findById E (wd_accountId wallet))) (\<lambda>account.
         if b then act_return () else rest account)))"
    (is "keeps ?P (act_bind ?test ?cont)")
  unfolding keeps_def
proof (intro allI impI)
  fix s assume s: "?P s"
  obtain r s1 where r: "?test s = (r, s1)" by fastforce
  have "keeps ?P ?test"
    by (rule keeps_in_db [where P = "\<lambda>w. journals w = js"]) (rule keeps_reads [where P = "\<lambda>x. x = js"])
  from keepsD [OF this s r] have s1: "?P s1" .
  note world = keeps_in_world [where P = "\<lambda>l. journals (db l) = js"]
  show "?P (snd (act_bind ?test ?cont s))"
  proof (cases r)
    case (Inl e)
    then show ?thesis using r s1 by (simp add: act_bind_def)
  next
    case (Inr b)
    from r [unfolded Inr in_db_eq_Inr] obtain w
      where "isOnChainTxRecorded L (wd_id wallet) (rawtx_hash (rawTx tx)) (db (app_ledger s)) = (Inr b, w)"
      by (elim exE conjE)
    then have "b" by (rule recorded_found) (use assms s in simp)
    have "keeps ?P (act_bind (in_world (accounts_findById E (wd_accountId wallet))) (\<lambda>account. act_return ()))"
      by (rule keeps_bind [OF world keeps_return])
    then have "?P (snd (act_bind (in_world (accounts_findById E (wd_accountId wallet))) (\<lambda>account. act_return ()) s1))"
      using s1 by (simp add: keeps_def)
    moreover have "act_bind ?test ?cont s =
        act_bind (in_world (accounts_findById E (wd_accountId wallet))) (\<lambda>account. act_return ()) s1"
      using act_bind_simps(2) [where m = ?test and f = ?cont, OF r [unfolded Inr]] \<open>b\<close> by (simp only: if_True)
    ultimately show ?thesis by (simp only:)
  qed
qed

lemma keeps_processTxForWallet:
  assumes "quiet_locks E journals"
    and "\<And>price. keeps (\<lambda>s. P (app_journals journals s))
      (act_bind (in_db (isOnChainTxRecorded L (wd_id wallet) (rawtx_hash (rawTx tx)))) (\<lambda>b.
         act_bind (in_world (accounts_findById E (wd_accountId wallet))) (\<lambda>account.
           if b then act_return ()
           else for_each (deposit_behind_lock L E wallet price (acc_depositFeeRatio account) (rawtx_hash (rawTx tx)))
                  (outs (rawTx tx)))))"
  shows "keeps (\<lambda>s. P (app_journals journals s)) (processTxForWallet L E wallet tx)"
proof -
  note world = keeps_in_world [where P = "\<lambda>l. P (journals (db l))"]
  show ?thesis
    unfolding processTxForWallet_def lockOnChainTxHash_def
    by (rule keeps_bind [OF world], rule keeps_redlock [OF quiet_locks_keep [OF assms(1), where P = P] assms(2)])
qed

lemma deposit_same_or_recorded:
  assumes "quiet_locks E journals"
    and "\<And>account v v'. accounts_findById E (wd_accountId wallet) v = (Inr account, v')
      \<Longrightarrow> deposits_whole wallet (acc_depositFeeRatio account) (outs (rawTx tx))"
  shows "app_journals journals (snd (processTxForWallet L E wallet tx s)) = app_journals journals s
    \<or> deposit_recorded (wd_id wallet) (rawtx_hash (rawTx tx)) (app_journals journals (snd (processTxForWallet L E wallet tx s)))"
proof -
  let ?P = "\<lambda>x. x = app_journals journals s \<or> deposit_recorded (wd_id wallet) (rawtx_hash (rawTx tx)) x"
  have "keeps (\<lambda>s. ?P (app_journals journals s)) (processTxForWallet L E wallet tx)"
    by (rule keeps_processTxForWallet [where P = ?P, OF assms(1)], rule keeps_deposit_behind_lock, rule assms(2))
  then show ?thesis unfolding keeps_def by blast
qed

lemma recorded_deposit_same:
  assumes "quiet_locks E journals"
    and "deposit_recorded (wd_id wallet) (rawtx_hash (rawTx tx)) (app_journals journals s)"
  shows "app_journals journals (snd (processTxForWallet L E wallet tx s)) = app_journals journals s"
proof -
  have "keeps (\<lambda>s'. app_journals journals s' = app_journals journals s) (processTxForWallet L E wallet tx)"
    by (rule keeps_processTxForWallet [where P = "\<lambda>x. x = app_journals journals s", OF assms(1)],
        rule deposit_recorded_skips, rule assms(2))
  then show ?thesis unfolding keeps_def by blast
qed

end

section \<open>Outcomes of actions\<close>

text \<open>From a state with \<open>P\<close> an action ends, with its result, in a state with \<open>Q\<close>.\<close>

definition ends :: "('s \<Rightarrow> bool) \<Rightarrow> ('s, 'a) act \<Rightarrow> ('a result \<Rightarrow> 's \<Rightarrow> bool) \<Rightarrow> bool" where
  "ends P m Q = (\<forall>s r s'. P s \<longrightarrow> m s = (r, s') \<longrightarrow> Q r s')"

lemma endsD: "ends P m Q \<Longrightarrow> P s \<Longrightarrow> m s = (r, s') \<Longrightarrow> Q r s'"
  by (simp add: ends_def)

lemma ends_bind:
  assumes "ends P m (\<lambda>r s. case r of Inl e \<Rightarrow> Q (Inl e) s | Inr x \<Rightarrow> R x s)" and "\<And>x. ends (R x) (f x) Q"
  shows "ends P (act_bind m f) Q"
  unfolding ends_def
proof (intro allI impI)
  fix s r s' assume P: "P s" and run: "act_bind m f s = (r, s')"
  obtain r1 s1 where m: "m s = (r1, s1)" by fastforce
  show "Q r s'"
  proof (cases r1)
    case (Inl e)
    then show ?thesis using endsD [OF assms(1) P m] m run by (simp add: act_bind_def)
  next
    case (Inr x)
    then have "R x s1" using endsD [OF assms(1) P m] by simp
    then show ?thesis using endsD [OF assms(2)] m run Inr by (simp add: act_bind_def)
  qed
qed

lemma ends_step:
  assumes "keeps P m" and "\<And>e s. P s \<Longrightarrow> Q (Inl e) s" and "\<And>x. ends P (f x) Q"
  shows "ends P (act_bind m f) Q"
proof (rule ends_bind [where R = "\<lambda>_. P"])
  show "ends P m (\<lambda>r s. case r of Inl e \<Rightarrow> Q (Inl e) s | Inr x \<Rightarrow> P s)"
    unfolding ends_def
  proof (intro allI impI)
    fix s r s' assume "P s" "m s = (r, s')"
    then have "P s'" by (rule keepsD [OF assms(1)])
    then show "case r of Inl e \<Rightarrow> Q (Inl e) s' | Inr x \<Rightarrow> P s'" using assms(2) by (cases r) simp_all
  qed
qed (rule assms(3))

lemma ends_return: "(\<And>s. P s \<Longrightarrow> Q (Inr x) s) \<Longrightarrow> ends P (act_return x) Q"
  by (simp add: ends_def)

lemma ends_fail: "(\<And>s. P s \<Longrightarrow> Q (Inl e) s) \<Longrightarrow> ends P (act_fail e) Q"
  by (simp add: ends_def)

lemma ends_if: "(b \<Longrightarrow> ends P m Q) \<Longrightarrow> (\<not> b \<Longrightarrow> ends P m' Q) \<Longrightarrow> ends P (if b then m else m') Q"
  by simp

lemma ends_result:
  "(\<And>e s. P s \<Longrightarrow> Q (Inl e) s) \<Longrightarrow> (\<And>x. r = Inr x \<Longrightarrow> ends P (f x) Q) \<Longrightarrow> ends P (act_bind (act_result r) f) Q"
  by (cases r) (simp_all add: ends_fail)

lemma ends_try:
  "ends P m (\<lambda>r s. case r of Inl (Thrown message) \<Rightarrow> Q (Inl (h message)) s | _ \<Rightarrow> Q r s) \<Longrightarrow> ends P (act_try m h) Q"
  unfolding ends_def
proof (intro allI impI)
  fix s r s'
  assume Q: "\<forall>s r s'. P s \<longrightarrow> m s = (r, s') \<longrightarrow> (case r of Inl (Thrown message) \<Rightarrow> Q (Inl (h message)) s' | _ \<Rightarrow> Q r s')"
    and P: "P s" and run: "act_try m h s = (r, s')"
  obtain r1 where m: "m s = (r1, s')" using run act_try_state [of m h s] by (metis eq_snd_iff)
  from Q P m have "case r1 of Inl (Thrown message) \<Rightarrow> Q (Inl (h message)) s' | _ \<Rightarrow> Q r1 s'" by blast
  then show "Q r s'" using run m by (auto simp: act_try_def split: sum.splits error.splits)
qed

lemma ends_in_ledger:
  "ends P m Q \<Longrightarrow> ends (\<lambda>s. P (app_ledger s)) (in_ledger m) (\<lambda>r s. Q r (app_ledger s))"
  by (auto simp: ends_def in_ledger_def split: prod.splits)

lemma ends_on_db: "ends P m Q \<Longrightarrow> ends (\<lambda>l. P (db l)) (on_db m) (\<lambda>r l. Q r (db l))"
  by (auto simp: ends_def on_db_def split: prod.splits)

lemma ends_in_db:
  "ends P m Q \<Longrightarrow> ends (\<lambda>s. P (db (app_ledger s))) (in_db m) (\<lambda>r s. Q r (db (app_ledger s)))"
  unfolding in_db_def by (rule ends_in_ledger [OF ends_on_db])

lemma ends_weaken: "ends P m Q \<Longrightarrow> (\<And>s. P' s \<Longrightarrow> P s) \<Longrightarrow> (\<And>r s. Q r s \<Longrightarrow> Q' r s) \<Longrightarrow> ends P' m Q'"
  unfolding ends_def by blast

text \<open>A lock turns an exception, or a release that fails, into an error of its own.\<close>

lemma ends_redlock:
  assumes "lock_keeps E P" and "\<And>signal. ends P (f signal) Q"
    and "\<And>e s. P s \<Longrightarrow> Q (Inl e) s" and "\<And>r path s. Q r s \<Longrightarrow> Q r (snd (lock_release E path s))"
    and "\<And>r e s. Q r s \<Longrightarrow> Q (Inl (LockError e)) s"
  shows "ends P (redlock E path None f) Q"
  unfolding ends_def
proof (intro allI impI)
  fix s r s' assume P: "P s" and run: "redlock E path None f s = (r, s')"
  obtain a s1 where s1: "lock_acquire E path s = (a, s1)" by fastforce
  obtain r2 s2 where s2: "f path s1 = (r2, s2)" by fastforce
  obtain b s3 where s3: "lock_release E path s2 = (b, s3)" by fastforce
  have P1: "P s1" using assms(1) P s1 by (metis lock_keeps_def snd_conv)
  have "Q r2 s3" using assms(4) [OF endsD [OF assms(2) P1 s2], of path] s3 by simp
  then show "Q r s'"
    using run s1 s2 s3 P1 assms(3,5)
    by (auto simp: redlock_def lock_errors_def split: lock_attempt.splits sum.splits error.splits)
qed

section \<open>Outcomes of on-chain payments\<close>

definition same_journals :: "journals \<Rightarrow> journals \<Rightarrow> bool" where
  "same_journals = list_all2 (\<lambda>(j, ts) (j', ts'). j = j' \<and> list_all2 same_posting ts ts')"

definition posted :: "journals \<Rightarrow> journals \<Rightarrow> bool" where
  "posted js js' = (\<exists>j ts. same_journals (js @ [(j, ts)]) js')"

definition reverted :: "journals \<Rightarrow> journals \<Rightarrow> bool" where
  "reverted js js' = (\<exists>j ts j'. same_journals (js @ [(j, ts), (j', map reverse_txn ts)]) js')"

text \<open>The two errors that say that the node did not send.\<close>

definition refusal :: "error \<Rightarrow> bool" where
  "refusal e = (e = OnChainError InsufficientOnChainFundsError \<or> e = OnChainError CPFPAncestorLimitReachedError)"

definition outcome :: "journals \<Rightarrow> 'a result \<Rightarrow> journals \<Rightarrow> bool" where
  "outcome js r js' =
     (case r of
        Inr _ \<Rightarrow> posted js js'
      | Inl e \<Rightarrow> js' = js \<or> reverted js js' \<or> posted js js' \<and> \<not> refusal e)"

lemma same_posting_refl: "same_posting t t"
  by (simp add: same_posting_def)

lemma same_posting_trans: "same_posting t u \<Longrightarrow> same_posting u v \<Longrightarrow> same_posting t v"
  by (simp add: same_posting_def)

lemma same_journals_refl: "same_journals js js"
  by (auto simp: same_journals_def list_all2_same same_posting_refl)

lemma same_journals_trans:
  assumes "same_journals a b" and "same_journals b c"
  shows "same_journals a c"
  using assms unfolding same_journals_def
  by (rule list_all2_trans [rotated]) (auto elim: list_all2_trans [rotated] intro: same_posting_trans)

lemma same_journals_append:
  "same_journals a b \<Longrightarrow> same_journals c d \<Longrightarrow> same_journals (a @ c) (b @ d)"
  unfolding same_journals_def by (rule list_all2_appendI)

lemma same_posting_net:
  assumes "list_all2 same_posting ts ts'"
  shows "account_net a c ts' = account_net a c ts"
  using assms by (induction rule: list_all2_induct) (auto simp: same_posting_def tx_net_def)

lemma same_journals_total:
  assumes "same_journals js js'"
  shows "account_total a js' = account_total a js"
  using assms unfolding same_journals_def account_total_def
  by (induction rule: list_all2_induct) (auto simp: same_posting_net)

lemma account_net_reverse: "account_net a c (map reverse_txn ts) = - account_net a c ts"
  by (induction ts) (simp_all add: reverse_txn_def tx_net_def tx_currency_def)

lemma reverted_total: "reverted js js' \<Longrightarrow> account_total a js' = account_total a js"
  by (auto simp: reverted_def account_net_reverse account_total_def dest!: same_journals_total [where a = a])

lemma posted_length: "posted js js' \<Longrightarrow> length js' = Suc (length js)"
  by (auto simp: posted_def same_journals_def dest!: list_all2_lengthD)

lemma reverted_length: "reverted js js' \<Longrightarrow> length js' = Suc (Suc (length js))"
  by (auto simp: reverted_def same_journals_def dest!: list_all2_lengthD)

lemma posted_append: "posted js (js @ [(j, ts)])"
  unfolding posted_def using same_journals_refl by blast

text \<open>What an operation that books one journal leaves.\<close>

definition booked :: "journals \<Rightarrow> LedgerJournal result \<Rightarrow> journals \<Rightarrow> bool" where
  "booked js r js' =
     (case r of Inl _ \<Rightarrow> js' = js | Inr x \<Rightarrow> journalId x \<notin> fst ` set js \<and> (\<exists>ts. js' = js @ [(journalId x, ts)]))"

lemma booked_Inl: "booked js (Inl e) js' \<longleftrightarrow> js' = js"
  by (simp add: booked_def)

text \<open>In a book that has one journal of an identifier, voiding it adds its reversal.\<close>

lemma reverted_by_void:
  assumes "same_journals (js @ [(j, ts)]) js'" and "j \<notin> fst ` set js" and "(j, us) \<in> set js'"
  shows "reverted js (js' @ [(k, map reverse_txn us)])"
proof -
  from assms(1) obtain as u where js': "js' = as @ [(j, u)]" and as: "same_journals js as" and u: "list_all2 same_posting ts u"
    unfolding same_journals_def list_all2_append1 list_all2_Cons1 by auto
  have "fst ` set as = fst ` set js"
    using as unfolding same_journals_def by (induction rule: list_all2_induct) auto
  then have "us = u" using assms(2,3) js' by (force simp: image_iff)
  have "list_all2 same_posting (map reverse_txn ts) (map reverse_txn u)"
    using u by (auto simp: list_all2_map1 list_all2_map2 same_posting_def reverse_txn_def tx_currency_def elim!: list_all2_mono)
  then have "same_journals (js @ [(j, ts), (k, map reverse_txn ts)]) (as @ [(j, u), (k, map reverse_txn u)])"
    using as u by (intro same_journals_append) (simp_all add: same_journals_def)
  then show ?thesis unfolding reverted_def js' \<open>us = u\<close> by auto
qed

context counting_store
begin

abbreviation app_js :: "('w, 'v) app_state \<Rightarrow> journals" where
  "app_js s \<equiv> app_journals journals s"

lemma keeps_js_world: "keeps (\<lambda>s. P (app_js s)) (in_world m)"
  by (rule keeps_in_world [where P = "\<lambda>l. P (journals (db l))"])

lemma keeps_js_not_aborted: "keeps (\<lambda>s. P (app_js s)) (not_aborted E signal)"
  by (simp add: keeps_def not_aborted_def)

lemma keeps_js_balance: "keeps (\<lambda>s. P (app_js s)) (in_ledger (getWalletBalance L wid))"
proof -
  have "keeps (\<lambda>w. P (journals w)) (act_call (book_balance L a c))" for a c
    by (rule keeps_call) (simp add: balance_reads)
  note balance = keeps_on_db [OF this]
  show ?thesis
    unfolding getWalletBalance_def
    by (rule keeps_in_ledger [where P = "\<lambda>l. P (journals (db l))"])
      (intro keeps_try keeps_bind [OF balance] keeps_if keeps_bind keeps_special_wallets [where P = "\<lambda>w. P (journals w)"] keeps_return)
qed

lemma keeps_js_volume: "keeps (\<lambda>w. P (journals w)) (volumeFn g L wid d)"
proof -
  have "keeps (\<lambda>w. P (journals w)) (act_call (tx_aggregate_volume L a tys d))" for a tys d
    by (rule keeps_call) (simp add: volume_reads)
  then show ?thesis unfolding volumeFn_def txVolumeSince_def by (intro keeps_try keeps_bind keeps_return)
qed

lemma keeps_js_limits: "keeps (\<lambda>s. P (app_js s)) (wallet_limits_check g c L E a wid cur acc price)"
proof -
  have "keeps (\<lambda>s. P (app_js s)) (in_db (volumeFn g L wid d))" for d
    by (rule keeps_in_db [where P = "\<lambda>w. P (journals w)", OF keeps_js_volume])
  then have "keeps (\<lambda>s. P (app_js s)) (\<lambda>s. in_db (volumeFn g L wid (timestampDaysAgo E ONE_DAY (app_world s))) s)"
    unfolding keeps_def by blast
  then show ?thesis unfolding wallet_limits_check_def by (rule keeps_bind) (rule keeps_result)
qed

lemma keeps_js_imbalance: "keeps (\<lambda>s. P (app_js s)) (swap_out_imbalance L E wid)"
proof -
  have "keeps (\<lambda>w. P (journals w)) (getNetInboundFlow (volumeFn g L) wid d)" for g d
    unfolding getNetInboundFlow_def by (intro keeps_bind keeps_js_volume keeps_return)
  then have "keeps (\<lambda>w. P (journals w)) (getSwapOutImbalance m (volumeFn g L) (volumeFn g' L) n d wid)" for m g g' n d
    unfolding getSwapOutImbalance_def Let_def by (intro keeps_if keeps_bind keeps_return)
  from keeps_in_db [where P = "\<lambda>w. P (journals w)", OF this]
  show ?thesis unfolding keeps_def swap_out_imbalance_def by blast
qed

lemma keeps_js_fee: "keeps (\<lambda>s. P (app_js s)) (getOnChainFee L E wid acc amt address confs)"
  unfolding getOnChainFee_def
  by (intro keeps_bind [OF keeps_result] keeps_bind [OF keeps_js_world] keeps_bind [OF keeps_checked [OF keeps_js_world]]
      keeps_if keeps_fail keeps_return keeps_bind [OF keeps_js_balance] keeps_bind [OF keeps_js_imbalance])

subsection \<open>Posting\<close>

lemma commit_booked:
  "ends (\<lambda>w. journals w = js) (commit_and_persist L e hash pre) (\<lambda>r w. booked js r (journals w))"
  unfolding ends_def
proof (intro allI impI)
  fix w r w' assume js: "journals w = js" and run: "commit_and_persist L e hash pre w = (r, w')"
  obtain a w1 where a: "entry_commit L e w = (a, w1)" by fastforce
  have "keeps (\<lambda>w. journals w = journals w1) (act_call (md_insertMany L rs))" for rs
    by (rule keeps_call) (simp add: insert_metadata)
  then have "keeps (\<lambda>w. journals w = journals w1) (md_persistAll L rs)" for rs
    unfolding md_persistAll_def by (intro keeps_if keeps_try keeps_bind keeps_return)
  then have persist: "journals (snd (md_persistAll L rs w1)) = journals w1" for rs
    by (simp add: keeps_def)
  show "booked js r (journals w')"
  proof (cases a)
    case (Inl m)
    then show ?thesis
      using run a js commit_fail [OF a [unfolded Inl]]
      by (auto simp: commit_and_persist_def act_bind_def act_call_def booked_def)
  next
    case (Inr saved)
    then show ?thesis
      using run a js commit_ok [OF a [unfolded Inr]] commit_fresh [OF a [unfolded Inr]] persist
      by (auto simp: commit_and_persist_def act_bind_def act_call_def booked_def Let_def act_attempt_apply
          translateToLedgerJournal_def)
  qed
qed

lemma booked_try:
  assumes "ends (\<lambda>w. journals w = js) m (\<lambda>r w. booked js r (journals w))"
  shows "ends (\<lambda>l. journals (db l) = js) (on_db (act_try m h)) (\<lambda>r l. booked js r (journals (db l)))"
  by (rule ends_on_db [where P = "\<lambda>w. journals w = js"], rule ends_try, rule ends_weaken [OF assms])
    (auto simp: booked_def split: sum.splits error.splits)

lemmas booked_commit = booked_try [OF commit_booked]

abbreviation books :: "journals \<Rightarrow> ('w ledger_state, LedgerJournal) act \<Rightarrow> bool" where
  "books js m \<equiv> ends (\<lambda>l. journals (db l) = js) m (\<lambda>r l. booked js r (journals (db l)))"

lemma books_result: "(\<And>x. r = Inr x \<Longrightarrow> books js (f x)) \<Longrightarrow> books js (act_bind (act_result r) f)"
  by (rule ends_result) (simp_all add: booked_Inl)

lemma books_fail: "books js (act_fail e)"
  by (rule ends_fail) (simp add: booked_Inl)

lemma books_ids: "(\<And>ids. books js (f ids)) \<Longrightarrow> books js (act_bind staticAccountIds f)"
  by (rule ends_step [OF keeps_staticAccountIds [where P = "\<lambda>w. journals w = js"]]) (simp_all add: booked_Inl)

text \<open>An entry that is chosen without touching the ledger, then booked.\<close>

lemma books_pure:
  assumes "\<And>l. keeps (\<lambda>l'. l' = l) m" and "\<And>e. books js (f e)"
  shows "books js (act_bind m f)"
proof (rule ends_step)
  show "keeps (\<lambda>l. journals (db l) = js) m"
    using assms(1) unfolding keeps_def by metis
qed (simp_all add: booked_Inl assms(2))

lemma books_addOnChainTxSend: "books js (addOnChainTxSend L wid c h addr d sats fee usd tf tfd all)"
proof -
  have "books js (addSendInternalFee L m wid c sats fee d)" for m
    unfolding addSendInternalFee_def Let_def
    by (intro ends_if books_fail books_ids booked_try ends_result commit_booked) (simp_all add: booked_Inl)
  moreover have "books js (addSendNoInternalFee L m wid c sats None d)" for m
    unfolding addSendNoInternalFee_def Let_def
    by (intro books_ids books_result books_pure booked_commit)
      (auto split: WalletCurrency.splits intro!: keeps_intros keeps_if)
  ultimately show ?thesis unfolding addOnChainTxSend_def Let_def by (intro ends_if)
qed

lemma books_transfer: "books js (addIntraledgerTxTransfer L w c u d sats cents w' u' c' memo share m h)"
  unfolding addIntraledgerTxTransfer_def Let_def
  by (intro books_ids books_pure booked_commit)
    (auto split: WalletCurrency.splits option.splits intro!: keeps_intros)

end

lemma outcome_same: "outcome js (Inl e) js"
  by (simp add: outcome_def)

lemma outcome_posted: "posted js js' \<Longrightarrow> \<not> refusal e \<Longrightarrow> outcome js (Inl e) js'"
  by (simp add: outcome_def)

lemma outcome_sent: "posted js js' \<Longrightarrow> outcome js (Inr x) js'"
  by (simp add: outcome_def)

lemma outcome_locked: "outcome js r js' \<Longrightarrow> outcome js (Inl (LockError e)) js'"
  by (auto simp: outcome_def refusal_def split: sum.splits)

lemma not_refusal [simp]:
  "\<not> refusal (Thrown m)" "\<not> refusal (LedgerError le)" "\<not> refusal (RepositoryError re)"
  by (simp_all add: refusal_def)

lemma checked_Inl: "checked m s = (Inl e, s') \<Longrightarrow> \<exists>msg. e = Thrown msg"
  by (auto simp: checked_def act_bind_def act_attempt_apply act_fail_def act_return_def split: sum.splits error.splits)

lemma users_findById_error: "users_findById E i v = (Inl e, v') \<Longrightarrow> \<not> refusal e"
  by (auto simp: users_findById_def repository_def act_simps act_result_def found_or_def toObjectId_def refusal_def
      parseRepositoryError_def split: sum.splits option.splits prod.splits error.splits if_splits)

context counting_store
begin

abbreviation outcomes :: "journals \<Rightarrow> (('w, 'v) app_state, 'a) act \<Rightarrow> bool" where
  "outcomes js m \<equiv> ends (\<lambda>s. app_js s = js) m (\<lambda>r s. outcome js r (app_js s))"

lemma outcomes_step:
  "keeps (\<lambda>s. app_js s = js) m \<Longrightarrow> (\<And>x. outcomes js (f x)) \<Longrightarrow> outcomes js (act_bind m f)"
  by (rule ends_step) (simp_all add: outcome_same)

lemma outcomes_fail: "outcomes js (act_fail e)"
  by (rule ends_fail) (simp add: outcome_same)

lemma outcomes_result: "(\<And>x. r = Inr x \<Longrightarrow> outcomes js (f x)) \<Longrightarrow> outcomes js (act_bind (act_result r) f)"
  by (rule ends_result) (simp_all add: outcome_same)

lemma updated_journal:
  assumes "m ''currency'' = None" and "same_journals (js @ [(j, ts)]) (journals w)" and "tx_updateMany_journal L k m w = (n, w')"
  shows "same_journals (js @ [(j, ts)]) (journals w')"
  using same_journals_trans [OF assms(2)] update_journal [OF assms(1,3)] unfolding same_journals_def by blast

lemma setHash_ends:
  "ends (\<lambda>w. same_journals (js @ [(j, ts)]) (journals w)) (setOnChainTxSendHash L k h)
     (\<lambda>r w. same_journals (js @ [(j, ts)]) (journals w) \<and> (\<forall>e. r = Inl e \<longrightarrow> \<not> refusal e))"
  unfolding ends_def
proof (intro allI impI)
  fix w r w'
  assume w: "same_journals (js @ [(j, ts)]) (journals w)" and run: "setOnChainTxSendHash L k h w = (r, w')"
  obtain n w1 where n: "tx_updateMany_journal L k [''hash'' \<mapsto> MStr h] w = (n, w1)" by fastforce
  have "same_journals (js @ [(j, ts)]) (journals w1)" by (rule updated_journal [OF _ w n]) simp
  then show "same_journals (js @ [(j, ts)]) (journals w') \<and> (\<forall>e. r = Inl e \<longrightarrow> \<not> refusal e)"
    using run n
    by (auto simp: setOnChainTxSendHash_def update_modified_def act_try_def act_bind_def act_call_def unknown_ledger_def
        split: sum.splits if_splits)
qed

lemma revert_ends:
  assumes "j \<notin> fst ` set js"
  shows "ends (\<lambda>w. same_journals (js @ [(j, ts)]) (journals w)) (revertOnChainPayment L j d)
     (\<lambda>r w. case r of Inl e \<Rightarrow> outcome js (Inl e :: PaymentSendStatus result) (journals w) | Inr _ \<Rightarrow> reverted js (journals w))"
  unfolding ends_def
proof (intro allI impI)
  fix w r w'
  assume w: "same_journals (js @ [(j, ts)]) (journals w)" and run: "revertOnChainPayment L j d w = (r, w')"
  obtain n w1 where n: "tx_updateMany_journal L j not_pending w = (n, w1)" by fastforce
  have w1: "same_journals (js @ [(j, ts)]) (journals w1)" by (rule updated_journal [OF _ w n]) (simp add: not_pending_def)
  define reason where "reason = (case d of None \<Rightarrow> ''Protocol error'' | Some d \<Rightarrow> d)"
  obtain v w2 where v: "book_void L j reason w1 = (v, w2)" by fastforce
  show "case r of Inl e \<Rightarrow> outcome js (Inl e :: PaymentSendStatus result) (journals w') | Inr _ \<Rightarrow> reverted js (journals w')"
  proof (cases n)
    case (Inl msg)
    then show ?thesis
      using run n w1 by (auto simp: revertOnChainPayment_def act_try_def act_bind_def act_call_def unknown_ledger_def
          outcome_def posted_def)
  next
    case n': (Inr k)
    show ?thesis
    proof (cases v)
      case (Inl msg)
      then show ?thesis
        using run n n' v w1 void_fail [OF v [unfolded Inl]]
        by (auto simp: revertOnChainPayment_def act_try_def act_bind_def act_call_def unknown_ledger_def outcome_def posted_def
            reason_def)
    next
      case (Inr saved)
      obtain us where us: "(j, us) \<in> set (journals w1)" "journals w2 = journals w1 @ [(saved_id saved, map reverse_txn us)]"
        using void_ok [OF v [unfolded Inr]] by blast
      have "reverted js (journals w2)" unfolding us(2) by (rule reverted_by_void [OF w1 assms us(1)])
      then show ?thesis
        using run n n' v Inr by (auto simp: revertOnChainPayment_def act_try_def act_bind_def act_call_def reason_def)
    qed
  qed
qed

lemma posted_checked:
  "ends (\<lambda>s. same_journals (js @ [(j, ts)]) (app_js s)) (checked (in_world m))
     (\<lambda>r s. case r of Inl e \<Rightarrow> outcome js (Inl e) (app_js s) | Inr x \<Rightarrow> same_journals (js @ [(j, ts)]) (app_js s))"
  unfolding ends_def
proof (intro allI impI)
  fix s r s' assume s: "same_journals (js @ [(j, ts)]) (app_js s)" and run: "checked (in_world m) s = (r, s')"
  have "keeps (\<lambda>s. same_journals (js @ [(j, ts)]) (app_js s)) (checked (in_world m))"
    by (rule keeps_checked [OF keeps_js_world [where P = "same_journals (js @ [(j, ts)])"]])
  then have "same_journals (js @ [(j, ts)]) (app_js s')" using s run by (rule keepsD)
  then show "case r of Inl e \<Rightarrow> outcome js (Inl e) (app_js s') | Inr x \<Rightarrow> same_journals (js @ [(j, ts)]) (app_js s')"
    using run checked_Inl by (cases r) (fastforce intro!: outcome_posted simp: posted_def)+
qed

lemma outcomes_after_broadcast:
  assumes "j \<notin> fst ` set js"
  shows "ends (\<lambda>s. same_journals (js @ [(j, ts)]) (app_js s)) (after_broadcast L E node j sent) (\<lambda>r s. outcome js r (app_js s))"
proof (cases sent)
  case (Inl e)
  have "ends (\<lambda>s. same_journals (js @ [(j, ts)]) (app_js s)) (in_db (revertOnChainPayment L j None))
     (\<lambda>r s. case r of Inl e \<Rightarrow> outcome js (Inl e :: PaymentSendStatus result) (app_js s) | Inr _ \<Rightarrow> reverted js (app_js s))"
    using ends_in_db [OF revert_ends [OF assms]] .
  note revert = ends_bind [OF this]
  have "ends (\<lambda>s. same_journals (js @ [(j, ts)]) (app_js s)) (act_bind (in_db (revertOnChainPayment L j None)) (\<lambda>_. act_fail e))
     (\<lambda>r s. outcome js (r :: PaymentSendStatus result) (app_js s))"
    by (rule revert) (simp add: ends_fail outcome_def)
  moreover have "ends (\<lambda>s. same_journals (js @ [(j, ts)]) (app_js s)) (act_fail e)
     (\<lambda>r s. outcome js (r :: PaymentSendStatus result) (app_js s))" if "\<not> refusal e"
    using that by (intro ends_fail) (auto simp: outcome_def posted_def)
  ultimately show ?thesis
    unfolding after_broadcast_def Inl sum.case by (intro ends_if) (simp_all add: refusal_def)
next
  case (Inr txHash)
  let ?P = "\<lambda>s. same_journals (js @ [(j, ts)]) (app_js s)"
  have posted: "posted js js'" if "same_journals (js @ [(j, ts)]) js'" for js'
    using that by (auto simp: posted_def)
  have lookup: "ends ?P (act_bind (checked (in_world m)) (\<lambda>_. act_return Send_Success)) (\<lambda>r s. outcome js r (app_js s))" for m
    by (rule ends_bind [OF posted_checked]) (intro ends_return outcome_sent posted)
  show ?thesis
    unfolding after_broadcast_def Inr sum.case
  proof (rule ends_bind [OF ends_weaken [OF ends_in_db [OF setHash_ends]] lookup])
    fix r :: "unit result" and s :: "('w, 'v) app_state"
    assume "same_journals (js @ [(j, ts)]) (app_js s) \<and> (\<forall>e. r = Inl e \<longrightarrow> \<not> refusal e)"
    then show "case r of Inl e \<Rightarrow> outcome js (Inl e) (app_js s) | Inr x \<Rightarrow> ?P s"
      by (cases r) (auto intro: outcome_posted posted)
  qed
qed

end

context counting_store
begin

lemma outcomes_book:
  assumes "books js m" and "\<And>j ts. j \<notin> fst ` set js \<Longrightarrow>
    ends (\<lambda>s. same_journals (js @ [(j, ts)]) (app_js s)) (f j) (\<lambda>r s. outcome js r (app_js s))"
  shows "outcomes js (act_bind (in_ledger m) (\<lambda>journal. f (journalId journal)))"
proof (rule ends_bind [where R = "\<lambda>x s. booked js (Inr x) (app_js s)"])
  show "ends (\<lambda>s. app_js s = js) (in_ledger m)
      (\<lambda>r s. case r of Inl e \<Rightarrow> outcome js (Inl e) (app_js s) | Inr x \<Rightarrow> booked js (Inr x) (app_js s))"
    by (rule ends_weaken [OF ends_in_ledger [OF assms(1)]]) (auto simp: booked_Inl outcome_same split: sum.splits)
  show "ends (\<lambda>s. booked js (Inr x) (app_js s)) (f (journalId x)) (\<lambda>r s. outcome js r (app_js s))" for x
    unfolding ends_def
  proof (intro allI impI)
    fix s r s' assume b: "booked js (Inr x) (app_js s)" and run: "f (journalId x) s = (r, s')"
    then obtain ts where "journalId x \<notin> fst ` set js" "app_js s = js @ [(journalId x, ts)]" by (auto simp: booked_def)
    then show "outcome js r (app_js s')" using endsD [OF assms(2) _ run] same_journals_refl by metis
  qed
qed

lemmas same_steps =
  outcomes_step [OF keeps_js_balance [where P = "\<lambda>x. x = js"]] outcomes_step [OF keeps_js_fee [where P = "\<lambda>x. x = js"]]
  outcomes_step [OF keeps_js_not_aborted [where P = "\<lambda>x. x = js"]] outcomes_step [OF keeps_js_imbalance [where P = "\<lambda>x. x = js"]]
  outcomes_step [OF keeps_js_world [where P = "\<lambda>x. x = js"]] outcomes_step [OF keeps_js_limits [where P = "\<lambda>x. x = js"]]
  outcomes_step [OF keeps_checked [OF keeps_js_world [where P = "\<lambda>x. x = js"]]]
  for js

lemma outcomes_behind_lock:
  "outcomes js (onchain_behind_lock L E node price acc w amt send address confs memo all signal)"
proof -
  have pay: "ends (\<lambda>s. same_journals (js @ [(j, ts)]) (app_js s))
      (act_bind (checked (in_world (m j))) (\<lambda>sent. after_broadcast L E node j sent)) (\<lambda>r s. outcome js r (app_js s))"
    if "j \<notin> fst ` set js" for j ts m
    by (rule ends_bind [OF posted_checked outcomes_after_broadcast [OF that]])
  have "outcomes js (act_bind (in_ledger (addOnChainTxSend L wid c h addr d sats fee usd tf tfd b))
      (\<lambda>journal. act_bind (checked (in_world (m (journalId journal)))) (\<lambda>sent. after_broadcast L E node (journalId journal) sent)))"
    for wid c h addr d sats fee usd tf tfd b m
    by (rule outcomes_book [where f = "\<lambda>j. act_bind (checked (in_world (m j))) (\<lambda>sent. after_broadcast L E node j sent)",
          OF books_addOnChainTxSend]) (rule pay)
  then have book: "outcomes js (act_bind
      (\<lambda>s. in_ledger (addOnChainTxSend L wid c (random_hash E (app_world s)) addr d sats fee usd tf tfd b) s)
      (\<lambda>journal. act_bind (checked (in_world (m (journalId journal)))) (\<lambda>sent. after_broadcast L E node (journalId journal) sent)))"
    for wid c addr d sats fee usd tf tfd b m
    unfolding ends_def act_bind_def by blast
  show ?thesis
    unfolding onchain_behind_lock_def Let_def case_prod_unfold
    by (intro same_steps ends_if outcomes_fail book)
qed

lemma outcomes_intraledger_behind_lock:
  "outcomes js (onchain_intraledger_behind_lock L E acc w acc' w' amt usd address memo all signal)"
proof -
  have user: "ends (\<lambda>s. same_journals (js @ [(j, ts)]) (app_js s))
      (act_bind (in_world (users_findById E i)) (\<lambda>_. act_return Send_Success)) (\<lambda>r s. outcome js r (app_js s))" for j ts i
    by (auto simp: ends_def act_bind_def in_world_def act_return_def outcome_def posted_def split: prod.splits sum.splits
        dest: users_findById_error)
  have "outcomes js (act_bind (in_ledger (addOnChainIntraledgerTxTransfer L wid c u d sats usd as b wid' c' u' m))
      (\<lambda>_. act_bind (in_world (users_findById E i)) (\<lambda>_. act_return Send_Success)))" for wid c u d sats usd as b wid' c' u' m i
    unfolding addOnChainIntraledgerTxTransfer_def Let_def
    by (rule outcomes_book [where f = "\<lambda>_. act_bind (in_world (users_findById E i)) (\<lambda>_. act_return Send_Success)",
          OF books_transfer]) (rule user)
  then show ?thesis
    unfolding onchain_intraledger_behind_lock_def by (intro same_steps ends_if outcomes_fail)
qed

lemma outcomes_lockWalletId:
  assumes "quiet_locks E journals" and "\<And>signal. outcomes js (f signal)"
  shows "outcomes js (lockWalletId E wid f)"
  unfolding lockWalletId_def
proof (rule ends_redlock)
  show "lock_keeps E (\<lambda>s. app_js s = js)" using assms(1) by (rule quiet_locks_keep [where P = "\<lambda>x. x = js"])
  show "outcome js r (app_js (snd (lock_release E path s)))" if "outcome js r (app_js s)" for r path s
    using that assms(1) by (simp add: quiet_locks_def)
qed (use assms(2) outcome_same outcome_locked in auto)

lemma outcomes_payOnChain:
  assumes "quiet_locks E journals"
  shows "outcomes js (payOnChainByWalletId L E acc wid amt address confs memo all)"
proof -
  have intra: "outcomes js (onchain_executePaymentViaIntraledger L E acc w w' a address memo all)" for w w' a address
    unfolding onchain_executePaymentViaIntraledger_def checkIntraledgerLimits_def
    by (intro same_steps ends_if outcomes_fail outcomes_lockWalletId [OF assms] outcomes_intraledger_behind_lock)
  have chain: "outcomes js (executePaymentViaOnChain L E acc w a address confs memo all)" for w a address confs
    unfolding executePaymentViaOnChain_def checkWithdrawalLimits_def Let_def
    by (intro same_steps ends_if outcomes_fail outcomes_lockWalletId [OF assms] outcomes_behind_lock)
  have amount: "keeps (\<lambda>s. app_js s = js)
      (if all then in_ledger (getWalletBalance L wid) else act_result (checkedToSats amt))"
    by (intro keeps_if keeps_js_balance [where P = "\<lambda>x. x = js"] keeps_result)
  show ?thesis
    unfolding payOnChainByWalletId_def case_prod_unfold
    apply (rule outcomes_step [OF amount])
    apply (rule same_steps)
    apply (rule outcomes_result)
    apply (rule outcomes_result)
    apply (rule same_steps)
    subgoal for x y z u r by (cases r) (simp_all add: intra chain)
    done
qed

end

lemma ends_world:
  assumes "\<And>v x v'. m v = (Inr x, v') \<Longrightarrow> R x" and "\<And>e s. P (app_ledger s) \<Longrightarrow> Q (Inl e) s"
    and "\<And>x. R x \<Longrightarrow> ends (\<lambda>s. P (app_ledger s)) (f x) Q"
  shows "ends (\<lambda>s. P (app_ledger s)) (act_bind (in_world m) f) Q"
proof (rule ends_bind [where R = "\<lambda>x s. P (app_ledger s) \<and> R x"])
  show "ends (\<lambda>s. P (app_ledger s)) (in_world m)
      (\<lambda>r s. case r of Inl e \<Rightarrow> Q (Inl e) s | Inr x \<Rightarrow> P (app_ledger s) \<and> R x)"
    using assms(1,2) by (auto simp: ends_def in_world_def split: prod.splits sum.splits)
  show "ends (\<lambda>s. P (app_ledger s) \<and> R x) (f x) Q" for x
    using assms(3) unfolding ends_def by blast
qed

context counting_store
begin

text \<open>The wallet with the identifier \<open>wid\<close> has less than \<open>n\<close> in the journals \<open>js\<close>.\<close>

abbreviation uncovered :: "journals \<Rightarrow> WalletId \<Rightarrow> int \<Rightarrow> bool" where
  "uncovered js wid n \<equiv> account_total (toLiabilitiesWalletId wid) js < of_int n"

lemma balance_ends:
  "ends (\<lambda>s. app_js s = js) (in_ledger (getWalletBalance L wid))
     (\<lambda>r s. app_js s = js \<and> (\<forall>b. r = Inr b \<longrightarrow> b = Num (account_total (toLiabilitiesWalletId wid) js)))"
  unfolding ends_def
proof (intro allI impI conjI)
  fix s r s' assume s: "app_js s = js" and run: "in_ledger (getWalletBalance L wid) s = (r, s')"
  show "app_js s' = js" using keeps_js_balance [where P = "\<lambda>x. x = js"] s run by (rule keepsD)
  fix b assume "r = Inr b"
  with run obtain w where "book_balance L (toLiabilitiesWalletId wid) None (db (app_ledger s)) = (Inr b, w)"
    by (auto simp: in_ledger_eq_Inr getWalletBalance_def act_try_eq_Inr act_bind_eq_Inr on_db_def act_call_eq_Inr
        act_return_def split: prod.splits if_splits)
  then show "b = Num (account_total (toLiabilitiesWalletId wid) js)" using balance_total s by blast
qed

lemma ends_balance:
  assumes "\<And>e s. app_js s = js \<Longrightarrow> Q (Inl e) s"
    and "ends (\<lambda>s. app_js s = js) (f (Num (account_total (toLiabilitiesWalletId wid) js))) Q"
  shows "ends (\<lambda>s. app_js s = js) (act_bind (in_ledger (getWalletBalance L wid)) f) Q"
proof (rule ends_bind [where R = "\<lambda>b s. app_js s = js \<and> b = Num (account_total (toLiabilitiesWalletId wid) js)"])
  show "ends (\<lambda>s. app_js s = js) (in_ledger (getWalletBalance L wid)) (\<lambda>r s. case r of Inl e \<Rightarrow> Q (Inl e) s
      | Inr b \<Rightarrow> app_js s = js \<and> b = Num (account_total (toLiabilitiesWalletId wid) js))"
    by (rule ends_weaken [OF balance_ends]) (use assms(1) in \<open>auto split: sum.splits\<close>)
  show "ends (\<lambda>s. app_js s = js \<and> b = Num (account_total (toLiabilitiesWalletId wid) js)) (f b) Q" for b
    using assms(2) unfolding ends_def by blast
qed

lemma uncovered_fee:
  assumes "\<And>v w v'. wallets_findById E wid v = (Inr w, v') \<Longrightarrow> wd_id w = wid" and "uncovered js wid n"
  shows "ends (\<lambda>s. app_js s = js) (getOnChainFee L E wid acc (Num (of_int n)) address confs)
     (\<lambda>r s. app_js s = js \<and> (\<forall>x. r = Inr x \<longrightarrow> x = Num 0))" (is "ends ?P _ ?Q")
proof -
  note same = ends_step [where P = ?P and Q = ?Q, OF keeps_checked [OF keeps_js_world [where P = "\<lambda>x. x = js"]]]
  have low: "js_less (Num (account_total (toLiabilitiesWalletId wid) js)) (Num (of_int n))"
    using assms(2) by simp
  have balance: "ends ?P (act_bind (in_ledger (getWalletBalance L wid)) (\<lambda>balance.
      if js_less balance (Num (of_int n)) then act_fail e else f balance)) ?Q" for e f
    by (rule ends_balance) (simp_all only: low if_True, simp_all add: ends_fail)
  have rest: "ends ?P (act_bind (checked (in_world (findByAddress E address))) (\<lambda>payee.
      if payee = Inl (RepositoryError UnknownRepositoryError) then act_fail (RepositoryError UnknownRepositoryError)
      else if payee \<noteq> Inl (not_found_err CouldNotFindWalletFromOnChainAddressError) then act_return onChainIntraLedgerFee
      else if d then act_fail (ValidationError LessThanDustThresholdError)
      else act_bind (in_ledger (getWalletBalance L wid)) (\<lambda>balance.
        if js_less balance (Num (of_int n)) then act_fail e else f balance))) ?Q" for d e f
    by (rule same) (auto intro!: ends_if ends_fail ends_return balance simp: onChainIntraLedgerFee_def)
  have find: "ends ?P (act_bind (in_world (wallets_findById E wid)) f) ?Q" if "\<And>w. wd_id w = wid \<Longrightarrow> ends ?P (f w) ?Q" for f
    by (rule ends_world [where P = "\<lambda>l. journals (db l) = js" and R = "\<lambda>w. wd_id w = wid"])
      (use assms(1) that in auto)
  show ?thesis
    unfolding getOnChainFee_def
    apply (rule ends_result, simp)
    apply (rule ends_result, simp)
    apply (rule ends_result, simp)
    apply (clarsimp simp: checkedToSats_def checkedToWalletId_def split: if_splits)
    apply (rule find)
    apply (simp only: rest)
    done
qed

abbreviation untouched :: "journals \<Rightarrow> (('w, 'v) app_state, 'a) act \<Rightarrow> bool" where
  "untouched js m \<equiv> keeps (\<lambda>s. app_js s = js) m"

lemma untouched_ends: "untouched js m \<longleftrightarrow> ends (\<lambda>s. app_js s = js) m (\<lambda>_ s. app_js s = js)"
  unfolding keeps_def ends_def by (metis prod.collapse snd_conv)

lemma uncovered_behind_lock:
  assumes "\<And>v w v'. wallets_findById E wid v = (Inr w, v') \<Longrightarrow> wd_id w = wid" and "uncovered js wid n" and "is_safe_int n"
    and "wd_id w = wid"
  shows "untouched js (onchain_behind_lock L E node price acc w (Num (of_int n)) (Num (of_int n)) address confs memo all signal)"
proof -
  have sum: "js_add (Num (of_int n)) (Num 0) = Num (of_int n)"
    using js_add_int [of n 0] assms(3) by (simp add: is_safe_int_def)
  have low: "js_less (Num (account_total (toLiabilitiesWalletId wid) js)) (js_add (Num (of_int n)) (Num 0))"
    unfolding sum using assms(2) by simp
  have fee: "ends (\<lambda>s. app_js s = js) (act_bind (getOnChainFee L E wid acc (Num (of_int n)) address confs) (\<lambda>x.
      if js_less (Num (account_total (toLiabilitiesWalletId wid) js)) (js_add (Num (of_int n)) x) then act_fail e else f x))
      (\<lambda>_ s. app_js s = js)" for e f
  proof (rule ends_bind [where R = "\<lambda>x s. app_js s = js \<and> x = Num 0"])
    show "ends (\<lambda>s. app_js s = js) (getOnChainFee L E wid acc (Num (of_int n)) address confs)
        (\<lambda>r s. case r of Inl e \<Rightarrow> app_js s = js | Inr x \<Rightarrow> app_js s = js \<and> x = Num 0)"
      by (rule ends_weaken [OF uncovered_fee [OF assms(1,2)]]) (auto split: sum.splits)
    show "ends (\<lambda>s. app_js s = js \<and> x = Num 0)
        (if js_less (Num (account_total (toLiabilitiesWalletId wid) js)) (js_add (Num (of_int n)) x) then act_fail e else f x)
        (\<lambda>_ s. app_js s = js)" for x
    proof (cases "x = Num 0")
      case True
      then show ?thesis by (simp only: low if_True) (simp add: ends_fail)
    qed (simp add: ends_def)
  qed
  show ?thesis
    unfolding untouched_ends onchain_behind_lock_def assms(4) by (rule ends_balance) (simp_all add: fee)
qed

lemma untouched_lock:
  assumes "quiet_locks E journals" and "\<And>signal. untouched js (f signal)"
  shows "untouched js (lockWalletId E wid f)"
  unfolding lockWalletId_def by (rule keeps_redlock [OF quiet_locks_keep [where P = "\<lambda>x. x = js", OF assms(1)] assms(2)])

lemma uncovered_intraledger:
  assumes "uncovered js wid n" and "wd_id w = wid"
  shows "untouched js (onchain_intraledger_behind_lock L E acc w acc' w' (Num (of_int n)) usd address memo all signal)"
proof -
  have low: "js_less (Num (account_total (toLiabilitiesWalletId wid) js)) (Num (of_int n))" using assms(1) by simp
  show ?thesis
    unfolding untouched_ends onchain_intraledger_behind_lock_def assms(2)
    by (rule ends_balance) (simp_all only: low if_True, simp_all add: ends_fail)
qed

lemma uncovered_payment:
  assumes "quiet_locks E journals" and "\<And>v w v'. wallets_findById E wid v = (Inr w, v') \<Longrightarrow> wd_id w = wid"
    and "uncovered js wid n" and "is_safe_int n"
  shows "untouched js (payOnChainByWalletId L E acc wid (Num (of_int n)) address confs memo False)"
proof -
  note world = keeps_bind [OF keeps_js_world [where P = "\<lambda>x. x = js"]]
  note reads = world keeps_bind [OF keeps_js_limits [where P = "\<lambda>x. x = js"]] keeps_bind [OF keeps_js_fee [where P = "\<lambda>x. x = js"]]
  have intra: "untouched js (onchain_executePaymentViaIntraledger L E acc w w' (Num (of_int n)) address memo False)"
    if "wd_id w = wid" for w w' address
    unfolding onchain_executePaymentViaIntraledger_def checkIntraledgerLimits_def
    by (intro keeps_if keeps_fail reads untouched_lock [OF assms(1)] uncovered_intraledger [OF assms(3) that])
  have chain: "untouched js (executePaymentViaOnChain L E acc w (Num (of_int n)) address confs memo False)"
    if "wd_id w = wid" for w address confs
    unfolding executePaymentViaOnChain_def checkWithdrawalLimits_def Let_def if_False
    by (intro keeps_if keeps_fail reads untouched_lock [OF assms(1)] uncovered_behind_lock [OF assms(2-4) that])
  have valid: "yields (in_world (validatePaymentInput (wallets_findById E) a wid acc None))
      (\<lambda>(a', w, _). a' = a \<and> wd_id w = wid)" for a
    using assms(2)
    by (auto simp: yields_def in_world_eq_Inr validatePaymentInput_def act_bind_eq_Inr checkedToCurrencyBaseAmount_def
        checkedToWalletId_def act_result_def act_return_def act_fail_def truthy_str_def split: if_splits)
  have same: "x = Num (of_int n)" if "checkedToSats (Num (of_int n)) = Inr x" for x
    using that by (auto simp: checkedToSats_def split: if_splits)
  have step: "untouched js (act_bind (checked (in_world (findByAddress E address))) (\<lambda>recipientWallet.
       case recipientWallet of
         Inr w' \<Rightarrow> onchain_executePaymentViaIntraledger L E acc w w' (Num (of_int n)) address memo False
       | Inl _ \<Rightarrow> executePaymentViaOnChain L E acc w (Num (of_int n)) address confs memo False))" if "wd_id w = wid" for w address confs
    by (intro keeps_bind keeps_checked [OF keeps_js_world [where P = "\<lambda>x. x = js"]] keeps_case_result chain intra that)
  show ?thesis
    unfolding payOnChainByWalletId_def if_False
    apply (rule keeps_bind_result)
    apply (drule same)
    apply (simp only:)
    apply (rule keeps_bind_yields [OF keeps_js_world [where P = "\<lambda>x. x = js"] valid])
    apply clarify
    apply (intro keeps_bind_result)
    apply (rule step)
    apply simp
    done
qed

end

section \<open>Properties\<close>

text \<open>A scenario: services with fixed answers, one account without a deposit fee and the wallet of alice.\<close>

definition chain_app :: "(journals, mem_world) chain_env" where
  "chain_app = (app_env.extend (test_app (\<lambda>_. None) (\<lambda>_. None) (Inl dropped))
     (chain_env.fields (\<lambda>_. Inl (Thrown ''no transaction'')) (\<lambda>_. ''n'') (\<lambda>_. ''temporary'')
        (\<lambda>_ v. (Inr None, v)) (\<lambda>_ _ _ v. (Inr True, v)) (\<lambda>_ v. (Inr (), v)) (\<lambda>v. (Inr [''cold''], v)) (\<lambda>_ v. (Inr (Num 0), v))
        (\<lambda>_ _ _ _ v. (Inr (''psbt'', Num 0), v)) (\<lambda>_ v. (Inr ''address'', v)) (\<lambda>_ _ v. (Inr False, v))
        (\<lambda>_ _ v. (Inr (Num (- 1), Num 0), v)) regtest (Num 546) \<lparr>thresholdImbalance = Num 0, feeRatio = Num 0\<rparr> flat 30 (Num 2000)
        (Num 10) 2 ''cold'' ''cold''
        \<lparr>minOnChainHotWalletBalance = Num 0, maxHotWalletBalance = Num 0, minRebalanceSize = Num 0\<rparr> (Num 6)))
     \<lparr>uc_findOne := \<lambda>_ v. (Inr (Some (new_user 1 0 ''kratos'' None None)), v)\<rparr>"

definition deposit_wallet :: Wallet where
  "deposit_wallet =
     \<lparr>wd_id = ''alice'', wd_currency = Btc, wd_accountId = ''u'', wallet_type = Checking,
      onChainAddressIdentifiers = [\<lparr>oca_pubkey = ''node'', oca_address = ''mine''\<rparr>]\<rparr>"

definition alice_deposit :: IncomingOnChainTransaction where
  "alice_deposit =
     \<lparr>confirmations = 6,
      rawTx = \<lparr>rawtx_hash = ''tx'', outs = [\<lparr>out_sats = Num 5000, out_address = Some ''mine''\<rparr>,
        \<lparr>out_sats = Num 700, out_address = Some ''theirs''\<rparr>]\<rparr>, in_fee = Num 0, in_createdAt = 0\<rparr>"

lemmas chain_simps = chain_app_def chain_env.defs app_simps

lemma chain_app_quiet: "quiet_locks chain_app (\<lambda>w. w)"
  by (simp add: quiet_locks_def chain_simps)

lemma chain_app_account: "\<exists>a. \<forall>v. accounts_findById chain_app i v = (Inr a, v) \<and> acc_depositFeeRatio a = Num 0"
  by (simp add: accounts_findById_def toObjectId_def repository_def act_simps act_result_def chain_simps mem_env_def
      found_or_def new_user_def translateToAccount_def)

lemma chain_app_user: "\<exists>u. \<forall>v. users_findById chain_app i v = (Inr u, v)"
  by (simp add: users_findById_def toObjectId_def repository_def act_simps act_result_def chain_simps mem_env_def found_or_def)

lemma chain_app_price: "\<exists>p. \<forall>v. getCurrentPrice chain_app v = (Inr p, v)"
  by (simp add: getCurrentPrice_def getRealTimePrice_def cache_set_def act_simps chain_simps)

lemma chain_app_wallet: "wallets_findById chain_app i v = (Inr w, v') \<Longrightarrow> wd_id w = i"
  by (auto simp: wallets_findById_def repository_def act_simps act_result_def chain_simps mem_env_def found_or_def
      resultToWallet_def find_Some_iff split: option.splits)

lemma list_receive:
  "\<exists>x e. addOnChainTxReceive list_query_env wid Btc h (Num 5000) (Num 0) fd ad address (sample_ledger\<lparr>db := js\<rparr>)
     = (Inr x, sample_ledger\<lparr>db := js @ [(next_journal_id js, e)]\<rparr>)"
proof -
  have ids: "\<exists>ids. staticAccountIds (sample_ledger\<lparr>db := js\<rparr>) = (Inr ids, sample_ledger\<lparr>db := js\<rparr>)"
    by (simp add: staticAccountIds_def getBankOwnerWalletId_def getDealerBtcWalletId_def getDealerUsdWalletId_def cached_def
        sample_ledger_def truthy_str_def act_simps)
  then obtain i where i: "staticAccountIds (sample_ledger\<lparr>db := js\<rparr>) = (Inr i, sample_ledger\<lparr>db := js\<rparr>)" by blast
  have persist: "\<exists>x. commit_and_persist list_query_env e k r js = (Inr x, js @ [(next_journal_id js, e)])" for e k r
    by (simp add: commit_and_persist_def list_db_simps act_simps md_persistAll_def Let_def)
  have sats: "paymentAmountFromNumber (Num 5000) Btc = Inr (BtcPaymentAmount 5000)"
    using paymentAmountFromNumber_int [of 5000 Btc] by (simp add: BtcPaymentAmount_def)
  let ?m = "map_of [(''type'', MType OnchainReceipt), (''pending'', MBool False), (''hash'', MStr h), (''fee'', MNum (Num 0)),
      (''feeUsd'', MNum fd), (''usd'', MNum ad), (''payee_addresses'', MStrs [address])]"
  define e where "e = legacy_creditAccount list_query_env (legacy_debitLnd list_query_env
      (legacy_withoutFee list_query_env (builder_config list_query_env [] i ?m)) (BtcPaymentAmount 5000)) (toLedgerAccountId wid) None"
  obtain x where x: "commit_and_persist list_query_env e (meta_str ?m ''hash'') None js = (Inr x, js @ [(next_journal_id js, e)])"
    using persist by blast
  have "addOnChainTxReceive list_query_env wid Btc h (Num 5000) (Num 0) fd ad address (sample_ledger\<lparr>db := js\<rparr>)
     = (Inr x, sample_ledger\<lparr>db := js @ [(next_journal_id js, e)]\<rparr>)"
    unfolding addOnChainTxReceive_def addReceiptNoFee_def Let_def
    by (simp add: act_bind_def i sats on_db_def act_try_def del: map_of.simps) (simp add: x del: map_of.simps flip: e_def)
  then show ?thesis by blast
qed

lemma free_deposit: "onChainDepositFee (Num 5000) (Num 0) = Num 0"
  by (simp add: onChainDepositFee_def fl_def floor_eq_iff)

lemma chain_app_whole:
  "accounts_findById chain_app i v = (Inr account, v')
    \<Longrightarrow> deposits_whole deposit_wallet (acc_depositFeeRatio account) (outs (rawTx alice_deposit))"
  using chain_app_account [of i]
  by (auto simp: deposit_wallet_def alice_deposit_def deposits_whole_def onChainAddresses_def free_deposit
      ledger_amount_def is_safe_int_def intro!: exI [of _ "5000 :: int"] exI [of _ "0 :: int"])

lemma chain_lock: "lock_acquire chain_app r s = (Lock_done, s)" "lock_release chain_app r s = (Lock_done, s)"
  by (simp_all add: chain_simps)

lemma chain_app_credits:
  "\<exists>e w. processTxForWallet list_query_env chain_app deposit_wallet alice_deposit \<lparr>app_ledger = sample_ledger\<lparr>db := []\<rparr>, app_world = empty_world\<rparr>
     = (Inr (), \<lparr>app_ledger = sample_ledger\<lparr>db := [(next_journal_id [], e)]\<rparr>, app_world = w\<rparr>)"
proof -
  obtain a u p where a: "\<And>v. accounts_findById chain_app ''u'' v = (Inr a, v)" "acc_depositFeeRatio a = Num 0"
    and u: "\<And>v. users_findById chain_app (acc_ownerId a) v = (Inr u, v)" and p: "\<And>v. getCurrentPrice chain_app v = (Inr p, v)"
    using chain_app_account chain_app_user chain_app_price by metis
  obtain x e where e: "addOnChainTxReceive list_query_env ''alice'' Btc ''tx'' (Num 5000) (Num 0) (dc_fromSats p (Num 0))
      (dc_fromSats p (Num 5000)) ''mine'' (sample_ledger\<lparr>db := []\<rparr>) = (Inr x, sample_ledger\<lparr>db := [(next_journal_id [], e)]\<rparr>)"
    using list_receive [where js = "[]" and wid = "''alice''"] by fastforce
  have fresh: "isOnChainTxRecorded list_query_env ''alice'' ''tx'' [] = (Inr False, [])"
    by (simp add: isOnChainTxRecorded_def list_db_simps act_simps postings_def)
  let ?s = "\<lambda>js. \<lparr>app_ledger = sample_ledger\<lparr>db := js\<rparr>, app_world = empty_world\<rparr>"
  have first: "deposit_behind_lock list_query_env chain_app deposit_wallet p (Num 0) ''tx'' \<lparr>out_sats = Num 5000, out_address = Some ''mine''\<rparr>
      (?s []) = (Inr (), ?s [(next_journal_id [], e)])"
    by (simp add: deposit_wallet_def deposit_behind_lock_def onChainAddresses_def act_bind_def in_world_def in_ledger_def a u e
        free_deposit act_return_def Let_def)
  have second: "deposit_behind_lock list_query_env chain_app deposit_wallet p (Num 0) ''tx'' \<lparr>out_sats = Num 700, out_address = Some ''theirs''\<rparr>
      s = (Inr (), s)" for s
    by (simp add: deposit_wallet_def deposit_behind_lock_def onChainAddresses_def act_return_def)
  have "wd_id deposit_wallet = ''alice''" "wd_accountId deposit_wallet = ''u''" "rawtx_hash (rawTx alice_deposit) = ''tx''"
    "outs (rawTx alice_deposit) = [\<lparr>out_sats = Num 5000, out_address = Some ''mine''\<rparr>, \<lparr>out_sats = Num 700, out_address = Some ''theirs''\<rparr>]"
    by (simp_all add: deposit_wallet_def alice_deposit_def)
  then show ?thesis
    by (simp add: processTxForWallet_def act_bind_def in_world_def in_db_def in_ledger_def on_db_def a p fresh first second act_return_def
        lockOnChainTxHash_def redlock_def chain_lock) blast
qed

text \<open>
  (C14) A deposit is credited once: when a run of processTxForWallet has changed the ledger, however that run ended, every
  later run for the same wallet and transaction leaves the ledger as it is, whatever was posted in between.
\<close>

theorem deposit_credited_once:
  assumes "counting_store L journals" and "quiet_locks E journals"
    and "\<And>account v v'. accounts_findById E (wd_accountId wallet) v = (Inr account, v')
      \<Longrightarrow> deposits_whole wallet (acc_depositFeeRatio account) (outs (rawTx tx))"
    and "processTxForWallet L E wallet tx s = (r, s1)" and "app_journals journals s1 \<noteq> app_journals journals s"
    and "app_journals journals s2 = app_journals journals s1 @ later"
    and "processTxForWallet L E wallet tx s2 = (r', s3)"
  shows "app_journals journals s3 = app_journals journals s2"
proof -
  have "deposit_recorded (wd_id wallet) (rawtx_hash (rawTx tx)) (app_journals journals s1)"
    using counting_store.deposit_same_or_recorded [OF assms(1,2), where wallet = wallet and tx = tx and s = s, OF assms(3)] assms(4,5) by simp
  then have "deposit_recorded (wd_id wallet) (rawtx_hash (rawTx tx)) (app_journals journals s2)"
    unfolding assms(6) by (rule deposit_recorded_append)
  then show ?thesis
    using counting_store.recorded_deposit_same [OF assms(1,2), where wallet = wallet and tx = tx and s = s2] assms(7) by simp
qed

theorem deposit_credited_once_witness:
  "\<exists>s1 s3 r'. processTxForWallet list_query_env chain_app deposit_wallet alice_deposit
       \<lparr>app_ledger = sample_ledger\<lparr>db := []\<rparr>, app_world = empty_world\<rparr> = (Inr (), s1)
     \<and> length (app_journals (\<lambda>w. w) s1) = 1
     \<and> processTxForWallet list_query_env chain_app deposit_wallet alice_deposit s1 = (r', s3)
     \<and> app_journals (\<lambda>w. w) s3 = app_journals (\<lambda>w. w) s1"
proof -
  let ?s = "\<lparr>app_ledger = sample_ledger\<lparr>db := []\<rparr>, app_world = empty_world\<rparr>"
  obtain s1 e where s1: "processTxForWallet list_query_env chain_app deposit_wallet alice_deposit ?s = (Inr (), s1)"
    and e: "app_journals (\<lambda>w. w) s1 = [(next_journal_id [], e)]"
    using chain_app_credits by auto
  obtain r' s3 where s3: "processTxForWallet list_query_env chain_app deposit_wallet alice_deposit s1 = (r', s3)" by fastforce
  have "app_journals (\<lambda>w. w) s3 = app_journals (\<lambda>w. w) s1"
  proof (rule deposit_credited_once [OF list_counting.counting_store_axioms chain_app_quiet _ s1 _ _ s3, where later = "[]"])
    show "deposits_whole deposit_wallet (acc_depositFeeRatio account) (outs (rawTx alice_deposit))"
      if "accounts_findById chain_app (wd_accountId deposit_wallet) v = (Inr account, v')" for account v v'
      using that by (rule chain_app_whole)
    show "app_journals (\<lambda>w. w) s1 \<noteq> app_journals (\<lambda>w. w) ?s" using e by simp
  qed simp
  with s1 s3 e show ?thesis by auto
qed

text \<open>
  (C13) Every way an on-chain payment can end: on success one journal has been added; when the node refuses for want of
  funds or because of the ancestor limit the balance of no account changes, the pending journal being voided by its
  reverse; any other error leaves the ledger as it was, or the journal voided, or, after the point where the payment may
  have been sent, the one journal of the payment; and a payment of more than the sender has never reaches the ledger.
\<close>

theorem onchain_payment_outcomes:
  assumes "counting_store L journals" and "quiet_locks E journals"
    and "\<And>v w v'. wallets_findById E wid v = (Inr w, v') \<Longrightarrow> wd_id w = wid"
    and "payOnChainByWalletId L E acc wid amt address confs memo sendAll s = (r, s')"
  shows "outcome (app_journals journals s) r (app_journals journals s')
    \<and> (\<forall>e a. r = Inl e \<and> refusal e \<longrightarrow>
         account_total a (app_journals journals s') = account_total a (app_journals journals s))
    \<and> length (app_journals journals s') \<le> length (app_journals journals s) + 2
    \<and> (\<forall>n. \<not> sendAll \<and> amt = Num (of_int n) \<and> is_safe_int n
         \<and> account_total (toLiabilitiesWalletId wid) (app_journals journals s) < of_int n
         \<longrightarrow> app_journals journals s' = app_journals journals s)"
proof -
  let ?js = "app_journals journals s" and ?js' = "app_journals journals s'"
  have out: "outcome ?js r ?js'"
    using counting_store.outcomes_payOnChain [OF assms(1,2), of ?js acc wid amt address confs memo sendAll] assms(4)
    unfolding ends_def by fastforce
  have "account_total a ?js' = account_total a ?js" if "r = Inl e" "refusal e" for e a
    using out that by (auto simp: outcome_def dest: reverted_total)
  moreover have "length ?js' \<le> length ?js + 2"
    using out by (auto simp: outcome_def dest: reverted_length posted_length split: sum.splits)
  moreover have "?js' = ?js"
    if "\<not> sendAll" "amt = Num (of_int n)" "is_safe_int n" "account_total (toLiabilitiesWalletId wid) ?js < of_int n" for n
  proof -
    have "keeps (\<lambda>s. app_journals journals s = ?js) (payOnChainByWalletId L E acc wid amt address confs memo sendAll)"
      using counting_store.uncovered_payment [OF assms(1,2,3) that(4,3)] that(1,2) by simp
    then show ?thesis using assms(4) unfolding keeps_def by (metis snd_conv)
  qed
  ultimately show ?thesis using out by blast
qed

theorem onchain_payment_outcomes_witness:
  "\<exists>acc r s'. accounts_findById chain_app ''u'' empty_world = (Inr acc, empty_world)
     \<and> payOnChainByWalletId list_query_env chain_app acc ''alice''
       (Num 5000) ''theirs'' (Num 1) None False \<lparr>app_ledger = sample_ledger\<lparr>db := []\<rparr>, app_world = empty_world\<rparr> = (r, s')
     \<and> outcome [] r (app_journals (\<lambda>w. w) s') \<and> app_journals (\<lambda>w. w) s' = []"
proof -
  let ?s = "\<lparr>app_ledger = sample_ledger\<lparr>db := []\<rparr>, app_world = empty_world\<rparr>"
  obtain acc where acc: "accounts_findById chain_app ''u'' empty_world = (Inr acc, empty_world)"
    using chain_app_account by blast
  obtain r s' where run: "payOnChainByWalletId list_query_env chain_app acc ''alice''
      (Num 5000) ''theirs'' (Num 1) None False ?s = (r, s')" by fastforce
  have s: "app_journals (\<lambda>w. w) ?s = []" by simp
  have n: "is_safe_int 5000" "account_total (toLiabilitiesWalletId ''alice'') [] < of_int 5000" "Num 5000 = Num (of_int 5000)"
    by (simp_all add: is_safe_int_def account_total_def)
  have ends: "outcome [] r (app_journals (\<lambda>w. w) s')
    \<and> (\<forall>e a. r = Inl e \<and> refusal e \<longrightarrow> account_total a (app_journals (\<lambda>w. w) s') = account_total a [])
    \<and> length (app_journals (\<lambda>w. w) s') \<le> length ([] :: journals) + 2
    \<and> (\<forall>n. \<not> False \<and> Num 5000 = Num (of_int n) \<and> is_safe_int n
         \<and> account_total (toLiabilitiesWalletId ''alice'') [] < of_int n \<longrightarrow> app_journals (\<lambda>w. w) s' = [])"
    by (rule onchain_payment_outcomes [OF list_counting.counting_store_axioms chain_app_quiet _ run, unfolded s])
      (rule chain_app_wallet)
  have "outcome [] r (app_journals (\<lambda>w. w) s')" using ends by blast
  moreover have "app_journals (\<lambda>w. w) s' = []" using ends n by blast
  ultimately show ?thesis using acc run by blast
qed

end
