(* ===== verification/Wallet_History.thy ===== *)
theory Wallet_History
  imports Onchain_Payments
begin

text \<open>
  What a wallet shows of the ledger: \<^verbatim>\<open>domain/wallets/tx-history.ts\<close> and the functions that read the history and the
  pending deposits of wallets (\<^verbatim>\<open>app/wallets/get-transactions-for-wallet.ts\<close>,
  \<^verbatim>\<open>get-transactions-by-addresses.ts\<close>, \<^verbatim>\<open>get-pending-onchain-balance-for-wallet.ts\<close>,
  \<^verbatim>\<open>private/get-on-chain-txs.ts\<close>). The thresholds under which a memo is not shown and the questions of the
  onboarding are fields of \<open>wallet_env\<close>. The main result is that the amounts of a wallet's history add up to its balance.
\<close>

section \<open>Transactions of a wallet\<close>

record ('w, 'v) wallet_env = "('w, 'v) chain_env" +
  conf_memoSatsThreshold :: jsnum
  conf_memoCentsThreshold :: jsnum
  conf_onboardingEarn :: "(string \<times> jsnum) list"

datatype TxStatus = TxPending | TxSuccess | TxFailure

text \<open>A missing counterparty is \<open>None\<close>, whether the code has \<^verbatim>\<open>null\<close> or \<^verbatim>\<open>undefined\<close> for it.\<close>

datatype InitiationVia =
    ViaIntraledger "WalletId option" "Username option"
  | ViaLn "PaymentHash option" "Pubkey option"
  | ViaOnChain OnChainAddress

datatype SettlementVia =
    SettledIntraledger "WalletId option" "Username option"
  | SettledLn
  | SettledOnChain "OnChainTxHash option"

record WalletTransaction =
  wt_id :: string
  wt_walletId :: "WalletId option"
  settlementAmount :: jsnum
  settlementFee :: jsnum
  settlementCurrency :: "WalletCurrency option"
  displayCurrencyPerSettlementCurrencyUnit :: jsnum
  wt_status :: TxStatus
  wt_memo :: "string option"
  wt_createdAt :: date
  initiationVia :: InitiationVia
  settlementVia :: SettlementVia

definition isAuthorizedMemo :: "('w, 'v, 'x) wallet_env_scheme \<Rightarrow> string option \<Rightarrow> bool" where
  "isAuthorizedMemo E memo = (truthy_str memo \<and> the memo \<in> set (map fst (conf_onboardingEarn E)))"

definition shouldDisplayMemo ::
  "('w, 'v, 'x) wallet_env_scheme \<Rightarrow> string option \<Rightarrow> jsnum \<Rightarrow> WalletCurrency option \<Rightarrow> bool" where
  "shouldDisplayMemo E memo credit c =
     (if isAuthorizedMemo E memo \<or> js_eq credit (Num 0) then True
      else if c = Some Btc then js_le (conf_memoSatsThreshold E) credit
      else js_le (conf_memoCentsThreshold E) credit)"

definition translateMemo ::
  "('w, 'v, 'x) wallet_env_scheme \<Rightarrow> string option \<Rightarrow> string option \<Rightarrow> jsnum \<Rightarrow> WalletCurrency option \<Rightarrow> string option" where
  "translateMemo E memoFromPayer lnMemo credit c =
     (let memo = (if truthy_str memoFromPayer then memoFromPayer else lnMemo)
      in if shouldDisplayMemo E memo credit c then str_or_undefined memo else None)"

definition displayCurrencyPerBaseUnitFromAmounts :: "jsnum \<Rightarrow> jsnum \<Rightarrow> jsnum" where
  "displayCurrencyPerBaseUnitFromAmounts displayAmount amt =
     (if js_eq amt (Num 0) then Num 0 else js_abs (js_div displayAmount amt))"

definition filterPendingIncoming ::
  "IncomingOnChainTransaction list \<Rightarrow> (WalletId \<times> OnChainAddress list) list \<Rightarrow> (WalletId \<times> WalletCurrency) list \<Rightarrow> jsnum
    \<Rightarrow> WalletTransaction list" where
  "filterPendingIncoming pendingIncoming addressesByWalletId walletDetailsByWalletId displayCurrencyPerSat =
     concat (map (\<lambda>tx. concat (map (\<lambda>out.
       if \<not> truthy_str (out_address out) then []
       else map (\<lambda>(walletId, _).
             \<lparr>wt_id = rawtx_hash (rawTx tx), wt_walletId = Some walletId, settlementAmount = out_sats out,
              settlementFee = Num 0, settlementCurrency = map_of walletDetailsByWalletId walletId,
              displayCurrencyPerSettlementCurrencyUnit = displayCurrencyPerSat, wt_status = TxPending, wt_memo = None,
              wt_createdAt = in_createdAt tx, initiationVia = ViaOnChain (the (out_address out)),
              settlementVia = SettledOnChain (Some (rawtx_hash (rawTx tx)))\<rparr>)
           (filter (\<lambda>(_, addresses). the (out_address out) \<in> set addresses) addressesByWalletId))
       (outs (rawTx tx)))) pendingIncoming)"

definition translateLedgerTxnToWalletTxn ::
  "('w, 'v, 'x) wallet_env_scheme \<Rightarrow> LedgerTransaction \<Rightarrow> WalletTransaction" where
  "translateLedgerTxnToWalletTxn E txn =
     (let amt = js_sub (lt_credit txn) (lt_debit txn);
          fee = (if lt_currency txn = Some Btc then num_or_zero (Some (lt_fee txn))
                 else if js_truthy (lt_feeUsd txn) then js_floor (js_mul (lt_feeUsd txn) (Num 100)) else Num 0);
          txType = (if lt_type txn = Some IntraLedger \<and> truthy_str (lt_paymentHash txn) then Some LnIntraLedger
                    else lt_type txn);
          address = (if truthy_str (lt_address txn) then the (lt_address txn) else ''<no-address>'');
          counterparty = str_or_undefined (lt_username txn);
          (via, settled) =
            (if txType = Some OnchainIntraLedger \<or> txType = Some OnChainTradeIntraAccount
             then (ViaOnChain address, SettledIntraledger (lt_recipientWalletId txn) counterparty)
             else if txType = Some OnchainPayment \<or> txType = Some OnchainReceipt
             then (ViaOnChain address, SettledOnChain (lt_txHash txn))
             else if txType = Some LnIntraLedger \<or> txType = Some LnTradeIntraAccount
             then (ViaLn (lt_paymentHash txn) (lt_pubkey txn), SettledIntraledger (lt_recipientWalletId txn) counterparty)
             else if txType = Some Payment \<or> txType = Some Invoice
             then (ViaLn (lt_paymentHash txn) (lt_pubkey txn), SettledLn)
             else (ViaIntraledger (lt_recipientWalletId txn) (lt_username txn),
                   SettledIntraledger (lt_recipientWalletId txn)
                     (if txType = Some IntraLedger \<or> txType = Some WalletIdTradeIntraAccount then lt_username txn
                      else counterparty)))
      in \<lparr>wt_id = lt_id txn, wt_walletId = lt_walletId txn, settlementAmount = amt, settlementFee = fee,
          settlementCurrency = lt_currency txn,
          displayCurrencyPerSettlementCurrencyUnit = displayCurrencyPerBaseUnitFromAmounts (lt_usd txn) amt,
          wt_status = (if lt_pendingConfirmation txn = Some True then TxPending else TxSuccess),
          wt_memo = translateMemo E (lt_memoFromPayer txn) (Some (lt_lnMemo txn)) (lt_credit txn) (lt_currency txn),
          wt_createdAt = lt_timestamp txn, initiationVia = via, settlementVia = settled\<rparr>)"

definition fromLedger :: "('w, 'v, 'x) wallet_env_scheme \<Rightarrow> LedgerTransaction list \<Rightarrow> WalletTransaction list" where
  "fromLedger E ledgerTransactions = map (translateLedgerTxnToWalletTxn E) ledgerTransactions"

section \<open>Reading the history\<close>

definition redis_getOrSet ::
  "('w, 'v, 'x) chain_env_scheme \<Rightarrow> string \<Rightarrow> int \<Rightarrow> ('v, cache_value) act \<Rightarrow> ('v, cache_value) act" where
  "redis_getOrSet E key ttlSecs getForCaching =
     act_bind (act_attempt (redis_get E key)) (\<lambda>cachedData.
       case cachedData of
         Inr x \<Rightarrow> act_return x
       | Inl _ \<Rightarrow>
           act_bind getForCaching (\<lambda>x.
           act_bind (act_attempt (redis_set E key x ttlSecs)) (\<lambda>_. act_return x)))"

definition cached_txs :: "cache_value \<Rightarrow> IncomingOnChainTransaction list" where
  "cached_txs x = (case x of Cached_txs txs \<Rightarrow> txs | _ \<Rightarrow> [])"

text \<open>Inflating what comes from the cache restores the dates and methods, which the model's values never lose.\<close>

definition getOnChainTxs :: "('w, 'v, 'x) chain_env_scheme \<Rightarrow> ('v, IncomingOnChainTransaction list) act" where
  "getOnChainTxs E =
     act_bind (redis_getOrSet E ''bitcoin:lastOnChainTxs'' 600
         (act_bind (OnChainService E) (\<lambda>node.
          act_bind (listIncomingTransactions E (chain_decode E) node (Num (of_int (conf_minConfirmations E)))) (\<lambda>txs.
            act_return (Cached_txs txs)))))
       (\<lambda>x. act_return (cached_txs x))"

text \<open>The objects with a property for every wallet keep the order of the wallets; a property that is set again keeps its place.\<close>

definition by_wallet_id :: "(Wallet \<Rightarrow> 'a) \<Rightarrow> Wallet list \<Rightarrow> (WalletId \<times> 'a) list" where
  "by_wallet_id f wallets = foldl (\<lambda>m w. AList.update (wd_id w) (f w) m) [] wallets"

definition pending_history ::
  "('w, 'v, 'x) wallet_env_scheme \<Rightarrow> Wallet list \<Rightarrow> OnChainAddress list \<Rightarrow> IncomingOnChainTransaction list
    \<Rightarrow> ('v, WalletTransaction list) act" where
  "pending_history E wallets addresses onChainTxs =
     (let pendingIncoming = TxFilter \<lparr>confirmationsLessThan = Some (conf_minConfirmations E),
            confirmationsGreaterThanOrEqual = None, filter_addresses = Some addresses\<rparr> onChainTxs
      in act_bind (checked (getCurrentPrice E)) (\<lambda>price.
           act_return (filterPendingIncoming pendingIncoming (by_wallet_id onChainAddresses wallets)
             (by_wallet_id wd_currency wallets) (case price of Inl _ \<Rightarrow> NaN | Inr p \<Rightarrow> p))))"

definition wallets_history ::
  "('e, 'w, 'x) query_env_scheme \<Rightarrow> ('w, 'v, 'y) wallet_env_scheme \<Rightarrow> Wallet list \<Rightarrow> (LedgerTransaction \<Rightarrow> bool)
    \<Rightarrow> OnChainAddress list \<Rightarrow> (('w, 'v) app_state, WalletTransaction list PartialResult) act" where
  "wallets_history L E wallets shown addresses =
     partial_errors
       (act_bind (in_db (getTransactionsByWalletIds L (map wd_id wallets))) (\<lambda>ledgerTransactions.
          let confirmed = fromLedger E (filter shown ledgerTransactions)
          in act_bind (checked (in_world (getOnChainTxs E))) (\<lambda>onChainTxs.
               case onChainTxs of
                 Inl e \<Rightarrow> act_return (Partial_partial confirmed e)
               | Inr txs \<Rightarrow>
                   act_bind (in_world (pending_history E wallets addresses txs)) (\<lambda>pending.
                     act_return (Partial_ok (pending @ confirmed))))))"

definition getTransactionsForWallets ::
  "('e, 'w, 'x) query_env_scheme \<Rightarrow> ('w, 'v, 'y) wallet_env_scheme \<Rightarrow> Wallet list
    \<Rightarrow> (('w, 'v) app_state, WalletTransaction list PartialResult) act" where
  "getTransactionsForWallets L E wallets =
     wallets_history L E wallets (\<lambda>_. True) (concat (map onChainAddresses wallets))"

definition getTransactionsForWalletId ::
  "('e, 'w, 'x) query_env_scheme \<Rightarrow> ('w, 'v, 'y) wallet_env_scheme \<Rightarrow> WalletId
    \<Rightarrow> (('w, 'v) app_state, WalletTransaction list PartialResult) act" where
  "getTransactionsForWalletId L E walletId =
     partial_errors (act_bind (in_world (wallets_findById E walletId)) (\<lambda>wallet. getTransactionsForWallets L E [wallet]))"

definition getTransactionsForWalletsByAddresses ::
  "('e, 'w, 'x) query_env_scheme \<Rightarrow> ('w, 'v, 'y) wallet_env_scheme \<Rightarrow> Wallet list \<Rightarrow> OnChainAddress list
    \<Rightarrow> (('w, 'v) app_state, WalletTransaction list PartialResult) act" where
  "getTransactionsForWalletsByAddresses L E wallets addresses =
     wallets_history L E wallets
       (\<lambda>tx. truthy_str (lt_address tx) \<and> the (lt_address tx) \<in> set addresses)
       (filter (\<lambda>address. address \<in> set (concat (map onChainAddresses wallets))) addresses)"

definition getPendingOnChainBalanceForWallets ::
  "('w, 'v, 'x) chain_env_scheme \<Rightarrow> Wallet list \<Rightarrow> ('v, balances) act" where
  "getPendingOnChainBalanceForWallets E wallets =
     act_bind (getOnChainTxs E) (\<lambda>onChainTxs.
       act_result (balanceByWallet
         (TxFilter \<lparr>confirmationsLessThan = Some (conf_minConfirmations E), confirmationsGreaterThanOrEqual = None,
            filter_addresses = Some (concat (map onChainAddresses wallets))\<rparr> onChainTxs) wallets))"

section \<open>The history and the balance\<close>

lemma account_total_postings:
  "account_total a js =
     sum_list (map tx_net (filter (\<lambda>t. tx_account t = a \<and> tx_currency t \<noteq> None) (map snd (postings js))))"
proof -
  have journal: "account_net a Btc ts + account_net a Usd ts =
      sum_list (map tx_net (filter (\<lambda>t. tx_account t = a \<and> tx_currency t \<noteq> None) ts))" for ts
  proof (induction ts)
    case (Cons t ts)
    then show ?case by (cases "tx_currency t"; cases "the (tx_currency t)") auto
  qed simp
  show ?thesis
  proof (induction js)
    case (Cons p js)
    then show ?case by (cases p) (simp add: account_total_def postings_def journal comp_def)
  qed (simp add: account_total_def postings_def)
qed

text \<open>Every posting of an account is a whole amount in one of the currencies, and the account has no parts.\<close>

definition plain_account :: "LedgerAccountId \<Rightarrow> journals \<Rightarrow> bool" where
  "plain_account a js =
     list_all (\<lambda>(j, t). (tx_account t = a \<longrightarrow> ledger_num (tx_credit t) \<and> ledger_num (tx_debit t) \<and> tx_currency t \<noteq> None)
       \<and> \<not> starts_with (a @ '':'') (tx_account t)) (postings js)"

lemma settlementAmount_tx:
  "settlementAmount (translateLedgerTxnToWalletTxn E (translateToLedgerTx d)) = js_sub (tx_credit d) (tx_debit d)"
  by (simp add: translateLedgerTxnToWalletTxn_def translateToLedgerTx_def Let_def case_prod_unfold)

lemma js_sub_ledger: "ledger_num a \<Longrightarrow> ledger_num b \<Longrightarrow> num_val (js_sub a b) = num_val a - num_val b"
  by (auto simp: ledger_num_def ledger_amount_def js_sub_int)

context counting_store
begin

lemma history_total:
  assumes run: "getTransactionsByWalletIds L [wid] w = (Inr txns, w')"
    and plain: "plain_account (toLiabilitiesWalletId wid) (journals w)"
  shows "sum_list (map (num_val \<circ> settlementAmount) (fromLedger E txns)) = account_total (toLiabilitiesWalletId wid) (journals w)"
proof -
  let ?a = "toLiabilitiesWalletId wid" and ?ts = "map snd (postings (journals w))"
  let ?q = "any_query\<lparr>q_accounts := Some [?a]\<rparr>"
  obtain r where r: "book_ledger L ?q w = (Inr r, w')" and txns: "txns = map translateToLedgerTx r"
    using run by (auto simp: getTransactionsByWalletIds_def ledger_results_def act_try_eq_Inr act_bind_eq_Inr act_call_eq_Inr)
  have own: "tx_account t = ?a \<Longrightarrow> ledger_num (tx_credit t) \<and> ledger_num (tx_debit t) \<and> tx_currency t \<noteq> None"
    "\<not> starts_with (?a @ '':'') (tx_account t)" if "t \<in> set ?ts" for t
    using plain that by (auto simp: plain_account_def list_all_iff)
  have "mset (map txn.truncate r) = mset (filter (query_matches ?q) ?ts)"
    using ledger_ok [OF r] by (simp add: any_query_def)
  also have "filter (query_matches ?q) ?ts = filter (\<lambda>t. tx_account t = ?a \<and> tx_currency t \<noteq> None) ?ts"
    using own by (intro filter_cong refl) (auto simp: query_matches_def any_query_def)
  finally have docs: "mset (map txn.truncate r) = mset (filter (\<lambda>t. tx_account t = ?a \<and> tx_currency t \<noteq> None) ?ts)" .
  have whole: "num_val (js_sub (tx_credit d) (tx_debit d)) = tx_net (txn.truncate d)" if "d \<in> set r" for d
  proof -
    have "txn.truncate d \<in># mset (filter (\<lambda>t. tx_account t = ?a \<and> tx_currency t \<noteq> None) ?ts)"
      unfolding docs [symmetric] using that by simp
    then have t: "txn.truncate d \<in> set ?ts" "tx_account (txn.truncate d) = ?a" by auto
    have "ledger_num (tx_credit (txn.truncate d))" "ledger_num (tx_debit (txn.truncate d))" using own(1) [OF t] by simp_all
    then show ?thesis by (simp add: js_sub_ledger tx_net_def txn.defs)
  qed
  have "map (num_val \<circ> settlementAmount) (fromLedger E txns) = map tx_net (map txn.truncate r)"
    by (simp add: fromLedger_def txns settlementAmount_tx whole)
  then have "sum_list (map (num_val \<circ> settlementAmount) (fromLedger E txns)) = sum_mset (image_mset tx_net (mset (map txn.truncate r)))"
    by (simp only: mset_map [symmetric] sum_mset_sum_list)
  also have "\<dots> = account_total ?a (journals w)"
    unfolding docs account_total_postings by (simp only: mset_map [symmetric] sum_mset_sum_list)
  finally show ?thesis .
qed

end

lemma pending_entries:
  assumes "t \<in> set (filterPendingIncoming txs (by_wallet_id onChainAddresses [wallet]) details p)"
  shows "wt_status t = TxPending \<and> wt_walletId t = Some (wd_id wallet) \<and> initiationVia t \<in> ViaOnChain ` set (onChainAddresses wallet)"
  using assms by (auto simp: filterPendingIncoming_def by_wallet_id_def split: if_splits)

lemma partial_errors_Inr:
  "partial_errors m s = (Inr r, s') \<Longrightarrow> (\<And>e. r \<noteq> Partial_err e) \<Longrightarrow> m s = (Inr r, s')"
  by (cases "m s") (auto simp: partial_errors_def act_bind_def act_attempt_apply act_return_def act_fail_def
      split: sum.splits error.splits)

lemma pending_history_Inr:
  assumes "pending_history E wallets addresses txs v = (Inr pending, v')"
  shows "\<exists>as d p. pending = filterPendingIncoming as (by_wallet_id onChainAddresses wallets) d p"
  using assms unfolding pending_history_def Let_def act_bind_eq_Inr act_return_def by blast

lemma history_result:
  assumes run: "getTransactionsForWallets L E [wallet] s = (Inr r, s')" and r: "r = Partial_ok txs \<or> r = Partial_partial txs e"
  shows "\<exists>txns w' pending. getTransactionsByWalletIds L [wd_id wallet] (db (app_ledger s)) = (Inr txns, w')
      \<and> txs = pending @ fromLedger E txns \<and> (r = Partial_partial txs e \<longrightarrow> pending = [])
      \<and> (pending = [] \<or> (\<exists>as d p. pending = filterPendingIncoming as (by_wallet_id onChainAddresses [wallet]) d p))"
proof -
  have plain: "\<And>e'. r \<noteq> Partial_err e'" using r by auto
  have "act_bind (in_db (getTransactionsByWalletIds L [wd_id wallet])) (\<lambda>txns.
      act_bind (checked (in_world (getOnChainTxs E))) (\<lambda>onChainTxs.
        case onChainTxs of
          Inl e \<Rightarrow> act_return (Partial_partial (fromLedger E txns) e)
        | Inr txs \<Rightarrow> act_bind (in_world (pending_history E [wallet] (onChainAddresses wallet) txs)) (\<lambda>pending.
            act_return (Partial_ok (pending @ fromLedger E txns))))) s = (Inr r, s')"
    using partial_errors_Inr [OF run [unfolded getTransactionsForWallets_def wallets_history_def] plain] by (simp add: Let_def)
  then obtain txns s1 onChainTxs s2 where
    ledger: "in_db (getTransactionsByWalletIds L [wd_id wallet]) s = (Inr txns, s1)"
    and rest: "(case onChainTxs of
        Inl e \<Rightarrow> act_return (Partial_partial (fromLedger E txns) e)
      | Inr txs \<Rightarrow> act_bind (in_world (pending_history E [wallet] (onChainAddresses wallet) txs)) (\<lambda>pending.
          act_return (Partial_ok (pending @ fromLedger E txns)))) s2 = (Inr r, s')"
    unfolding act_bind_eq_Inr [of "in_db m" for m] act_bind_eq_Inr [of "checked m" for m] by blast
  obtain w' where w': "getTransactionsByWalletIds L [wd_id wallet] (db (app_ledger s)) = (Inr txns, w')"
    using ledger by (auto simp: in_db_eq_Inr)
  show ?thesis
  proof (cases onChainTxs)
    case (Inl x)
    then have "r = Partial_partial (fromLedger E txns) x" using rest by (simp add: act_return_def)
    then show ?thesis using r w' by blast
  next
    case (Inr x)
    then obtain pending v where run': "pending_history E [wallet] (onChainAddresses wallet) x (app_world s2) = (Inr pending, v)"
      and res: "r = Partial_ok (pending @ fromLedger E txns)"
      using rest by (auto simp: act_bind_eq_Inr in_world_eq_Inr act_return_def)
    have "txs = pending @ fromLedger E txns" "r \<noteq> Partial_partial txs e" using r res by auto
    then show ?thesis
      using w' pending_history_Inr [OF run'] by (intro exI [of _ txns] exI [of _ w'] exI [of _ pending]) simp
  qed
qed

lemma history_parts:
  assumes run: "getTransactionsForWallets L E [wallet] s = (Inr r, s')" and r: "r = Partial_ok txs \<or> r = Partial_partial txs e"
  obtains txns w' pending where "getTransactionsByWalletIds L [wd_id wallet] (db (app_ledger s)) = (Inr txns, w')"
    "txs = pending @ fromLedger E txns"
    "\<And>t. t \<in> set pending \<Longrightarrow>
      wt_status t = TxPending \<and> wt_walletId t = Some (wd_id wallet) \<and> initiationVia t \<in> ViaOnChain ` set (onChainAddresses wallet)"
    "r = Partial_partial txs e \<Longrightarrow> pending = []"
proof -
  obtain txns w' pending where parts: "getTransactionsByWalletIds L [wd_id wallet] (db (app_ledger s)) = (Inr txns, w')"
      "txs = pending @ fromLedger E txns" "r = Partial_partial txs e \<longrightarrow> pending = []"
    and from_chain: "pending = [] \<or> (\<exists>as d p. pending = filterPendingIncoming as (by_wallet_id onChainAddresses [wallet]) d p)"
    using history_result [OF run r] by blast
  have "wt_status t = TxPending \<and> wt_walletId t = Some (wd_id wallet) \<and> initiationVia t \<in> ViaOnChain ` set (onChainAddresses wallet)"
    if "t \<in> set pending" for t
    using that from_chain pending_entries [of t] by (elim disjE exE) simp_all
  then show thesis using that [of txns w' pending] parts by blast
qed

section \<open>Properties\<close>

text \<open>
  (C15) The history of a wallet adds up to its balance: the amounts of the transactions from the ledger, whether they are
  settled or pending, sum up to the balance of the wallet in the same ledger, and every transaction before them is a pending
  deposit to an address of the wallet.
\<close>

theorem history_adds_up:
  assumes "counting_store L journals" and "plain_account (toLiabilitiesWalletId (wd_id wallet)) (app_journals journals s)"
    and "getTransactionsForWallets L E [wallet] s = (Inr r, s')" and "r = Partial_ok txs \<or> r = Partial_partial txs e"
  shows "\<exists>pending confirmed. txs = pending @ confirmed
    \<and> list_all (\<lambda>t. wt_status t = TxPending \<and> wt_walletId t = Some (wd_id wallet)
        \<and> initiationVia t \<in> ViaOnChain ` set (onChainAddresses wallet)) pending
    \<and> (\<forall>b l'. getWalletBalance L (wd_id wallet) (app_ledger s) = (Inr b, l')
        \<longrightarrow> b = Num (sum_list (map (num_val \<circ> settlementAmount) confirmed)))"
proof -
  obtain txns w' pending where txns: "getTransactionsByWalletIds L [wd_id wallet] (db (app_ledger s)) = (Inr txns, w')"
    and txs: "txs = pending @ fromLedger E txns" and pending: "\<And>t. t \<in> set pending \<Longrightarrow>
      wt_status t = TxPending \<and> wt_walletId t = Some (wd_id wallet) \<and> initiationVia t \<in> ViaOnChain ` set (onChainAddresses wallet)"
    using history_parts [OF assms(3,4)] by metis
  have total: "sum_list (map (num_val \<circ> settlementAmount) (fromLedger E txns))
      = account_total (toLiabilitiesWalletId (wd_id wallet)) (app_journals journals s)"
    by (rule counting_store.history_total [OF assms(1) txns assms(2)])
  have balance: "b = Num (sum_list (map (num_val \<circ> settlementAmount) (fromLedger E txns)))"
    if "getWalletBalance L (wd_id wallet) (app_ledger s) = (Inr b, l')" for b l'
  proof -
    have "in_ledger (getWalletBalance L (wd_id wallet)) s = (Inr b, s\<lparr>app_ledger := l'\<rparr>)"
      using that by (simp add: in_ledger_def)
    then show ?thesis
      unfolding total by (rule counting_store.balance_ends [OF assms(1), unfolded ends_def, rule_format, THEN conjunct2, rule_format, rotated]) simp_all
  qed
  show ?thesis using txs pending balance by (intro exI [of _ pending] exI [of _ "fromLedger E txns"]) (auto simp: list_all_iff)
qed

text \<open>A scenario: one deposit in the ledger and one that waits for confirmations.\<close>

definition wallet_app :: "(journals, mem_world) wallet_env" where
  "wallet_app = chain_env.extend
     (chain_app\<lparr>rc_get := \<lambda>_ v. (Inr (Some (Cached_txs [alice_deposit\<lparr>confirmations := 1\<rparr>])), v)\<rparr>)
     (wallet_env.fields (Num 1000) (Num 50) [(''whereBitcoinExist'', Num 5)])"

definition deposited :: journals where
  "deposited = [(''j'',
     [\<lparr>tx_account = ''Liabilities:alice'', tx_credit = Num 5000, tx_debit = Num 0,
       tx_meta = [''currency'' \<mapsto> MCur Btc, ''type'' \<mapsto> MType OnchainReceipt, ''pending'' \<mapsto> MBool False]\<rparr>,
      \<lparr>tx_account = ''Assets:Reserve:Lightning'', tx_credit = Num 0, tx_debit = Num 5000,
       tx_meta = [''currency'' \<mapsto> MCur Btc, ''type'' \<mapsto> MType OnchainReceipt, ''pending'' \<mapsto> MBool False]\<rparr>])]"

lemmas wallet_simps = wallet_app_def wallet_env.defs chain_simps

lemma deposited_plain: "plain_account (toLiabilitiesWalletId ''alice'') deposited"
  by (auto simp: plain_account_def deposited_def postings_def toLiabilitiesWalletId_def liabilitiesMainAccount_def ledger_num_def
      ledger_amount_def tx_currency_def intro: exI [of _ "5000 :: int"] exI [of _ "0 :: int"])

lemma deposited_docs:
  "getTransactionsByWalletIds list_query_env [''alice''] deposited = (Inr [translateToLedgerTx (doc_of (hd (postings deposited)))], deposited)"
  by (simp add: getTransactionsByWalletIds_def ledger_results_def list_query_env_sel act_simps deposited_def postings_def
      query_matches_def any_query_def toLiabilitiesWalletId_def liabilitiesMainAccount_def)

lemma deposited_balance:
  "\<exists>l. getWalletBalance list_query_env ''alice'' (sample_ledger\<lparr>db := deposited\<rparr>) = (Inr (Num 5000), l)"
  by (simp add: getWalletBalance_def list_query_env_sel list_book_env_def medici.defs ledger_env.defs act_simps on_db_def
      deposited_def toLiabilitiesWalletId_def liabilitiesMainAccount_def tx_currency_def tx_net_def)

lemma wallet_app_txs: "getOnChainTxs wallet_app v = (Inr [alice_deposit\<lparr>confirmations := 1\<rparr>], v)"
  by (simp add: getOnChainTxs_def redis_getOrSet_def redis_get_def act_simps act_attempt_apply wallet_simps cached_txs_def)

lemma wallet_app_price: "\<exists>p. \<forall>v. getCurrentPrice wallet_app v = (Inr p, v)"
  by (simp add: getCurrentPrice_def getRealTimePrice_def cache_set_def act_simps wallet_simps)

lemma wallet_app_pending:
  "\<exists>t. \<forall>v. pending_history wallet_app [deposit_wallet] [''mine''] [alice_deposit\<lparr>confirmations := 1\<rparr>] v = (Inr [t], v)"
proof -
  obtain p where p: "\<And>v. getCurrentPrice wallet_app v = (Inr p, v)" using wallet_app_price by blast
  have "conf_minConfirmations wallet_app = 2" by (simp add: wallet_simps)
  then show ?thesis
    by (simp add: pending_history_def checked_def act_simps p TxFilter_def filterPendingIncoming_def by_wallet_id_def alice_deposit_def
        deposit_wallet_def onChainAddresses_def Let_def)
qed

lemma wallet_app_history:
  "\<exists>t. getTransactionsForWallets list_query_env wallet_app [deposit_wallet]
     \<lparr>app_ledger = sample_ledger\<lparr>db := deposited\<rparr>, app_world = empty_world\<rparr>
   = (Inr (Partial_ok [t, translateLedgerTxnToWalletTxn wallet_app (translateToLedgerTx (doc_of (hd (postings deposited))))]),
      \<lparr>app_ledger = sample_ledger\<lparr>db := deposited\<rparr>, app_world = empty_world\<rparr>)"
proof -
  obtain t where t: "\<And>v. pending_history wallet_app [deposit_wallet] [''mine''] [alice_deposit\<lparr>confirmations := 1\<rparr>] v = (Inr [t], v)"
    using wallet_app_pending by blast
  have "wd_id deposit_wallet = ''alice''" "onChainAddresses deposit_wallet = [''mine'']"
    by (simp_all add: deposit_wallet_def onChainAddresses_def)
  then show ?thesis
    by (simp add: getTransactionsForWallets_def wallets_history_def partial_errors_def checked_def act_simps in_db_def in_ledger_def
        on_db_def in_world_def deposited_docs wallet_app_txs t fromLedger_def Let_def)
qed

theorem history_adds_up_witness:
  "\<exists>txs pending confirmed. (\<exists>s'. getTransactionsForWallets list_query_env wallet_app [deposit_wallet]
       \<lparr>app_ledger = sample_ledger\<lparr>db := deposited\<rparr>, app_world = empty_world\<rparr> = (Inr (Partial_ok txs), s'))
     \<and> length txs = 2 \<and> txs = pending @ confirmed \<and> 5000 = sum_list (map (num_val \<circ> settlementAmount) confirmed)"
proof -
  let ?s = "\<lparr>app_ledger = sample_ledger\<lparr>db := deposited\<rparr>, app_world = empty_world\<rparr>"
  obtain txs s' where run: "getTransactionsForWallets list_query_env wallet_app [deposit_wallet] ?s = (Inr (Partial_ok txs), s')"
    and two: "length txs = 2"
    using wallet_app_history by fastforce
  have wallet: "wd_id deposit_wallet = ''alice''" by (simp add: deposit_wallet_def)
  have plain: "plain_account (toLiabilitiesWalletId (wd_id deposit_wallet)) (app_journals (\<lambda>w. w) ?s)"
    using deposited_plain wallet by simp
  obtain l where "getWalletBalance list_query_env (wd_id deposit_wallet) (app_ledger ?s) = (Inr (Num 5000), l)"
    using deposited_balance wallet by auto
  then obtain pending confirmed where "txs = pending @ confirmed" "Num 5000 = Num (sum_list (map (num_val \<circ> settlementAmount) confirmed))"
    using history_adds_up [OF list_counting.counting_store_axioms plain run disjI1 [OF refl]] by blast
  then show ?thesis using run two by (intro exI [of _ txs] exI [of _ pending] exI [of _ confirmed]) auto
qed

end
