(* ===== verification/Wallet_Operations.thy ===== *)
theory Wallet_Operations
  imports Wallet_History
begin

text \<open>
  What account holders do besides paying: invoices (\<^verbatim>\<open>app/wallets/add-invoice-for-wallet.ts\<close>), addresses
  (\<^verbatim>\<open>create-on-chain-address.ts\<close>, \<^verbatim>\<open>get-last-on-chain-address.ts\<close>) and the limits on both
  (\<^verbatim>\<open>domain/rate-limit\<close>, \<^verbatim>\<open>services/rate-limit\<close>), accounts, wallets and rewards (\<^verbatim>\<open>app/accounts\<close>,
  \<^verbatim>\<open>app/users/update-language.ts\<close>), and the jobs that keep the records of lightning payments
  (\<^verbatim>\<open>app/lightning/update-ln-payments.ts\<close>, \<^verbatim>\<open>delete-ln-payments.ts\<close>).
\<close>

section \<open>Parameters\<close>

text \<open>
  The limiter of a prefix counts the uses of a key and throws when there are too many. \<open>new_secret\<close> is the secret that the
  next invoice gets, with its hash. \<open>tw_getCarrier\<close> is the lookup of a phone number.
\<close>

record ('w, 'v) ops_env = "('w, 'v) wallet_env" +
  rl_consume :: "string \<Rightarrow> string \<Rightarrow> ('v, unit) call"
  rl_delete :: "string \<Rightarrow> string \<Rightarrow> ('v, unit) call"
  new_secret :: "'v \<Rightarrow> SecretPreImage \<times> PaymentHash"
  tw_getCarrier :: "string \<Rightarrow> ('v, PhoneMetadata) call"
  conf_rewardPhones :: "string list \<times> string list"
  conf_rewardIps :: IPMetadataValidatorArgs
  conf_initialWallets :: "WalletCurrency list"
  conf_testAccounts :: "(string \<times> string) list"

section \<open>Rate limits\<close>

datatype RateLimit =
    requestPhoneCodeAttemptPerPhone
  | requestPhoneCodeAttemptPerPhoneMinInterval
  | requestPhoneCodeAttemptPerIp
  | failedLoginAttemptPerPhone
  | failedLoginAttemptPerEmailAddress
  | failedLoginAttemptPerIp
  | invoiceCreate
  | invoiceCreateForRecipient
  | onChainAddressCreate

fun RateLimitPrefix :: "RateLimit \<Rightarrow> string" where
  "RateLimitPrefix requestPhoneCodeAttemptPerPhone = ''phone_code_attempt_phone_code''"
| "RateLimitPrefix requestPhoneCodeAttemptPerPhoneMinInterval = ''phone_code_attempt_phone_code_min_interval''"
| "RateLimitPrefix requestPhoneCodeAttemptPerIp = ''phone_code_attempt_ip''"
| "RateLimitPrefix failedLoginAttemptPerPhone = ''login_attempt_phone''"
| "RateLimitPrefix failedLoginAttemptPerEmailAddress = ''login_attempt_email''"
| "RateLimitPrefix failedLoginAttemptPerIp = ''login_attempt_ip''"
| "RateLimitPrefix invoiceCreate = ''invoice_create''"
| "RateLimitPrefix invoiceCreateForRecipient = ''invoice_create_for_recipient''"
| "RateLimitPrefix onChainAddressCreate = ''onchain_address_create''"

fun RateLimitConfig_error :: "RateLimit \<Rightarrow> rate_limit_error" where
  "RateLimitConfig_error requestPhoneCodeAttemptPerPhone = UserPhoneCodeAttemptPhoneRateLimiterExceededError"
| "RateLimitConfig_error requestPhoneCodeAttemptPerPhoneMinInterval =
     UserPhoneCodeAttemptPhoneMinIntervalRateLimiterExceededError"
| "RateLimitConfig_error requestPhoneCodeAttemptPerIp = UserPhoneCodeAttemptIpRateLimiterExceededError"
| "RateLimitConfig_error failedLoginAttemptPerPhone = UserLoginPhoneRateLimiterExceededError"
| "RateLimitConfig_error failedLoginAttemptPerEmailAddress = UserLoginPhoneRateLimiterExceededError"
| "RateLimitConfig_error failedLoginAttemptPerIp = UserLoginIpRateLimiterExceededError"
| "RateLimitConfig_error invoiceCreate = InvoiceCreateRateLimiterExceededError"
| "RateLimitConfig_error invoiceCreateForRecipient = InvoiceCreateForRecipientRateLimiterExceededError"
| "RateLimitConfig_error onChainAddressCreate = OnChainAddressCreateRateLimiterExceededError"

definition consumeLimiter :: "('w, 'v, 'x) ops_env_scheme \<Rightarrow> RateLimit \<Rightarrow> string \<Rightarrow> ('v, unit) act" where
  "consumeLimiter E limit keyToConsume =
     act_try (act_call (rl_consume E (RateLimitPrefix limit) keyToConsume))
       (\<lambda>_. RateLimitServiceError (RateLimitConfig_error limit))"

definition resetLimiter :: "('w, 'v, 'x) ops_env_scheme \<Rightarrow> RateLimit \<Rightarrow> string \<Rightarrow> ('v, unit) act" where
  "resetLimiter E limit keyToConsume =
     act_try (act_call (rl_delete E (RateLimitPrefix limit) keyToConsume))
       (\<lambda>_. RateLimitServiceError UnknownRateLimitServiceError)"

section \<open>Invoices and addresses\<close>

definition hodl_args :: "RegisterInvoiceArgs \<Rightarrow> CreateHodlInvoiceArgs" where
  "hodl_args args =
     \<lparr>ch_id = ria_paymentHash args, ch_description = ria_description args, ch_description_hash = ria_descriptionHash args,
      ch_tokens = Number_of (amount (ria_btcPaymentAmount args)), ch_expires_at = ria_expiresAt args\<rparr>"

text \<open>
  The builder of an invoice gets the answers of the dealer and the node as functions of the moment it is used; the call of
  the node is the one of \<open>registerInvoice\<close>, after which the node has the invoice.
\<close>

definition builder_fns :: "('w, 'v, 'x) ops_env_scheme \<Rightarrow> LndParamsAuthed \<Rightarrow> 'v \<Rightarrow> WalletInvoiceBuilderConfig" where
  "builder_fns E node v =
     \<lparr>dealerBtcFromUsd = new_getSatsFromCents E FutureBuy v,
      lnRegisterInvoice = (\<lambda>args. fst (lnd_registerInvoice E node (hodl_args args) v))\<rparr>"

definition register_with ::
  "('w, 'v, 'x) ops_env_scheme \<Rightarrow> LndParamsAuthed \<Rightarrow> WIBWithAmountState \<Rightarrow> ('v, WalletInvoice \<times> LnInvoice) act" where
  "register_with E node state v =
     (let (secret, hash) = new_secret E v;
          args = \<lparr>ria_paymentHash = hash, ria_description = wib_description state,
                  ria_descriptionHash = wib_descriptionHash state, ria_btcPaymentAmount = btcAmount state,
                  ria_expiresAt = invoiceExpiration state\<rparr>
      in (registerInvoice secret hash state, snd (lnd_registerInvoice E node (hodl_args args) v)))"

definition addInvoice ::
  "('w, 'v, 'x) ops_env_scheme \<Rightarrow> WalletId \<Rightarrow> RateLimit
    \<Rightarrow> (date \<Rightarrow> WalletInvoiceBuilderConfig \<Rightarrow> WalletDescriptor \<Rightarrow> WIBWithAmountState result) \<Rightarrow> ('v, LnInvoice) act" where
  "addInvoice E walletId limit buildWIBWithAmountFn =
     act_bind (act_result (checkedToWalletId walletId)) (\<lambda>walletIdChecked.
     act_bind (wallets_findById E walletIdChecked) (\<lambda>wallet.
     act_bind (consumeLimiter E limit (wd_accountId wallet)) (\<lambda>_.
     act_bind (LndService E) (\<lambda>node.
     act_bind (\<lambda>v. (buildWIBWithAmountFn (clock E v) (builder_fns E node v) (WalletDescriptor.truncate wallet), v))
       (\<lambda>walletIBWithAmount.
     act_bind (register_with E node walletIBWithAmount) (\<lambda>(walletInvoice, lnInvoice).
     act_bind (invoices_persistNew E walletInvoice) (\<lambda>_. act_return lnInvoice)))))))"

definition addInvoiceForSelf :: "('w, 'v, 'x) ops_env_scheme \<Rightarrow> WalletId \<Rightarrow> jsnum \<Rightarrow> string \<Rightarrow> ('v, LnInvoice) act" where
  "addInvoiceForSelf E walletId amt memo =
     addInvoice E walletId invoiceCreate (\<lambda>now c w.
       withAmount now (wib_withRecipientWallet (generatedForSelf (withDescription c memo None)) w) amt)"

definition addInvoiceNoAmountForSelf :: "('w, 'v, 'x) ops_env_scheme \<Rightarrow> WalletId \<Rightarrow> string \<Rightarrow> ('v, LnInvoice) act" where
  "addInvoiceNoAmountForSelf E walletId memo =
     addInvoice E walletId invoiceCreate (\<lambda>now c w.
       Inr (withoutAmount now (wib_withRecipientWallet (generatedForSelf (withDescription c memo None)) w)))"

definition addInvoiceForRecipient ::
  "('w, 'v, 'x) ops_env_scheme \<Rightarrow> WalletId \<Rightarrow> jsnum \<Rightarrow> string \<Rightarrow> string option \<Rightarrow> ('v, LnInvoice) act" where
  "addInvoiceForRecipient E walletId amt memo descriptionHash =
     addInvoice E walletId invoiceCreateForRecipient (\<lambda>now c w.
       withAmount now (wib_withRecipientWallet (generatedForRecipient (withDescription c memo descriptionHash)) w) amt)"

definition addInvoiceNoAmountForRecipient :: "('w, 'v, 'x) ops_env_scheme \<Rightarrow> WalletId \<Rightarrow> string \<Rightarrow> ('v, LnInvoice) act" where
  "addInvoiceNoAmountForRecipient E walletId memo =
     addInvoice E walletId invoiceCreateForRecipient (\<lambda>now c w.
       Inr (withoutAmount now (wib_withRecipientWallet (generatedForRecipient (withDescription c memo None)) w)))"

definition createAddressForWallet :: "('w, 'v, 'x) ops_env_scheme \<Rightarrow> WalletId \<Rightarrow> ('v, OnChainAddress) act" where
  "createAddressForWallet E walletId =
     act_bind (wallets_findById E walletId) (\<lambda>wallet.
     act_bind (consumeLimiter E onChainAddressCreate (wd_accountId wallet)) (\<lambda>_.
     act_bind (OnChainService E) (\<lambda>node.
     act_bind (createOnChainAddress E node) (\<lambda>onChainAddress.
     act_bind (addresses_persistNew E walletId onChainAddress) (\<lambda>saved. act_return (oca_address saved))))))"

definition getLastOnChainAddress :: "('w, 'v, 'x) ops_env_scheme \<Rightarrow> WalletId \<Rightarrow> ('v, OnChainAddress) act" where
  "getLastOnChainAddress E walletId =
     act_bind (checked (findLastByWalletId E walletId)) (\<lambda>lastOnChainAddress.
       case lastOnChainAddress of
         Inl (RepositoryError (CouldNotFindError _)) \<Rightarrow> createAddressForWallet E walletId
       | Inl e \<Rightarrow> act_fail e
       | Inr x \<Rightarrow> act_return (oca_address x))"

section \<open>Accounts\<close>

definition usernameAvailable :: "('w, 'v, 'x) ops_env_scheme \<Rightarrow> Username \<Rightarrow> ('v, bool) act" where
  "usernameAvailable E username =
     act_bind (act_result (checkedToUsername username)) (\<lambda>checkedUsername.
     act_bind (checked (findByUsername E checkedUsername)) (\<lambda>account.
       case account of
         Inl (RepositoryError (CouldNotFindError _)) \<Rightarrow> act_return True
       | Inl e \<Rightarrow> act_fail e
       | Inr _ \<Rightarrow> act_return False))"

definition setUsername :: "('w, 'v, 'x) ops_env_scheme \<Rightarrow> AccountId \<Rightarrow> string \<Rightarrow> ('v, Account) act" where
  "setUsername E i username =
     act_bind (act_result (checkedToUsername username)) (\<lambda>checkedUsername.
     act_bind (accounts_findById E i) (\<lambda>account.
       if truthy_str (acc_username account) then act_fail (AccountError UsernameIsImmutableError)
       else
         act_bind (usernameAvailable E checkedUsername) (\<lambda>isAvailable.
           if \<not> isAvailable then act_fail (AccountError UsernameNotAvailableError)
           else accounts_update E (account\<lparr>acc_username := Some checkedUsername\<rparr>))))"

definition updateAccountStatus ::
  "('w, 'v, 'x) ops_env_scheme \<Rightarrow> AccountId \<Rightarrow> string \<Rightarrow> string \<Rightarrow> string option \<Rightarrow> ('v, Account) act" where
  "updateAccountStatus E i status userId comment =
     act_bind (accounts_findById E i) (\<lambda>account.
     act_bind (act_result (checkedAccountStatus status)) (\<lambda>statusChecked.
       accounts_update E (account\<lparr>acc_statusHistory := acc_statusHistory account @
         [\<lparr>change_status = statusChecked, updatedAt = None, updatedByUserId = Some userId, change_comment = comment\<rparr>]\<rparr>)))"

definition updateAccountLevel :: "('w, 'v, 'x) ops_env_scheme \<Rightarrow> AccountId \<Rightarrow> AccountLevel \<Rightarrow> ('v, Account) act" where
  "updateAccountLevel E i level =
     act_bind (accounts_findById E i) (\<lambda>account. accounts_update E (account\<lparr>acc_level := level\<rparr>))"

definition updateAccountWithdrawFee :: "('w, 'v, 'x) ops_env_scheme \<Rightarrow> AccountId \<Rightarrow> jsnum \<Rightarrow> ('v, Account) act" where
  "updateAccountWithdrawFee E i fee =
     act_bind (act_result (sanityCheckedDefaultAccountWithdrawFee fee)) (\<lambda>checkedFee.
     act_bind (accounts_findById E i) (\<lambda>account. accounts_update E (account\<lparr>acc_withdrawFee := checkedFee\<rparr>)))"

definition updateBusinessMapInfo ::
  "('w, 'v, 'x) ops_env_scheme \<Rightarrow> string \<Rightarrow> jsnum \<Rightarrow> jsnum \<Rightarrow> string \<Rightarrow> ('v, Account) act" where
  "updateBusinessMapInfo E username latitude longitude title =
     act_bind (act_result (checkedToUsername username)) (\<lambda>usernameChecked.
     act_bind (findByUsername E usernameChecked) (\<lambda>account.
     act_bind (act_result (checkedCoordinates latitude longitude)) (\<lambda>coordinates.
     act_bind (act_result (checkedMapTitle title)) (\<lambda>titleChecked.
       accounts_update E (account\<lparr>acc_coordinates := Some coordinates, acc_title := Some titleChecked\<rparr>)))))"

definition updateDefaultWalletId :: "('w, 'v, 'x) ops_env_scheme \<Rightarrow> AccountId \<Rightarrow> WalletId \<Rightarrow> ('v, Account) act" where
  "updateDefaultWalletId E accountId walletId =
     act_bind (accounts_findById E accountId) (\<lambda>account.
     act_bind (listByAccountId E (acc_id account)) (\<lambda>wallets.
       if \<not> list_ex (\<lambda>w. wd_id w = walletId) wallets then act_fail (input_err InvalidWalletId)
       else accounts_update E (account\<lparr>acc_defaultWalletId := Some walletId\<rparr>)))"

definition updateContactAlias ::
  "('w, 'v, 'x) ops_env_scheme \<Rightarrow> AccountId \<Rightarrow> Username \<Rightarrow> string \<Rightarrow> ('v, AccountContact) act" where
  "updateContactAlias E accountId username alias =
     act_bind (act_result (checkedToContactAlias alias)) (\<lambda>aliasChecked.
     act_bind (accounts_findById E accountId) (\<lambda>account.
       case find (\<lambda>contact. contact_username contact = username) (acc_contacts account) of
         None \<Rightarrow> act_fail ContactNotExistentError
       | Some contact \<Rightarrow>
           act_bind (accounts_update E (account\<lparr>acc_contacts :=
               update_first (\<lambda>c. contact_username c = username) (\<lambda>c. c\<lparr>contact_alias := aliasChecked\<rparr>) (acc_contacts account)\<rparr>))
             (\<lambda>_. act_return (contact\<lparr>contact_alias := aliasChecked\<rparr>))))"

definition getContactByUsername :: "Account \<Rightarrow> Username \<Rightarrow> AccountContact result" where
  "getContactByUsername account contactUsername =
     (case find (\<lambda>contact. toLowerCase (contact_username contact) = contactUsername) (acc_contacts account) of
        None \<Rightarrow> Inl (input_err NoContactForUsernameError)
      | Some contact \<Rightarrow> Inr contact)"

definition updateLanguage :: "('w, 'v, 'x) ops_env_scheme \<Rightarrow> string \<Rightarrow> string \<Rightarrow> ('v, User) act" where
  "updateLanguage E userId language =
     act_bind (act_result (checkedToLanguage language)) (\<lambda>checkedLanguage.
     act_bind (users_findById E userId) (\<lambda>user. users_update E (user\<lparr>user_language := Some checkedLanguage\<rparr>)))"

definition addWallet ::
  "('w, 'v, 'x) ops_env_scheme \<Rightarrow> AccountId \<Rightarrow> WalletType \<Rightarrow> WalletCurrency \<Rightarrow> ('v, Wallet) act" where
  "addWallet E accountId type c = wallets_persistNew E accountId type c"

definition addWalletIfNonexistent ::
  "('w, 'v, 'x) ops_env_scheme \<Rightarrow> AccountId \<Rightarrow> WalletType \<Rightarrow> WalletCurrency \<Rightarrow> ('v, Wallet) act" where
  "addWalletIfNonexistent E accountId type c =
     act_bind (listByAccountId E accountId) (\<lambda>wallets.
       case find (\<lambda>wallet. wd_currency wallet = c \<and> wallet_type wallet = type) wallets of
         Some wallet \<Rightarrow> act_return wallet
       | None \<Rightarrow> wallets_persistNew E accountId type c)"

text \<open>The wallets that were made, under their currency; a later one of the same currency replaces an earlier one.\<close>

fun new_wallets ::
  "('w, 'v, 'x) ops_env_scheme \<Rightarrow> AccountId \<Rightarrow> WalletCurrency list \<Rightarrow> (WalletCurrency \<rightharpoonup> Wallet)
    \<Rightarrow> ('v, WalletCurrency \<rightharpoonup> Wallet) act" where
  "new_wallets E accountId [] enabled = act_return enabled"
| "new_wallets E accountId (c # cs) enabled =
     act_bind (wallets_persistNew E accountId Checking c) (\<lambda>wallet. new_wallets E accountId cs (enabled(c \<mapsto> wallet)))"

definition initializeCreatedAccount ::
  "('w, 'v, 'x) ops_env_scheme \<Rightarrow> Account \<Rightarrow> string option \<Rightarrow> ('v, Account) act" where
  "initializeCreatedAccount E account phoneNumberValid =
     act_bind (new_wallets E (acc_id account) (conf_initialWallets E) Map.empty) (\<lambda>enabledWallets.
       let first = (case conf_initialWallets E of [] \<Rightarrow> None | c # _ \<Rightarrow> map_option wd_id (enabledWallets c));
           btc = map_option wd_id (enabledWallets Btc);
           defaultWalletId = (if truthy_str btc then btc else first);
           found = (case phoneNumberValid of None \<Rightarrow> None | Some p \<Rightarrow> map_of (conf_testAccounts E) p);
           role = (if truthy_str found then the found else ''user'')
       in if defaultWalletId = None then act_fail ConfigError
          else accounts_update E (account\<lparr>acc_defaultWalletId := defaultWalletId, acc_role := Some role,
                 acc_contactEnabled := (role = ''user'' \<or> role = ''editor'')\<rparr>))"

definition createAccountWithPhoneIdentifier ::
  "('w, 'v, 'x) ops_env_scheme \<Rightarrow> string \<Rightarrow> string option \<Rightarrow> PhoneMetadata option \<Rightarrow> ('v, Account) act" where
  "createAccountWithPhoneIdentifier E kratosUserId phone phoneMetadata =
     act_bind (if phoneMetadata = None \<and> truthy_str phone then act_attempt (act_call (tw_getCarrier E (the phone)))
               else act_return (Inl PlainError)) (\<lambda>carrierInfo.
     act_bind (accounts_persistNew E kratosUserId phone
         (case carrierInfo of Inl _ \<Rightarrow> phoneMetadata | Inr meta \<Rightarrow> Some meta)) (\<lambda>account.
       initializeCreatedAccount E account phone))"

definition createAccountForEmailIdentifier :: "('w, 'v, 'x) ops_env_scheme \<Rightarrow> string \<Rightarrow> ('v, Account) act" where
  "createAccountForEmailIdentifier E kratosUserId =
     act_bind (accounts_persistNew E kratosUserId None None) (\<lambda>account. initializeCreatedAccount E account None)"

text \<open>An error of the validators is wrapped; \<open>hash\<close> is the random hash of the payment between the wallets.\<close>

definition addEarn ::
  "('e, 'w, 'x) query_env_scheme \<Rightarrow> ('w, 'v, 'y) ops_env_scheme \<Rightarrow> IntraLedgerHash \<Rightarrow> string \<Rightarrow> AccountId
    \<Rightarrow> (('w, 'v) app_state, string \<times> jsnum) act" where
  "addEarn L E hash quizQuestionId accountId =
     (case map_of (conf_onboardingEarn E) quizQuestionId of
        None \<Rightarrow> act_fail (input_err InvalidQuizQuestionIdError)
      | Some amt \<Rightarrow>
          if \<not> js_truthy amt then act_fail (input_err InvalidQuizQuestionIdError)
          else
            act_bind (in_ledger getFunderWalletId) (\<lambda>funderWalletId.
            act_bind (in_world (wallets_findById E funderWalletId)) (\<lambda>funderWallet.
            act_bind (in_world (accounts_findById E (wd_accountId funderWallet))) (\<lambda>funderAccount.
            act_bind (in_world (accounts_findById E accountId)) (\<lambda>recipientAccount.
            act_bind (in_world (users_findById E (acc_ownerId recipientAccount))) (\<lambda>user.
              if is_error (phone_validateForReward (fst (conf_rewardPhones E)) (snd (conf_rewardPhones E)) (user_phoneMetadata user))
              then act_fail (input_err InvalidPhoneMetadataForRewardError)
              else
                act_bind (in_world (users_ips_findById E (acc_ownerId recipientAccount))) (\<lambda>(_, lastIPs).
                  if is_error (ip_validateForReward (conf_rewardIps E) (if lastIPs = [] then None else Some (last lastIPs)))
                  then act_fail (input_err InvalidIPMetadataForRewardError)
                  else
                    act_bind (in_world (listByAccountId E accountId)) (\<lambda>recipientWallets.
                      case find (\<lambda>wallet. wd_currency wallet = Btc) recipientWallets of
                        None \<Rightarrow> act_fail (input_err NoBtcWalletExistsForAccountError)
                      | Some recipientBtcWallet \<Rightarrow>
                          act_bind (in_world (rewards_add E accountId quizQuestionId)) (\<lambda>_.
                          act_bind (intraledgerPaymentSendWalletId L E hash (wd_id recipientBtcWallet) funderAccount amt
                              (Some quizQuestionId) funderWalletId) (\<lambda>_.
                            act_return (quizQuestionId, amt)))))))))))"

section \<open>Records of lightning payments\<close>

text \<open>
  The lists of settled and failed payments come in pages. A page is asked for with the cursor of the one before, \<open>None\<close> at the
  start; it brings the cursor of the next one, \<open>None\<close> when it is the last.
\<close>

type_synonym 'v ListLnPayments = "string option \<Rightarrow> Pubkey \<Rightarrow> ('v, LnPaymentLookup list \<times> string option) act"

fun update_page ::
  "('v, 'x) store_env_scheme \<Rightarrow> LnPaymentType list \<Rightarrow> PaymentHash list \<Rightarrow> LnPaymentLookup list \<Rightarrow> ('v, PaymentHash list) act" where
  "update_page E incompleteLnPayments processed [] = act_return processed"
| "update_page E incompleteLnPayments processed (payment # payments) =
     (case find (\<lambda>elem. lp_paymentHash elem = pl_paymentHash payment) incompleteLnPayments of
        None \<Rightarrow> act_return processed
      | Some persisted \<Rightarrow>
          act_bind (checked (payments_update E (persisted\<lparr>
              lp_createdAt := pl_createdAt payment, lp_status := pl_status payment,
              lp_milliSatsAmount := pl_milliSatsAmount payment, lp_roundedUpAmount := pl_roundedUpAmount payment,
              lp_confirmedDetails := pl_confirmedDetails payment, lp_attempts := pl_attempts payment,
              lp_isCompleteRecord := True\<rparr>))) (\<lambda>updated.
            case updated of
              Inl _ \<Rightarrow> act_return processed
            | Inr _ \<Rightarrow> update_page E incompleteLnPayments (processed @ [pl_paymentHash payment]) payments))"

definition updateLnPaymentsPaginated ::
  "('v, 'x) store_env_scheme \<Rightarrow> 'v ListLnPayments \<Rightarrow> LnPaymentType list \<Rightarrow> Pubkey \<Rightarrow> PaymentHash list \<Rightarrow> string option
    \<Rightarrow> ('v, string option \<times> PaymentHash list) act" where
  "updateLnPaymentsPaginated E listFn incompleteLnPayments pubkey processed after =
     act_bind (listFn after pubkey) (\<lambda>(lnPayments, endCursor).
       if after \<noteq> None \<and> after = endCursor then act_fail (LightningError UnknownLightningServiceError)
       else act_bind (update_page E incompleteLnPayments processed lnPayments) (\<lambda>processed'.
              act_return (endCursor, processed')))"

text \<open>The loop over the pages need not end when the node has always another one, so that the result is optional.\<close>

partial_function (option) updateLnPaymentsByFunction ::
  "(PaymentHash list \<Rightarrow> string option \<Rightarrow> ('v, string option \<times> PaymentHash list) act) \<Rightarrow> nat \<Rightarrow> PaymentHash list \<Rightarrow> string option \<Rightarrow> 'v
    \<Rightarrow> (PaymentHash list result \<times> 'v) option" where
  "updateLnPaymentsByFunction page n processed after v =
     (if n \<le> length processed then Some (Inr processed, v)
      else case page processed after v of
        (Inl e, v') \<Rightarrow> Some (case e of Thrown m \<Rightarrow> Inl e | _ \<Rightarrow> Inr processed, v')
      | (Inr (endCursor, processed'), v') \<Rightarrow>
          if endCursor = None then Some (Inr processed', v')
          else updateLnPaymentsByFunction page n processed' endCursor v')"

fun update_listings ::
  "('v, 'x) store_env_scheme \<Rightarrow> LnPaymentType list \<Rightarrow> ('v ListLnPayments \<times> Pubkey) list \<Rightarrow> PaymentHash list \<Rightarrow> 'v
    \<Rightarrow> (unit result \<times> 'v) option" where
  "update_listings E incompleteLnPayments [] processed v = Some (Inr (), v)"
| "update_listings E incompleteLnPayments ((listFn, pubkey) # listings) processed v =
     (case updateLnPaymentsByFunction (updateLnPaymentsPaginated E listFn incompleteLnPayments pubkey)
         (length incompleteLnPayments) processed None v of
        None \<Rightarrow> None
      | Some (Inl e, v') \<Rightarrow> Some (Inl e, v')
      | Some (Inr processed', v') \<Rightarrow> update_listings E incompleteLnPayments listings processed' v')"

definition updateLnPayments :: "('w, 'v, 'x) ops_env_scheme \<Rightarrow> 'v \<Rightarrow> (unit result \<times> 'v) option" where
  "updateLnPayments E v =
     (case listIncomplete E v of
        (Inl e, v1) \<Rightarrow> Some (Inl e, v1)
      | (Inr incompleteLnPayments, v1) \<Rightarrow>
          (case LndService E v1 of
             (Inl e, v2) \<Rightarrow> Some (Inl e, v2)
           | (Inr _, v2) \<Rightarrow>
               let pubkeys = filter (\<lambda>pubkey. pubkey \<in> set (map lp_sentFromPubkey incompleteLnPayments)) (listActivePubkeys E v2)
               in update_listings E incompleteLnPayments
                    (map (Pair (listSettledPayments E)) pubkeys @ map (Pair (listFailedPayments E)) pubkeys) [] v2))"

text \<open>The promise of the deletion is not awaited: its error is never seen.\<close>

definition checkAndDeletePaymentForHash :: "('w, 'v, 'x) ops_env_scheme \<Rightarrow> PaymentHash \<Rightarrow> Pubkey \<Rightarrow> ('v, bool) act" where
  "checkAndDeletePaymentForHash E hash pubkey =
     act_bind (checked (payments_findByPaymentHash E hash)) (\<lambda>lnPayment.
       case lnPayment of
         Inl e \<Rightarrow>
           if e = not_found_err CouldNotFindLnPaymentFromHashError
           then
             act_bind (LndService E) (\<lambda>_.
             act_bind (lookupPayment E (Some pubkey) hash) (\<lambda>lnPaymentLookup.
             act_bind (checked (payments_persistNew E (Inl \<lparr>lpp_paymentHash = hash,
                 lpp_paymentRequest = (case lnPaymentLookup of Payment_lookup p \<Rightarrow> pl_paymentRequest p | FailedPartial \<Rightarrow> None),
                 lpp_sentFromPubkey = pubkey\<rparr>))) (\<lambda>_. act_return False)))
           else act_fail e
       | Inr payment \<Rightarrow>
           if \<not> lp_isCompleteRecord payment then act_return False
           else
             act_bind (LndService E) (\<lambda>_.
             act_bind (act_attempt (deletePaymentByHash E hash (Some pubkey))) (\<lambda>_. act_return True)))"

fun delete_page :: "('w, 'v, 'x) ops_env_scheme \<Rightarrow> date \<Rightarrow> Pubkey \<Rightarrow> LnPaymentLookup list \<Rightarrow> ('v, unit) act" where
  "delete_page E timestamp pubkey [] = act_return ()"
| "delete_page E timestamp pubkey (payment # payments) =
     act_bind (if pl_createdAt payment < timestamp
               then act_bind (checked (checkAndDeletePaymentForHash E (pl_paymentHash payment) pubkey)) (\<lambda>_. act_return ())
               else act_return ()) (\<lambda>_. delete_page E timestamp pubkey payments)"

definition delete_next ::
  "('w, 'v, 'x) ops_env_scheme \<Rightarrow> 'v ListLnPayments \<Rightarrow> date \<Rightarrow> Pubkey \<Rightarrow> string option \<Rightarrow> ('v, string option) act" where
  "delete_next E listFn timestamp pubkey after =
     act_bind (listFn after pubkey) (\<lambda>(lnPayments, endCursor).
       if after \<noteq> None \<and> after = endCursor then act_fail (LightningError UnknownLightningServiceError)
       else act_bind (delete_page E timestamp pubkey lnPayments) (\<lambda>_. act_return endCursor))"

partial_function (option) delete_pages ::
  "(string option \<Rightarrow> ('v, string option) act) \<Rightarrow> string option \<Rightarrow> 'v \<Rightarrow> (unit result \<times> 'v) option" where
  "delete_pages page after v =
     (case page after v of
        (Inl e, v') \<Rightarrow> Some (Inl e, v')
      | (Inr endCursor, v') \<Rightarrow> if endCursor = None then Some (Inr (), v') else delete_pages page endCursor v')"

fun delete_listings ::
  "('w, 'v, 'x) ops_env_scheme \<Rightarrow> date \<Rightarrow> ('v ListLnPayments \<times> Pubkey) list \<Rightarrow> 'v \<Rightarrow> (unit result \<times> 'v) option" where
  "delete_listings E timestamp [] v = Some (Inr (), v)"
| "delete_listings E timestamp ((listFn, pubkey) # listings) v =
     (case delete_pages (delete_next E listFn timestamp pubkey) None v of
        None \<Rightarrow> None
      | Some (Inl e, v') \<Rightarrow> Some (Inl e, v')
      | Some (Inr _, v') \<Rightarrow> delete_listings E timestamp listings v')"

definition deleteLnPaymentsBefore :: "('w, 'v, 'x) ops_env_scheme \<Rightarrow> date \<Rightarrow> 'v \<Rightarrow> (unit result \<times> 'v) option" where
  "deleteLnPaymentsBefore E timestamp v =
     (case LndService E v of
        (Inl e, v') \<Rightarrow> Some (Inl e, v')
      | (Inr _, v') \<Rightarrow>
          delete_listings E timestamp
            (concat (map (\<lambda>pubkey. [(listSettledPayments E, pubkey), (listFailedPayments E, pubkey)]) (listActivePubkeys E v'))) v')"

section \<open>The loops end\<close>

text \<open>
  A listing has an end: the distance to the last page gets smaller with every cursor.
\<close>

definition ending_list :: "'v ListLnPayments \<Rightarrow> (string option \<Rightarrow> nat) \<Rightarrow> bool" where
  "ending_list listFn left =
     (\<forall>after pubkey v lnPayments c v'. listFn after pubkey v = (Inr (lnPayments, Some c), v') \<longrightarrow> left (Some c) < left after)"

lemma updateLnPaymentsPaginated_nearer:
  assumes "ending_list listFn left"
    and "updateLnPaymentsPaginated E listFn inc pubkey processed after v = (Inr (Some c, processed'), v')"
  shows "left (Some c) < left after"
proof -
  obtain lnPayments v1 where "listFn after pubkey v = (Inr (lnPayments, Some c), v1)"
    using assms(2) by (auto simp: updateLnPaymentsPaginated_def act_bind_eq_Inr act_return_def act_fail_def split: if_splits)
  then show ?thesis using assms(1) unfolding ending_list_def by blast
qed

lemma updateLnPaymentsByFunction_returns:
  fixes left :: "string option \<Rightarrow> nat"
  assumes "\<And>after processed v c processed' v'. page processed after v = (Inr (Some c, processed'), v') \<Longrightarrow> left (Some c) < left after"
  shows "\<exists>r v'. updateLnPaymentsByFunction page n processed after v = Some (r, v')"
proof (induction "left after" arbitrary: after processed v rule: less_induct)
  case less
  obtain r v1 where r: "page processed after v = (r, v1)" by fastforce
  show ?case
  proof (cases "\<exists>c processed'. r = Inr (Some c, processed')")
    case True
    then obtain c processed' where c: "r = Inr (Some c, processed')" by blast
    then have "\<exists>r v'. updateLnPaymentsByFunction page n processed' (Some c) v1 = Some (r, v')"
      using less assms r by blast
    then show ?thesis using r c by (subst updateLnPaymentsByFunction.simps) simp
  next
    case False
    then show ?thesis using r by (subst updateLnPaymentsByFunction.simps) (auto split: sum.splits prod.splits)
  qed
qed

lemma update_listings_returns:
  assumes "\<And>listFn pubkey. (listFn, pubkey) \<in> set listings \<Longrightarrow> \<exists>left. ending_list listFn left"
  shows "\<exists>r v'. update_listings E inc listings processed v = Some (r, v')"
  using assms
proof (induction listings arbitrary: processed v)
  case (Cons x listings)
  obtain listFn pubkey where x: "x = (listFn, pubkey)" by fastforce
  obtain left where "ending_list listFn left" using Cons.prems x by auto
  then have "\<exists>r v'. updateLnPaymentsByFunction (updateLnPaymentsPaginated E listFn inc pubkey) (length inc) processed None v = Some (r, v')"
    by (intro updateLnPaymentsByFunction_returns [where left = left]) (rule updateLnPaymentsPaginated_nearer)
  then obtain r v' where r: "updateLnPaymentsByFunction (updateLnPaymentsPaginated E listFn inc pubkey) (length inc) processed None v
      = Some (r, v')" by blast
  have "\<exists>r v'. update_listings E inc listings processed' u = Some (r, v')" for processed' u
  proof (rule Cons.IH)
    show "\<exists>left. ending_list f left" if "(f, q) \<in> set listings" for f q using Cons.prems [of f q] that by simp
  qed
  then show ?case using x r by (auto split: sum.splits)
qed simp

lemma delete_pages_returns:
  fixes left :: "string option \<Rightarrow> nat"
  assumes "\<And>after v c v'. page after v = (Inr (Some c), v') \<Longrightarrow> left (Some c) < left after"
  shows "\<exists>r v'. delete_pages page after v = Some (r, v')"
proof (induction "left after" arbitrary: after v rule: less_induct)
  case less
  obtain r v1 where r: "page after v = (r, v1)" by fastforce
  show ?case
  proof (cases "\<exists>c. r = Inr (Some c)")
    case True
    then obtain c where c: "r = Inr (Some c)" by blast
    then have "\<exists>r v'. delete_pages page (Some c) v1 = Some (r, v')" using less assms r by blast
    then show ?thesis using r c by (subst delete_pages.simps) simp
  next
    case False
    then show ?thesis using r by (subst delete_pages.simps) (auto split: sum.splits)
  qed
qed

lemma delete_next_nearer:
  assumes "ending_list listFn left" and "delete_next E listFn timestamp pubkey after v = (Inr (Some c), v')"
  shows "left (Some c) < left after"
proof -
  obtain lnPayments v1 where "listFn after pubkey v = (Inr (lnPayments, Some c), v1)"
    using assms(2) by (auto simp: delete_next_def act_bind_eq_Inr act_return_def act_fail_def split: if_splits)
  then show ?thesis using assms(1) unfolding ending_list_def by blast
qed

lemma delete_listings_returns:
  assumes "\<And>listFn pubkey. (listFn, pubkey) \<in> set listings \<Longrightarrow> \<exists>left. ending_list listFn left"
  shows "\<exists>r v'. delete_listings E timestamp listings v = Some (r, v')"
  using assms
proof (induction listings arbitrary: v)
  case (Cons x listings)
  obtain listFn pubkey where x: "x = (listFn, pubkey)" by fastforce
  obtain left where "ending_list listFn left" using Cons.prems x by auto
  then have "\<exists>r v'. delete_pages (delete_next E listFn timestamp pubkey) None v = Some (r, v')"
    by (intro delete_pages_returns [where left = left]) (rule delete_next_nearer)
  then obtain r v' where r: "delete_pages (delete_next E listFn timestamp pubkey) None v = Some (r, v')" by blast
  have "\<exists>r v'. delete_listings E timestamp listings u = Some (r, v')" for u
  proof (rule Cons.IH)
    show "\<exists>left. ending_list f left" if "(f, q) \<in> set listings" for f q using Cons.prems [of f q] that by simp
  qed
  then show ?case using x r by (auto split: sum.splits)
qed simp

text \<open>What a page changes: the payments up to the first that is not among the incomplete ones, or whose update failed.\<close>

lemma update_page_prefix:
  assumes "update_page E inc processed payments v = (Inr processed', v')"
  shows "\<exists>k. processed' = processed @ map pl_paymentHash (take k payments)
    \<and> k \<le> length (takeWhile (\<lambda>p. pl_paymentHash p \<in> lp_paymentHash ` set inc) payments)"
  using assms
proof (induction payments arbitrary: processed v)
  case (Cons p ps)
  show ?case
  proof (cases "find (\<lambda>elem. lp_paymentHash elem = pl_paymentHash p) inc")
    case None
    then show ?thesis using Cons.prems by (intro exI [of _ 0]) (simp add: act_return_def)
  next
    case (Some q)
    then have known: "pl_paymentHash p \<in> lp_paymentHash ` set inc"
      by (auto simp: find_Some_iff in_set_conv_nth intro!: rev_image_eqI)
    obtain r :: "LnPaymentType result" and v1 where r: "(case r of Inl _ \<Rightarrow> act_return processed
        | Inr _ \<Rightarrow> update_page E inc (processed @ [pl_paymentHash p]) ps) v1 = (Inr processed', v')"
      using Cons.prems Some by (auto simp: act_bind_eq_Inr)
    show ?thesis
    proof (cases r)
      case (Inl e)
      then show ?thesis using r by (intro exI [of _ 0]) (simp add: act_return_def)
    next
      case (Inr _)
      then obtain k where "processed' = (processed @ [pl_paymentHash p]) @ map pl_paymentHash (take k ps)"
        "k \<le> length (takeWhile (\<lambda>p. pl_paymentHash p \<in> lp_paymentHash ` set inc) ps)"
        using Cons.IH r by fastforce
      then show ?thesis using known by (intro exI [of _ "Suc k"]) simp
    qed
  qed
qed (simp add: act_return_def)

section \<open>Properties\<close>


lemma register_with_Inr:
  assumes "register_with E node state v = (Inr (w, lnInvoice), v')"
  obtains secret hash where "registerInvoice secret hash state = Inr (w, lnInvoice)"
    "v' = snd (lnd_registerInvoice E node (hodl_args \<lparr>ria_paymentHash = hash, ria_description = wib_description state,
       ria_descriptionHash = wib_descriptionHash state, ria_btcPaymentAmount = btcAmount state,
       ria_expiresAt = invoiceExpiration state\<rparr>) v)"
  using assms by (auto simp: register_with_def Let_def split: prod.splits)

lemma addInvoice_Inr:
  assumes "addInvoice E walletId limit build v = (Inr lnInvoice, v')"
  obtains wallet v1 v2 node v3 state w v4 saved where
    "wallets_findById E walletId v = (Inr wallet, v1)" "consumeLimiter E limit (wd_accountId wallet) v1 = (Inr (), v2)"
    "LndService E v2 = (Inr node, v3)"
    "build (clock E v3) (builder_fns E node v3) (WalletDescriptor.truncate wallet) = Inr state"
    "register_with E node state v3 = (Inr (w, lnInvoice), v4)" "invoices_persistNew E w v4 = (Inr saved, v')"
  using assms by (auto simp: addInvoice_def act_bind_eq_Inr checkedToWalletId_def act_result_apply act_return_def split: if_splits)

lemma withAmount_same:
  "withAmount now s x = Inr s' \<Longrightarrow> wib_description s' = wib_description s \<and> wib_descriptionHash s' = wib_descriptionHash s"
  by (auto simp: withAmount_def result_bind_eq_Inr WIBWithRecipientState.defs split: if_splits)

lemma builder_sel:
  "lnRegisterInvoice (wib_withRecipientWallet (generatedForSelf (withDescription c memo h)) d) = lnRegisterInvoice c"
  "dealerBtcFromUsd (wib_withRecipientWallet (generatedForSelf (withDescription c memo h)) d) = dealerBtcFromUsd c"
  "wib_recipientWalletDescriptor (wib_withRecipientWallet (generatedForSelf (withDescription c memo h)) d) = d"
  by (simp_all add: wib_withRecipientWallet_def generatedForSelf_def withDescription_def WIBWithOriginState.defs
      WIBWithDescriptionState.defs WIBWithRecipientState.defs WalletInvoiceBuilderConfig.defs)

text \<open>
  (C24) An invoice that is created for oneself is stored as it was registered: the account is within its limit, the node has
  registered the returned invoice, and the repository holds it unpaid, with its hash, the wallet and the node. A dollar wallet
  keeps the requested cents and the node is asked for the dealer's price of them; a bitcoin wallet keeps no dollars and the node
  is asked for the requested satoshis.
\<close>

theorem invoice_stored_as_registered:
  assumes "addInvoiceForSelf E walletId amt memo v = (Inr lnInvoice, v')"
  shows "\<exists>wallet v1 v2 node v3 args reg v4 w saved.
    wallets_findById E walletId v = (Inr wallet, v1)
    \<and> consumeLimiter E invoiceCreate (wd_accountId wallet) v1 = (Inr (), v2) \<and> LndService E v2 = (Inr node, v3)
    \<and> lnd_registerInvoice E node args v3 = (Inr reg, v4) \<and> reg_invoice reg = lnInvoice
    \<and> invoices_persistNew E w v4 = (Inr saved, v')
    \<and> wi_paymentHash w = inv_paymentHash lnInvoice \<and> wi_pubkey w = reg_pubkey reg \<and> \<not> wi_paid w
    \<and> wi_recipientWalletDescriptor w = WalletDescriptor.truncate wallet
    \<and> (case wd_currency wallet of
         Btc \<Rightarrow> wi_usdAmount w = None
           \<and> (\<exists>btc. checkedToBtcPaymentAmount (Some amt) = Inr btc \<and> ch_tokens args = Number_of (amount btc))
       | Usd \<Rightarrow> \<exists>usd btc. checkedToUsdPaymentAmount (Some amt) = Inr usd \<and> wi_usdAmount w = Some usd
           \<and> new_getSatsFromCents E FutureBuy v3 usd = Inr btc \<and> ch_tokens args = Number_of (amount btc))"
proof -
  obtain wallet v1 v2 node v3 state w v4 saved where
    steps: "wallets_findById E walletId v = (Inr wallet, v1)" "consumeLimiter E invoiceCreate (wd_accountId wallet) v1 = (Inr (), v2)"
      "LndService E v2 = (Inr node, v3)"
    and state: "withAmount (clock E v3) (wib_withRecipientWallet (generatedForSelf (withDescription (builder_fns E node v3) memo None))
        (WalletDescriptor.truncate wallet)) amt = Inr state"
    and reg: "register_with E node state v3 = (Inr (w, lnInvoice), v4)" and saved: "invoices_persistNew E w v4 = (Inr saved, v')"
    using assms unfolding addInvoiceForSelf_def by (rule addInvoice_Inr)
  obtain secret hash where registered: "registerInvoice secret hash state = Inr (w, lnInvoice)"
    and v4: "v4 = snd (lnd_registerInvoice E node (hodl_args \<lparr>ria_paymentHash = hash, ria_description = wib_description state,
       ria_descriptionHash = wib_descriptionHash state, ria_btcPaymentAmount = btcAmount state,
       ria_expiresAt = invoiceExpiration state\<rparr>) v3)"
    using reg by (rule register_with_Inr)
  let ?args = "hodl_args \<lparr>ria_paymentHash = hash, ria_description = wib_description state,
       ria_descriptionHash = wib_descriptionHash state, ria_btcPaymentAmount = btcAmount state,
       ria_expiresAt = invoiceExpiration state\<rparr>"
  have tokens: "ch_tokens ?args = Number_of (amount (btcAmount state))" by (simp add: hodl_args_def)
  have fns: "lnRegisterInvoice (builder_fns E node v3) = (\<lambda>args. fst (lnd_registerInvoice E node (hodl_args args) v3))"
    "dealerBtcFromUsd (builder_fns E node v3) = new_getSatsFromCents E FutureBuy v3" by (simp_all add: builder_fns_def)
  have currency: "wd_currency (WalletDescriptor.truncate wallet) = wd_currency wallet" by (simp add: WalletDescriptor.defs)
  note facts = registered_for_amount [OF state registered, unfolded builder_sel fns currency]
  then obtain reg where "fst (lnd_registerInvoice E node ?args v3) = Inr reg" and invoice: "reg_invoice reg = lnInvoice" "reg_pubkey reg = wi_pubkey w"
    using withAmount_same [OF state] by auto
  then have node: "lnd_registerInvoice E node ?args v3 = (Inr reg, v4)" using v4 by (simp add: prod_eq_iff)
  have amounts: "case wd_currency wallet of
         Btc \<Rightarrow> wi_usdAmount w = None
           \<and> (\<exists>btc. checkedToBtcPaymentAmount (Some amt) = Inr btc \<and> ch_tokens ?args = Number_of (amount btc))
       | Usd \<Rightarrow> \<exists>usd btc. checkedToUsdPaymentAmount (Some amt) = Inr usd \<and> wi_usdAmount w = Some usd
           \<and> new_getSatsFromCents E FutureBuy v3 usd = Inr btc \<and> ch_tokens ?args = Number_of (amount btc)"
    using facts tokens by (cases "wd_currency wallet") auto
  show ?thesis
    using steps node saved invoice amounts facts
    by (intro exI [of _ wallet] exI [of _ v1] exI [of _ v2] exI [of _ node] exI [of _ v3] exI [of _ ?args] exI [of _ reg]
        exI [of _ v4] exI [of _ w] exI [of _ saved] conjI) simp_all
qed

lemma yields_bind: "(\<And>x. yields (f x) Q) \<Longrightarrow> yields (act_bind m f) Q"
  unfolding yields_def act_bind_eq_Inr by blast

lemma yields_bind_never: "yields m (\<lambda>_. False) \<Longrightarrow> yields (act_bind m f) Q"
  unfolding yields_def act_bind_eq_Inr by blast

lemma yields_if: "yields m Q \<Longrightarrow> yields m' Q \<Longrightarrow> yields (if b then m else m') Q"
  by simp

lemma yields_case_option: "yields m Q \<Longrightarrow> (\<And>x. yields (f x) Q) \<Longrightarrow> yields (case r of None \<Rightarrow> m | Some x \<Rightarrow> f x) Q"
  by (cases r) simp_all

lemma keeps_bind_never: "keeps P m \<Longrightarrow> yields m (\<lambda>_. False) \<Longrightarrow> keeps P (act_bind m f)"
  by (rule keeps_bind_yields [where Q = "\<lambda>_. False"]) simp_all

lemma keeps_case_prod: "(\<And>x y. keeps P (f x y)) \<Longrightarrow> keeps P (case p of (x, y) \<Rightarrow> f x y)"
  by (cases p) simp

lemma yields_case_prod: "(\<And>x y. yields (f x y) Q) \<Longrightarrow> yields (case p of (x, y) \<Rightarrow> f x y) Q"
  by (cases p) simp

text \<open>
  (C26) A reward is paid only when the repository grants it: as long as the repository refuses the question for the account, as
  it does when the question was answered before, a request fails and the ledger stays as it is.
\<close>

theorem refused_reward_not_paid:
  assumes "\<And>v. \<exists>e v'. rewards_add E accountId q v = (Inl e, v')" and "addEarn L E hash q accountId s = (r, s')"
  shows "is_error r \<and> db (app_ledger s') = db (app_ledger s)"
proof
  let ?same = "\<lambda>s'. db (app_ledger s') = db (app_ledger s)"
  have refused: "yields (in_world (rewards_add E accountId q)) (\<lambda>_. False)"
    unfolding yields_def in_world_eq_Inr by (metis assms(1) Inl_Inr_False prod.inject)
  note world = keeps_in_world [where P = "\<lambda>l. db l = db (app_ledger s)"]
  have funder: "keeps ?same (in_ledger getFunderWalletId)"
    by (rule keeps_in_ledger [where P = "\<lambda>l. db l = db (app_ledger s)"], rule keeps_special_wallets(4))
  have "keeps ?same (addEarn L E hash q accountId)"
    unfolding addEarn_def
    by (intro keeps_case_option keeps_if keeps_fail keeps_bind_never [OF world refused] keeps_bind [OF funder]
        keeps_bind [OF world] keeps_case_prod)
  then show "db (app_ledger s') = db (app_ledger s)" using assms(2) by (auto dest: keepsD)
  have "yields (addEarn L E hash q accountId) (\<lambda>_. False)"
    unfolding addEarn_def
    by (intro yields_case_option yields_if yields_fail yields_bind_never [OF refused] yields_bind yields_case_prod)
  then show "is_error r" using assms(2) by (cases r) (auto simp: yields_def)
qed

section \<open>Scenario\<close>

text \<open>A bitcoin wallet that always is found, a limiter that never refuses and a question that was answered before.\<close>

definition own_wallet :: WalletRecord where
  "own_wallet = \<lparr>wr_id = ''00000000-0000-4000-8000-000000000000'', wr_accountId = ''u'', wr_type = Checking, wr_currency = Btc,
     wr_onchain = None\<rparr>"

definition ops_app :: "(journals, mem_world) ops_env" where
  "ops_app = wallet_env.extend
     (wallet_app\<lparr>wc_findOne := \<lambda>_ v. (Inr (Some own_wallet), v),
        uc_push_earn := \<lambda>_ _ v. (Inr (Some (new_user 1 0 ''kratos'' None None\<lparr>ur_earn := Some [''whereBitcoinExist'']\<rparr>)), v)\<rparr>)
     (ops_env.fields (\<lambda>_ _ v. (Inr (), v)) (\<lambda>_ _ v. (Inr (), v)) (\<lambda>_. (''secret'', ''aa'')) (\<lambda>_ v. (Inl ''unknown number'', v))
        ([], []) \<lparr>denyIPCountries = [], allowIPCountries = [], denyASNs = [], allowASNs = []\<rparr> [Btc] [])"

definition paid_record :: "PaymentHash \<Rightarrow> LnPaymentLookup" where
  "paid_record h = \<lparr>pl_createdAt = 0, pl_status = PS_Settled, pl_paymentHash = h, pl_paymentRequest = None, pl_milliSatsAmount = Num 1000,
     pl_roundedUpAmount = Num 1, pl_confirmedDetails = None, pl_attempts = None\<rparr>"

definition incomplete_record :: "PaymentHash \<Rightarrow> LnPaymentType" where
  "incomplete_record h = partial_payment 0 \<lparr>lpp_paymentHash = h, lpp_paymentRequest = None, lpp_sentFromPubkey = ''02''\<rparr>"

lemmas ops_simps = ops_app_def ops_env.defs wallet_simps

lemma ops_app_lists: "ending_list (listSettledPayments ops_app) (\<lambda>_. 0)" "ending_list (listFailedPayments ops_app) (\<lambda>_. 0)"
  by (auto simp: ending_list_def listSettledPayments_def listFailedPayments_def listPaymentsFactory_def act_bind_eq_Inr
      lnd_catch_eq_Inr act_return_def ops_simps)


theorem refused_reward_not_paid_witness:
  "\<exists>r s'. addEarn list_query_env ops_app ''hash'' ''whereBitcoinExist'' ''u'' \<lparr>app_ledger = sample_ledger\<lparr>db := deposited\<rparr>, app_world = empty_world\<rparr>
       = (r, s') \<and> is_error r \<and> db (app_ledger s') = deposited"
proof -
  let ?s = "\<lparr>app_ledger = sample_ledger\<lparr>db := deposited\<rparr>, app_world = empty_world\<rparr>"
  obtain r s' where run: "addEarn list_query_env ops_app ''hash'' ''whereBitcoinExist'' ''u'' ?s = (r, s')" by fastforce
  have "\<exists>e v'. rewards_add ops_app ''u'' ''whereBitcoinExist'' v = (Inl e, v')" for v
    by (simp add: rewards_add_def toObjectId_def act_simps act_result_def ops_simps mem_env_def)
  then show ?thesis using refused_reward_not_paid [OF _ run] run by auto
qed

lemma ops_app_invoice:
  "\<exists>lnInvoice v. addInvoiceForSelf ops_app ''00000000-0000-4000-8000-000000000000'' (Num 2500) ''tea'' empty_world = (Inr lnInvoice, v)"
proof -
  let ?id = "''00000000-0000-4000-8000-000000000000''"
  have i: "checkedToWalletId ?id = Inr ?id" by code_simp
  have wallet: "wallets_findById ops_app ?id v = (Inr (resultToWallet own_wallet), v)" for v
    by (simp add: wallets_findById_def repository_def act_simps act_result_def ops_simps found_or_def)
  have limit: "consumeLimiter ops_app invoiceCreate k v = (Inr (), v)" for k v
    by (simp add: consumeLimiter_def act_simps ops_simps)
  have node: "LndService ops_app v = (Inr test_node, v)" for v
    by (simp add: LndService_def getActiveLnd_def ops_simps getLnds_def test_node_def act_simps)
  have "\<exists>reg. \<forall>v. lnd_registerInvoice ops_app test_node args v = (Inr reg, v) \<and> inv_paymentHash (reg_invoice reg) = ''aa''" for args
    using paymentAmountFromNumber_int [of 2500 Btc]
    by (simp add: lnd_registerInvoice_def lnd_catch_def act_simps ops_simps decodeInvoice_def safeDecode_def sample_request_def
        truthy_num_def Let_def)
  then obtain reg where reg: "\<And>args v. lnd_registerInvoice ops_app test_node args v = (Inr (reg args), v)"
    "\<And>args. inv_paymentHash (reg_invoice (reg args)) = ''aa''" by metis
  have amt: "checkedToBtcPaymentAmount (Some (Num 2500)) = Inr (BtcPaymentAmount 2500)"
    using checked_amount_int(1) [of 2500] by simp
  have save: "\<exists>x v'. invoices_persistNew ops_app w v = (Inr x, v')" if "wi_usdAmount w = None" for w v
    using that by (simp add: invoices_persistNew_def repository_def act_simps act_result_def ops_simps mem_env_def
        walletInvoiceFromRaw_def Let_def)
  have truncated: "wd_currency (WalletDescriptor.truncate (resultToWallet own_wallet)) = Btc"
    by (simp add: WalletDescriptor.defs resultToWallet_def own_wallet_def)
  define base where "base v = wib_withRecipientWallet (generatedForSelf (withDescription (builder_fns ops_app test_node v) ''tea'' None))
      (WalletDescriptor.truncate (resultToWallet own_wallet))" for v
  define state where "state v = WIBWithRecipientState.extend (base v)
      (WIBWithAmountState.fields True (invoiceExpirationForCurrency Btc (clock ops_app v)) (BtcPaymentAmount 2500) None)" for v
  have built: "withAmount (clock ops_app v) (base v) (Num 2500) = Inr (state v)" for v
    unfolding withAmount_def amt state_def by (simp add: base_def builder_sel truncated)
  have "lnRegisterInvoice (state v) = (\<lambda>args. Inr (reg (hodl_args args)))" "usdAmount (state v) = None" for v
    by (simp_all add: state_def WIBWithRecipientState.defs WIBWithAmountState.defs base_def builder_sel)
      (simp add: builder_fns_def reg)
  then have "\<exists>w lnInvoice. registerInvoice ''secret'' ''aa'' (state v) = Inr (w, lnInvoice) \<and> wi_usdAmount w = None" for v
    by (simp add: registerInvoice_def reg)
  then obtain w lnInvoice where w: "\<And>v. registerInvoice ''secret'' ''aa'' (state v) = Inr (w v, lnInvoice v)" "\<And>v. wi_usdAmount (w v) = None"
    by metis
  have secret: "new_secret ops_app v = (''secret'', ''aa'')" for v by (simp add: ops_simps)
  have "register_with ops_app test_node (state v) v = (Inr (w v, lnInvoice v), v)" for v
    by (simp add: register_with_def secret w reg Let_def)
  moreover obtain x v' where "invoices_persistNew ops_app (w empty_world) empty_world = (Inr x, v')" using save [OF w(2)] by blast
  ultimately show ?thesis
    by (simp add: addInvoiceForSelf_def addInvoice_def act_bind_def i wallet limit node built [unfolded base_def] act_return_def)
qed

theorem invoice_stored_as_registered_witness:
  "\<exists>lnInvoice v'. addInvoiceForSelf ops_app ''00000000-0000-4000-8000-000000000000'' (Num 2500) ''tea'' empty_world = (Inr lnInvoice, v')
     \<and> (\<exists>w v4 saved. invoices_persistNew ops_app w v4 = (Inr saved, v') \<and> wi_paymentHash w = inv_paymentHash lnInvoice \<and> \<not> wi_paid w)"
proof -
  obtain lnInvoice v' where run: "addInvoiceForSelf ops_app ''00000000-0000-4000-8000-000000000000'' (Num 2500) ''tea'' empty_world
      = (Inr lnInvoice, v')" using ops_app_invoice by blast
  show ?thesis using invoice_stored_as_registered [OF run] run by blast
qed
end
