(* ===== verification/Spec2Isabelle.thy ===== *)
theory Spec2Isabelle
  imports Wallet_Operations
begin

text \<open>
  A verification of the banking backend under \<^verbatim>\<open>src/backend/src\<close>: custodial wallets in bitcoin and dollars, whose
  owners pay lightning invoices, each other and on-chain addresses. Paths below are relative to that directory.

  \<^bold>\<open>The program and its parts.\<close> The code has layers. \<^verbatim>\<open>domain/\<close> holds functions of their input (amounts, fees, limits,
  the payment flow builder). \<^verbatim>\<open>services/\<close> holds the ledger, which is double entry bookkeeping on the package medici, the
  repositories on mongoose, and the clients of the lightning nodes, bitcoind, the dealer, the price server, redis and the
  locks. \<^verbatim>\<open>app/\<close> holds the operations that the api, the timers and the subscriptions to the nodes call: they read the
  repositories, build a payment flow, take a lock, check limits and balance, talk to the node and write the ledger.
  Functions return their errors as values; few throw.

  \<^bold>\<open>How code becomes definitions.\<close>
  \<^item> A function that returns a value or an \<^verbatim>\<open>Error\<close> has the type \<open>'a result\<close>, which is \<open>error + 'a\<close>. The error classes
    are the constructors of \<open>error\<close> and of the datatypes below it; \<open>Thrown\<close> with its message is an exception.
  \<^item> Numbers are \<open>jsnum\<close>: doubles as rationals with the rounding of IEEE 754 written out, infinities and NaN; a
    \<^verbatim>\<open>bigint\<close> is an \<open>int\<close> and a \<^verbatim>\<open>Date\<close> its milliseconds. There is no \<^verbatim>\<open>-0\<close>.
  \<^item> Asynchronous code is an action \<open>('s, 'a) act\<close>: it runs on the state of the services and returns a result with the
    new state, also when it fails. \<open>act_bind\<close> is await with early return, \<open>act_try\<close> is \<^verbatim>\<open>try\<close> with \<^verbatim>\<open>catch\<close>,
    \<open>act_attempt\<close> is a result that the caller inspects. \<open>in_ledger\<close>, \<open>in_db\<close> and \<open>in_world\<close> run an action of a
    service on its part of the state of the application.
  \<^item> What is not in the repository is an argument: a record of functions, one field per call the code makes. The
    records extend each other. For the ledger: \<open>medici\<close>, \<open>ledger_env\<close>, \<open>query_env\<close>. For the rest: \<open>store_env\<close>,
    \<open>account_env\<close>, \<open>lnd_env\<close>, \<open>app_env\<close>, \<open>chain_env\<close>, \<open>wallet_env\<close>, \<open>ops_env\<close>. A field may change the state, so other
    processes can act whenever the code waits for a lock.
  \<^item> A builder that the code makes of closures is a record per stage, with one function per method of the stage.
\<close>

text \<open>
  \<^bold>\<open>The theories.\<close>
  \<^item> \<open>Galoy_Prelude\<close>, \<open>Domain_Errors\<close>: results, truthiness, the collections of simplification and introduction rules;
    the errors of \<^verbatim>\<open>domain/*/errors.ts\<close> and of the ledger facade.
  \<^item> \<open>Js_Number\<close>: numbers, \<^verbatim>\<open>Math.floor\<close>, \<^verbatim>\<open>Math.round\<close> and \<^verbatim>\<open>BigInt\<close>; integers up to two to the 53rd are exact and
    rounding is monotone.
  \<^item> \<open>Amounts\<close>: \<^verbatim>\<open>domain/shared\<close>, \<^verbatim>\<open>domain/payments/price-ratio.ts\<close>, \<^verbatim>\<open>ln-fees.ts\<close>, the display currency converters.
    The three ways to divide share the laws of the locale \<open>rounding\<close>. Shown: which numbers are accepted as amounts, the
    order of the roundings, the round trip of a ratio, the bounds of the fee cap.
  \<^item> \<open>Ledger_Entry\<close>: \<^verbatim>\<open>services/ledger/domain\<close>, both entry builders over a medici entry (locale \<open>medici_entry\<close>). Shown:
    which postings a journal has and exactly when it balances in both currencies.
  \<^item> \<open>Invoices\<close>: \<^verbatim>\<open>domain/bitcoin/lightning\<close> and \<^verbatim>\<open>domain/wallet-invoices\<close>. Shown: decoding is consistent, when the
    parser of final hops throws, what the receiver of an invoice is credited.
  \<^item> \<open>Payment_Flow\<close>: the stages of \<^verbatim>\<open>domain/payments/payment-flow-builder.ts\<close> and \<^verbatim>\<open>payment-flow.ts\<close>; the calls the types
    of the stages allow are the relations \<open>lpfb_start\<close> and \<open>lpfb_recipient\<close>. Shown, for quotes as in the locales
    \<open>quotes\<close> and \<open>positive_ratio\<close>: every flow that is returned is sound, and what a probed route costs.
  \<^item> \<open>Actions\<close>: actions, \<open>keeps P\<close> (an action preserves a property of the state, however it ends) and \<open>yields\<close> (a property
    of its values).
  \<^item> \<open>Ledger_Service\<close>: \<^verbatim>\<open>services/ledger/facade.ts\<close>, \<^verbatim>\<open>helpers.ts\<close>, \<^verbatim>\<open>caching.ts\<close>, \<^verbatim>\<open>tx-metadata.ts\<close>, \<^verbatim>\<open>intraledger.ts\<close>,
    \<^verbatim>\<open>send.ts\<close>, \<^verbatim>\<open>receive.ts\<close>, \<^verbatim>\<open>admin.ts\<close>, \<^verbatim>\<open>admin-legacy.ts\<close>. The writes are the rules of \<open>ledger_step\<close>; the locale
    \<open>book\<close> has what medici documents of commit, void and metadata. Shown: every sequence of steps leaves all journals
    balanced.
  \<^item> \<open>Ledger_Tx\<close>: \<^verbatim>\<open>services/ledger/index.ts\<close> and \<^verbatim>\<open>translations.ts\<close>, reading (locale \<open>ledger_docs\<close>). Shown: settled payments
    are found as recorded, a payment flow and a wallet id survive being stored.
  \<^item> \<open>Domain_Rules\<close>: identifiers, limits, fees, imbalances, rebalancing and swap decisions, on-chain transactions.
  \<^item> \<open>Stores\<close>: \<^verbatim>\<open>services/mongoose\<close> (locales \<open>flow_collection\<close>, \<open>earn_collection\<close>; the collections in memory \<open>mem_env\<close> are
    their instance). Shown: the repository of payment flows refines a map, and a reward is granted once.
  \<^item> \<open>Lnd_Client\<close>: \<^verbatim>\<open>services/lnd/index.ts\<close>, \<^verbatim>\<open>onchain-service.ts\<close>, \<^verbatim>\<open>utils.ts\<close>, \<^verbatim>\<open>services/cache/local-cache.ts\<close>. Shown: when a
    payment is reported as failed, that listings end, which errors escape.
  \<^item> \<open>App_Env\<close>: the state of the application, \<^verbatim>\<open>services/price\<close>, \<^verbatim>\<open>services/dealer-price\<close>, \<^verbatim>\<open>services/lock\<close>, \<^verbatim>\<open>app/prices\<close>.
  \<^item> \<open>Settlement\<close>: \<^verbatim>\<open>app/payments/update-pending-payments.ts\<close>, \<^verbatim>\<open>app/wallets/update-pending-invoices.ts\<close> and the
    reimbursements (locale \<open>ledger_store\<close>). Shown: a payment is processed once, which retries make no progress, which
    invoices are credited twice or lost, the bounds of a reimbursement.
  \<^item> \<open>Send_Lightning\<close>: \<^verbatim>\<open>app/payments\<close>. Shown: payments keep the ledger balanced, and one that is in transit or not covered
    is refused before anything is touched.
  \<^item> \<open>Onchain_Payments\<close>: \<^verbatim>\<open>app/wallets/send-on-chain.ts\<close>, \<^verbatim>\<open>get-on-chain-fee.ts\<close>, \<^verbatim>\<open>update-on-chain-receipt.ts\<close>,
    \<^verbatim>\<open>app/cold-storage\<close>, \<^verbatim>\<open>app/lightning/get-balances.ts\<close>, \<^verbatim>\<open>services/cold-storage\<close> (locale \<open>counting_store\<close>). Shown: how
    a payment can end and what each end posts, and that a deposit is credited once.
  \<^item> \<open>Wallet_History\<close>: \<^verbatim>\<open>domain/wallets/tx-history.ts\<close> and its readers. Shown: the history adds up to the balance.
  \<^item> \<open>Wallet_Operations\<close>: creating invoices, addresses, wallets and accounts, rewards, rate limits, and the jobs on the
    records of lightning payments. Shown: an invoice is stored as registered, a refused reward pays nothing, the jobs end.
\<close>

text \<open>
  \<^bold>\<open>Hypotheses and their instances.\<close> A locale states what the code relies on in a package or a service: that a commit appends
  one journal, that an update changes the metadata of the matching transactions only, that a unique index refuses
  duplicates, that the tokens of pages run out. Each is interpreted on an executable instance (a list of journals, the
  collections in memory, a node with given pages), with which the witnesses of the theorems evaluate whole
  operations. The rounding laws are interpreted on the three divisions of the calculator themselves, and the laws of
  quotes on the price ratio of the code. Further hypotheses are stated with the theorem that needs them: amounts up to the
  largest payment, so that sums of doubles are exact; fees of the node within those bounds; and, for what others do while
  a lock is awaited, that they keep the invariant.

  \<^bold>\<open>Loops.\<close> Loops over lists are recursive functions. The loops over the pages of a node (\<open>list_pages\<close>,
  \<open>updateLnPaymentsByFunction\<close>, \<open>delete_pages\<close>) depend on the answers of the node and are partial functions whose value is
  \<open>None\<close> when they do not return; that they return is a theorem, under a measure that decreases from token to token. No
  function has fuel.

  \<^bold>\<open>Bounds.\<close> \<open>MAX_SATS\<close> and \<open>MAX_CENTS\<close> are those of the code; \<open>ledger_amount\<close> admits what a journal may add up to with every
  sum below two to the 53rd, where doubles are exact.

  \<^bold>\<open>Not modelled, and why.\<close>
  \<^item> Notifications, tracing, logs and pubsub (\<^verbatim>\<open>services/notifications\<close>, \<^verbatim>\<open>tracing.ts\<close>, \<^verbatim>\<open>logger.ts\<close>, \<^verbatim>\<open>pubsub.ts\<close>): output
    only. Where a modelled operation sends one, the call is left out.
  \<^item> GraphQL and servers (\<^verbatim>\<open>graphql/\<close>, \<^verbatim>\<open>servers/\<close>): schema declarations and wiring around the modelled operations.
  \<^item> Login, sessions, captchas, phone codes and tokens (\<^verbatim>\<open>app/auth\<close>, \<^verbatim>\<open>app/users/login.ts\<close>, \<^verbatim>\<open>services/kratos\<close>): what they
    decide is decided by kratos, twilio and the packages that sign.
  \<^item> Swaps (\<^verbatim>\<open>app/swap\<close>, \<^verbatim>\<open>services/loopd\<close>): handlers of generated protocols; the decision to swap is in \<open>Domain_Rules\<close> and the
    booking of its fees in \<open>Ledger_Service\<close>.
  \<^item> Account reports and csv, the jobs of \<^verbatim>\<open>services/lnd/utils.ts\<close> that book fees and revenue of the nodes, and functions that
    only forward a call: no rule of their own beyond the definitions they call. The ledger writes of those jobs are
    steps of \<open>ledger_step\<close>.
  \<^item> Clients of bitcoind, redis, the price server, twilio and geetest, the schemas of the database, \<^verbatim>\<open>config/\<close>, migrations and
    debug scripts: third-party calls, declarations, or values that the definitions take as arguments.
  \<^item> Interleaving inside one operation is modelled at locks only: between two calls that hold no lock the state changes by
    those calls alone. What \<^verbatim>\<open>Promise.all\<close> starts together runs in order.
\<close>

end
